(* ===== verification/Prelude.thy ===== *)
theory Prelude
  imports Main "HOL-Library.Char_ord" "HOL-Library.List_Lexorder"
begin

text \<open>
  Shared vocabulary of the development.

  \<^item> \<open>result\<close>: Rust's \<open>Result<T, E>\<close>, a sum with the error on the left, and its
    \<open>?\<close> operator \<open>res_bind\<close>.
  \<^item> \<open>vec_remove\<close>, \<open>sat_sub\<close>: \<open>Vec::remove\<close> and \<open>saturating_sub\<close>.
  \<^item> \<open>amap\<close>: finite maps as association lists with distinct keys. \<open>BTreeMap\<close> is the
    list sorted by key; \<open>HashMap\<close>, whose iteration order Rust leaves open, is the same
    list in any order.
  The locale \<open>finite_map\<close> is the interface the components use; both representations
  interpret it.
\<close>

named_theorems res_simps "evaluation rules for results"
named_theorems amap_simps "lookup after an update of an association map"

section \<open>Results\<close>

type_synonym ('e, 'a) result = "'e + 'a"

fun res_bind :: "('e, 'a) result \<Rightarrow> ('a \<Rightarrow> ('e, 'b) result) \<Rightarrow> ('e, 'b) result" where
  "res_bind (Inl e) f = Inl e"
| "res_bind (Inr x) f = f x"

fun map_err :: "('e \<Rightarrow> 'f) \<Rightarrow> ('e, 'a) result \<Rightarrow> ('f, 'a) result" where
  "map_err f (Inl e) = Inl (f e)"
| "map_err f (Inr x) = Inr x"

definition ok_or :: "'e \<Rightarrow> 'a option \<Rightarrow> ('e, 'a) result" where
  "ok_or e x = (case x of None \<Rightarrow> Inl e | Some y \<Rightarrow> Inr y)"

definition unwrap_or :: "'a \<Rightarrow> ('e, 'a) result \<Rightarrow> 'a" where
  "unwrap_or d r = (case r of Inl _ \<Rightarrow> d | Inr x \<Rightarrow> x)"

definition is_ok :: "('e, 'a) result \<Rightarrow> bool" where
  "is_ok r = (case r of Inl _ \<Rightarrow> False | Inr _ \<Rightarrow> True)"

text \<open>\<open>iter.map(f).collect::<Result<Vec<_>, _>>()\<close>: the first error wins.\<close>

fun collect_results :: "('e, 'a) result list \<Rightarrow> ('e, 'a list) result" where
  "collect_results [] = Inr []"
| "collect_results (r # rs) =
     res_bind r (\<lambda>x. res_bind (collect_results rs) (\<lambda>xs. Inr (x # xs)))"

lemma res_bind_eq_Inr [res_simps]:
  "res_bind r f = Inr y \<longleftrightarrow> (\<exists>x. r = Inr x \<and> f x = Inr y)"
  by (cases r) auto

lemma res_bind_eq_Inl [res_simps]:
  "res_bind r f = Inl e \<longleftrightarrow> r = Inl e \<or> (\<exists>x. r = Inr x \<and> f x = Inl e)"
  by (cases r) auto

lemma map_err_eq_Inr [simp, res_simps]: "map_err f r = Inr x \<longleftrightarrow> r = Inr x"
  by (cases r) auto

lemma map_err_eq_Inl [res_simps]: "map_err f r = Inl e \<longleftrightarrow> (\<exists>e'. r = Inl e' \<and> e = f e')"
  by (cases r) auto

lemma ok_or_simps [simp, res_simps]:
  "ok_or e None = Inl e" "ok_or e (Some x) = Inr x"
  by (simp_all add: ok_or_def)

lemma ok_or_eq_Inr [simp]: "ok_or e x = Inr y \<longleftrightarrow> x = Some y"
  by (cases x) (simp_all add: ok_or_def)

lemma ok_or_eq_Inl [simp]: "ok_or e x = Inl e' \<longleftrightarrow> x = None \<and> e = e'"
  by (cases x) (auto simp: ok_or_def)

lemma unwrap_or_simps [simp]: "unwrap_or d (Inl e) = d" "unwrap_or d (Inr x) = x"
  by (simp_all add: unwrap_or_def)

lemma is_ok_simps [simp]: "\<not> is_ok (Inl e)" "is_ok (Inr x)"
  by (simp_all add: is_ok_def)

lemma is_ok_iff: "is_ok r \<longleftrightarrow> (\<exists>x. r = Inr x)"
  by (cases r) auto

lemma collect_results_map_Inr:
  "(\<And>x. x \<in> set xs \<Longrightarrow> f x = Inr (g x)) \<Longrightarrow> collect_results (map f xs) = Inr (map g xs)"
  by (induction xs) auto

section \<open>Vectors and numbers\<close>

definition vec_get :: "'a list \<Rightarrow> nat \<Rightarrow> 'a option" where
  "vec_get xs i = (if i < length xs then Some (xs ! i) else None)"

definition vec_remove :: "nat \<Rightarrow> 'a list \<Rightarrow> 'a list" where
  "vec_remove i xs = take i xs @ drop (Suc i) xs"

lemma length_vec_remove [simp]: "i < length xs \<Longrightarrow> length (vec_remove i xs) = length xs - 1"
  by (simp add: vec_remove_def)

lemma nth_vec_remove:
  "i < length xs \<Longrightarrow> j < length xs - 1 \<Longrightarrow>
   vec_remove i xs ! j = (if j < i then xs ! j else xs ! Suc j)"
  by (simp add: vec_remove_def nth_append)

lemma vec_get_Some_iff [simp]: "vec_get xs i = Some x \<longleftrightarrow> i < length xs \<and> xs ! i = x"
  by (auto simp: vec_get_def)

lemma vec_get_None_iff [simp]: "vec_get xs i = None \<longleftrightarrow> length xs \<le> i"
  by (simp add: vec_get_def)

text \<open>\<open>iter_mut().find(p)\<close> followed by an update of the element found.\<close>

fun update_first :: "('a \<Rightarrow> bool) \<Rightarrow> ('a \<Rightarrow> 'a) \<Rightarrow> 'a list \<Rightarrow> 'a list" where
  "update_first p f [] = []"
| "update_first p f (x # xs) = (if p x then f x # xs else x # update_first p f xs)"

lemma length_update_first [simp]: "length (update_first p f xs) = length xs"
  by (induction xs) auto

lemma map_update_first:
  "(\<And>x. h (f x) = h x) \<Longrightarrow> map h (update_first p f xs) = map h xs"
  by (induction xs) auto

section \<open>Association maps\<close>

type_synonym ('k, 'v) amap = "('k \<times> 'v) list"

definition amap_get :: "('k, 'v) amap \<Rightarrow> 'k \<Rightarrow> 'v option" where
  "amap_get m k = map_of m k"

definition amap_keys :: "('k, 'v) amap \<Rightarrow> 'k list" where
  "amap_keys m = map fst m"

definition amap_wf :: "('k, 'v) amap \<Rightarrow> bool" where
  "amap_wf m = distinct (amap_keys m)"

text \<open>\<open>HashMap::insert\<close>: replace in place, or append.\<close>

fun hmap_insert :: "'k \<Rightarrow> 'v \<Rightarrow> ('k, 'v) amap \<Rightarrow> ('k, 'v) amap" where
  "hmap_insert k v [] = [(k, v)]"
| "hmap_insert k v (x # m) = (if fst x = k then (k, v) # m else x # hmap_insert k v m)"

definition amap_remove :: "'k \<Rightarrow> ('k, 'v) amap \<Rightarrow> ('k, 'v) amap" where
  "amap_remove k m = filter (\<lambda>x. fst x \<noteq> k) m"

text \<open>\<open>BTreeMap::insert\<close>: keep the list sorted by key.\<close>

fun btree_insert :: "'k::linorder \<Rightarrow> 'v \<Rightarrow> ('k, 'v) amap \<Rightarrow> ('k, 'v) amap" where
  "btree_insert k v [] = [(k, v)]"
| "btree_insert k v (x # m) =
     (if k < fst x then (k, v) # x # m
      else if k = fst x then (k, v) # m
      else x # btree_insert k v m)"

definition btree_wf :: "('k::linorder, 'v) amap \<Rightarrow> bool" where
  "btree_wf m = sorted_wrt (<) (amap_keys m)"

locale finite_map =
  fixes wf :: "('k, 'v) amap \<Rightarrow> bool"
    and ins :: "'k \<Rightarrow> 'v \<Rightarrow> ('k, 'v) amap \<Rightarrow> ('k, 'v) amap"
  assumes wf_empty: "wf []"
    and wf_ins: "wf m \<Longrightarrow> wf (ins k v m)"
    and wf_distinct: "wf m \<Longrightarrow> distinct (amap_keys m)"
    and wf_filter: "wf m \<Longrightarrow> wf (filter p m)"
    and get_ins: "wf m \<Longrightarrow> amap_get (ins k v m) = (amap_get m)(k \<mapsto> v)"
begin

lemma wf_remove: "wf m \<Longrightarrow> wf (amap_remove k m)"
  unfolding amap_remove_def by (rule wf_filter)

lemma get_ins_same: "wf m \<Longrightarrow> amap_get (ins k v m) k = Some v"
  by (simp add: get_ins)

lemma get_ins_other: "wf m \<Longrightarrow> k' \<noteq> k \<Longrightarrow> amap_get (ins k v m) k' = amap_get m k'"
  by (simp add: get_ins)

lemma set_keys_ins: "wf m \<Longrightarrow> set (amap_keys (ins k v m)) = insert k (set (amap_keys m))"
proof -
  assume "wf m"
  then have "dom (amap_get (ins k v m)) = insert k (dom (amap_get m))"
    by (simp add: get_ins)
  then show ?thesis
    by (simp add: amap_get_def [abs_def] dom_map_of_conv_image_fst amap_keys_def)
qed

lemma mem_iff_get: "wf m \<Longrightarrow> (k, v) \<in> set m \<longleftrightarrow> amap_get m k = Some v"
  using wf_distinct [of m] by (simp add: amap_keys_def amap_get_def)

end

lemma amap_get_Nil [simp]: "amap_get [] k = None"
  by (simp add: amap_get_def)

lemma amap_keys_Nil [simp]: "amap_keys [] = []"
  by (simp add: amap_keys_def)

lemma amap_keys_Cons [simp]: "amap_keys (x # m) = fst x # amap_keys m"
  by (simp add: amap_keys_def)

lemma set_amap_keys: "set (amap_keys m) = dom (amap_get m)"
  by (simp add: amap_get_def [abs_def] dom_map_of_conv_image_fst amap_keys_def)

lemma amap_get_None_iff: "amap_get m k = None \<longleftrightarrow> k \<notin> set (amap_keys m)"
  by (auto simp: set_amap_keys domIff)

lemma amap_get_remove [amap_simps]:
  "amap_get (amap_remove k m) = (amap_get m)(k := None)"
  by (induction m) (auto simp: amap_get_def amap_remove_def fun_eq_iff)

lemma amap_get_hmap_insert [amap_simps]: "amap_get (hmap_insert k v m) = (amap_get m)(k \<mapsto> v)"
  by (induction m) (auto simp: amap_get_def fun_eq_iff)

lemma set_keys_hmap_insert [simp]:
  "set (amap_keys (hmap_insert k v m)) = insert k (set (amap_keys m))"
  by (induction m) auto

lemma set_keys_remove [simp]: "set (amap_keys (amap_remove k m)) = set (amap_keys m) - {k}"
  by (auto simp: amap_remove_def amap_keys_def)

lemma amap_wf_hmap_insert: "amap_wf m \<Longrightarrow> amap_wf (hmap_insert k v m)"
  by (induction m) (auto simp: amap_wf_def)

lemma set_keys_btree_insert [simp]:
  "set (amap_keys (btree_insert k v m)) = insert k (set (amap_keys m))"
  by (induction m) auto

lemma btree_wf_insert: "btree_wf m \<Longrightarrow> btree_wf (btree_insert k v m)"
  by (induction m) (auto simp: btree_wf_def)

lemma btree_get_insert:
  "btree_wf m \<Longrightarrow> amap_get (btree_insert k v m) = (amap_get m)(k \<mapsto> v)"
  by (induction m) (auto simp: btree_wf_def amap_get_def fun_eq_iff)

lemma distinct_filter_keys: "distinct (map fst m) \<Longrightarrow> distinct (map fst (filter p m))"
  by (induction m) auto

interpretation hash_map: finite_map amap_wf hmap_insert
  by unfold_locales
    (auto simp: amap_wf_def amap_keys_def distinct_filter_keys amap_get_hmap_insert
      intro: amap_wf_hmap_insert [unfolded amap_wf_def amap_keys_def])

lemma btree_wf_filter: "btree_wf m \<Longrightarrow> btree_wf (filter p m)"
  by (induction m) (auto simp: btree_wf_def amap_keys_def)

interpretation btree: finite_map btree_wf "btree_insert :: 'a::linorder \<Rightarrow> 'v \<Rightarrow> _ \<Rightarrow> _"
  by unfold_locales
    (auto simp: btree_wf_insert btree_get_insert btree_wf_filter strict_sorted_iff,
     auto simp: btree_wf_def strict_sorted_iff)

end
