(* ===== verification/RustStr.thy ===== *)
theory RustStr
  imports Prelude "HOL-Library.Word" "HOL-Library.Sublist"
begin

text \<open>
  The part of Rust's \<open>str\<close>, \<open>String\<close> and integer formatting/parsing that the sources use.

  A Rust string is a UTF-8 byte sequence; here it is an Isabelle \<open>string\<close> whose characters
  are those bytes, so \<open>len()\<close> is \<open>length\<close>, string order is byte order (the lexicographic
  order of \<open>List_Lexorder\<close>) and ASCII literals are themselves. A Rust \<open>char\<close> is the
  byte string of its encoding. Operations that look at whole characters (\<open>pop\<close>,
  \<open>trim\<close>, \<open>chars\<close>) work on the encoding.
\<close>

type_synonym rchar = string
type_synonym u8 = "8 word"
type_synonym u16 = "16 word"
type_synonym u32 = "32 word"
type_synonym u64 = "64 word"

abbreviation byte :: "char \<Rightarrow> nat" where
  "byte c \<equiv> of_char c"

section \<open>UTF-8 structure\<close>

definition is_cont :: "char \<Rightarrow> bool" where
  "is_cont c = (128 \<le> byte c \<and> byte c < 192)"

definition is_ascii :: "string \<Rightarrow> bool" where
  "is_ascii s = (\<forall>c \<in> set s. byte c < 128)"

text \<open>One encoded character: a lead byte and continuation bytes.\<close>

definition is_rchar :: "rchar \<Rightarrow> bool" where
  "is_rchar c = (c \<noteq> [] \<and> \<not> is_cont (hd c) \<and> list_all is_cont (tl c))"

text \<open>\<open>OsStr::to_str\<close>: the bytes when they are UTF-8, with no overlong form, surrogate or value beyond
  the last code point.\<close>

definition byte_in :: "nat \<Rightarrow> nat \<Rightarrow> char \<Rightarrow> bool" where
  "byte_in a b c = (a \<le> byte c \<and> byte c \<le> b)"

definition utf8_second :: "char \<Rightarrow> char \<Rightarrow> bool" where
  "utf8_second c a =
     (if byte c = 224 then byte_in 160 191 a else if byte c = 237 then byte_in 128 159 a
      else if byte c = 240 then byte_in 144 191 a else if byte c = 244 then byte_in 128 143 a
      else is_cont a)"

fun utf8_ok :: "string \<Rightarrow> bool" where
  "utf8_ok [] = True"
| "utf8_ok (c # s) =
     (if byte c < 128 then utf8_ok s
      else if byte_in 194 223 c then (case s of a # r \<Rightarrow> is_cont a \<and> utf8_ok r | _ \<Rightarrow> False)
      else if byte_in 224 239 c then
        (case s of a # b # r \<Rightarrow> utf8_second c a \<and> is_cont b \<and> utf8_ok r | _ \<Rightarrow> False)
      else if byte_in 240 244 c then
        (case s of a # b # d # r \<Rightarrow> utf8_second c a \<and> is_cont b \<and> is_cont d \<and> utf8_ok r | _ \<Rightarrow> False)
      else False)"

definition to_str :: "string \<Rightarrow> string option" where
  "to_str s = (if utf8_ok s then Some s else None)"

lemma to_str_Some [simp]: "to_str s = Some t \<longleftrightarrow> utf8_ok s \<and> t = s"
  by (auto simp: to_str_def)

text \<open>\<open>String::push\<close> and \<open>String::pop\<close>.\<close>

definition str_push :: "string \<Rightarrow> rchar \<Rightarrow> string" where
  "str_push s c = s @ c"

definition str_pop :: "string \<Rightarrow> string" where
  "str_pop s = (case dropWhile is_cont (rev s) of [] \<Rightarrow> [] | _ # r \<Rightarrow> rev r)"

lemma str_pop_Nil [simp]: "str_pop [] = []"
  by (simp add: str_pop_def)

lemma str_pop_push [simp]: "is_rchar c \<Longrightarrow> str_pop (str_push s c) = s"
proof -
  assume c: "is_rchar c"
  then obtain l r where lr: "c = l # r" "\<not> is_cont l" "list_all is_cont r"
    by (cases c) (auto simp: is_rchar_def)
  then have "dropWhile is_cont (rev r @ l # rev s) = l # rev s"
    by (subst dropWhile_append2) (auto simp: list_all_iff)
  with lr have "dropWhile is_cont (rev (s @ c)) = l # rev s" by simp
  then show ?thesis by (simp add: str_pop_def str_push_def)
qed

lemma length_str_pop_le: "length (str_pop s) \<le> length s"
proof -
  have "length (dropWhile is_cont (rev s)) \<le> length s"
    using length_dropWhile_le [of is_cont "rev s"] by simp
  then show ?thesis by (auto simp: str_pop_def split: list.splits)
qed

section \<open>Trimming\<close>

text \<open>The encodings of the characters with the Unicode property \<open>White_Space\<close>.\<close>

definition ascii_ws :: "char \<Rightarrow> bool" where
  "ascii_ws c = ((9 \<le> byte c \<and> byte c \<le> 13) \<or> byte c = 32)"

definition uni_ws :: "nat list list" where
  "uni_ws =
     [[194, 133], [194, 160], [225, 154, 128], [226, 128, 128], [226, 128, 129],
      [226, 128, 130], [226, 128, 131], [226, 128, 132], [226, 128, 133], [226, 128, 134],
      [226, 128, 135], [226, 128, 136], [226, 128, 137], [226, 128, 138], [226, 128, 168],
      [226, 128, 169], [226, 128, 175], [226, 129, 159], [227, 128, 128]]"

definition is_uni_ws3 :: "string \<Rightarrow> bool" where
  "is_uni_ws3 s = (map of_char s \<in> set uni_ws)"

fun trim_start :: "string \<Rightarrow> string" where
  "trim_start [] = []"
| "trim_start (a # r) =
     (if ascii_ws a then trim_start r
      else if is_uni_ws3 (take 2 (a # r)) then trim_start (drop 1 r)
      else if is_uni_ws3 (take 3 (a # r)) then trim_start (drop 2 r)
      else a # r)"

text \<open>Trimming the end reads the bytes backwards.\<close>

fun trim_rev :: "string \<Rightarrow> string" where
  "trim_rev [] = []"
| "trim_rev (a # r) =
     (if ascii_ws a then trim_rev r
      else if is_uni_ws3 (rev (take 2 (a # r))) then trim_rev (drop 1 r)
      else if is_uni_ws3 (rev (take 3 (a # r))) then trim_rev (drop 2 r)
      else a # r)"

definition str_trim :: "string \<Rightarrow> string" where
  "str_trim s = rev (trim_rev (rev (trim_start s)))"

lemma uni_ws_bytes: "s \<in> set uni_ws \<Longrightarrow> \<not> hd s < 128 \<and> \<not> last s < 128"
  by (auto simp: uni_ws_def)

lemma not_uni_ws_Cons [simp]: "byte a < 128 \<Longrightarrow> \<not> is_uni_ws3 (a # r)"
  by (auto simp: is_uni_ws3_def dest: uni_ws_bytes)

lemma not_uni_ws_snoc [simp]: "byte a < 128 \<Longrightarrow> \<not> is_uni_ws3 (r @ [a])"
  by (auto simp: is_uni_ws3_def dest: uni_ws_bytes)

definition solid :: "char \<Rightarrow> bool" where
  "solid c = (byte c < 128 \<and> \<not> ascii_ws c)"

lemma trim_start_solid: "s = [] \<or> solid (hd s) \<Longrightarrow> trim_start s = s"
  by (cases s) (auto simp: solid_def)

lemma trim_rev_solid: "s = [] \<or> solid (hd s) \<Longrightarrow> trim_rev s = s"
  by (cases s) (auto simp: solid_def)

lemma str_trim_solid:
  "s = [] \<or> (solid (hd s) \<and> solid (last s)) \<Longrightarrow> str_trim s = s"
  by (auto simp: str_trim_def trim_start_solid trim_rev_solid hd_rev)

lemma str_trim_all_solid: "list_all solid s \<Longrightarrow> str_trim s = s"
  by (rule str_trim_solid) (cases s, auto simp: list_all_iff)

lemma str_trim_Nil [simp]: "str_trim [] = []"
  by (simp add: str_trim_def)

lemma str_trim_space [simp]: "str_trim (CHR '' '' # s) = str_trim s"
  by (simp add: str_trim_def ascii_ws_def)

lemma trim_start_append_space:
  "s \<noteq> [] \<Longrightarrow> solid (hd s) \<Longrightarrow> trim_start (s @ t) = s @ t"
  by (rule trim_start_solid) (cases s, auto)

lemma str_trim_end_space:
  "s \<noteq> [] \<Longrightarrow> solid (hd s) \<Longrightarrow> solid (last s) \<Longrightarrow> str_trim (s @ '' '') = s"
  by (simp add: str_trim_def trim_start_append_space ascii_ws_def trim_rev_solid hd_rev)

section \<open>Splitting\<close>

fun str_split :: "char \<Rightarrow> string \<Rightarrow> string list" where
  "str_split c [] = [[]]"
| "str_split c (x # xs) =
     (if x = c then [] # str_split c xs
      else (case str_split c xs of [] \<Rightarrow> [[x]] | y # ys \<Rightarrow> (x # y) # ys))"

fun str_split_once :: "char \<Rightarrow> string \<Rightarrow> (string \<times> string) option" where
  "str_split_once c [] = None"
| "str_split_once c (x # xs) =
     (if x = c then Some ([], xs)
      else map_option (\<lambda>(a, b). (x # a, b)) (str_split_once c xs))"

fun str_join :: "string \<Rightarrow> string list \<Rightarrow> string" where
  "str_join sep [] = []"
| "str_join sep [x] = x"
| "str_join sep (x # y # ys) = x @ sep @ str_join sep (y # ys)"

abbreviation nl :: char where
  "nl \<equiv> CHR 10"

text \<open>\<open>str::lines\<close>: lines end at a line feed, a carriage return before it is dropped, and
  a final line without a line feed counts when it is not empty.\<close>

definition strip_cr :: "string \<Rightarrow> string" where
  "strip_cr l = (if l \<noteq> [] \<and> last l = CHR 13 then butlast l else l)"

definition str_lines :: "string \<Rightarrow> string list" where
  "str_lines s = (let ps = str_split nl s in
     map strip_cr (butlast ps) @ (if last ps = [] then [] else [last ps]))"

lemma str_split_nonempty [simp]: "str_split c s \<noteq> []"
  by (induction s) (auto split: list.splits)

lemma str_split_no_sep: "c \<notin> set s \<Longrightarrow> str_split c s = [s]"
  by (induction s) auto

lemma str_split_append_sep: "c \<notin> set s \<Longrightarrow> str_split c (s @ c # t) = s # str_split c t"
  by (induction s) auto

lemma str_split_pieces: "p \<in> set (str_split c s) \<Longrightarrow> c \<notin> set p \<and> set p \<subseteq> set s"
proof (induction s arbitrary: p)
  case Nil
  then show ?case by simp
next
  case (Cons x xs)
  obtain y ys where y: "str_split c xs = y # ys"
    using str_split_nonempty [of c xs] by (cases "str_split c xs") auto
  have IH: "\<And>q. q = y \<or> q \<in> set ys \<Longrightarrow> c \<notin> set q \<and> set q \<subseteq> set xs"
    using Cons.IH y by simp
  have p: "p = [] \<or> p \<in> set ys \<or> p = y \<or> (x \<noteq> c \<and> p = x # y)"
    using Cons.prems y by (auto split: if_splits)
  then show ?case
    using IH [of p] IH [of y] by auto
qed

lemma str_split_once_None: "str_split_once c s = None \<longleftrightarrow> c \<notin> set s"
  by (induction s) auto

lemma str_split_once_append:
  "c \<notin> set a \<Longrightarrow> str_split_once c (a @ c # b) = Some (a, b)"
  by (induction a) auto

lemma str_split_once_Some:
  "str_split_once c s = Some (a, b) \<longleftrightarrow> s = a @ c # b \<and> c \<notin> set a"
proof (induction s arbitrary: a)
  case Nil
  then show ?case by simp
next
  case (Cons x xs)
  then show ?case by (cases a) auto
qed

lemma str_lines_Nil [simp]: "str_lines [] = []"
  by (simp add: str_lines_def)

lemma str_lines_step:
  "nl \<notin> set l \<Longrightarrow> str_lines (l @ nl # t) = strip_cr l # str_lines t"
  by (simp add: str_lines_def str_split_append_sep Let_def)

lemma strip_cr_id: "CHR 13 \<notin> set l \<Longrightarrow> strip_cr l = l"
  using last_in_set [of l] unfolding strip_cr_def by metis

definition line :: "string \<Rightarrow> string" where
  "line l = l @ [nl]"

lemma str_lines_concat:
  "(\<And>l. l \<in> set ls \<Longrightarrow> nl \<notin> set l \<and> CHR 13 \<notin> set l) \<Longrightarrow> str_lines (concat (map line ls)) = ls"
  by (induction ls) (simp_all add: line_def str_lines_step strip_cr_id)

lemma str_split_join:
  "xs \<noteq> [] \<Longrightarrow> (\<And>x. x \<in> set xs \<Longrightarrow> CHR '','' \<notin> set x) \<Longrightarrow>
   map str_trim (str_split CHR '','' (str_join '', '' xs)) = map str_trim xs"
proof (induction "'', '' :: string" xs rule: str_join.induct)
  case (3 x y ys)
  have "str_split CHR '','' (str_join '', '' (x # y # ys)) =
      x # (case str_split CHR '','' (str_join '', '' (y # ys)) of
             [] \<Rightarrow> [] | z # zs \<Rightarrow> (CHR '' '' # z) # zs)"
    using "3.prems"(2) [of x]
    by (auto simp: str_split_append_sep split: list.splits)
  moreover obtain z zs where z: "str_split CHR '','' (str_join '', '' (y # ys)) = z # zs"
    using str_split_nonempty by (meson list.exhaust)
  moreover have "map str_trim (z # zs) = map str_trim (y # ys)"
    using "3.hyps" "3.prems" z by simp
  ultimately show ?case by simp
qed (auto simp: str_split_no_sep)

section \<open>Case and search\<close>

definition ascii_lower1 :: "char \<Rightarrow> char" where
  "ascii_lower1 c = (if 65 \<le> byte c \<and> byte c \<le> 90 then char_of (byte c + 32) else c)"

definition to_ascii_lowercase :: "string \<Rightarrow> string" where
  "to_ascii_lowercase = map ascii_lower1"

definition eq_ignore_ascii_case :: "string \<Rightarrow> string \<Rightarrow> bool" where
  "eq_ignore_ascii_case a b = (to_ascii_lowercase a = to_ascii_lowercase b)"

definition starts_with :: "string \<Rightarrow> char \<Rightarrow> bool" where
  "starts_with s c = (s \<noteq> [] \<and> hd s = c)"

fun str_contains :: "string \<Rightarrow> string \<Rightarrow> bool" where
  "str_contains [] n = (n = [])"
| "str_contains (x # xs) n = (prefix n (x # xs) \<or> str_contains xs n)"

lemma str_contains_Nil [simp]: "str_contains s []"
  by (cases s) auto

lemma str_contains_iff: "str_contains s n \<longleftrightarrow> (\<exists>a b. s = a @ n @ b)"
proof (induction s)
  case Nil
  then show ?case by auto
next
  case (Cons x xs)
  note IH = Cons.IH
  show ?case
  proof
    assume "str_contains (x # xs) n"
    then show "\<exists>a b. x # xs = a @ n @ b"
    proof (cases "prefix n (x # xs)")
      case True
      then have "\<exists>b. x # xs = [] @ n @ b" by (simp add: prefix_def)
      then show ?thesis by blast
    next
      case False
      then obtain a b where "xs = a @ n @ b"
        using \<open>str_contains (x # xs) n\<close> Cons.IH by auto
      then have "x # xs = (x # a) @ n @ b" by simp
      then show ?thesis by blast
    qed
  next
    assume "\<exists>a b. x # xs = a @ n @ b"
    then obtain a b where ab: "x # xs = a @ n @ b" by blast
    show "str_contains (x # xs) n"
    proof (cases a)
      case Nil
      with ab have "prefix n (x # xs)" by simp
      then show ?thesis by simp
    next
      case (Cons y ys)
      with ab have "xs = ys @ n @ b" by simp
      then show ?thesis using IH by auto
    qed
  qed
qed

section \<open>Decimal numbers\<close>

definition digit_char :: "nat \<Rightarrow> char" where
  "digit_char d = char_of (48 + d)"

definition is_digit :: "char \<Rightarrow> bool" where
  "is_digit c = (48 \<le> byte c \<and> byte c \<le> 57)"

definition digit_val :: "char \<Rightarrow> nat" where
  "digit_val c = byte c - 48"

fun show_nat :: "nat \<Rightarrow> string" where
  "show_nat n = (if n < 10 then [digit_char n] else show_nat (n div 10) @ [digit_char (n mod 10)])"

declare show_nat.simps [simp del]

datatype parse_int_error = IntEmpty | InvalidDigit | PosOverflow

fun show_parse_int_error :: "parse_int_error \<Rightarrow> string" where
  "show_parse_int_error IntEmpty = ''cannot parse integer from empty string''"
| "show_parse_int_error InvalidDigit = ''invalid digit found in string''"
| "show_parse_int_error PosOverflow = ''number too large to fit in target type''"

text \<open>\<open><uN as FromStr>::from_str\<close> with \<open>max\<close> the largest value of the type: a leading
  \<open>+\<close> is accepted, a lone sign is an invalid digit, and each step checks the digit before
  the overflow of the multiplication and of the addition.\<close>

fun parse_digits :: "nat \<Rightarrow> nat \<Rightarrow> string \<Rightarrow> (parse_int_error, nat) result" where
  "parse_digits mx acc [] = Inr acc"
| "parse_digits mx acc (c # cs) =
     (if \<not> is_digit c then Inl InvalidDigit
      else if mx < acc * 10 then Inl PosOverflow
      else if mx < acc * 10 + digit_val c then Inl PosOverflow
      else parse_digits mx (acc * 10 + digit_val c) cs)"

definition parse_uint :: "nat \<Rightarrow> string \<Rightarrow> (parse_int_error, nat) result" where
  "parse_uint mx s =
     (if s = [] then Inl IntEmpty
      else if s = ''+'' \<or> s = ''-'' then Inl InvalidDigit
      else parse_digits mx 0 (if hd s = CHR ''+'' then tl s else s))"

definition parse_u8 :: "string \<Rightarrow> (parse_int_error, u8) result" where
  "parse_u8 s = res_bind (parse_uint 255 s) (\<lambda>n. Inr (word_of_nat n))"

definition parse_u16 :: "string \<Rightarrow> (parse_int_error, u16) result" where
  "parse_u16 s = res_bind (parse_uint 65535 s) (\<lambda>n. Inr (word_of_nat n))"

definition parse_u32 :: "string \<Rightarrow> (parse_int_error, u32) result" where
  "parse_u32 s = res_bind (parse_uint 4294967295 s) (\<lambda>n. Inr (word_of_nat n))"

lemma byte_digit_char: "d < 10 \<Longrightarrow> byte (digit_char d) = 48 + d"
  by (simp add: digit_char_def)

lemma is_digit_digit_char: "d < 10 \<Longrightarrow> is_digit (digit_char d)"
  by (simp add: is_digit_def byte_digit_char)

lemma digit_val_digit_char [simp]: "d < 10 \<Longrightarrow> digit_val (digit_char d) = d"
  by (simp add: digit_val_def byte_digit_char)

lemma show_nat_nonempty [simp]: "show_nat n \<noteq> []"
  by (subst show_nat.simps) simp

lemma show_nat_digits: "c \<in> set (show_nat n) \<Longrightarrow> is_digit c"
proof (induction n rule: show_nat.induct)
  case (1 n)
  then show ?case
    by (cases "n < 10") (auto simp: show_nat.simps [of n] is_digit_digit_char)
qed

lemma parse_digits_append:
  "parse_digits mx acc (xs @ ys) =
     res_bind (parse_digits mx acc xs) (\<lambda>a. parse_digits mx a ys)"
  by (induction xs arbitrary: acc) auto

lemma parse_digits_show_nat: "n \<le> mx \<Longrightarrow> parse_digits mx 0 (show_nat n) = Inr n"
proof (induction n rule: show_nat.induct)
  case (1 n)
  show ?case
  proof (cases "n < 10")
    case True
    then show ?thesis using 1 by (simp add: show_nat.simps [of n] is_digit_digit_char)
  next
    case False
    then have "parse_digits mx 0 (show_nat (n div 10)) = Inr (n div 10)"
      using 1 by simp
    moreover have "n div 10 * 10 + n mod 10 = n" by simp
    moreover have "n div 10 * 10 \<le> mx" using "1.prems" by linarith
    ultimately show ?thesis
      using False "1.prems"
      by (simp add: show_nat.simps [of n] parse_digits_append is_digit_digit_char)
  qed
qed

lemma hd_show_nat_digit: "is_digit (hd (show_nat n))"
  by (rule show_nat_digits [of _ n]) simp

lemma parse_uint_show_nat: "n \<le> mx \<Longrightarrow> parse_uint mx (show_nat n) = Inr n"
proof -
  assume n: "n \<le> mx"
  have "is_digit (hd (show_nat n))" by (rule hd_show_nat_digit)
  then have "hd (show_nat n) \<noteq> CHR ''+''" "show_nat n \<noteq> ''+''" "show_nat n \<noteq> ''-''"
    by (auto simp: is_digit_def)
  then show ?thesis by (simp add: parse_uint_def parse_digits_show_nat n)
qed

lemma parse_u16_show [simp]: "parse_u16 (show_nat (unat w)) = Inr w"
proof -
  have "unat w \<le> 65535"
    using unsigned_less [of w, where 'a = nat] by simp
  then show ?thesis by (simp add: parse_u16_def parse_uint_show_nat)
qed

lemma parse_u32_show [simp]: "parse_u32 (show_nat (unat w)) = Inr w"
proof -
  have "unat w \<le> 4294967295"
    using unsigned_less [of w, where 'a = nat] by simp
  then show ?thesis by (simp add: parse_u32_def parse_uint_show_nat)
qed

lemma parse_digits_bound: "acc \<le> mx \<Longrightarrow> parse_digits mx acc s = Inr n \<Longrightarrow> n \<le> mx"
proof (induction s arbitrary: acc)
  case (Cons c s)
  from Cons.prems(2) have "acc * 10 + digit_val c \<le> mx"
    "parse_digits mx (acc * 10 + digit_val c) s = Inr n"
    by (auto split: if_splits)
  then show ?case by (rule Cons.IH)
qed simp

lemma parse_uint_bound: "parse_uint mx s = Inr n \<Longrightarrow> n \<le> mx"
  by (auto simp: parse_uint_def split: if_splits intro: parse_digits_bound)

lemma parse_digits_mono:
  "parse_digits mx acc s = Inr n \<Longrightarrow> mx \<le> mx' \<Longrightarrow> parse_digits mx' acc s = Inr n"
  by (induction s arbitrary: acc) (auto split: if_splits)

lemma parse_digits_shrink:
  "parse_digits mx' acc s = Inr n \<Longrightarrow> n \<le> mx \<Longrightarrow> parse_digits mx acc s = Inr n"
proof (induction s arbitrary: acc)
  case Nil
  then show ?case by simp
next
  case (Cons c s)
  have le: "parse_digits m a s = Inr n \<Longrightarrow> a \<le> n" for m a
  proof (induction s arbitrary: a)
    case Nil
    then show ?case by simp
  next
    case (Cons d s)
    then have "a * 10 + digit_val d \<le> n" by (auto split: if_splits)
    then show ?case by linarith
  qed
  from Cons.prems have step: "parse_digits mx' (acc * 10 + digit_val c) s = Inr n" "is_digit c"
    by (auto split: if_splits)
  with le have "acc * 10 + digit_val c \<le> n" by blast
  with Cons step show ?case by auto
qed

lemma parse_uint_shrink:
  "parse_uint mx' s = Inr n \<Longrightarrow> n \<le> mx \<Longrightarrow> parse_uint mx s = Inr n"
  by (auto simp: parse_uint_def split: if_splits intro: parse_digits_shrink)

lemma digit_solid: "is_digit c \<Longrightarrow> solid c"
  by (auto simp: is_digit_def solid_def ascii_ws_def)

lemma str_trim_show_nat [simp]: "str_trim (show_nat n) = show_nat n"
  by (rule str_trim_all_solid) (auto simp: list_all_iff intro: digit_solid show_nat_digits)

end
