(* ===== verification/Keys.thy ===== *)
theory Keys
  imports RustStr
begin

text \<open>
  X25519 keys and their text form (\<open>ferro-wg-core/src/key.rs\<close>).

  The \<open>base64\<close> crate is not part of the repository: its standard engine is the parameter
  \<open>codec\<close>. What the code relies on is the locale \<open>base64_codec\<close> (decoding inverts
  encoding, the alphabet, the length), and \<open>rfc4648\<close> is the RFC 4648 codec that satisfies it.
\<close>

record codec =
  b64_encode :: "u8 list \<Rightarrow> string"
  b64_decode :: "string \<Rightarrow> (string, u8 list) result"

definition b64_char :: "char \<Rightarrow> bool" where
  "b64_char c = ((65 \<le> byte c \<and> byte c \<le> 90) \<or> (97 \<le> byte c \<and> byte c \<le> 122) \<or>
     (48 \<le> byte c \<and> byte c \<le> 57) \<or> c = CHR ''+'' \<or> c = CHR ''/'' \<or> c = CHR ''='')"

locale base64_codec =
  fixes cd :: codec
  assumes decode_encode: "b64_decode cd (b64_encode cd bs) = Inr bs"
    and encode_chars: "c \<in> set (b64_encode cd bs) \<Longrightarrow> b64_char c"
    and encode_length: "length (b64_encode cd bs) = 4 * ((length bs + 2) div 3)"

section \<open>Keys\<close>

datatype key_error = InvalidBase64 string | InvalidLength nat nat

fun show_key_error :: "key_error \<Rightarrow> string" where
  "show_key_error (InvalidBase64 m) = ''invalid base64: '' @ m"
| "show_key_error (InvalidLength e a) =
     ''expected '' @ show_nat e @ '' bytes, got '' @ show_nat a"

text \<open>The three newtypes over \<open>[u8; 32]\<close>; \<open>key_wf\<close> is the array length.\<close>

datatype private_key = PrivateKey (private_bytes: "u8 list")
datatype public_key = PublicKey (public_bytes: "u8 list")
datatype preshared_key = PresharedKey (preshared_bytes: "u8 list")

definition key_wf :: "u8 list \<Rightarrow> bool" where
  "key_wf bs = (length bs = 32)"

definition decode_key_bytes :: "codec \<Rightarrow> string \<Rightarrow> (key_error, u8 list) result" where
  "decode_key_bytes cd s =
     res_bind (map_err InvalidBase64 (b64_decode cd (str_trim s)))
       (\<lambda>bs. if length bs = 32 then Inr bs else Inl (InvalidLength 32 (length bs)))"

definition private_from_base64 :: "codec \<Rightarrow> string \<Rightarrow> (key_error, private_key) result" where
  "private_from_base64 cd s = res_bind (decode_key_bytes cd s) (\<lambda>bs. Inr (PrivateKey bs))"

definition private_to_base64 :: "codec \<Rightarrow> private_key \<Rightarrow> string" where
  "private_to_base64 cd k = b64_encode cd (private_bytes k)"

definition public_from_base64 :: "codec \<Rightarrow> string \<Rightarrow> (key_error, public_key) result" where
  "public_from_base64 cd s = res_bind (decode_key_bytes cd s) (\<lambda>bs. Inr (PublicKey bs))"

definition public_to_base64 :: "codec \<Rightarrow> public_key \<Rightarrow> string" where
  "public_to_base64 cd k = b64_encode cd (public_bytes k)"

definition preshared_from_base64 :: "codec \<Rightarrow> string \<Rightarrow> (key_error, preshared_key) result" where
  "preshared_from_base64 cd s = res_bind (decode_key_bytes cd s) (\<lambda>bs. Inr (PresharedKey bs))"

definition preshared_to_base64 :: "codec \<Rightarrow> preshared_key \<Rightarrow> string" where
  "preshared_to_base64 cd k = b64_encode cd (preshared_bytes k)"

definition private_from_bytes :: "u8 list \<Rightarrow> private_key" where
  "private_from_bytes bs = PrivateKey bs"

definition public_from_bytes :: "u8 list \<Rightarrow> public_key" where
  "public_from_bytes bs = PublicKey bs"

definition preshared_from_bytes :: "u8 list \<Rightarrow> preshared_key" where
  "preshared_from_bytes bs = PresharedKey bs"

text \<open>The \<open>x25519_dalek\<close> crate: a static secret is the bytes it keeps, random ones come from the thread's
  generator, and a public key is computed from a secret.\<close>

record x25519 =
  dk_random :: "u8 list"
  dk_static :: "u8 list \<Rightarrow> u8 list"
  dk_public :: "u8 list \<Rightarrow> u8 list"

definition private_generate :: "x25519 \<Rightarrow> private_key" where
  "private_generate dk = PrivateKey (dk_random dk)"

definition private_public :: "x25519 \<Rightarrow> private_key \<Rightarrow> public_key" where
  "private_public dk k = PublicKey (dk_public dk (dk_static dk (private_bytes k)))"

definition to_static_secret :: "x25519 \<Rightarrow> private_key \<Rightarrow> u8 list" where
  "to_static_secret dk k = dk_static dk (private_bytes k)"

text \<open>serde: a key is its base64 text, and an error of reading one is passed on as its message.\<close>

definition serialize_private :: "codec \<Rightarrow> private_key \<Rightarrow> string" where
  "serialize_private cd k = private_to_base64 cd k"

definition deserialize_private :: "codec \<Rightarrow> (string, string) result \<Rightarrow> (string, private_key) result" where
  "deserialize_private cd r = res_bind r (\<lambda>s. map_err show_key_error (private_from_base64 cd s))"

definition serialize_public :: "codec \<Rightarrow> public_key \<Rightarrow> string" where
  "serialize_public cd k = public_to_base64 cd k"

definition deserialize_public :: "codec \<Rightarrow> (string, string) result \<Rightarrow> (string, public_key) result" where
  "deserialize_public cd r = res_bind r (\<lambda>s. map_err show_key_error (public_from_base64 cd s))"

definition serialize_preshared :: "codec \<Rightarrow> preshared_key \<Rightarrow> string" where
  "serialize_preshared cd k = preshared_to_base64 cd k"

definition deserialize_preshared ::
  "codec \<Rightarrow> (string, string) result \<Rightarrow> (string, preshared_key) result" where
  "deserialize_preshared cd r = res_bind r (\<lambda>s. map_err show_key_error (preshared_from_base64 cd s))"

text \<open>\<open>Debug\<close> of a secret key prints no byte of it.\<close>

definition debug_private :: "private_key \<Rightarrow> string" where
  "debug_private k = ''PrivateKey([REDACTED])''"

definition debug_preshared :: "preshared_key \<Rightarrow> string" where
  "debug_preshared k = ''PresharedKey([REDACTED])''"

lemma decode_key_bytes_wf: "decode_key_bytes cd s = Inr bs \<Longrightarrow> key_wf bs"
  by (auto simp: decode_key_bytes_def key_wf_def res_simps split: if_splits)

text \<open>A key that deserializes has 32 bytes, whatever text comes.\<close>

lemma deserialize_wf:
  "deserialize_private cd r = Inr k \<Longrightarrow> key_wf (private_bytes k)"
  "deserialize_public cd r = Inr p \<Longrightarrow> key_wf (public_bytes p)"
  "deserialize_preshared cd r = Inr q \<Longrightarrow> key_wf (preshared_bytes q)"
  by (auto simp: deserialize_private_def deserialize_public_def deserialize_preshared_def private_from_base64_def
      public_from_base64_def preshared_from_base64_def res_simps dest: decode_key_bytes_wf)

lemma b64_char_solid: "b64_char c \<Longrightarrow> solid c"
  by (auto simp: b64_char_def solid_def ascii_ws_def)

context base64_codec begin

lemma trim_encode: "str_trim (b64_encode cd bs) = b64_encode cd bs"
  by (rule str_trim_all_solid) (auto simp: list_all_iff intro: b64_char_solid encode_chars)

lemma decode_key_encode: "key_wf bs \<Longrightarrow> decode_key_bytes cd (b64_encode cd bs) = Inr bs"
  by (simp add: decode_key_bytes_def trim_encode decode_encode key_wf_def)

lemma private_base64:
  "key_wf (private_bytes k) \<Longrightarrow> private_from_base64 cd (private_to_base64 cd k) = Inr k"
  by (simp add: private_from_base64_def private_to_base64_def decode_key_encode)

lemma public_base64:
  "key_wf (public_bytes k) \<Longrightarrow> public_from_base64 cd (public_to_base64 cd k) = Inr k"
  by (simp add: public_from_base64_def public_to_base64_def decode_key_encode)

lemma preshared_base64:
  "key_wf (preshared_bytes k) \<Longrightarrow> preshared_from_base64 cd (preshared_to_base64 cd k) = Inr k"
  by (simp add: preshared_from_base64_def preshared_to_base64_def decode_key_encode)

lemma serde_keys:
  "key_wf (private_bytes k) \<Longrightarrow> deserialize_private cd (Inr (serialize_private cd k)) = Inr k"
  "key_wf (public_bytes p) \<Longrightarrow> deserialize_public cd (Inr (serialize_public cd p)) = Inr p"
  "key_wf (preshared_bytes q) \<Longrightarrow> deserialize_preshared cd (Inr (serialize_preshared cd q)) = Inr q"
  by (simp_all add: deserialize_private_def serialize_private_def deserialize_public_def serialize_public_def
      deserialize_preshared_def serialize_preshared_def private_base64 public_base64 preshared_base64 res_simps)

lemma key_length_44: "key_wf bs \<Longrightarrow> length (b64_encode cd bs) = 44"
  by (simp add: encode_length key_wf_def)

end

section \<open>The RFC 4648 codec\<close>

definition b64_sym :: "nat \<Rightarrow> char" where
  "b64_sym n = (if n < 26 then char_of (65 + n) else if n < 52 then char_of (71 + n)
     else if n < 62 then char_of (n - 4) else if n = 62 then CHR ''+'' else CHR ''/'')"

definition b64_val :: "char \<Rightarrow> nat option" where
  "b64_val c = (let b = byte c in
     if 65 \<le> b \<and> b \<le> 90 then Some (b - 65)
     else if 97 \<le> b \<and> b \<le> 122 then Some (b - 71)
     else if 48 \<le> b \<and> b \<le> 57 then Some (b + 4)
     else if b = 43 then Some 62
     else if b = 47 then Some 63
     else None)"

abbreviation pad :: char where
  "pad \<equiv> CHR ''=''"

fun rfc_encode :: "nat list \<Rightarrow> string" where
  "rfc_encode [] = []"
| "rfc_encode [a] = [b64_sym (a div 4), b64_sym (a mod 4 * 16), pad, pad]"
| "rfc_encode [a, b] =
     [b64_sym (a div 4), b64_sym (a mod 4 * 16 + b div 16), b64_sym (b mod 16 * 4), pad]"
| "rfc_encode (a # b # c # r) =
     b64_sym (a div 4) # b64_sym (a mod 4 * 16 + b div 16) # b64_sym (b mod 16 * 4 + c div 64)
       # b64_sym (c mod 64) # rfc_encode r"

definition rfc_quad :: "char \<Rightarrow> char \<Rightarrow> char \<Rightarrow> char \<Rightarrow> nat list option" where
  "rfc_quad p q r s =
     (case (b64_val p, b64_val q, b64_val r, b64_val s) of
        (Some v, Some w, Some x, Some y) \<Rightarrow>
          Some [v * 4 + w div 16, w mod 16 * 16 + x div 4, x mod 4 * 64 + y]
      | (Some v, Some w, Some x, None) \<Rightarrow>
          if s = pad \<and> x mod 4 = 0 then Some [v * 4 + w div 16, w mod 16 * 16 + x div 4] else None
      | (Some v, Some w, None, None) \<Rightarrow>
          if r = pad \<and> s = pad \<and> w mod 16 = 0 then Some [v * 4 + w div 16] else None
      | _ \<Rightarrow> None)"

fun rfc_decode :: "string \<Rightarrow> nat list option" where
  "rfc_decode [] = Some []"
| "rfc_decode (p # q # r # s # rest) =
     (case rfc_quad p q r s of
        None \<Rightarrow> None
      | Some bs \<Rightarrow>
          if length bs < 3 \<and> rest \<noteq> [] then None
          else map_option (\<lambda>t. bs @ t) (rfc_decode rest))"
| "rfc_decode _ = None"

definition rfc4648 :: codec where
  "rfc4648 = \<lparr>b64_encode = (\<lambda>bs. rfc_encode (map unat bs)),
     b64_decode = (\<lambda>s. case rfc_decode s of None \<Rightarrow> Inl ''Invalid symbol'' | Some ns \<Rightarrow> Inr (map word_of_nat ns))\<rparr>"

lemma b64_val_sym [simp]: "n < 64 \<Longrightarrow> b64_val (b64_sym n) = Some n"
  by (auto simp: b64_val_def b64_sym_def Let_def)

lemma b64_val_pad [simp]: "b64_val pad = None"
  by (simp add: b64_val_def)

lemma b64_char_sym: "n < 64 \<Longrightarrow> b64_char (b64_sym n)"
  by (auto simp: b64_char_def b64_sym_def)

lemma sextets: "a < 256 \<Longrightarrow> a div 4 < 64" "a mod 4 * 16 < 64" "b < 256 \<Longrightarrow> a mod 4 * 16 + b div 16 < 64"
  "b mod 16 * 4 < 64" "c < 256 \<Longrightarrow> b mod 16 * 4 + c div 64 < 64" "c mod 64 < 64" for a b c :: nat
  by (auto simp: less_mult_imp_div_less)

lemma rfc_quad_3:
  "a < 256 \<Longrightarrow> b < 256 \<Longrightarrow> c < 256 \<Longrightarrow>
   rfc_quad (b64_sym (a div 4)) (b64_sym (a mod 4 * 16 + b div 16))
     (b64_sym (b mod 16 * 4 + c div 64)) (b64_sym (c mod 64)) = Some [a, b, c]"
  by (simp add: rfc_quad_def sextets)

lemma rfc_decode_encode: "\<forall>n \<in> set ns. n < 256 \<Longrightarrow> rfc_decode (rfc_encode ns) = Some ns"
proof (induction ns rule: rfc_encode.induct)
  case (2 a)
  then show ?case by (simp add: rfc_quad_def sextets)
next
  case (3 a b)
  then have "b div 16 < 16" by auto
  then show ?case using 3 by (simp add: rfc_quad_def sextets)
next
  case (4 a b c r)
  then show ?case by (simp add: rfc_quad_3)
qed simp

lemma rfc_encode_chars:
  "\<forall>n \<in> set ns. n < 256 \<Longrightarrow> c \<in> set (rfc_encode ns) \<Longrightarrow> b64_char c"
proof (induction ns rule: rfc_encode.induct)
  case (2 a)
  then show ?case by (auto simp: b64_char_sym sextets) (simp_all add: b64_char_def)
next
  case (3 a b)
  then show ?case by (auto simp: b64_char_sym sextets) (simp_all add: b64_char_def)
next
  case (4 a b c r)
  then show ?case by (auto simp: b64_char_sym sextets)
qed simp

lemma length_rfc_encode: "length (rfc_encode ns) = 4 * ((length ns + 2) div 3)"
proof (induction ns rule: rfc_encode.induct)
  case (4 a b c r)
  have "(n + 3 + 2) div 3 = Suc ((n + 2) div 3)" for n :: nat
    by presburger
  from this [of "length r"] have "(length (a # b # c # r) + 2) div 3 = Suc ((length r + 2) div 3)"
    by (simp add: add.commute)
  then show ?case using 4 by simp
qed auto

interpretation rfc: base64_codec rfc4648
proof
  have small: "\<forall>n \<in> set (map unat bs). n < 256" for bs :: "u8 list"
    using unsigned_less [where 'a = nat and 'b = 8] by simp
  fix bs :: "u8 list" and c
  show "b64_decode rfc4648 (b64_encode rfc4648 bs) = Inr bs"
    by (simp add: rfc4648_def rfc_decode_encode [OF small] o_def)
  show "c \<in> set (b64_encode rfc4648 bs) \<Longrightarrow> b64_char c"
    using rfc_encode_chars [OF small, of c bs] by (simp add: rfc4648_def)
  show "length (b64_encode rfc4648 bs) = 4 * ((length bs + 2) div 3)"
    by (simp add: rfc4648_def length_rfc_encode)
qed

end
