(* ===== verification/IpAddr.thy ===== *)
theory IpAddr
  imports RustStr
begin

text \<open>
  \<open>std::net::IpAddr\<close>: parsing (\<open>FromStr\<close>) and printing (\<open>Display\<close>). The parser
  follows the standard library's: every reader takes the remaining input and gives the value
  and the rest, or \<open>None\<close> leaving the input untouched. An IPv6 address is the list of its
  eight 16-bit groups.
\<close>

datatype ip_addr = V4 u8 u8 u8 u8 | V6 "u16 list"

definition ip_wf :: "ip_addr \<Rightarrow> bool" where
  "ip_wf ip = (case ip of V4 _ _ _ _ \<Rightarrow> True | V6 gs \<Rightarrow> length gs = 8)"

section \<open>Reading numbers\<close>

definition to_digit :: "nat \<Rightarrow> char \<Rightarrow> nat option" where
  "to_digit radix c =
     (let b = byte c;
          d = (if 48 \<le> b \<and> b \<le> 57 then b - 48
               else if 97 \<le> b \<and> b \<le> 122 then b - 87
               else if 65 \<le> b \<and> b \<le> 90 then b - 55
               else radix)
      in if d < radix then Some d else None)"

text \<open>The digit loop: value so far, digits read so far. \<open>None\<close> is overflow or too many digits.\<close>

fun read_digits ::
  "nat \<Rightarrow> nat \<Rightarrow> nat \<Rightarrow> nat \<Rightarrow> nat \<Rightarrow> string \<Rightarrow> (nat \<times> nat \<times> string) option" where
  "read_digits radix mx maxd acc n [] = Some (acc, n, [])"
| "read_digits radix mx maxd acc n (c # cs) =
     (case to_digit radix c of
        None \<Rightarrow> Some (acc, n, c # cs)
      | Some d \<Rightarrow>
          if mx < acc * radix + d then None
          else if maxd < Suc n then None
          else read_digits radix mx maxd (acc * radix + d) (Suc n) cs)"

definition read_number ::
  "nat \<Rightarrow> nat \<Rightarrow> nat \<Rightarrow> bool \<Rightarrow> string \<Rightarrow> (nat \<times> string) option" where
  "read_number radix mx maxd allow_zero_prefix s =
     (case read_digits radix mx maxd 0 0 s of
        None \<Rightarrow> None
      | Some (v, n, r) \<Rightarrow>
          if n = 0 then None
          else if \<not> allow_zero_prefix \<and> starts_with s CHR ''0'' \<and> 1 < n then None
          else Some (v, r))"

definition read_char :: "char \<Rightarrow> string \<Rightarrow> string option" where
  "read_char c s = (case s of [] \<Rightarrow> None | x # r \<Rightarrow> if x = c then Some r else None)"

section \<open>IPv4 and IPv6\<close>

definition read_octet :: "string \<Rightarrow> (u8 \<times> string) option" where
  "read_octet s = map_option (\<lambda>(v, r). (word_of_nat v, r)) (read_number 10 255 3 False s)"

definition read_dot_octet :: "string \<Rightarrow> (u8 \<times> string) option" where
  "read_dot_octet s = Option.bind (read_char CHR ''.'' s) read_octet"

definition read_ipv4 :: "string \<Rightarrow> ((u8 \<times> u8 \<times> u8 \<times> u8) \<times> string) option" where
  "read_ipv4 s =
     Option.bind (read_octet s) (\<lambda>(a, s1).
     Option.bind (read_dot_octet s1) (\<lambda>(b, s2).
     Option.bind (read_dot_octet s2) (\<lambda>(c, s3).
     Option.bind (read_dot_octet s3) (\<lambda>(d, s4). Some ((a, b, c, d), s4)))))"

definition be_pair :: "u8 \<Rightarrow> u8 \<Rightarrow> u16" where
  "be_pair hi lo = word_of_nat (unat hi * 256 + unat lo)"

definition sep_first :: "char \<Rightarrow> nat \<Rightarrow> string \<Rightarrow> string option" where
  "sep_first c i s = (if i = 0 then Some s else read_char c s)"

text \<open>\<open>read_groups\<close>: up to \<open>limit\<close> groups, the last two of which may be a dotted quad.
  Gives the groups, whether a dotted quad ended them, and the rest.\<close>

fun read_groups :: "nat \<Rightarrow> nat \<Rightarrow> string \<Rightarrow> u16 list \<times> bool \<times> string" where
  "read_groups 0 i s = ([], False, s)"
| "read_groups (Suc k) i s =
     (case (if k = 0 then None else Option.bind (sep_first CHR '':'' i s) read_ipv4) of
        Some ((a, b, c, d), r) \<Rightarrow> ([be_pair a b, be_pair c d], True, r)
      | None \<Rightarrow>
         (case Option.bind (sep_first CHR '':'' i s) (read_number 16 65535 4 True) of
            None \<Rightarrow> ([], False, s)
          | Some (g, r) \<Rightarrow>
              (case read_groups k (Suc i) r of
                 (gs, v4, r') \<Rightarrow> (word_of_nat g # gs, v4, r'))))"

definition read_ipv6 :: "string \<Rightarrow> (u16 list \<times> string) option" where
  "read_ipv6 s =
     (case read_groups 8 0 s of
        (hd_gs, v4, r) \<Rightarrow>
          if length hd_gs = 8 then Some (hd_gs, r)
          else if v4 then None
          else
            Option.bind (Option.bind (read_char CHR '':'' r) (read_char CHR '':'')) (\<lambda>r1.
              case read_groups (8 - (length hd_gs + 1)) 0 r1 of
                (tl_gs, _, r2) \<Rightarrow>
                  Some (hd_gs @ replicate (8 - length hd_gs - length tl_gs) 0 @ tl_gs, r2)))"

definition parse_ip :: "string \<Rightarrow> ip_addr option" where
  "parse_ip s =
     (case read_ipv4 s of
        Some ((a, b, c, d), r) \<Rightarrow> if r = [] then Some (V4 a b c d) else None
      | None \<Rightarrow>
         (case read_ipv6 s of
            Some (gs, r) \<Rightarrow> if r = [] then Some (V6 gs) else None
          | None \<Rightarrow> None))"

section \<open>Printing\<close>

definition show_v4 :: "u8 \<Rightarrow> u8 \<Rightarrow> u8 \<Rightarrow> u8 \<Rightarrow> string" where
  "show_v4 a b c d = show_nat (unat a) @ ''.'' @ show_nat (unat b) @ ''.'' @
     show_nat (unat c) @ ''.'' @ show_nat (unat d)"

definition hex_digit :: "nat \<Rightarrow> char" where
  "hex_digit d = (if d < 10 then char_of (48 + d) else char_of (87 + d))"

fun show_hex :: "nat \<Rightarrow> string" where
  "show_hex n = (if n < 16 then [hex_digit n] else show_hex (n div 16) @ [hex_digit (n mod 16)])"

declare show_hex.simps [simp del]

text \<open>The first longest run of zero groups: position, run so far, best run.\<close>

fun zero_span :: "nat \<Rightarrow> nat \<times> nat \<Rightarrow> nat \<times> nat \<Rightarrow> u16 list \<Rightarrow> nat \<times> nat" where
  "zero_span i cur best [] = best"
| "zero_span i (cs, cl) (bs, bl) (g # gs) =
     (if g = 0 then
        (let cs' = (if cl = 0 then i else cs); cl' = Suc cl;
             best' = (if bl < cl' then (cs', cl') else (bs, bl))
         in zero_span (Suc i) (cs', cl') best' gs)
      else zero_span (Suc i) (0, 0) (bs, bl) gs)"

definition show_groups :: "u16 list \<Rightarrow> string" where
  "show_groups gs = str_join '':'' (map (\<lambda>g. show_hex (unat g)) gs)"

definition show_v6 :: "u16 list \<Rightarrow> string" where
  "show_v6 gs =
     (if take 6 gs = [0, 0, 0, 0, 0, 0xffff] then
        (let h = unat (gs ! 6); l = unat (gs ! 7)
         in ''::ffff:'' @ show_v4 (word_of_nat (h div 256)) (word_of_nat (h mod 256))
              (word_of_nat (l div 256)) (word_of_nat (l mod 256)))
      else (case zero_span 0 (0, 0) (0, 0) gs of (st, ln) \<Rightarrow>
        if 1 < ln then show_groups (take st gs) @ ''::'' @ show_groups (drop (st + ln) gs)
        else show_groups gs))"

fun show_ip :: "ip_addr \<Rightarrow> string" where
  "show_ip (V4 a b c d) = show_v4 a b c d"
| "show_ip (V6 gs) = show_v6 gs"

section \<open>Round trip for IPv4\<close>

lemma to_digit_digit: "is_digit c \<Longrightarrow> to_digit 10 c = Some (digit_val c)"
  by (auto simp: to_digit_def is_digit_def digit_val_def Let_def)

lemma to_digit_dot [simp]: "to_digit 10 CHR ''.'' = None"
  by (simp add: to_digit_def)

definition stops :: "string \<Rightarrow> bool" where
  "stops r = (r = [] \<or> to_digit 10 (hd r) = None)"

lemma read_digits_stop: "stops r \<Longrightarrow> read_digits 10 mx maxd acc n r = Some (acc, n, r)"
  by (cases r) (auto simp: stops_def)

lemma read_digits_parse:
  "parse_digits mx acc s = Inr v \<Longrightarrow> list_all is_digit s \<Longrightarrow> n + length s \<le> maxd \<Longrightarrow> stops r \<Longrightarrow>
   read_digits 10 mx maxd acc n (s @ r) = Some (v, n + length s, r)"
proof (induction s arbitrary: acc n)
  case Nil
  then show ?case by (simp add: read_digits_stop)
next
  case (Cons c s)
  from Cons.prems have "parse_digits mx (acc * 10 + digit_val c) s = Inr v"
    "\<not> mx < acc * 10 + digit_val c" "is_digit c"
    by (auto split: if_splits)
  then show ?case
    using Cons.IH [of "acc * 10 + digit_val c" "Suc n"] Cons.prems
    by (simp add: to_digit_digit)
qed

lemma length_show_nat_octet: "n \<le> 255 \<Longrightarrow> length (show_nat n) \<le> 3"
  by (auto simp: show_nat.simps [of n] show_nat.simps [of "n div 10"]
      show_nat.simps [of "n div 10 div 10"])

lemma show_nat_leading_zero:
  "1 < length (show_nat n) \<Longrightarrow> \<not> starts_with (show_nat n) CHR ''0''"
proof (induction n rule: show_nat.induct)
  case (1 n)
  show ?case
  proof (cases "n < 10")
    case True
    then show ?thesis using "1.prems" by (simp add: show_nat.simps [of n])
  next
    case False
    have "\<not> starts_with (show_nat (n div 10)) CHR ''0''"
    proof (cases "1 < length (show_nat (n div 10))")
      case True
      then show ?thesis using "1.IH" False by simp
    next
      case short: False
      then have d: "n div 10 < 10"
        by (cases "n div 10 < 10") (simp_all add: show_nat.simps [of "n div 10"])
      moreover have "0 < n div 10" using False by linarith
      moreover have "digit_char (n div 10) \<noteq> CHR ''0''"
      proof
        assume "digit_char (n div 10) = CHR ''0''"
        then have "byte (digit_char (n div 10)) = byte CHR ''0''" by simp
        then show False using d \<open>0 < n div 10\<close> by (simp add: byte_digit_char)
      qed
      ultimately show ?thesis
        by (simp add: show_nat.simps [of "n div 10"] starts_with_def)
    qed
    then show ?thesis
      using False by (auto simp: show_nat.simps [of n] starts_with_def)
  qed
qed

lemma read_octet_show:
  assumes "stops r"
  shows "read_octet (show_nat (unat a) @ r) = Some (a :: u8, r)"
proof -
  have n: "unat a \<le> 255" using unsigned_less [of a, where 'a = nat] by simp
  let ?s = "show_nat (unat a)"
  have "read_digits 10 255 3 0 0 (?s @ r) = Some (unat a, 0 + length ?s, r)"
    using assms n by (intro read_digits_parse)
      (auto simp: parse_digits_show_nat list_all_iff show_nat_digits length_show_nat_octet)
  moreover have "\<not> (starts_with (?s @ r) CHR ''0'' \<and> 1 < length ?s)"
    using show_nat_leading_zero [of "unat a"] by (auto simp: starts_with_def)
  ultimately show ?thesis by (simp add: read_octet_def read_number_def)
qed

lemma read_dot_octet_show:
  "stops r \<Longrightarrow> read_dot_octet (CHR ''.'' # show_nat (unat a) @ r) = Some (a :: u8, r)"
  by (simp add: read_dot_octet_def read_char_def read_octet_show)

lemma stops_dot [simp]: "stops (CHR ''.'' # r)" "stops []"
  by (simp_all add: stops_def)

lemma read_ipv4_show: "stops r \<Longrightarrow> read_ipv4 (show_v4 a b c d @ r) = Some ((a, b, c, d), r)"
  by (simp add: read_ipv4_def show_v4_def read_octet_show read_dot_octet_show)

lemma parse_ip_show_v4 [simp]: "parse_ip (show_v4 a b c d) = Some (V4 a b c d)"
  using read_ipv4_show [of "[]" a b c d] by (simp add: parse_ip_def)

text \<open>An address whose printed form reads back, which covers every IPv4 address.\<close>

definition ip_rt :: "ip_addr \<Rightarrow> bool" where
  "ip_rt ip = (parse_ip (show_ip ip) = Some ip)"

lemma ip_rt_V4 [simp]: "ip_rt (V4 a b c d)"
  by (simp add: ip_rt_def)

text \<open>The characters of a printed address: hexadecimal digits, colons and dots.\<close>

definition ip_char :: "char \<Rightarrow> bool" where
  "ip_char c = (is_digit c \<or> (97 \<le> byte c \<and> byte c \<le> 102) \<or> c = CHR '':'' \<or> c = CHR ''.'')"

lemma ip_char_digit: "is_digit c \<Longrightarrow> ip_char c"
  by (simp add: ip_char_def)

lemma show_v4_chars: "c \<in> set (show_v4 p q r s) \<Longrightarrow> ip_char c"
  by (auto simp: show_v4_def ip_char_def dest: show_nat_digits)

lemma hex_digit_char: "d < 16 \<Longrightarrow> ip_char (hex_digit d)"
  by (auto simp: hex_digit_def ip_char_def is_digit_def)

lemma show_hex_chars: "c \<in> set (show_hex n) \<Longrightarrow> ip_char c"
proof (induction n rule: show_hex.induct)
  case (1 n)
  then show ?case
    by (cases "n < 16") (auto simp: show_hex.simps [of n] hex_digit_char)
qed

lemma set_str_join: "set (str_join sep xs) \<subseteq> set sep \<union> \<Union> (set ` set xs)"
  by (induction sep xs rule: str_join.induct) auto

lemma show_groups_chars: "c \<in> set (show_groups gs) \<Longrightarrow> ip_char c"
  using set_str_join [of "'':''" "map (\<lambda>g. show_hex (unat g)) gs"]
  by (auto simp: show_groups_def ip_char_def dest!: subsetD dest: show_hex_chars [unfolded ip_char_def])

lemma show_ip_chars: "c \<in> set (show_ip ip) \<Longrightarrow> ip_char c"
proof (cases ip)
  case (V4 p q r s)
  then show "c \<in> set (show_ip ip) \<Longrightarrow> ip_char c" by (simp add: show_v4_chars)
next
  case (V6 gs)
  then show "c \<in> set (show_ip ip) \<Longrightarrow> ip_char c"
    by (auto simp: show_v6_def Let_def ip_char_def is_digit_def split: if_splits prod.splits
        dest: show_v4_chars [unfolded ip_char_def is_digit_def]
          show_groups_chars [unfolded ip_char_def is_digit_def])
qed

lemma ip_char_solid: "ip_char c \<Longrightarrow> solid c"
  by (auto simp: ip_char_def is_digit_def solid_def ascii_ws_def)

lemma str_trim_show_ip [simp]: "str_trim (show_ip ip) = show_ip ip"
  by (rule str_trim_all_solid) (auto simp: list_all_iff intro: ip_char_solid show_ip_chars)

lemma comma_notin_show_ip [simp]: "CHR '','' \<notin> set (show_ip ip)"
  by (auto dest!: show_ip_chars simp: ip_char_def is_digit_def)

end
