(* ===== verification/CoreTypes.thy ===== *)
theory CoreTypes
  imports Complex_Main Keys IpAddr
begin

text \<open>
  Types shared by every crate: errors and backend kinds (\<open>error.rs\<close>), statistics
  (\<open>stats.rs\<close>) and the IPC messages (\<open>ipc.rs\<close>).

  \<open>f32\<close>/\<open>f64\<close> values are the finite ones, as exact rationals; a \<open>Duration\<close> is its
  number of nanoseconds.
\<close>

type_synonym duration = nat
type_synonym float = rat

section \<open>Errors\<close>

datatype config_error =
    MissingField string
  | InvalidValue string string
  | AddrParse string
  | TomlParse string
  | WgQuickParse nat string

fun show_config_error :: "config_error \<Rightarrow> string" where
  "show_config_error (MissingField f) = ''missing required field: '' @ f"
| "show_config_error (InvalidValue f r) = ''invalid value for '' @ f @ '': '' @ r"
| "show_config_error (AddrParse m) = ''address parse error: '' @ m"
| "show_config_error (TomlParse m) = ''toml parse error: '' @ m"
| "show_config_error (WgQuickParse l r) =
     ''wg-quick parse error at line '' @ show_nat l @ '': '' @ r"

datatype wg_error =
    ConfigErr config_error
  | KeyErr key_error
  | TunnelErr string
  | BackendUnavailable string

fun show_wg_error :: "wg_error \<Rightarrow> string" where
  "show_wg_error (ConfigErr e) = ''config error: '' @ show_config_error e"
| "show_wg_error (KeyErr e) = ''key error: '' @ show_key_error e"
| "show_wg_error (TunnelErr m) = ''tunnel error: '' @ m"
| "show_wg_error (BackendUnavailable b) =
     ''backend '' @ b @ '' not available (enable the cargo feature)''"

datatype backend_kind = Boringtun | Neptun | Gotatun

fun show_backend :: "backend_kind \<Rightarrow> string" where
  "show_backend Boringtun = ''boringtun''"
| "show_backend Neptun = ''neptun''"
| "show_backend Gotatun = ''gotatun''"

section \<open>Statistics\<close>

record tunnel_stats =
  tx_bytes :: u64
  rx_bytes :: u64
  last_handshake :: "duration option"
  packet_loss :: float
  session_index :: "u32 option"

definition default_stats :: tunnel_stats where
  "default_stats = \<lparr>tx_bytes = 0, rx_bytes = 0, last_handshake = None, packet_loss = 0,
     session_index = None\<rparr>"

record benchmark_result =
  br_backend :: string
  packets_processed :: u64
  bytes_encapsulated :: u64
  elapsed :: duration
  throughput_bps :: float
  avg_latency :: duration
  p50_latency :: duration
  p95_latency :: duration
  p99_latency :: duration

section \<open>IPC messages\<close>

datatype log_level = LTrace | LDebug | LInfo | LWarn | LError

fun severity :: "log_level \<Rightarrow> nat" where
  "severity LTrace = 0"
| "severity LDebug = 1"
| "severity LInfo = 2"
| "severity LWarn = 3"
| "severity LError = 4"

instantiation log_level :: linorder
begin

definition less_eq_log_level :: "log_level \<Rightarrow> log_level \<Rightarrow> bool" where
  "less_eq_log_level a b = (severity a \<le> severity b)"

definition less_log_level :: "log_level \<Rightarrow> log_level \<Rightarrow> bool" where
  "less_log_level a b = (severity a < severity b)"

instance
proof
  fix x y z :: log_level
  have inj: "severity x = severity y \<Longrightarrow> x = y" by (cases x; cases y) auto
  show "(x < y) = (x \<le> y \<and> \<not> y \<le> x)"
    by (auto simp: less_log_level_def less_eq_log_level_def)
  show "x \<le> x" by (simp add: less_eq_log_level_def)
  show "x \<le> y \<Longrightarrow> y \<le> z \<Longrightarrow> x \<le> z" by (simp add: less_eq_log_level_def)
  show "x \<le> y \<Longrightarrow> y \<le> x \<Longrightarrow> x = y"
    unfolding less_eq_log_level_def by (rule inj) simp
  show "x \<le> y \<or> y \<le> x" by (auto simp: less_eq_log_level_def)
qed

end

fun level_cycle :: "log_level \<Rightarrow> log_level" where
  "level_cycle LTrace = LInfo"
| "level_cycle LDebug = LInfo"
| "level_cycle LInfo = LWarn"
| "level_cycle LWarn = LError"
| "level_cycle LError = LDebug"

fun title_label :: "log_level \<Rightarrow> string" where
  "title_label LTrace = ''TRACE+''"
| "title_label LDebug = ''DEBUG+''"
| "title_label LInfo = ''INFO+''"
| "title_label LWarn = ''WARN+''"
| "title_label LError = ''ERROR''"

fun badge :: "log_level \<Rightarrow> string" where
  "badge LTrace = ''TRACE''"
| "badge LDebug = ''DEBUG''"
| "badge LInfo = ''INFO''"
| "badge LWarn = ''WARN''"
| "badge LError = ''ERROR''"

record log_entry =
  timestamp_ms :: int
  level :: log_level
  connection_name :: "string option"
  message :: string

datatype daemon_command =
    Up "string option" backend_kind
  | Down "string option"
  | Status
  | SwitchBackend string backend_kind
  | Shutdown
  | StreamLogs
  | Benchmark string u32

record peer_status =
  ps_name :: string
  ps_connected :: bool
  ps_backend :: backend_kind
  ps_stats :: tunnel_stats
  ps_endpoint :: "string option"
  ps_interface :: "string option"

record benchmark_progress =
  bp_backend :: string
  elapsed_secs :: u32
  total_secs :: u32
  current_throughput_bps :: float
  bp_packets_processed :: u64

datatype daemon_response =
    ROk
  | RError string
  | RStatus "peer_status list"
  | RLogEntry log_entry
  | RBenchmarkProgress benchmark_progress
  | RBenchmarkResult benchmark_result

text \<open>\<open>encode_message\<close> and \<open>decode_message\<close> frame the JSON text of the \<open>serde_json\<close>
  crate, which is a parameter: a writer and a reader.\<close>

definition encode_message :: "('a \<Rightarrow> (string, string) result) \<Rightarrow> 'a \<Rightarrow> (string, string) result" where
  "encode_message to_string msg = res_bind (to_string msg) (\<lambda>json. Inr (json @ [nl]))"

definition decode_message :: "(string \<Rightarrow> (string, 'a) result) \<Rightarrow> string \<Rightarrow> (string, 'a) result" where
  "decode_message from_str json = from_str (str_trim json)"

end
