(* ===== verification/Config.thy ===== *)
theory Config
  imports CoreTypes
begin

text \<open>
  The configuration model and its validation (\<open>ferro-wg-core/src/config/mod.rs\<close>), and the
  TOML loader and writer around the \<open>toml\<close> crate (\<open>config/toml.rs\<close>).

  A \<open>BTreeMap<String, WgConfig>\<close> is an association list sorted by key. The crate's
  reader and writer are parameters.
\<close>

section \<open>Debug formatting\<close>

text \<open>\<open>{:?}\<close> of a \<open>str\<close>: the escapes of ASCII text; bytes of other characters are kept.\<close>

definition debug_char :: "char \<Rightarrow> string" where
  "debug_char c =
     (if c = CHR 0x22 then [CHR 0x5C, CHR 0x22]
      else if c = CHR 0x5C then [CHR 0x5C, CHR 0x5C]
      else if c = CHR 10 then [CHR 0x5C, CHR ''n'']
      else if c = CHR 13 then [CHR 0x5C, CHR ''r'']
      else if c = CHR 9 then [CHR 0x5C, CHR ''t'']
      else if c = CHR 0x00 then [CHR 0x5C, CHR ''0'']
      else if byte c < 32 \<or> byte c = 127 then
        [CHR 0x5C] @ ''u{'' @ show_hex (byte c) @ ''}''
      else [c])"

definition debug_str :: "string \<Rightarrow> string" where
  "debug_str s = [CHR 0x22] @ concat (map debug_char s) @ [CHR 0x22]"

text \<open>\<open>{:?}\<close> of a \<open>char\<close>: the quote that is escaped is the single one.\<close>

definition debug_rchar :: "rchar \<Rightarrow> string" where
  "debug_rchar c =
     [CHR 0x27] @ (if c = [CHR 0x27] then [CHR 0x5C, CHR 0x27]
        else if c = [CHR 0x22] then [CHR 0x22] else concat (map debug_char c)) @ [CHR 0x27]"

section \<open>Configuration records\<close>

record interface_config =
  if_private_key :: private_key
  if_listen_port :: u16
  if_addresses :: "string list"
  if_dns :: "ip_addr list"
  if_dns_search :: "string list"
  if_mtu :: u16
  if_fwmark :: u32
  if_pre_up :: "string list"
  if_post_up :: "string list"
  if_pre_down :: "string list"
  if_post_down :: "string list"

record peer_config =
  pc_name :: string
  pc_public_key :: public_key
  pc_preshared_key :: "preshared_key option"
  pc_endpoint :: "string option"
  pc_allowed_ips :: "string list"
  pc_keepalive :: u16

record wg_config =
  wg_interface :: interface_config
  wg_peers :: "peer_config list"

record log_display_config =
  show_timestamps :: bool
  color_badges :: bool

definition default_log_display :: log_display_config where
  "default_log_display = \<lparr>show_timestamps = True, color_badges = True\<rparr>"

record app_config =
  ac_connections :: "(string, wg_config) amap"
  ac_log_display :: log_display_config

definition default_app_config :: app_config where
  "default_app_config = \<lparr>ac_connections = [], ac_log_display = default_log_display\<rparr>"

section \<open>Validation\<close>

definition max_name_len :: nat where
  "max_name_len = 64"

definition name_char :: "char \<Rightarrow> bool" where
  "name_char c = ((97 \<le> byte c \<and> byte c \<le> 122) \<or> (65 \<le> byte c \<and> byte c \<le> 90) \<or>
     (48 \<le> byte c \<and> byte c \<le> 57) \<or> c = CHR ''-'' \<or> c = CHR ''_'')"

definition find_bad_char :: "string \<Rightarrow> rchar option" where
  "find_bad_char s = (case dropWhile name_char s of
     [] \<Rightarrow> None | c # r \<Rightarrow> Some (c # takeWhile is_cont r))"

definition validate_name :: "string \<Rightarrow> string \<Rightarrow> (config_error, unit) result" where
  "validate_name field name =
     (if name = [] then Inl (InvalidValue field ''name must not be empty'')
      else if max_name_len < length name then
        Inl (InvalidValue field (''name '' @ debug_str name @ '' is '' @ show_nat (length name)
          @ '' characters; maximum is '' @ show_nat max_name_len))
      else (case find_bad_char name of
        Some bad \<Rightarrow> Inl (InvalidValue field (''name '' @ debug_str name
          @ '' contains invalid character '' @ debug_rchar bad
          @ ''; only ASCII alphanumerics, hyphens, and underscores are allowed''))
      | None \<Rightarrow> Inr ()))"

definition validate_peer :: "nat \<Rightarrow> peer_config \<Rightarrow> (config_error, unit) result" where
  "validate_peer i peer =
     res_bind
       (if pc_name peer = [] then Inr ()
        else map_err (\<lambda>e. InvalidValue ''peer.name''
               (''peer '' @ show_nat i @ '': '' @ show_config_error e))
             (validate_name ''peer.name'' (pc_name peer)))
       (\<lambda>_. if pc_allowed_ips peer = [] then
               Inl (InvalidValue ''allowed_ips'' (''peer '' @ show_nat i @ '' has no allowed IPs''))
             else Inr ())"

fun validate_peers :: "nat \<Rightarrow> peer_config list \<Rightarrow> (config_error, unit) result" where
  "validate_peers i [] = Inr ()"
| "validate_peers i (p # ps) = res_bind (validate_peer i p) (\<lambda>_. validate_peers (Suc i) ps)"

definition wg_validate :: "wg_config \<Rightarrow> (config_error, unit) result" where
  "wg_validate c =
     (if wg_peers c = [] then Inl (MissingField ''peers'') else validate_peers 0 (wg_peers c))"

fun validate_connections :: "(string, wg_config) amap \<Rightarrow> (config_error, unit) result" where
  "validate_connections [] = Inr ()"
| "validate_connections ((name, conn) # cs) =
     res_bind
       (map_err (\<lambda>e. InvalidValue ''connection name'' (name @ '': '' @ show_config_error e))
         (validate_name ''connection name'' name))
       (\<lambda>_. res_bind
         (map_err (\<lambda>e. InvalidValue ''connections'' (name @ '': '' @ show_config_error e))
           (wg_validate conn))
         (\<lambda>_. validate_connections cs))"

definition app_validate :: "app_config \<Rightarrow> (config_error, unit) result" where
  "app_validate c =
     (if ac_connections c = [] then Inl (MissingField ''connections'')
      else validate_connections (ac_connections c))"

definition app_get :: "app_config \<Rightarrow> string \<Rightarrow> wg_config option" where
  "app_get c name = amap_get (ac_connections c) name"

definition app_connection_names :: "app_config \<Rightarrow> string list" where
  "app_connection_names c = amap_keys (ac_connections c)"

definition app_insert :: "string \<Rightarrow> wg_config \<Rightarrow> app_config \<Rightarrow> app_config" where
  "app_insert name w c = c\<lparr>ac_connections := btree_insert name w (ac_connections c)\<rparr>"

section \<open>TOML files\<close>

text \<open>
  The \<open>toml\<close> crate's reader and writer for the two types, and the file system as a map
  from paths to contents (\<open>None\<close>: reading fails). An error is its message.
\<close>

record toml_io =
  toml_read_wg :: "string \<Rightarrow> (string, wg_config) result"
  toml_write_wg :: "wg_config \<Rightarrow> (string, string) result"
  toml_read_app :: "string \<Rightarrow> (string, app_config) result"
  toml_write_app :: "app_config \<Rightarrow> (string, string) result"

definition toml_load_str :: "toml_io \<Rightarrow> string \<Rightarrow> (config_error, wg_config) result" where
  "toml_load_str io s =
     res_bind (map_err TomlParse (toml_read_wg io s))
       (\<lambda>c. res_bind (wg_validate c) (\<lambda>_. Inr c))"

definition toml_save_string :: "toml_io \<Rightarrow> wg_config \<Rightarrow> (config_error, string) result" where
  "toml_save_string io c = map_err TomlParse (toml_write_wg io c)"

definition load_app_config_str :: "toml_io \<Rightarrow> string \<Rightarrow> (config_error, app_config) result" where
  "load_app_config_str io s =
     res_bind (map_err TomlParse (toml_read_app io s))
       (\<lambda>c. res_bind (app_validate c) (\<lambda>_. Inr c))"

definition load_app_config ::
  "toml_io \<Rightarrow> (string, string) result \<Rightarrow> (config_error, app_config) result" where
  "load_app_config io contents =
     res_bind (map_err TomlParse contents) (load_app_config_str io)"

definition save_app_config_string :: "toml_io \<Rightarrow> app_config \<Rightarrow> (config_error, string) result" where
  "save_app_config_string io c = map_err TomlParse (toml_write_app io c)"

section \<open>What validation accepts\<close>

definition name_ok :: "string \<Rightarrow> bool" where
  "name_ok s = (s \<noteq> [] \<and> length s \<le> 64 \<and> list_all name_char s)"

definition peer_ok :: "peer_config \<Rightarrow> bool" where
  "peer_ok p = ((pc_name p = [] \<or> name_ok (pc_name p)) \<and> pc_allowed_ips p \<noteq> [])"

definition wg_ok :: "wg_config \<Rightarrow> bool" where
  "wg_ok c = (wg_peers c \<noteq> [] \<and> list_all peer_ok (wg_peers c))"

definition app_ok :: "app_config \<Rightarrow> bool" where
  "app_ok c = (ac_connections c \<noteq> [] \<and>
     (\<forall>(n, w) \<in> set (ac_connections c). name_ok n \<and> wg_ok w))"

lemma find_bad_char_None: "find_bad_char s = None \<longleftrightarrow> list_all name_char s"
  by (auto simp: find_bad_char_def list_all_iff split: list.splits)
    (metis dropWhile_eq_Nil_conv list.distinct(1))

lemma validate_name_iff: "validate_name f s = Inr () \<longleftrightarrow> name_ok s"
  using find_bad_char_None [of s]
  by (auto simp: validate_name_def name_ok_def max_name_len_def split: option.splits)

lemma validate_peer_iff: "validate_peer i p = Inr () \<longleftrightarrow> peer_ok p"
  by (auto simp: validate_peer_def peer_ok_def res_simps validate_name_iff)

lemma validate_peers_iff: "validate_peers i ps = Inr () \<longleftrightarrow> list_all peer_ok ps"
  by (induction ps arbitrary: i) (auto simp: res_simps validate_peer_iff)

lemma wg_validate_iff: "wg_validate c = Inr () \<longleftrightarrow> wg_ok c"
  by (auto simp: wg_validate_def wg_ok_def validate_peers_iff)

lemma validate_connections_iff:
  "validate_connections cs = Inr () \<longleftrightarrow> (\<forall>(n, w) \<in> set cs. name_ok n \<and> wg_ok w)"
  by (induction cs rule: validate_connections.induct)
    (auto simp: res_simps validate_name_iff wg_validate_iff)

lemma app_validate_iff: "app_validate c = Inr () \<longleftrightarrow> app_ok c"
  by (auto simp: app_validate_def app_ok_def validate_connections_iff)

lemmas validate_iffs = validate_name_iff wg_validate_iff app_validate_iff

lemma load_app_config_ok:
  "load_app_config io f = Inr c \<Longrightarrow> app_ok c"
  by (auto simp: load_app_config_def load_app_config_str_def res_simps app_validate_iff)

lemma app_insert_get:
  "btree_wf (ac_connections c) \<Longrightarrow> app_get (app_insert n w c) = (app_get c)(n \<mapsto> w)"
  unfolding app_get_def [abs_def] app_insert_def by (simp add: btree.get_ins)

lemma app_insert_wf:
  "btree_wf (ac_connections c) \<Longrightarrow> btree_wf (ac_connections (app_insert n w c))"
  by (simp add: app_insert_def btree.wf_ins)

lemma app_insert_names:
  "set (app_connection_names (app_insert n w c)) = insert n (set (app_connection_names c))"
  by (simp add: app_connection_names_def app_insert_def)

end
