(* ===== verification/Host.thy ===== *)
theory Host
  imports Config
begin

text \<open>
  The machine the daemon runs on. Commands, files, sockets and TUN devices belong to the
  operating system: they are the operations of \<open>sysops\<close>, on a world of any type \<open>'w\<close>, and the
  code is written over them. An operation gives a result and the world after it; an I/O error
  is its message. Command output is the text after \<open>from_utf8_lossy\<close>.

  The locale \<open>host\<close> states what the code relies on about the one file it edits; \<open>sim\<close> is a small
  machine on which it is interpreted.
\<close>

section \<open>Effects\<close>

type_synonym ('w, 'e, 'a) io = "'w \<Rightarrow> ('e, 'a) result \<times> 'w"

definition io_return :: "'a \<Rightarrow> ('w, 'e, 'a) io" where
  "io_return x w = (Inr x, w)"

definition io_fail :: "'e \<Rightarrow> ('w, 'e, 'a) io" where
  "io_fail e w = (Inl e, w)"

definition io_bind :: "('w, 'e, 'a) io \<Rightarrow> ('a \<Rightarrow> ('w, 'e, 'b) io) \<Rightarrow> ('w, 'e, 'b) io" where
  "io_bind m f w = (case m w of (Inl e, w1) \<Rightarrow> (Inl e, w1) | (Inr x, w1) \<Rightarrow> f x w1)"

definition io_map_err :: "('e \<Rightarrow> 'f) \<Rightarrow> ('w, 'e, 'a) io \<Rightarrow> ('w, 'f, 'a) io" where
  "io_map_err g m w = (case m w of (r, w1) \<Rightarrow> (map_err g r, w1))"

text \<open>A \<open>for\<close> loop whose body can fail with \<open>?\<close>.\<close>

fun io_for :: "('a \<Rightarrow> ('w, 'e, unit) io) \<Rightarrow> 'a list \<Rightarrow> ('w, 'e, unit) io" where
  "io_for f [] = io_return ()"
| "io_for f (x # xs) = io_bind (f x) (\<lambda>_. io_for f xs)"

text \<open>Run and drop the result.\<close>

definition io_ignore :: "('w, 'e, 'a) io \<Rightarrow> ('w, 'f, unit) io" where
  "io_ignore m w = (Inr (), snd (m w))"

lemma io_return_apply [simp]: "io_return x w = (Inr x, w)"
  by (simp add: io_return_def)

lemma io_fail_apply [simp]: "io_fail e w = (Inl e, w)"
  by (simp add: io_fail_def)

lemma io_bind_eq:
  "io_bind m f w = (r, w2) \<longleftrightarrow>
   (\<exists>e. m w = (Inl e, w2) \<and> r = Inl e) \<or> (\<exists>x w1. m w = (Inr x, w1) \<and> f x w1 = (r, w2))"
  by (auto simp: io_bind_def split: prod.splits sum.splits)

lemma io_bind_Inr: "m w = (Inr x, w1) \<Longrightarrow> io_bind m f w = f x w1"
  by (simp add: io_bind_def)

lemma io_map_err_eq:
  "io_map_err g m w = (r, w2) \<longleftrightarrow> (\<exists>r0. m w = (r0, w2) \<and> r = map_err g r0)"
  by (auto simp: io_map_err_def split: prod.splits)

lemma io_map_err_Inr [simp]: "io_map_err g m w = (Inr x, w2) \<longleftrightarrow> m w = (Inr x, w2)"
  by (auto simp: io_map_err_def split: prod.splits)

section \<open>Operations\<close>

record cmd_output =
  co_success :: bool
  co_stdout :: string
  co_stderr :: string

record sock_addr =
  sa_ip :: ip_addr
  sa_port :: u16

record 'w sysops =
  so_run :: "string \<Rightarrow> string list \<Rightarrow> ('w, string, cmd_output) io"
  so_read_file :: "string \<Rightarrow> ('w, string, string) io"
  so_write_file :: "string \<Rightarrow> string \<Rightarrow> ('w, string, unit) io"
  so_rename :: "string \<Rightarrow> string \<Rightarrow> ('w, string, unit) io"
  so_is_symlink :: "string \<Rightarrow> 'w \<Rightarrow> bool"
  so_lookup_host :: "string \<Rightarrow> ('w, string, sock_addr list) io"
  so_create_tun :: "('w, string, nat) io"
  so_tun_name :: "nat \<Rightarrow> 'w \<Rightarrow> (string, string) result"
  so_close_tun :: "nat \<Rightarrow> 'w \<Rightarrow> 'w"
  so_bind_udp :: "string \<Rightarrow> ('w, string, nat) io"
  so_close_udp :: "nat \<Rightarrow> 'w \<Rightarrow> 'w"

section \<open>Text\<close>

text \<open>\<open>split(pat)\<close>'s cut at the first occurrence of \<open>pat\<close>.\<close>

fun str_cut :: "string \<Rightarrow> string \<Rightarrow> (string \<times> string) option" where
  "str_cut pat [] = (if pat = [] then Some ([], []) else None)"
| "str_cut pat (c # s) =
     (if prefix pat (c # s) then Some ([], drop (length pat) (c # s))
      else map_option (\<lambda>(a, b). (c # a, b)) (str_cut pat s))"

text \<open>\<open>split(pat).nth(1)\<close>.\<close>

definition split_second :: "string \<Rightarrow> string \<Rightarrow> string option" where
  "split_second pat s =
     (case str_cut pat s of
        None \<Rightarrow> None
      | Some (_, r) \<Rightarrow> Some (case str_cut pat r of None \<Rightarrow> r | Some (m, _) \<Rightarrow> m))"

definition strip_prefix :: "string \<Rightarrow> string \<Rightarrow> string option" where
  "strip_prefix pat s = (if prefix pat s then Some (drop (length pat) s) else None)"

definition trim_end_matches :: "char \<Rightarrow> string \<Rightarrow> string" where
  "trim_end_matches c s = rev (dropWhile (\<lambda>x. x = c) (rev s))"

section \<open>What the code relies on\<close>

abbreviation resolv_conf :: string where
  "resolv_conf \<equiv> ''/etc/resolv.conf''"

definition resolv_tmp :: string where
  "resolv_tmp = ''/etc/resolv.conf.ferro-wg.tmp''"

definition file_of :: "'w sysops \<Rightarrow> string \<Rightarrow> 'w \<Rightarrow> (string, string) result" where
  "file_of ops p w = fst (so_read_file ops p w)"

text \<open>Reading does not change the world; a successful write or rename does what it says to the
  target; commands, sockets and devices leave \<open>/etc/resolv.conf\<close> alone.\<close>

locale host =
  fixes ops :: "'w sysops"
  assumes read_pure: "snd (so_read_file ops p w) = w"
    and write_read: "so_write_file ops p s w = (Inr (), w') \<Longrightarrow> file_of ops p w' = Inr s"
    and rename_read: "so_rename ops p q w = (Inr (), w') \<Longrightarrow> file_of ops p w = Inr s \<Longrightarrow>
      file_of ops q w' = Inr s"
    and run_keeps: "file_of ops resolv_conf (snd (so_run ops c args w)) = file_of ops resolv_conf w"
    and lookup_keeps: "file_of ops resolv_conf (snd (so_lookup_host ops h w)) = file_of ops resolv_conf w"
    and tun_keeps: "file_of ops resolv_conf (snd (so_create_tun ops w)) = file_of ops resolv_conf w"
    and close_tun_keeps: "file_of ops resolv_conf (so_close_tun ops t w) = file_of ops resolv_conf w"
    and udp_keeps: "file_of ops resolv_conf (snd (so_bind_udp ops a w)) = file_of ops resolv_conf w"
    and close_udp_keeps: "file_of ops resolv_conf (so_close_udp ops u w) = file_of ops resolv_conf w"

section \<open>A simulated machine\<close>

text \<open>Files, the programs that succeed (with their output), the routes' networks, and counters for
  devices and sockets.\<close>

record sim =
  sim_files :: "(string, string) amap"
  sim_programs :: "(string, string) amap"
  sim_log :: "string list list"
  sim_tuns :: "nat list"
  sim_udps :: "nat list"
  sim_next :: nat

definition sim_ops :: "sim sysops" where
  "sim_ops = \<lparr>
     so_run = (\<lambda>c args w.
       (case amap_get (sim_programs w) c of
          None \<Rightarrow> (Inl ''No such file or directory'', w)
        | Some out \<Rightarrow>
            (Inr \<lparr>co_success = True, co_stdout = out, co_stderr = []\<rparr>,
             w\<lparr>sim_log := sim_log w @ [c # args]\<rparr>))),
     so_read_file = (\<lambda>p w.
       (case amap_get (sim_files w) p of None \<Rightarrow> Inl ''No such file or directory'' | Some s \<Rightarrow> Inr s, w)),
     so_write_file = (\<lambda>p s w. (Inr (), w\<lparr>sim_files := hmap_insert p s (sim_files w)\<rparr>)),
     so_rename = (\<lambda>p q w.
       (case amap_get (sim_files w) p of
          None \<Rightarrow> (Inl ''No such file or directory'', w)
        | Some s \<Rightarrow> (Inr (), w\<lparr>sim_files := hmap_insert q s (amap_remove p (sim_files w))\<rparr>))),
     so_is_symlink = (\<lambda>p w. False),
     so_lookup_host = (\<lambda>h w. (Inr [\<lparr>sa_ip = V4 192 0 2 1, sa_port = 51820\<rparr>], w)),
     so_create_tun = (\<lambda>w. (Inr (sim_next w),
       w\<lparr>sim_tuns := sim_next w # sim_tuns w, sim_next := Suc (sim_next w)\<rparr>)),
     so_tun_name = (\<lambda>t w. Inr (''utun'' @ show_nat t)),
     so_close_tun = (\<lambda>t w. w\<lparr>sim_tuns := removeAll t (sim_tuns w)\<rparr>),
     so_bind_udp = (\<lambda>a w. (Inr (sim_next w),
       w\<lparr>sim_udps := sim_next w # sim_udps w, sim_next := Suc (sim_next w)\<rparr>)),
     so_close_udp = (\<lambda>u w. w\<lparr>sim_udps := removeAll u (sim_udps w)\<rparr>)\<rparr>"

lemma sim_simps [simp]:
  "so_read_file sim_ops p w =
     (case amap_get (sim_files w) p of None \<Rightarrow> Inl ''No such file or directory'' | Some s \<Rightarrow> Inr s, w)"
  "so_write_file sim_ops p s w = (Inr (), w\<lparr>sim_files := hmap_insert p s (sim_files w)\<rparr>)"
  "so_is_symlink sim_ops p w = False"
  "so_lookup_host sim_ops h w = (Inr [\<lparr>sa_ip = V4 192 0 2 1, sa_port = 51820\<rparr>], w)"
  "so_create_tun sim_ops w = (Inr (sim_next w),
       w\<lparr>sim_tuns := sim_next w # sim_tuns w, sim_next := Suc (sim_next w)\<rparr>)"
  "so_tun_name sim_ops t w = Inr (''utun'' @ show_nat t)"
  "so_close_tun sim_ops t w = w\<lparr>sim_tuns := removeAll t (sim_tuns w)\<rparr>"
  "so_bind_udp sim_ops a w = (Inr (sim_next w),
       w\<lparr>sim_udps := sim_next w # sim_udps w, sim_next := Suc (sim_next w)\<rparr>)"
  "so_close_udp sim_ops u w = w\<lparr>sim_udps := removeAll u (sim_udps w)\<rparr>"
  by (simp_all add: sim_ops_def)

lemma sim_run [simp]:
  "so_run sim_ops c args w =
     (case amap_get (sim_programs w) c of
        None \<Rightarrow> (Inl ''No such file or directory'', w)
      | Some out \<Rightarrow> (Inr \<lparr>co_success = True, co_stdout = out, co_stderr = []\<rparr>,
           w\<lparr>sim_log := sim_log w @ [c # args]\<rparr>))"
  by (simp add: sim_ops_def)

lemma sim_rename [simp]:
  "so_rename sim_ops p q w =
     (case amap_get (sim_files w) p of
        None \<Rightarrow> (Inl ''No such file or directory'', w)
      | Some s \<Rightarrow> (Inr (), w\<lparr>sim_files := hmap_insert q s (amap_remove p (sim_files w))\<rparr>))"
  by (simp add: sim_ops_def)

lemma sim_file [simp]:
  "file_of sim_ops p w =
     (case amap_get (sim_files w) p of None \<Rightarrow> Inl ''No such file or directory'' | Some s \<Rightarrow> Inr s)"
  by (simp add: file_of_def)

interpretation sim_host: host sim_ops
  by unfold_locales (auto simp: amap_simps split: option.splits if_splits)

end
