(* ===== verification/Dns.thy ===== *)
theory Dns
  imports Host
begin

text \<open>
  DNS of an active tunnel (\<open>ferro-wg-core/src/tunnel/dns.rs\<close>): what is changed when a tunnel
  comes up, what is remembered of the state before, and how it is put back. The platform, a
  compile-time choice in the source, is an argument.
\<close>

section \<open>Errors and states\<close>

datatype dns_error =
    DnsIo string
  | NetworkSetup string
  | ResolvectlErr string
  | ServiceDetection string

fun show_dns_error :: "dns_error \<Rightarrow> string" where
  "show_dns_error (DnsIo e) = ''io error: '' @ e"
| "show_dns_error (NetworkSetup m) = ''networksetup failed: '' @ m"
| "show_dns_error (ResolvectlErr m) = ''resolvectl failed: '' @ m"
| "show_dns_error (ServiceDetection m) = ''cannot determine primary network service: '' @ m"

definition wg_error_of_dns :: "dns_error \<Rightarrow> wg_error" where
  "wg_error_of_dns e = TunnelErr (show_dns_error e)"

datatype platform = MacOs | Linux | OtherOs

record original_dns =
  od_dns :: "ip_addr list option"
  od_search :: "string list option"

datatype dns_state =
    MacDns string original_dns
  | Resolved string
  | ResolvConf string
  | OtherDns

text \<open>A command's failure to start is an I/O error, as \<open>?\<close> makes it.\<close>

definition run_dns :: "'w sysops \<Rightarrow> string \<Rightarrow> string list \<Rightarrow> ('w, dns_error, cmd_output) io" where
  "run_dns ops c args = io_map_err DnsIo (so_run ops c args)"

definition expect_success ::
  "(cmd_output \<Rightarrow> dns_error) \<Rightarrow> ('w, dns_error, cmd_output) io \<Rightarrow> ('w, dns_error, cmd_output) io" where
  "expect_success err m = io_bind m (\<lambda>o'. if co_success o' then io_return o' else io_fail (err o'))"

section \<open>macOS\<close>

definition networksetup :: string where
  "networksetup = ''/usr/sbin/networksetup''"

definition route_cmd :: string where
  "route_cmd = ''/sbin/route''"

text \<open>The first line \<open>interface: ...\<close> of \<open>route -n get default\<close>.\<close>

fun route_interface :: "string list \<Rightarrow> string option" where
  "route_interface [] = None"
| "route_interface (l # ls) =
     (case strip_prefix ''interface:'' (str_trim l) of
        None \<Rightarrow> route_interface ls
      | Some r \<Rightarrow> Some (str_trim r))"

definition device_of_line :: "string \<Rightarrow> string option" where
  "device_of_line l =
     (if str_contains l ''Device:'' then
        map_option (\<lambda>d. str_trim (trim_end_matches CHR '')'' (str_trim d))) (split_second ''Device:'' l)
      else None)"

text \<open>The service order listing: the last service named before the interface's device line. A
  device line also starts with a parenthesis and so renames the last service first.\<close>

fun service_for :: "string \<Rightarrow> string option \<Rightarrow> string list \<Rightarrow> string option" where
  "service_for iface prev [] = None"
| "service_for iface prev (l0 # ls) =
     (let l = str_trim l0;
          prev1 = (if starts_with l CHR ''('' then
                     (case str_split_once CHR '')'' l of
                        None \<Rightarrow> prev
                      | Some (_, r) \<Rightarrow> Some (str_trim r))
                   else prev)
      in if device_of_line l = Some iface then prev1 else service_for iface prev1 ls)"

definition detect_primary_service :: "'w sysops \<Rightarrow> ('w, dns_error, string) io" where
  "detect_primary_service ops =
     io_bind (expect_success (\<lambda>o'. ServiceDetection (''route -n get default failed: '' @
         str_trim (co_stderr o'))) (run_dns ops route_cmd [''-n'', ''get'', ''default''])) (\<lambda>route_out.
       case route_interface (str_lines (co_stdout route_out)) of
         None \<Rightarrow> io_fail (ServiceDetection ''could not parse default route interface'')
       | Some iface \<Rightarrow>
           io_bind (expect_success (\<lambda>o'. ServiceDetection
               (''networksetup -listnetworkserviceorder failed: '' @ str_trim (co_stderr o')))
               (run_dns ops networksetup [''-listnetworkserviceorder''])) (\<lambda>ns_out.
             case service_for iface None (str_lines (co_stdout ns_out)) of
               None \<Rightarrow> io_fail (ServiceDetection
                 (''interface '' @ iface @ '' not found in networksetup service list''))
             | Some s \<Rightarrow> io_return s))"

definition parse_networksetup_dns :: "string \<Rightarrow> ip_addr list" where
  "parse_networksetup_dns out = List.map_filter (\<lambda>l. parse_ip (str_trim l)) (str_lines out)"

definition parse_networksetup_search :: "string \<Rightarrow> string list" where
  "parse_networksetup_search out =
     filter (\<lambda>l. l \<noteq> [] \<and>
         \<not> prefix (''there aren'' @ [CHR 0x27] @ ''t any search domains'') (to_ascii_lowercase l))
       (map str_trim (str_lines out))"

definition mac_set_dns ::
  "'w sysops \<Rightarrow> string \<Rightarrow> ip_addr list \<Rightarrow> ('w, dns_error, ip_addr list option) io" where
  "mac_set_dns ops service servers =
     (if servers = [] then io_return None
      else
        io_bind (expect_success (\<lambda>o'. NetworkSetup (''-getdnsservers failed: '' @ str_trim (co_stderr o')))
          (run_dns ops networksetup [''-getdnsservers'', service])) (\<lambda>o1.
        io_bind (expect_success (\<lambda>o'. NetworkSetup (co_stderr o'))
          (run_dns ops networksetup ([''-setdnsservers'', service] @ map show_ip servers))) (\<lambda>_.
        io_return (Some (parse_networksetup_dns (co_stdout o1))))))"

definition mac_set_search ::
  "'w sysops \<Rightarrow> string \<Rightarrow> string list \<Rightarrow> ('w, dns_error, string list option) io" where
  "mac_set_search ops service search =
     (if search = [] then io_return None
      else
        io_bind (expect_success (\<lambda>o'. NetworkSetup (''-getsearchdomains failed: '' @ str_trim (co_stderr o')))
          (run_dns ops networksetup [''-getsearchdomains'', service])) (\<lambda>o1.
        io_bind (expect_success (\<lambda>o'. NetworkSetup (co_stderr o'))
          (run_dns ops networksetup ([''-setsearchdomains'', service] @ search))) (\<lambda>_.
        io_return (Some (parse_networksetup_search (co_stdout o1))))))"

definition mac_apply ::
  "'w sysops \<Rightarrow> ip_addr list \<Rightarrow> string list \<Rightarrow> ('w, dns_error, dns_state) io" where
  "mac_apply ops servers search =
     io_bind (detect_primary_service ops) (\<lambda>service.
     io_bind (mac_set_dns ops service servers) (\<lambda>prior_dns.
     io_bind (mac_set_search ops service search) (\<lambda>prior_search.
       io_return (MacDns service \<lparr>od_dns = prior_dns, od_search = prior_search\<rparr>))))"

definition or_empty :: "string list \<Rightarrow> string list" where
  "or_empty xs = (if xs = [] then [''empty''] else xs)"

definition mac_revert :: "'w sysops \<Rightarrow> string \<Rightarrow> original_dns \<Rightarrow> ('w, dns_error, unit) io" where
  "mac_revert ops service original =
     io_bind
       (case od_dns original of
          None \<Rightarrow> io_return ()
        | Some prior \<Rightarrow>
            io_bind (expect_success (\<lambda>o'. NetworkSetup (co_stderr o'))
              (run_dns ops networksetup ([''-setdnsservers'', service] @ or_empty (map show_ip prior))))
              (\<lambda>_. io_return ()))
       (\<lambda>_. case od_search original of
          None \<Rightarrow> io_return ()
        | Some prior \<Rightarrow>
            io_bind (expect_success (\<lambda>o'. NetworkSetup (co_stderr o'))
              (run_dns ops networksetup ([''-setsearchdomains'', service] @ or_empty prior)))
              (\<lambda>_. io_return ()))"

section \<open>Linux\<close>

definition resolvectl :: string where
  "resolvectl = ''/usr/bin/resolvectl''"

definition resolvectl_available :: "'w sysops \<Rightarrow> ('w, dns_error, bool) io" where
  "resolvectl_available ops w =
     (case so_run ops resolvectl [''--version''] w of
        (Inl _, w1) \<Rightarrow> (Inr False, w1)
      | (Inr o', w1) \<Rightarrow> (Inr (co_success o'), w1))"

definition apply_resolvectl ::
  "'w sysops \<Rightarrow> string \<Rightarrow> ip_addr list \<Rightarrow> string list \<Rightarrow> ('w, dns_error, unit) io" where
  "apply_resolvectl ops iface servers search =
     io_bind
       (if servers \<noteq> [] then
          io_bind (expect_success (\<lambda>o'. ResolvectlErr (co_stderr o'))
            (run_dns ops resolvectl ([''dns'', iface] @ map show_ip servers))) (\<lambda>_. io_return ())
        else io_return ())
       (\<lambda>_. if servers \<noteq> [] \<or> search \<noteq> [] then
          io_bind (expect_success (\<lambda>o'. ResolvectlErr (co_stderr o'))
            (run_dns ops resolvectl
              ([''domain'', iface] @ (if servers \<noteq> [] then [''~.''] else []) @ search)))
            (\<lambda>_. io_return ())
        else io_return ())"

definition write_resolv_conf :: "'w sysops \<Rightarrow> string \<Rightarrow> ('w, dns_error, unit) io" where
  "write_resolv_conf ops contents w =
     (if so_is_symlink ops resolv_conf w then
        io_map_err DnsIo (so_write_file ops resolv_conf contents) w
      else
        io_bind (io_map_err DnsIo (so_write_file ops resolv_tmp contents))
          (\<lambda>_. io_map_err DnsIo (so_rename ops resolv_tmp resolv_conf)) w)"

definition resolv_lines :: "ip_addr list \<Rightarrow> string list \<Rightarrow> string" where
  "resolv_lines servers search =
     concat (map (\<lambda>ip. line (''nameserver '' @ show_ip ip)) servers) @
     (if search \<noteq> [] then line (''search '' @ str_join '' '' search) else [])"

definition apply_resolv_conf ::
  "'w sysops \<Rightarrow> ip_addr list \<Rightarrow> string list \<Rightarrow> ('w, dns_error, string) io" where
  "apply_resolv_conf ops servers search =
     io_bind (io_map_err DnsIo (so_read_file ops resolv_conf)) (\<lambda>backup.
     io_bind (write_resolv_conf ops (resolv_lines servers search @ backup)) (\<lambda>_.
       io_return backup))"

text \<open>A failing \<open>resolvectl\<close> falls back to the file.\<close>

definition linux_apply ::
  "'w sysops \<Rightarrow> string \<Rightarrow> ip_addr list \<Rightarrow> string list \<Rightarrow> ('w, dns_error, dns_state) io" where
  "linux_apply ops iface servers search =
     (let fallback = io_bind (apply_resolv_conf ops servers search) (\<lambda>b. io_return (ResolvConf b)) in
      io_bind (resolvectl_available ops) (\<lambda>available.
        if available then
          (\<lambda>w. case apply_resolvectl ops iface servers search w of
                 (Inr _, w1) \<Rightarrow> (Inr (Resolved iface), w1)
               | (Inl _, w1) \<Rightarrow> fallback w1)
        else fallback))"

definition linux_revert :: "'w sysops \<Rightarrow> dns_state \<Rightarrow> ('w, dns_error, unit) io" where
  "linux_revert ops st =
     (case st of
        Resolved iface \<Rightarrow>
          io_bind (expect_success (\<lambda>o'. ResolvectlErr (co_stderr o'))
            (run_dns ops resolvectl [''revert'', iface])) (\<lambda>_. io_return ())
      | ResolvConf backup \<Rightarrow> write_resolv_conf ops backup
      | _ \<Rightarrow> io_return ())"

section \<open>The interface of the module\<close>

definition apply_dns ::
  "'w sysops \<Rightarrow> platform \<Rightarrow> string \<Rightarrow> ip_addr list \<Rightarrow> string list \<Rightarrow>
   ('w, dns_error, dns_state option) io" where
  "apply_dns ops os iface servers search =
     (if servers = [] \<and> search = [] then io_return None
      else (case os of
        MacOs \<Rightarrow> io_bind (mac_apply ops servers search) (\<lambda>st. io_return (Some st))
      | Linux \<Rightarrow> io_bind (linux_apply ops iface servers search) (\<lambda>st. io_return (Some st))
      | OtherOs \<Rightarrow> io_return None))"

definition remove_dns :: "'w sysops \<Rightarrow> dns_state \<Rightarrow> ('w, dns_error, unit) io" where
  "remove_dns ops st =
     (case st of
        MacDns service original \<Rightarrow> mac_revert ops service original
      | OtherDns \<Rightarrow> io_return ()
      | _ \<Rightarrow> linux_revert ops st)"

section \<open>The fallback file\<close>

context host
begin

lemma write_resolv_read:
  assumes "write_resolv_conf ops s w = (Inr (), w')"
  shows "file_of ops resolv_conf w' = Inr s"
proof (cases "so_is_symlink ops resolv_conf w")
  case True
  then show ?thesis
    using assms write_read by (auto simp: write_resolv_conf_def)
next
  case False
  then obtain w1 where "so_write_file ops resolv_tmp s w = (Inr (), w1)"
    "so_rename ops resolv_tmp resolv_conf w1 = (Inr (), w')"
    using assms by (auto simp: write_resolv_conf_def io_bind_eq)
  then show ?thesis using write_read rename_read by blast
qed

lemma apply_resolv_conf_spec:
  assumes "apply_resolv_conf ops servers search w = (Inr b, w')"
  shows "file_of ops resolv_conf w = Inr b \<and>
    file_of ops resolv_conf w' = Inr (resolv_lines servers search @ b)"
proof -
  obtain w1 where r: "so_read_file ops resolv_conf w = (Inr b, w1)"
    and wr: "write_resolv_conf ops (resolv_lines servers search @ b) w1 = (Inr (), w')"
    using assms by (auto simp: apply_resolv_conf_def io_bind_eq)
  have "w1 = w" using read_pure [of resolv_conf w] r by simp
  then show ?thesis using r wr write_resolv_read by (simp add: file_of_def)
qed

lemma revert_file:
  "remove_dns ops (ResolvConf b) w = (Inr (), w') \<Longrightarrow> file_of ops resolv_conf w' = Inr b"
  by (simp add: remove_dns_def linux_revert_def write_resolv_read)

end

end
