(* ===== verification/Tunnel.thy ===== *)
theory Tunnel
  imports Dns
begin

text \<open>
  The tunnel manager (\<open>ferro-wg-core/src/tunnel/mod.rs\<close>, \<open>route.rs\<close>, \<open>udp.rs\<close>,
  \<open>tun_device.rs\<close>, \<open>backend/mod.rs\<close>): it brings connections up and down on the machine and
  reports their status.

  A backend is a state of type \<open>'b\<close>; which backends are compiled in, and their constructors,
  are arguments. A spawned packet loop is an entry of \<open>tm_loops\<close> with the devices it owns; it
  ends, and drops them, some time after it is told to. Dropping a value closes its device.
\<close>

section \<open>Addresses and routes\<close>

definition set_interface_addr ::
  "'w sysops \<Rightarrow> string \<Rightarrow> string \<Rightarrow> ('w, wg_error, unit) io" where
  "set_interface_addr ops iface addr_cidr =
     (let addr = hd (str_split CHR ''/'' addr_cidr) in
      io_bind (io_map_err (\<lambda>e. TunnelErr (''ifconfig exec failed: '' @ e))
          (so_run ops ''ifconfig'' [iface, ''inet'', addr, addr, ''up''])) (\<lambda>o'.
        if co_success o' then io_return ()
        else io_fail (TunnelErr (''ifconfig '' @ iface @ '' inet '' @ addr @ '' failed: '' @ co_stderr o'))))"

definition add_route :: "'w sysops \<Rightarrow> string \<Rightarrow> string \<Rightarrow> ('w, wg_error, unit) io" where
  "add_route ops iface cidr =
     io_bind (io_map_err (\<lambda>e. TunnelErr (''route exec failed: '' @ e))
         (so_run ops ''route'' [''-n'', ''add'', ''-net'', cidr, ''-interface'', iface])) (\<lambda>o'.
       if co_success o' then io_return ()
       else if str_contains (co_stderr o') ''File exists'' then io_return ()
       else io_fail (TunnelErr (''route add '' @ cidr @ '' via '' @ iface @ '' failed: '' @ co_stderr o')))"

definition remove_route :: "'w sysops \<Rightarrow> string \<Rightarrow> ('w, wg_error, unit) io" where
  "remove_route ops cidr =
     io_bind (io_map_err (\<lambda>e. TunnelErr (''route exec failed: '' @ e))
         (so_run ops ''route'' [''-n'', ''delete'', ''-net'', cidr])) (\<lambda>o'.
       if co_success o' then io_return ()
       else if str_contains (co_stderr o') ''not in table'' then io_return ()
       else io_fail (TunnelErr (''route delete '' @ cidr @ '' failed: '' @ co_stderr o')))"

section \<open>Sockets and devices\<close>

definition resolve_endpoint :: "'w sysops \<Rightarrow> string \<Rightarrow> ('w, wg_error, sock_addr) io" where
  "resolve_endpoint ops endpoint =
     io_bind (io_map_err (\<lambda>e. TunnelErr (''failed to resolve endpoint '' @ endpoint @ '': '' @ e))
         (so_lookup_host ops endpoint)) (\<lambda>addrs.
       case addrs of
         [] \<Rightarrow> io_fail (TunnelErr (''no addresses found for '' @ endpoint))
       | a # _ \<Rightarrow> io_return a)"

definition create_udp_socket :: "'w sysops \<Rightarrow> u16 \<Rightarrow> ('w, wg_error, nat) io" where
  "create_udp_socket ops port =
     io_map_err (\<lambda>e. TunnelErr (''failed to bind UDP socket on port '' @ show_nat (unat port) @ '': '' @ e))
       (so_bind_udp ops (''0.0.0.0:'' @ show_nat (unat port)))"

definition create_tun :: "'w sysops \<Rightarrow> ('w, wg_error, nat) io" where
  "create_tun ops = io_map_err (\<lambda>e. TunnelErr (''failed to create TUN device: '' @ e)) (so_create_tun ops)"

definition get_tun_name :: "'w sysops \<Rightarrow> nat \<Rightarrow> ('w, wg_error, string) io" where
  "get_tun_name ops tun w =
     (map_err (\<lambda>e. TunnelErr (''failed to get TUN name: '' @ e)) (so_tun_name ops tun w), w)"

section \<open>Backends\<close>

record tunnel_config =
  tc_private_key :: private_key
  tc_peer_public_key :: public_key
  tc_preshared_key :: "preshared_key option"
  tc_persistent_keepalive :: "u16 option"
  tc_index :: u32

definition create_backend ::
  "backend_kind list \<Rightarrow> (backend_kind \<Rightarrow> tunnel_config \<Rightarrow> (wg_error, 'b) result) \<Rightarrow> backend_kind \<Rightarrow>
   tunnel_config \<Rightarrow> (wg_error, 'b) result" where
  "create_backend features ctor kind config =
     (if kind \<in> set features then ctor kind config
      else Inl (BackendUnavailable (show_backend kind)))"

section \<open>The manager\<close>

record active_conn =
  cn_backend_kind :: backend_kind
  cn_tun_name :: string
  cn_endpoint :: "string option"
  cn_dns_state :: "dns_state option"
  cn_stats :: tunnel_stats

record 'b loop_task =
  pl_name :: string
  pl_tun :: nat
  pl_udp :: nat
  pl_endpoint :: sock_addr
  pl_backend :: 'b
  pl_shutdown :: bool

record 'b manager =
  tm_config :: app_config
  tm_connections :: "(string, active_conn) amap"
  tm_loops :: "'b loop_task list"

record ('w, 'b) daemon_env =
  de_ops :: "'w sysops"
  de_os :: platform
  de_features :: "backend_kind list"
  de_make :: "backend_kind \<Rightarrow> tunnel_config \<Rightarrow> (wg_error, 'b) result"

definition manager_new :: "app_config \<Rightarrow> 'b manager" where
  "manager_new c = \<lparr>tm_config = c, tm_connections = [], tm_loops = []\<rparr>"

definition reload_config :: "app_config \<Rightarrow> 'b manager \<Rightarrow> 'b manager" where
  "reload_config c m = m\<lparr>tm_config := c\<rparr>"

definition is_up :: "'b manager \<Rightarrow> string \<Rightarrow> bool" where
  "is_up m name = (amap_get (tm_connections m) name \<noteq> None)"

text \<open>The checks before anything is touched: what \<open>up\<close> needs of the configuration.\<close>

definition up_target ::
  "'b manager \<Rightarrow> string \<Rightarrow> (wg_error, wg_config \<times> peer_config \<times> string) result" where
  "up_target m name =
     (let err = (\<lambda>s. TunnelErr (''connection '' @ name @ s)) in
      if is_up m name then Inl (err '' is already up'')
      else res_bind (ok_or (err '' not found in config'') (app_get (tm_config m) name)) (\<lambda>wg.
           res_bind (ok_or (err '' has no peers'') (vec_get (wg_peers wg) 0)) (\<lambda>peer.
           res_bind (ok_or (err '' has no endpoint'') (pc_endpoint peer)) (\<lambda>endpoint.
             Inr (wg, peer, endpoint)))))"

definition make_tunnel_config :: "wg_config \<Rightarrow> peer_config \<Rightarrow> tunnel_config" where
  "make_tunnel_config wg peer =
     \<lparr>tc_private_key = if_private_key (wg_interface wg), tc_peer_public_key = pc_public_key peer,
      tc_preshared_key = pc_preshared_key peer,
      tc_persistent_keepalive = (if pc_keepalive peer = 0 then None else Some (pc_keepalive peer)),
      tc_index = 0\<rparr>"

definition on_error :: "('w \<Rightarrow> 'w) \<Rightarrow> ('w, 'e, 'a) io \<Rightarrow> ('w, 'e, 'a) io" where
  "on_error clean m w = (case m w of (Inl e, w1) \<Rightarrow> (Inl e, clean w1) | (Inr x, w1) \<Rightarrow> (Inr x, w1))"

text \<open>A DNS failure is logged and forgotten.\<close>

definition try_dns ::
  "('w, 'b) daemon_env \<Rightarrow> string \<Rightarrow> wg_config \<Rightarrow> ('w, wg_error, dns_state option) io" where
  "try_dns env tun_name wg w =
     (case apply_dns (de_ops env) (de_os env) tun_name (if_dns (wg_interface wg))
             (if_dns_search (wg_interface wg)) w of
        (Inl _, w1) \<Rightarrow> (Inr None, w1)
      | (Inr st, w1) \<Rightarrow> (Inr st, w1))"

definition configure_tun ::
  "('w, 'b) daemon_env \<Rightarrow> wg_config \<Rightarrow> peer_config \<Rightarrow> nat \<Rightarrow>
   ('w, wg_error, string \<times> dns_state option) io" where
  "configure_tun env wg peer tun =
     (let ops = de_ops env in
      io_bind (get_tun_name ops tun) (\<lambda>tun_name.
      io_bind (io_for (set_interface_addr ops tun_name) (if_addresses (wg_interface wg))) (\<lambda>_.
      io_bind (io_for (add_route ops tun_name) (pc_allowed_ips peer)) (\<lambda>_.
      io_bind (try_dns env tun_name wg) (\<lambda>dns.
        io_return (tun_name, dns))))))"

definition lift_result :: "('e, 'a) result \<Rightarrow> ('w, 'e, 'a) io" where
  "lift_result r w = (r, w)"

definition start_backend ::
  "('w, 'b) daemon_env \<Rightarrow> backend_kind \<Rightarrow> wg_config \<Rightarrow> peer_config \<Rightarrow> ('w, wg_error, nat \<times> 'b) io" where
  "start_backend env kind wg peer =
     io_bind (create_udp_socket (de_ops env) (if_listen_port (wg_interface wg))) (\<lambda>udp.
       on_error (so_close_udp (de_ops env) udp)
         (io_bind (lift_result (create_backend (de_features env) (de_make env) kind
             (make_tunnel_config wg peer))) (\<lambda>b. io_return (udp, b))))"

definition bring_up ::
  "('w, 'b) daemon_env \<Rightarrow> string \<Rightarrow> backend_kind \<Rightarrow> wg_config \<Rightarrow> peer_config \<Rightarrow> string \<Rightarrow>
   ('w, wg_error, active_conn \<times> 'b loop_task) io" where
  "bring_up env name kind wg peer endpoint =
     io_bind (resolve_endpoint (de_ops env) endpoint) (\<lambda>addr.
     io_bind (create_tun (de_ops env)) (\<lambda>tun.
     on_error (so_close_tun (de_ops env) tun)
       (io_bind (configure_tun env wg peer tun) (\<lambda>(tun_name, dns).
        io_bind (start_backend env kind wg peer) (\<lambda>(udp, b).
          io_return
            (\<lparr>cn_backend_kind = kind, cn_tun_name = tun_name, cn_endpoint = pc_endpoint peer,
              cn_dns_state = dns, cn_stats = default_stats\<rparr>,
             \<lparr>pl_name = name, pl_tun = tun, pl_udp = udp, pl_endpoint = addr, pl_backend = b,
              pl_shutdown = False\<rparr>))))))"

definition up ::
  "('w, 'b) daemon_env \<Rightarrow> string \<Rightarrow> backend_kind \<Rightarrow> 'b manager \<Rightarrow> 'w \<Rightarrow>
   (wg_error, unit) result \<times> 'b manager \<times> 'w" where
  "up env name kind m w =
     (case up_target m name of
        Inl e \<Rightarrow> (Inl e, m, w)
      | Inr (wg, peer, endpoint) \<Rightarrow>
          (case bring_up env name kind wg peer endpoint w of
             (Inl e, w1) \<Rightarrow> (Inl e, m, w1)
           | (Inr (conn, lp), w1) \<Rightarrow>
               (Inr (), m\<lparr>tm_connections := hmap_insert name conn (tm_connections m),
                         tm_loops := lp # tm_loops m\<rparr>, w1)))"

text \<open>The shutdown message reaches the loop spawned for the connection.\<close>

definition signal_loop :: "string \<Rightarrow> 'b loop_task list \<Rightarrow> 'b loop_task list" where
  "signal_loop name = map (\<lambda>l. if pl_name l = name then l\<lparr>pl_shutdown := True\<rparr> else l)"

fun remove_routes :: "'w sysops \<Rightarrow> string list \<Rightarrow> 'w \<Rightarrow> 'w" where
  "remove_routes ops [] w = w"
| "remove_routes ops (c # cs) w = remove_routes ops cs (snd (remove_route ops c w))"

definition config_routes :: "app_config \<Rightarrow> string \<Rightarrow> string list" where
  "config_routes c name =
     (case app_get c name of
        None \<Rightarrow> []
      | Some wg \<Rightarrow> concat (map pc_allowed_ips (wg_peers wg)))"

definition other_dns_active :: "(string, active_conn) amap \<Rightarrow> bool" where
  "other_dns_active cs = list_ex (\<lambda>(_, c). cn_dns_state c \<noteq> None) cs"

definition revert_dns :: "'w sysops \<Rightarrow> active_conn \<Rightarrow> (string, active_conn) amap \<Rightarrow> 'w \<Rightarrow> 'w" where
  "revert_dns ops conn others w =
     (case cn_dns_state conn of
        None \<Rightarrow> w
      | Some st \<Rightarrow> if other_dns_active others then w else snd (remove_dns ops st w))"

definition down ::
  "('w, 'b) daemon_env \<Rightarrow> string \<Rightarrow> 'b manager \<Rightarrow> 'w \<Rightarrow> (wg_error, unit) result \<times> 'b manager \<times> 'w" where
  "down env name m w =
     (case amap_get (tm_connections m) name of
        None \<Rightarrow> (Inl (TunnelErr (''connection '' @ name @ '' is not up'')), m, w)
      | Some conn \<Rightarrow>
          (let others = amap_remove name (tm_connections m);
               w1 = remove_routes (de_ops env) (config_routes (tm_config m) name) w;
               w2 = revert_dns (de_ops env) conn others w1
           in (Inr (), m\<lparr>tm_connections := others, tm_loops := signal_loop name (tm_loops m)\<rparr>, w2)))"

fun up_names ::
  "('w, 'b) daemon_env \<Rightarrow> backend_kind \<Rightarrow> string list \<Rightarrow> 'b manager \<Rightarrow> 'w \<Rightarrow>
   (wg_error, unit) result \<times> 'b manager \<times> 'w" where
  "up_names env kind [] m w = (Inr (), m, w)"
| "up_names env kind (n # ns) m w =
     (if is_up m n then up_names env kind ns m w
      else (case up env n kind m w of
        (Inl e, m1, w1) \<Rightarrow> (Inl e, m1, w1)
      | (Inr _, m1, w1) \<Rightarrow> up_names env kind ns m1 w1))"

definition up_all ::
  "('w, 'b) daemon_env \<Rightarrow> backend_kind \<Rightarrow> 'b manager \<Rightarrow> 'w \<Rightarrow> (wg_error, unit) result \<times> 'b manager \<times> 'w"
where
  "up_all env kind m w = up_names env kind (app_connection_names (tm_config m)) m w"

fun down_names :: "('w, 'b) daemon_env \<Rightarrow> string list \<Rightarrow> 'b manager \<Rightarrow> 'w \<Rightarrow> 'b manager \<times> 'w" where
  "down_names env [] m w = (m, w)"
| "down_names env (n # ns) m w = (case down env n m w of (_, m1, w1) \<Rightarrow> down_names env ns m1 w1)"

definition down_all :: "('w, 'b) daemon_env \<Rightarrow> 'b manager \<Rightarrow> 'w \<Rightarrow> 'b manager \<times> 'w" where
  "down_all env m w = down_names env (amap_keys (tm_connections m)) m w"

definition status_entry :: "(string, active_conn) amap \<Rightarrow> string \<times> wg_config \<Rightarrow> peer_status" where
  "status_entry conns x =
     (case x of (name, wg) \<Rightarrow>
       (let active = amap_get conns name;
            first_peer = vec_get (wg_peers wg) 0
        in \<lparr>ps_name = name, ps_connected = (active \<noteq> None),
            ps_backend = (case active of None \<Rightarrow> Boringtun | Some c \<Rightarrow> cn_backend_kind c),
            ps_stats = (case active of None \<Rightarrow> default_stats | Some c \<Rightarrow> cn_stats c),
            ps_endpoint =
              (case Option.bind active cn_endpoint of
                 None \<Rightarrow> Option.bind first_peer pc_endpoint
               | Some e \<Rightarrow> Some e),
            ps_interface = map_option cn_tun_name active\<rparr>))"

definition status :: "'b manager \<Rightarrow> peer_status list" where
  "status m = map (status_entry (tm_connections m)) (ac_connections (tm_config m))"

text \<open>What happens between commands: a loop publishes statistics, and a loop that was told to stop
  ends and drops its device and socket.\<close>

definition publish_stats :: "'b loop_task \<Rightarrow> tunnel_stats \<Rightarrow> 'b manager \<Rightarrow> 'b manager" where
  "publish_stats l st m =
     (if l \<in> set (tm_loops m) \<and> \<not> pl_shutdown l then
        m\<lparr>tm_connections :=
          map (\<lambda>(n, c). (n, if n = pl_name l then c\<lparr>cn_stats := st\<rparr> else c)) (tm_connections m)\<rparr>
      else m)"

definition loop_end :: "'w sysops \<Rightarrow> 'b loop_task \<Rightarrow> 'b manager \<Rightarrow> 'w \<Rightarrow> 'b manager \<times> 'w" where
  "loop_end ops l m w =
     (if l \<in> set (tm_loops m) \<and> pl_shutdown l then
        (m\<lparr>tm_loops := remove1 l (tm_loops m)\<rparr>, so_close_tun ops (pl_tun l) (so_close_udp ops (pl_udp l) w))
      else (m, w))"

end
