(* ===== verification/Backend.thy ===== *)
theory Backend
  imports Tunnel
begin

text \<open>
  The backends (\<open>ferro-wg-core/src/backend\<close>): the interface \<open>WgBackend\<close>, its three adapters and
  the constructor by kind. The crates \<open>boringtun\<close>, \<open>neptun\<close> and \<open>gotatun\<close> are parameters: records
  of their functions, on a tunnel state of any type. A slice \<open>&mut [u8]\<close> is the list of its bytes,
  returned as the callee left it; an error is its \<open>Debug\<close> text.
\<close>

type_synonym bytes = "u8 list"

section \<open>The interface\<close>

datatype packet_action =
    WriteToTun nat
  | WriteToNetwork nat
  | PaDone
  | PaErr string

type_synonym 'b packet_op = "bytes \<Rightarrow> packet_action \<times> bytes \<times> 'b"

record 'b wg_backend =
  wb_encapsulate :: "'b \<Rightarrow> bytes \<Rightarrow> 'b packet_op"
  wb_decapsulate :: "'b \<Rightarrow> sock_addr option \<Rightarrow> bytes \<Rightarrow> 'b packet_op"
  wb_initiate_handshake :: "'b \<Rightarrow> bool \<Rightarrow> 'b packet_op"
  wb_tick :: "'b \<Rightarrow> 'b packet_op"
  wb_stats :: "'b \<Rightarrow> tunnel_stats"
  wb_reset :: "'b \<Rightarrow> 'b"
  wb_name :: "'b \<Rightarrow> backend_kind"

text \<open>The number in an action is that of valid bytes in the destination.\<close>

fun action_len :: "packet_action \<Rightarrow> nat" where
  "action_len (WriteToTun n) = n"
| "action_len (WriteToNetwork n) = n"
| "action_len _ = 0"

definition op_fits :: "'b packet_op \<Rightarrow> bool" where
  "op_fits f = (\<forall>dst. case f dst of (a, dst', _) \<Rightarrow> length dst' = length dst \<and> action_len a \<le> length dst)"

lemma op_fitsI:
  "(\<And>dst. length (fst (snd (f dst))) = length dst) \<Longrightarrow> (\<And>dst. action_len (fst (f dst)) \<le> length dst) \<Longrightarrow>
   op_fits f"
  by (simp add: op_fits_def split_beta)

lemma op_fitsD:
  "op_fits f \<Longrightarrow> f dst = (a, dst', b) \<Longrightarrow> length dst' = length dst \<and> action_len a \<le> length dst"
  by (auto simp: op_fits_def dest: spec [of _ dst])

locale packet_backend =
  fixes ops :: "'b wg_backend"
  assumes encapsulate_fits: "op_fits (wb_encapsulate ops b src)"
    and decapsulate_fits: "op_fits (wb_decapsulate ops b from_addr datagram)"
    and handshake_fits: "op_fits (wb_initiate_handshake ops b force)"
    and tick_fits: "op_fits (wb_tick ops b)"

section \<open>boringtun\<close>

type_synonym crate_stats = "duration option \<times> nat \<times> nat \<times> float \<times> u32 option"

definition stats_of :: "crate_stats \<Rightarrow> tunnel_stats" where
  "stats_of s = (case s of (hs, tx, rx, loss, session) \<Rightarrow>
     \<lparr>tx_bytes = of_nat tx, rx_bytes = of_nat rx, last_handshake = hs, packet_loss = loss,
      session_index = session\<rparr>)"

datatype bt_result =
    BtDone
  | BtErr string
  | BtWriteToNetwork bytes
  | BtWriteToTunnelV4 bytes ip_addr
  | BtWriteToTunnelV6 bytes ip_addr

text \<open>\<open>x25519_public\<close> derives the public key, \<open>limiter\<close> makes a rate limiter of type \<open>'r\<close>.\<close>

record ('t, 'r) bt_crate =
  bt_public :: "bytes \<Rightarrow> bytes"
  bt_limiter :: "bytes \<Rightarrow> nat \<Rightarrow> 'r"
  bt_new :: "bytes \<Rightarrow> bytes \<Rightarrow> bytes option \<Rightarrow> u16 option \<Rightarrow> u32 \<Rightarrow> 'r option \<Rightarrow> 't"
  bt_encapsulate :: "'t \<Rightarrow> bytes \<Rightarrow> bytes \<Rightarrow> bt_result \<times> bytes \<times> 't"
  bt_decapsulate :: "'t \<Rightarrow> ip_addr option \<Rightarrow> bytes \<Rightarrow> bytes \<Rightarrow> bt_result \<times> bytes \<times> 't"
  bt_handshake :: "'t \<Rightarrow> bytes \<Rightarrow> bool \<Rightarrow> bt_result \<times> bytes \<times> 't"
  bt_timers :: "'t \<Rightarrow> bytes \<Rightarrow> bt_result \<times> bytes \<times> 't"
  bt_stats :: "'t \<Rightarrow> crate_stats"

fun private_bytes :: "private_key \<Rightarrow> bytes" where
  "private_bytes (PrivateKey bs) = bs"

fun public_bytes :: "public_key \<Rightarrow> bytes" where
  "public_bytes (PublicKey bs) = bs"

fun preshared_bytes :: "preshared_key \<Rightarrow> bytes" where
  "preshared_bytes (PresharedKey bs) = bs"

record 't boringtun_backend =
  bb_tunn :: 't
  bb_config :: tunnel_config

definition bt_make :: "('t, 'r) bt_crate \<Rightarrow> tunnel_config \<Rightarrow> 't" where
  "bt_make cr c =
     (let secret = private_bytes (tc_private_key c);
          our_public = bt_public cr secret
      in bt_new cr secret (public_bytes (tc_peer_public_key c))
           (map_option preshared_bytes (tc_preshared_key c)) (tc_persistent_keepalive c) (tc_index c)
           (Some (bt_limiter cr our_public 100)))"

definition boringtun_new :: "('t, 'r) bt_crate \<Rightarrow> tunnel_config \<Rightarrow> (wg_error, 't boringtun_backend) result" where
  "boringtun_new cr c = Inr \<lparr>bb_tunn = bt_make cr c, bb_config = c\<rparr>"

fun tunn_result_to_action :: "bt_result \<Rightarrow> packet_action" where
  "tunn_result_to_action BtDone = PaDone"
| "tunn_result_to_action (BtErr e) = PaErr e"
| "tunn_result_to_action (BtWriteToNetwork buf) = WriteToNetwork (length buf)"
| "tunn_result_to_action (BtWriteToTunnelV4 buf _) = WriteToTun (length buf)"
| "tunn_result_to_action (BtWriteToTunnelV6 buf _) = WriteToTun (length buf)"

definition bt_lift ::
  "'t boringtun_backend \<Rightarrow> bt_result \<times> bytes \<times> 't \<Rightarrow> packet_action \<times> bytes \<times> 't boringtun_backend" where
  "bt_lift b x = (case x of (r, dst, t) \<Rightarrow> (tunn_result_to_action r, dst, b\<lparr>bb_tunn := t\<rparr>))"

definition boringtun_encapsulate ::
  "('t, 'r) bt_crate \<Rightarrow> 't boringtun_backend \<Rightarrow> bytes \<Rightarrow> 't boringtun_backend packet_op" where
  "boringtun_encapsulate cr b src dst = bt_lift b (bt_encapsulate cr (bb_tunn b) src dst)"

definition boringtun_decapsulate ::
  "('t, 'r) bt_crate \<Rightarrow> 't boringtun_backend \<Rightarrow> sock_addr option \<Rightarrow> bytes \<Rightarrow> 't boringtun_backend packet_op" where
  "boringtun_decapsulate cr b src_addr datagram dst =
     bt_lift b (bt_decapsulate cr (bb_tunn b) (map_option sa_ip src_addr) datagram dst)"

definition boringtun_handshake ::
  "('t, 'r) bt_crate \<Rightarrow> 't boringtun_backend \<Rightarrow> bool \<Rightarrow> 't boringtun_backend packet_op" where
  "boringtun_handshake cr b force dst = bt_lift b (bt_handshake cr (bb_tunn b) dst force)"

definition boringtun_tick :: "('t, 'r) bt_crate \<Rightarrow> 't boringtun_backend \<Rightarrow> 't boringtun_backend packet_op" where
  "boringtun_tick cr b dst = bt_lift b (bt_timers cr (bb_tunn b) dst)"

definition boringtun_stats :: "('t, 'r) bt_crate \<Rightarrow> 't boringtun_backend \<Rightarrow> tunnel_stats" where
  "boringtun_stats cr b = stats_of (bt_stats cr (bb_tunn b))"

definition boringtun_reset :: "('t, 'r) bt_crate \<Rightarrow> 't boringtun_backend \<Rightarrow> 't boringtun_backend" where
  "boringtun_reset cr b = b\<lparr>bb_tunn := bt_make cr (bb_config b)\<rparr>"

definition boringtun_ops :: "('t, 'r) bt_crate \<Rightarrow> 't boringtun_backend wg_backend" where
  "boringtun_ops cr = \<lparr>wb_encapsulate = boringtun_encapsulate cr, wb_decapsulate = boringtun_decapsulate cr,
     wb_initiate_handshake = boringtun_handshake cr, wb_tick = boringtun_tick cr,
     wb_stats = boringtun_stats cr, wb_reset = boringtun_reset cr, wb_name = (\<lambda>_. Boringtun)\<rparr>"

section \<open>neptun\<close>

datatype nt_result =
    NtDone
  | NtErr string
  | NtWriteToNetwork bytes
  | NtWriteToTunnel bytes ip_addr

record ('t, 'r) nt_crate =
  nt_public :: "bytes \<Rightarrow> bytes"
  nt_limiter :: "bytes \<Rightarrow> nat \<Rightarrow> 'r"
  nt_new :: "bytes \<Rightarrow> bytes \<Rightarrow> bytes option \<Rightarrow> u16 option \<Rightarrow> u32 \<Rightarrow> 'r option \<Rightarrow> (string, 't) result"
  nt_encapsulate :: "'t \<Rightarrow> bytes \<Rightarrow> bytes \<Rightarrow> nt_result \<times> bytes \<times> 't"
  nt_decapsulate :: "'t \<Rightarrow> ip_addr option \<Rightarrow> bytes \<Rightarrow> bytes \<Rightarrow> nt_result \<times> bytes \<times> 't"
  nt_handshake :: "'t \<Rightarrow> bytes \<Rightarrow> bool \<Rightarrow> nt_result \<times> bytes \<times> 't"
  nt_timers :: "'t \<Rightarrow> bytes \<Rightarrow> nt_result \<times> bytes \<times> 't"
  nt_stats :: "'t \<Rightarrow> crate_stats"

record 't neptun_backend =
  nb_tunn :: 't
  nb_config :: tunnel_config

definition nt_make :: "('t, 'r) nt_crate \<Rightarrow> tunnel_config \<Rightarrow> (string, 't) result" where
  "nt_make cr c =
     (let secret = private_bytes (tc_private_key c);
          our_public = nt_public cr secret
      in nt_new cr secret (public_bytes (tc_peer_public_key c))
           (map_option preshared_bytes (tc_preshared_key c)) (tc_persistent_keepalive c) (tc_index c)
           (Some (nt_limiter cr our_public 100)))"

definition neptun_new :: "('t, 'r) nt_crate \<Rightarrow> tunnel_config \<Rightarrow> (wg_error, 't neptun_backend) result" where
  "neptun_new cr c =
     res_bind (map_err TunnelErr (nt_make cr c)) (\<lambda>t. Inr \<lparr>nb_tunn = t, nb_config = c\<rparr>)"

fun nt_result_to_action :: "nt_result \<Rightarrow> packet_action" where
  "nt_result_to_action NtDone = PaDone"
| "nt_result_to_action (NtErr e) = PaErr e"
| "nt_result_to_action (NtWriteToNetwork buf) = WriteToNetwork (length buf)"
| "nt_result_to_action (NtWriteToTunnel buf _) = WriteToTun (length buf)"

definition nt_lift ::
  "'t neptun_backend \<Rightarrow> nt_result \<times> bytes \<times> 't \<Rightarrow> packet_action \<times> bytes \<times> 't neptun_backend" where
  "nt_lift b x = (case x of (r, dst, t) \<Rightarrow> (nt_result_to_action r, dst, b\<lparr>nb_tunn := t\<rparr>))"

definition neptun_encapsulate ::
  "('t, 'r) nt_crate \<Rightarrow> 't neptun_backend \<Rightarrow> bytes \<Rightarrow> 't neptun_backend packet_op" where
  "neptun_encapsulate cr b src dst = nt_lift b (nt_encapsulate cr (nb_tunn b) src dst)"

definition neptun_decapsulate ::
  "('t, 'r) nt_crate \<Rightarrow> 't neptun_backend \<Rightarrow> sock_addr option \<Rightarrow> bytes \<Rightarrow> 't neptun_backend packet_op" where
  "neptun_decapsulate cr b src_addr datagram dst =
     nt_lift b (nt_decapsulate cr (nb_tunn b) (map_option sa_ip src_addr) datagram dst)"

definition neptun_handshake ::
  "('t, 'r) nt_crate \<Rightarrow> 't neptun_backend \<Rightarrow> bool \<Rightarrow> 't neptun_backend packet_op" where
  "neptun_handshake cr b force dst = nt_lift b (nt_handshake cr (nb_tunn b) dst force)"

definition neptun_tick :: "('t, 'r) nt_crate \<Rightarrow> 't neptun_backend \<Rightarrow> 't neptun_backend packet_op" where
  "neptun_tick cr b dst = nt_lift b (nt_timers cr (nb_tunn b) dst)"

definition neptun_stats :: "('t, 'r) nt_crate \<Rightarrow> 't neptun_backend \<Rightarrow> tunnel_stats" where
  "neptun_stats cr b = stats_of (nt_stats cr (nb_tunn b))"

definition neptun_reset :: "('t, 'r) nt_crate \<Rightarrow> 't neptun_backend \<Rightarrow> 't neptun_backend" where
  "neptun_reset cr b = (case nt_make cr (nb_config b) of Inl _ \<Rightarrow> b | Inr t \<Rightarrow> b\<lparr>nb_tunn := t\<rparr>)"

definition neptun_ops :: "('t, 'r) nt_crate \<Rightarrow> 't neptun_backend wg_backend" where
  "neptun_ops cr = \<lparr>wb_encapsulate = neptun_encapsulate cr, wb_decapsulate = neptun_decapsulate cr,
     wb_initiate_handshake = neptun_handshake cr, wb_tick = neptun_tick cr,
     wb_stats = neptun_stats cr, wb_reset = neptun_reset cr, wb_name = (\<lambda>_. Neptun)\<rparr>"

section \<open>gotatun\<close>

text \<open>Packets are owned: \<open>'k\<close> is a parsed WireGuard packet, \<open>'x\<close> an index table.\<close>

datatype 'k gt_result =
    GtDone
  | GtErr string
  | GtWriteToNetwork 'k
  | GtWriteToTunnel bytes

record ('t, 'r, 'k, 'x) gt_crate =
  gt_public :: "bytes \<Rightarrow> bytes"
  gt_limiter :: "bytes \<Rightarrow> nat \<Rightarrow> 'r"
  gt_new :: "bytes \<Rightarrow> bytes \<Rightarrow> bytes option \<Rightarrow> u16 option \<Rightarrow> 'x \<Rightarrow> 'r \<Rightarrow> 't"
  gt_kind_bytes :: "'k \<Rightarrow> bytes"
  gt_try_into_wg :: "bytes \<Rightarrow> (string, 'k) result"
  gt_outgoing :: "'t \<Rightarrow> bytes \<Rightarrow> 'k option \<times> 't"
  gt_incoming :: "'t \<Rightarrow> 'k \<Rightarrow> 'k gt_result \<times> 't"
  gt_format_handshake :: "'t \<Rightarrow> bool \<Rightarrow> bytes option \<times> 't"
  gt_timers :: "'t \<Rightarrow> (string, 'k option) result \<times> 't"
  gt_stats :: "'t \<Rightarrow> crate_stats"

record ('t, 'x) gotatun_backend =
  gb_tunn :: 't
  gb_config :: tunnel_config
  gb_index_table :: 'x

definition gt_make :: "('t, 'r, 'k, 'x) gt_crate \<Rightarrow> 'x \<Rightarrow> tunnel_config \<Rightarrow> 't" where
  "gt_make cr table c =
     (let secret = private_bytes (tc_private_key c);
          our_public = gt_public cr secret
      in gt_new cr secret (public_bytes (tc_peer_public_key c))
           (map_option preshared_bytes (tc_preshared_key c)) (tc_persistent_keepalive c) table
           (gt_limiter cr our_public 100))"

definition gotatun_new ::
  "('t, 'r, 'k, 'x) gt_crate \<Rightarrow> 'x \<Rightarrow> tunnel_config \<Rightarrow> (wg_error, ('t, 'x) gotatun_backend) result" where
  "gotatun_new cr table c = Inr \<lparr>gb_tunn = gt_make cr table c, gb_config = c, gb_index_table = table\<rparr>"

text \<open>\<open>packet_to_dst\<close>: as many bytes as fit.\<close>

definition packet_to_dst :: "bytes \<Rightarrow> bytes \<Rightarrow> nat \<times> bytes" where
  "packet_to_dst data dst =
     (let len = min (length data) (length dst) in (len, take len data @ drop len dst))"

definition wg_kind_to_dst :: "('t, 'r, 'k, 'x) gt_crate \<Rightarrow> 'k \<Rightarrow> bytes \<Rightarrow> nat \<times> bytes" where
  "wg_kind_to_dst cr k dst = packet_to_dst (gt_kind_bytes cr k) dst"

definition gt_reply ::
  "(nat \<Rightarrow> packet_action) \<Rightarrow> nat \<times> bytes \<Rightarrow> 'b \<Rightarrow> packet_action \<times> bytes \<times> 'b" where
  "gt_reply act x b = (case x of (len, dst) \<Rightarrow> (act len, dst, b))"

definition gotatun_encapsulate ::
  "('t, 'r, 'k, 'x) gt_crate \<Rightarrow> ('t, 'x) gotatun_backend \<Rightarrow> bytes \<Rightarrow> ('t, 'x) gotatun_backend packet_op" where
  "gotatun_encapsulate cr b src dst =
     (case gt_outgoing cr (gb_tunn b) src of (out, t) \<Rightarrow>
       (let b' = b\<lparr>gb_tunn := t\<rparr> in
        case out of Some k \<Rightarrow> gt_reply WriteToNetwork (wg_kind_to_dst cr k dst) b'
        | None \<Rightarrow> (PaDone, dst, b')))"

definition gotatun_decapsulate ::
  "('t, 'r, 'k, 'x) gt_crate \<Rightarrow> ('t, 'x) gotatun_backend \<Rightarrow> sock_addr option \<Rightarrow> bytes \<Rightarrow>
   ('t, 'x) gotatun_backend packet_op" where
  "gotatun_decapsulate cr b src_addr datagram dst =
     (case gt_try_into_wg cr datagram of
        Inl e \<Rightarrow> (PaErr (''parse WG packet: '' @ e), dst, b)
      | Inr kind \<Rightarrow>
          (case gt_incoming cr (gb_tunn b) kind of (r, t) \<Rightarrow>
            (let b' = b\<lparr>gb_tunn := t\<rparr> in
             case r of
               GtDone \<Rightarrow> (PaDone, dst, b')
             | GtErr e \<Rightarrow> (PaErr e, dst, b')
             | GtWriteToNetwork k \<Rightarrow> gt_reply WriteToNetwork (wg_kind_to_dst cr k dst) b'
             | GtWriteToTunnel pkt \<Rightarrow> gt_reply WriteToTun (packet_to_dst pkt dst) b')))"

definition gotatun_handshake ::
  "('t, 'r, 'k, 'x) gt_crate \<Rightarrow> ('t, 'x) gotatun_backend \<Rightarrow> bool \<Rightarrow> ('t, 'x) gotatun_backend packet_op" where
  "gotatun_handshake cr b force dst =
     (case gt_format_handshake cr (gb_tunn b) force of (out, t) \<Rightarrow>
       (let b' = b\<lparr>gb_tunn := t\<rparr> in
        case out of Some raw \<Rightarrow> gt_reply WriteToNetwork (packet_to_dst raw dst) b'
        | None \<Rightarrow> (PaDone, dst, b')))"

definition gotatun_tick ::
  "('t, 'r, 'k, 'x) gt_crate \<Rightarrow> ('t, 'x) gotatun_backend \<Rightarrow> ('t, 'x) gotatun_backend packet_op" where
  "gotatun_tick cr b dst =
     (case gt_timers cr (gb_tunn b) of (r, t) \<Rightarrow>
       (let b' = b\<lparr>gb_tunn := t\<rparr> in
        case r of
          Inr (Some k) \<Rightarrow> gt_reply WriteToNetwork (wg_kind_to_dst cr k dst) b'
        | Inr None \<Rightarrow> (PaDone, dst, b')
        | Inl e \<Rightarrow> (PaErr e, dst, b')))"

definition gotatun_stats :: "('t, 'r, 'k, 'x) gt_crate \<Rightarrow> ('t, 'x) gotatun_backend \<Rightarrow> tunnel_stats" where
  "gotatun_stats cr b = stats_of (gt_stats cr (gb_tunn b))"

definition gotatun_reset ::
  "('t, 'r, 'k, 'x) gt_crate \<Rightarrow> ('t, 'x) gotatun_backend \<Rightarrow> ('t, 'x) gotatun_backend" where
  "gotatun_reset cr b = b\<lparr>gb_tunn := gt_make cr (gb_index_table b) (gb_config b)\<rparr>"

definition gotatun_ops :: "('t, 'r, 'k, 'x) gt_crate \<Rightarrow> ('t, 'x) gotatun_backend wg_backend" where
  "gotatun_ops cr = \<lparr>wb_encapsulate = gotatun_encapsulate cr, wb_decapsulate = gotatun_decapsulate cr,
     wb_initiate_handshake = gotatun_handshake cr, wb_tick = gotatun_tick cr,
     wb_stats = gotatun_stats cr, wb_reset = gotatun_reset cr, wb_name = (\<lambda>_. Gotatun)\<rparr>"

lemma gt_reply_fits [simp]:
  "length (fst (snd (gt_reply act (packet_to_dst data dst) b))) = length dst"
  "action_len (fst (gt_reply WriteToNetwork (packet_to_dst data dst) b)) \<le> length dst"
  "action_len (fst (gt_reply WriteToTun (packet_to_dst data dst) b)) \<le> length dst"
  by (simp_all add: gt_reply_def packet_to_dst_def Let_def)

text \<open>This adapter copies what fits, so it keeps the contract whatever the crate does.\<close>

interpretation gotatun: packet_backend "gotatun_ops cr" for cr
  by unfold_locales
    (auto simp: gotatun_ops_def gotatun_encapsulate_def gotatun_decapsulate_def gotatun_handshake_def
      gotatun_tick_def wg_kind_to_dst_def Let_def split: prod.split option.split sum.split gt_result.split
      intro!: op_fitsI)

section \<open>A boxed backend\<close>

datatype ('bt, 'nt, 'gt, 'x) boxed =
    BoxBoringtun "'bt boringtun_backend"
  | BoxNeptun "'nt neptun_backend"
  | BoxGotatun "('gt, 'x) gotatun_backend"

record ('bt, 'nt, 'gt, 'r, 'k, 'x) crates =
  cr_bt :: "('bt, 'r) bt_crate"
  cr_nt :: "('nt, 'r) nt_crate"
  cr_gt :: "('gt, 'r, 'k, 'x) gt_crate"
  cr_table :: 'x

fun make_boxed ::
  "('bt, 'nt, 'gt, 'r, 'k, 'x) crates \<Rightarrow> backend_kind \<Rightarrow> tunnel_config \<Rightarrow>
   (wg_error, ('bt, 'nt, 'gt, 'x) boxed) result" where
  "make_boxed cr Boringtun c = res_bind (boringtun_new (cr_bt cr) c) (\<lambda>b. Inr (BoxBoringtun b))"
| "make_boxed cr Neptun c = res_bind (neptun_new (cr_nt cr) c) (\<lambda>b. Inr (BoxNeptun b))"
| "make_boxed cr Gotatun c = res_bind (gotatun_new (cr_gt cr) (cr_table cr) c) (\<lambda>b. Inr (BoxGotatun b))"

definition box_result :: "('a \<Rightarrow> 'b) \<Rightarrow> packet_action \<times> bytes \<times> 'a \<Rightarrow> packet_action \<times> bytes \<times> 'b" where
  "box_result f x = (case x of (a, dst, b) \<Rightarrow> (a, dst, f b))"

fun dyn_op ::
  "('bt boringtun_backend \<Rightarrow> 'bt boringtun_backend packet_op) \<Rightarrow>
   ('nt neptun_backend \<Rightarrow> 'nt neptun_backend packet_op) \<Rightarrow>
   (('gt, 'x) gotatun_backend \<Rightarrow> ('gt, 'x) gotatun_backend packet_op) \<Rightarrow>
   ('bt, 'nt, 'gt, 'x) boxed \<Rightarrow> ('bt, 'nt, 'gt, 'x) boxed packet_op" where
  "dyn_op f g h (BoxBoringtun b) dst = box_result BoxBoringtun (f b dst)"
| "dyn_op f g h (BoxNeptun b) dst = box_result BoxNeptun (g b dst)"
| "dyn_op f g h (BoxGotatun b) dst = box_result BoxGotatun (h b dst)"

text \<open>Dispatch through \<open>dyn WgBackend\<close>.\<close>

definition boxed_ops ::
  "('bt, 'nt, 'gt, 'r, 'k, 'x) crates \<Rightarrow> ('bt, 'nt, 'gt, 'x) boxed wg_backend" where
  "boxed_ops cr = (let b = cr_bt cr; n = cr_nt cr; g = cr_gt cr in
     \<lparr>wb_encapsulate = (\<lambda>x src. dyn_op (\<lambda>y. boringtun_encapsulate b y src)
          (\<lambda>y. neptun_encapsulate n y src) (\<lambda>y. gotatun_encapsulate g y src) x),
      wb_decapsulate = (\<lambda>x addr datagram. dyn_op (\<lambda>y. boringtun_decapsulate b y addr datagram)
          (\<lambda>y. neptun_decapsulate n y addr datagram) (\<lambda>y. gotatun_decapsulate g y addr datagram) x),
      wb_initiate_handshake = (\<lambda>x force. dyn_op (\<lambda>y. boringtun_handshake b y force)
          (\<lambda>y. neptun_handshake n y force) (\<lambda>y. gotatun_handshake g y force) x),
      wb_tick = dyn_op (boringtun_tick b) (neptun_tick n) (gotatun_tick g),
      wb_stats = (\<lambda>x. case x of BoxBoringtun y \<Rightarrow> boringtun_stats b y
          | BoxNeptun y \<Rightarrow> neptun_stats n y | BoxGotatun y \<Rightarrow> gotatun_stats g y),
      wb_reset = (\<lambda>x. case x of BoxBoringtun y \<Rightarrow> BoxBoringtun (boringtun_reset b y)
          | BoxNeptun y \<Rightarrow> BoxNeptun (neptun_reset n y)
          | BoxGotatun y \<Rightarrow> BoxGotatun (gotatun_reset g y)),
      wb_name = (\<lambda>x. case x of BoxBoringtun _ \<Rightarrow> Boringtun | BoxNeptun _ \<Rightarrow> Neptun
          | BoxGotatun _ \<Rightarrow> Gotatun)\<rparr>)"

text \<open>What the first two crates document: their results are slices of the destination, whose length
  they cannot change.\<close>

definition bt_within :: "bytes \<Rightarrow> bt_result \<times> bytes \<times> 't \<Rightarrow> bool" where
  "bt_within dst x = (case x of (r, dst', _) \<Rightarrow>
     length dst' = length dst \<and> action_len (tunn_result_to_action r) \<le> length dst)"

definition bt_slices :: "('t, 'r) bt_crate \<Rightarrow> bool" where
  "bt_slices cr = (\<forall>t dst. (\<forall>src. bt_within dst (bt_encapsulate cr t src dst)) \<and>
     (\<forall>ip d. bt_within dst (bt_decapsulate cr t ip d dst)) \<and>
     (\<forall>force. bt_within dst (bt_handshake cr t dst force)) \<and> bt_within dst (bt_timers cr t dst))"

definition nt_within :: "bytes \<Rightarrow> nt_result \<times> bytes \<times> 't \<Rightarrow> bool" where
  "nt_within dst x = (case x of (r, dst', _) \<Rightarrow>
     length dst' = length dst \<and> action_len (nt_result_to_action r) \<le> length dst)"

definition nt_slices :: "('t, 'r) nt_crate \<Rightarrow> bool" where
  "nt_slices cr = (\<forall>t dst. (\<forall>src. nt_within dst (nt_encapsulate cr t src dst)) \<and>
     (\<forall>ip d. nt_within dst (nt_decapsulate cr t ip d dst)) \<and>
     (\<forall>force. nt_within dst (nt_handshake cr t dst force)) \<and> nt_within dst (nt_timers cr t dst))"

lemma bt_lift_fits: "(\<And>dst. bt_within dst (f dst)) \<Longrightarrow> op_fits (\<lambda>dst. bt_lift b (f dst))"
  by (rule op_fitsI) (auto simp: bt_within_def bt_lift_def split_beta)

lemma nt_lift_fits: "(\<And>dst. nt_within dst (f dst)) \<Longrightarrow> op_fits (\<lambda>dst. nt_lift b (f dst))"
  by (rule op_fitsI) (auto simp: nt_within_def nt_lift_def split_beta)

lemma boringtun_backend_ok: "bt_slices cr \<Longrightarrow> packet_backend (boringtun_ops cr)"
  by unfold_locales
    (auto simp: boringtun_ops_def boringtun_encapsulate_def boringtun_decapsulate_def [abs_def]
      boringtun_encapsulate_def [abs_def] boringtun_handshake_def [abs_def] boringtun_tick_def [abs_def]
      bt_slices_def intro!: bt_lift_fits)

lemma neptun_backend_ok: "nt_slices cr \<Longrightarrow> packet_backend (neptun_ops cr)"
  by unfold_locales
    (auto simp: neptun_ops_def neptun_decapsulate_def [abs_def]
      neptun_encapsulate_def [abs_def] neptun_handshake_def [abs_def] neptun_tick_def [abs_def]
      nt_slices_def intro!: nt_lift_fits)

lemma dyn_op_fits:
  assumes "\<And>b. op_fits (f b)" "\<And>b. op_fits (g b)" "\<And>b. op_fits (h b)"
  shows "op_fits (dyn_op f g h x)"
  using assms by (cases x) (auto simp: op_fits_def box_result_def split_beta)

text \<open>Every boxed backend keeps the contract.\<close>

lemma boxed_backend_ok:
  assumes "bt_slices (cr_bt cr)" "nt_slices (cr_nt cr)"
  shows "packet_backend (boxed_ops cr)"
proof -
  note b = boringtun_backend_ok [OF assms(1), unfolded packet_backend_def boringtun_ops_def]
  note n = neptun_backend_ok [OF assms(2), unfolded packet_backend_def neptun_ops_def]
  note g = gotatun.packet_backend_axioms [of "cr_gt cr", unfolded packet_backend_def gotatun_ops_def]
  show ?thesis
    using b n g by unfold_locales (auto simp: boxed_ops_def Let_def intro!: dyn_op_fits)
qed

end
