(* ===== verification/WgQuick.thy ===== *)
theory WgQuick
  imports Config
begin

text \<open>
  The \<open>wg-quick\<close> reader and writer (\<open>ferro-wg-core/src/config/wg_quick.rs\<close>).

  The parser walks the lines with the section it is in, the builder of the interface and the
  builders of the peers. Its two ways to stop early are a \<open>ConfigError\<close> (\<open>Fail\<close>) and the
  \<open>unreachable!\<close> of the \<open>[Peer]\<close> case (\<open>Unreachable\<close>), which is shown never to happen.
\<close>

section \<open>Builders\<close>

datatype ini_section = SNone | SInterface | SPeer

record interface_builder =
  ib_private_key :: "private_key option"
  ib_listen_port :: u16
  ib_addresses :: "string list"
  ib_dns :: "ip_addr list"
  ib_dns_search :: "string list"
  ib_mtu :: u16
  ib_fwmark :: u32
  ib_pre_up :: "string list"
  ib_post_up :: "string list"
  ib_pre_down :: "string list"
  ib_post_down :: "string list"

definition default_ib :: interface_builder where
  "default_ib = \<lparr>ib_private_key = None, ib_listen_port = 0, ib_addresses = [], ib_dns = [],
     ib_dns_search = [], ib_mtu = 0, ib_fwmark = 0, ib_pre_up = [], ib_post_up = [],
     ib_pre_down = [], ib_post_down = []\<rparr>"

definition build_interface :: "interface_builder \<Rightarrow> (config_error, interface_config) result" where
  "build_interface b =
     res_bind (ok_or (MissingField ''PrivateKey'') (ib_private_key b)) (\<lambda>k.
       Inr \<lparr>if_private_key = k, if_listen_port = ib_listen_port b, if_addresses = ib_addresses b,
         if_dns = ib_dns b, if_dns_search = ib_dns_search b, if_mtu = ib_mtu b,
         if_fwmark = ib_fwmark b, if_pre_up = ib_pre_up b, if_post_up = ib_post_up b,
         if_pre_down = ib_pre_down b, if_post_down = ib_post_down b\<rparr>)"

record peer_builder =
  pb_name :: string
  pb_public_key :: "public_key option"
  pb_preshared_key :: "preshared_key option"
  pb_endpoint :: "string option"
  pb_allowed_ips :: "string list"
  pb_keepalive :: u16

definition default_pb :: peer_builder where
  "default_pb = \<lparr>pb_name = [], pb_public_key = None, pb_preshared_key = None,
     pb_endpoint = None, pb_allowed_ips = [], pb_keepalive = 0\<rparr>"

definition build_peer :: "peer_builder \<Rightarrow> (config_error, peer_config) result" where
  "build_peer b =
     res_bind (ok_or (MissingField ''PublicKey'') (pb_public_key b)) (\<lambda>k.
       Inr \<lparr>pc_name = pb_name b, pc_public_key = k, pc_preshared_key = pb_preshared_key b,
         pc_endpoint = pb_endpoint b, pc_allowed_ips = pb_allowed_ips b,
         pc_keepalive = pb_keepalive b\<rparr>)"

section \<open>Key-value lines\<close>

definition split_kv :: "string \<Rightarrow> nat \<Rightarrow> (config_error, string \<times> string) result" where
  "split_kv l n =
     (case str_split_once CHR ''='' l of
        None \<Rightarrow> Inl (WgQuickParse n (''expected 'Key = Value', got: '' @ l))
      | Some (k, v) \<Rightarrow> Inr (str_trim k, str_trim v))"

definition key_field ::
  "nat \<Rightarrow> string \<Rightarrow> (key_error, 'a) result \<Rightarrow> (config_error, 'a) result" where
  "key_field n label = map_err (\<lambda>e. WgQuickParse n (label @ '': '' @ show_key_error e))"

definition int_field ::
  "nat \<Rightarrow> string \<Rightarrow> (parse_int_error, 'a) result \<Rightarrow> (config_error, 'a) result" where
  "int_field n label = map_err (\<lambda>e. WgQuickParse n (label @ '': '' @ show_parse_int_error e))"

text \<open>The \<open>DNS\<close> tokens: addresses go to \<open>dns\<close>, everything else to \<open>dns_search\<close>.\<close>

fun add_dns :: "string list \<Rightarrow> interface_builder \<Rightarrow> interface_builder" where
  "add_dns [] b = b"
| "add_dns (t # ts) b =
     (let t' = str_trim t in
      if t' = [] then add_dns ts b
      else (case parse_ip t' of
        Some ip \<Rightarrow> add_dns ts (b\<lparr>ib_dns := ib_dns b @ [ip]\<rparr>)
      | None \<Rightarrow> add_dns ts (b\<lparr>ib_dns_search := ib_dns_search b @ [t']\<rparr>)))"

definition parse_interface_kv ::
  "codec \<Rightarrow> interface_builder \<Rightarrow> string \<Rightarrow> string \<Rightarrow> nat \<Rightarrow> (config_error, interface_builder) result"
where
  "parse_interface_kv cd b key v n =
     (let k = to_ascii_lowercase key in
      if k = ''privatekey'' then
        res_bind (key_field n ''PrivateKey'' (private_from_base64 cd v))
          (\<lambda>x. Inr (b\<lparr>ib_private_key := Some x\<rparr>))
      else if k = ''listenport'' then
        res_bind (int_field n ''ListenPort'' (parse_u16 v)) (\<lambda>x. Inr (b\<lparr>ib_listen_port := x\<rparr>))
      else if k = ''address'' then
        Inr (b\<lparr>ib_addresses := ib_addresses b @ map str_trim (str_split CHR '','' v)\<rparr>)
      else if k = ''dns'' then Inr (add_dns (str_split CHR '','' v) b)
      else if k = ''mtu'' then
        res_bind (int_field n ''MTU'' (parse_u16 v)) (\<lambda>x. Inr (b\<lparr>ib_mtu := x\<rparr>))
      else if k = ''fwmark'' then
        res_bind (int_field n ''FwMark'' (parse_u32 v)) (\<lambda>x. Inr (b\<lparr>ib_fwmark := x\<rparr>))
      else if k = ''preup'' then Inr (b\<lparr>ib_pre_up := ib_pre_up b @ [v]\<rparr>)
      else if k = ''postup'' then Inr (b\<lparr>ib_post_up := ib_post_up b @ [v]\<rparr>)
      else if k = ''predown'' then Inr (b\<lparr>ib_pre_down := ib_pre_down b @ [v]\<rparr>)
      else if k = ''postdown'' then Inr (b\<lparr>ib_post_down := ib_post_down b @ [v]\<rparr>)
      else Inl (WgQuickParse n (''unknown Interface key: '' @ key)))"

definition parse_peer_kv ::
  "codec \<Rightarrow> peer_builder \<Rightarrow> string \<Rightarrow> string \<Rightarrow> nat \<Rightarrow> (config_error, peer_builder) result" where
  "parse_peer_kv cd b key v n =
     (let k = to_ascii_lowercase key in
      if k = ''publickey'' then
        res_bind (key_field n ''PublicKey'' (public_from_base64 cd v))
          (\<lambda>x. Inr (b\<lparr>pb_public_key := Some x\<rparr>))
      else if k = ''presharedkey'' then
        res_bind (key_field n ''PresharedKey'' (preshared_from_base64 cd v))
          (\<lambda>x. Inr (b\<lparr>pb_preshared_key := Some x\<rparr>))
      else if k = ''endpoint'' then Inr (b\<lparr>pb_endpoint := Some v\<rparr>)
      else if k = ''allowedips'' then
        Inr (b\<lparr>pb_allowed_ips := pb_allowed_ips b @ map str_trim (str_split CHR '','' v)\<rparr>)
      else if k = ''persistentkeepalive'' then
        res_bind (int_field n ''PersistentKeepalive'' (parse_u16 v))
          (\<lambda>x. Inr (b\<lparr>pb_keepalive := x\<rparr>))
      else Inl (WgQuickParse n (''unknown Peer key: '' @ key)))"

section \<open>The reader\<close>

datatype load_fault = Fail config_error | Unreachable

record parse_state =
  st_section :: ini_section
  st_iface :: interface_builder
  st_peers :: "peer_builder list"

definition init_parse :: parse_state where
  "init_parse = \<lparr>st_section = SNone, st_iface = default_ib, st_peers = []\<rparr>"

definition skipped_line :: "string \<Rightarrow> bool" where
  "skipped_line l = (l = [] \<or> starts_with l CHR ''#'' \<or> starts_with l CHR '';'')"

definition parse_line ::
  "codec \<Rightarrow> nat \<Rightarrow> string \<Rightarrow> parse_state \<Rightarrow> (load_fault, parse_state) result" where
  "parse_line cd n raw st =
     (let l = str_trim raw in
      if skipped_line l then Inr st
      else if eq_ignore_ascii_case l ''[interface]'' then Inr (st\<lparr>st_section := SInterface\<rparr>)
      else if eq_ignore_ascii_case l ''[peer]'' then
        Inr (st\<lparr>st_section := SPeer, st_peers := st_peers st @ [default_pb]\<rparr>)
      else
        res_bind (map_err Fail (split_kv l n)) (\<lambda>(key, v).
          case st_section st of
            SNone \<Rightarrow> Inl (Fail (WgQuickParse n ''key-value pair outside of a section''))
          | SInterface \<Rightarrow>
              res_bind (map_err Fail (parse_interface_kv cd (st_iface st) key v n))
                (\<lambda>b. Inr (st\<lparr>st_iface := b\<rparr>))
          | SPeer \<Rightarrow>
              (if st_peers st = [] then Inl Unreachable
               else res_bind (map_err Fail (parse_peer_kv cd (last (st_peers st)) key v n))
                 (\<lambda>b. Inr (st\<lparr>st_peers := butlast (st_peers st) @ [b]\<rparr>)))))"

fun parse_lines ::
  "codec \<Rightarrow> nat \<Rightarrow> string list \<Rightarrow> parse_state \<Rightarrow> (load_fault, parse_state) result" where
  "parse_lines cd idx [] st = Inr st"
| "parse_lines cd idx (l # ls) st =
     res_bind (parse_line cd (idx + 1) l st) (\<lambda>st'. parse_lines cd (Suc idx) ls st')"

definition finish_parse :: "parse_state \<Rightarrow> (config_error, wg_config) result" where
  "finish_parse st =
     res_bind (build_interface (st_iface st)) (\<lambda>i.
     res_bind (collect_results (map build_peer (st_peers st))) (\<lambda>ps.
       let c = \<lparr>wg_interface = i, wg_peers = ps\<rparr>
       in res_bind (wg_validate c) (\<lambda>_. Inr c)))"

definition load_from_str :: "codec \<Rightarrow> string \<Rightarrow> (load_fault, wg_config) result" where
  "load_from_str cd input =
     res_bind (parse_lines cd 0 (str_lines input) init_parse)
       (\<lambda>st. map_err Fail (finish_parse st))"

section \<open>The writer\<close>

text \<open>The text as its list of lines; \<open>writeln!\<close> ends each with a line feed.\<close>

definition export_interface :: "codec \<Rightarrow> interface_config \<Rightarrow> string list" where
  "export_interface cd i =
     [''[Interface]'', ''PrivateKey = '' @ private_to_base64 cd (if_private_key i)]
     @ (if if_listen_port i \<noteq> 0 then [''ListenPort = '' @ show_nat (unat (if_listen_port i))] else [])
     @ map (\<lambda>a. ''Address = '' @ a) (if_addresses i)
     @ (if if_dns i \<noteq> [] \<or> if_dns_search i \<noteq> [] then
          [''DNS = '' @ str_join '', '' (map show_ip (if_dns i) @ if_dns_search i)] else [])
     @ (if if_mtu i \<noteq> 0 then [''MTU = '' @ show_nat (unat (if_mtu i))] else [])
     @ map (\<lambda>c. ''PreUp = '' @ c) (if_pre_up i)
     @ map (\<lambda>c. ''PostUp = '' @ c) (if_post_up i)
     @ map (\<lambda>c. ''PreDown = '' @ c) (if_pre_down i)
     @ map (\<lambda>c. ''PostDown = '' @ c) (if_post_down i)"

definition export_peer :: "codec \<Rightarrow> peer_config \<Rightarrow> string list" where
  "export_peer cd p =
     ['''', ''[Peer]'']
     @ (if pc_name p \<noteq> [] then [''# Name = '' @ pc_name p] else [])
     @ [''PublicKey = '' @ public_to_base64 cd (pc_public_key p)]
     @ (case pc_preshared_key p of None \<Rightarrow> []
        | Some k \<Rightarrow> [''PresharedKey = '' @ preshared_to_base64 cd k])
     @ (case pc_endpoint p of None \<Rightarrow> [] | Some e \<Rightarrow> [''Endpoint = '' @ e])
     @ (if pc_allowed_ips p \<noteq> [] then [''AllowedIPs = '' @ str_join '', '' (pc_allowed_ips p)] else [])
     @ (if pc_keepalive p \<noteq> 0 then
          [''PersistentKeepalive = '' @ show_nat (unat (pc_keepalive p))] else [])"

definition export_lines :: "codec \<Rightarrow> wg_config \<Rightarrow> string list" where
  "export_lines cd c =
     export_interface cd (wg_interface c) @ concat (map (export_peer cd) (wg_peers c))"

definition export_to_string :: "codec \<Rightarrow> wg_config \<Rightarrow> string" where
  "export_to_string cd c = concat (map line (export_lines cd c))"

section \<open>The reader never reaches its unreachable branch\<close>

definition parse_inv :: "parse_state \<Rightarrow> bool" where
  "parse_inv st = (st_section st = SPeer \<longrightarrow> st_peers st \<noteq> [])"

lemma parse_line_inv: "parse_line cd n raw st = Inr st' \<Longrightarrow> parse_inv st \<Longrightarrow> parse_inv st'"
  by (auto simp: parse_line_def parse_inv_def Let_def res_simps
      split: if_splits ini_section.splits prod.splits)

lemma parse_line_reachable: "parse_inv st \<Longrightarrow> parse_line cd n raw st \<noteq> Inl Unreachable"
  by (auto simp: parse_line_def parse_inv_def Let_def res_simps
      split: if_splits ini_section.splits prod.splits)

lemma parse_lines_reachable: "parse_inv st \<Longrightarrow> parse_lines cd n ls st \<noteq> Inl Unreachable"
proof (induction ls arbitrary: n st)
  case (Cons l ls)
  show ?case
  proof
    assume "parse_lines cd n (l # ls) st = Inl Unreachable"
    then consider "parse_line cd (n + 1) l st = Inl Unreachable"
      | st' where "parse_line cd (n + 1) l st = Inr st'"
          "parse_lines cd (Suc n) ls st' = Inl Unreachable"
      by (auto simp: res_simps)
    then show False
      using Cons parse_line_reachable parse_line_inv by cases blast+
  qed
qed simp

lemma init_parse_inv: "parse_inv init_parse"
  by (simp add: parse_inv_def init_parse_def)

end
