(* ===== verification/WgQuickRoundtrip.thy ===== *)
theory WgQuickRoundtrip
  imports WgQuick
begin

text \<open>
  Reading back what the \<open>wg-quick\<close> writer prints. \<open>exportable\<close> is the set of configurations
  whose text fields survive a line-based format; \<open>imported c\<close> is what comes back: everything
  but the peer names (written as comments) and the firewall mark (not written).
\<close>

section \<open>Text that survives a line\<close>

definition tidy :: "string \<Rightarrow> bool" where
  "tidy s = (s \<noteq> [] \<and> solid (hd s) \<and> solid (last s) \<and> nl \<notin> set s \<and> CHR 13 \<notin> set s)"

definition tidy_opt :: "string \<Rightarrow> bool" where
  "tidy_opt s = (s = [] \<or> tidy s)"

definition tidy_item :: "string \<Rightarrow> bool" where
  "tidy_item s = (tidy s \<and> CHR '','' \<notin> set s)"

definition exportable_interface :: "interface_config \<Rightarrow> bool" where
  "exportable_interface i =
     (key_wf (private_bytes (if_private_key i)) \<and>
      list_all tidy_item (if_addresses i) \<and>
      list_all ip_rt (if_dns i) \<and>
      list_all (\<lambda>d. tidy_item d \<and> parse_ip d = None) (if_dns_search i) \<and>
      list_all tidy_opt (if_pre_up i @ if_post_up i @ if_pre_down i @ if_post_down i))"

definition exportable_peer :: "peer_config \<Rightarrow> bool" where
  "exportable_peer p =
     (key_wf (public_bytes (pc_public_key p)) \<and>
      (case pc_preshared_key p of None \<Rightarrow> True | Some k \<Rightarrow> key_wf (preshared_bytes k)) \<and>
      (case pc_endpoint p of None \<Rightarrow> True | Some e \<Rightarrow> tidy_opt e) \<and>
      pc_allowed_ips p \<noteq> [] \<and> list_all tidy_item (pc_allowed_ips p) \<and>
      nl \<notin> set (pc_name p) \<and> CHR 13 \<notin> set (pc_name p))"

definition exportable :: "wg_config \<Rightarrow> bool" where
  "exportable c = (exportable_interface (wg_interface c) \<and> wg_peers c \<noteq> [] \<and>
     list_all exportable_peer (wg_peers c))"

definition imported :: "wg_config \<Rightarrow> wg_config" where
  "imported c = \<lparr>wg_interface = (wg_interface c)\<lparr>if_fwmark := 0\<rparr>,
     wg_peers = map (\<lambda>p. p\<lparr>pc_name := []\<rparr>) (wg_peers c)\<rparr>"

lemma tidy_trim [simp]: "tidy s \<Longrightarrow> str_trim s = s"
  by (rule str_trim_solid) (auto simp: tidy_def)

lemma tidy_item_trim [simp]: "tidy_item s \<Longrightarrow> str_trim s = s"
  by (simp add: tidy_item_def)

lemma tidy_opt_trim [simp]: "tidy_opt s \<Longrightarrow> str_trim s = s"
  by (auto simp: tidy_opt_def)

lemma all_solid_tidy: "s \<noteq> [] \<Longrightarrow> (\<And>c. c \<in> set s \<Longrightarrow> solid c) \<Longrightarrow> tidy s"
  by (auto simp: tidy_def solid_def ascii_ws_def) fastforce+

lemma tidy_show_nat [simp]: "tidy (show_nat n)"
  by (rule all_solid_tidy) (auto intro: digit_solid show_nat_digits)

lemma map_trim_tidy [simp]: "list_all tidy_item xs \<Longrightarrow> map str_trim xs = xs"
  by (induction xs) auto

lemma split_join_tidy:
  "xs \<noteq> [] \<Longrightarrow> list_all tidy_item xs \<Longrightarrow>
   map str_trim (str_split CHR '','' (str_join '', '' xs)) = xs"
  using str_split_join [of xs] by (auto simp: list_all_iff tidy_item_def)

lemma hd_last_str_join:
  "xs \<noteq> [] \<Longrightarrow> list_all (\<lambda>x. x \<noteq> []) xs \<Longrightarrow>
   str_join sep xs \<noteq> [] \<and> hd (str_join sep xs) = hd (hd xs) \<and> last (str_join sep xs) = last (last xs)"
  by (induction sep xs rule: str_join.induct) auto

lemma tidy_join: "xs \<noteq> [] \<Longrightarrow> list_all tidy xs \<Longrightarrow> tidy (str_join '', '' xs)"
proof -
  assume xs: "xs \<noteq> []" "list_all tidy xs"
  then have ne: "list_all (\<lambda>x. x \<noteq> []) xs" by (auto simp: list_all_iff tidy_def)
  have "hd xs \<in> set xs" "last xs \<in> set xs" using xs by auto
  then have "tidy (hd xs)" "tidy (last xs)" using xs(2) by (auto simp: list_all_iff)
  moreover have "c \<in> set (str_join '', '' xs) \<Longrightarrow> c = CHR '','' \<or> c = CHR '' '' \<or> (\<exists>x \<in> set xs. c \<in> set x)"
    for c using set_str_join [of "'', ''" xs] by auto
  ultimately show ?thesis
    using hd_last_str_join [OF xs(1) ne, of "'', ''"] xs(2)
    by (fastforce simp: tidy_def list_all_iff)
qed

section \<open>One key-value line\<close>

definition key_word :: "string \<Rightarrow> bool" where
  "key_word k = (k \<noteq> [] \<and>
     list_all (\<lambda>c. (65 \<le> byte c \<and> byte c \<le> 90) \<or> (97 \<le> byte c \<and> byte c \<le> 122)) k)"

lemma key_word_char:
  "key_word k \<Longrightarrow> c \<in> set k \<Longrightarrow> solid c \<and> c \<noteq> CHR ''='' \<and> c \<noteq> CHR ''#'' \<and> c \<noteq> CHR '';'' \<and> c \<noteq> CHR ''[''"
  by (auto simp: key_word_def list_all_iff solid_def ascii_ws_def)

lemma key_word_ends:
  assumes "key_word k"
  shows "k \<noteq> []" "solid (hd k)" "solid (last k)" "CHR ''='' \<notin> set k"
    "hd k \<noteq> CHR ''#''" "hd k \<noteq> CHR '';''" "hd k \<noteq> CHR ''[''"
proof -
  show "k \<noteq> []" using assms by (simp add: key_word_def)
  then have "hd k \<in> set k" "last k \<in> set k" by auto
  then show "solid (hd k)" "solid (last k)" "CHR ''='' \<notin> set k"
    "hd k \<noteq> CHR ''#''" "hd k \<noteq> CHR '';''" "hd k \<noteq> CHR ''[''"
    using key_word_char [OF assms] by blast+
qed

lemma solid_eq [simp]: "solid CHR ''=''"
  by (simp add: solid_def ascii_ws_def)

lemma trim_kv:
  assumes "key_word k" "tidy_opt v"
  shows "\<exists>w. str_trim (k @ '' = '' @ v) = k @ '' ='' @ w \<and> str_trim w = v"
proof (cases "v = []")
  case True
  let ?s = "k @ '' =''"
  have "str_trim (?s @ '' '') = ?s"
    using key_word_ends [OF assms(1)] by (intro str_trim_end_space) auto
  then show ?thesis using True by auto
next
  case False
  then have v: "tidy v" using assms(2) by (simp add: tidy_opt_def)
  have "str_trim (k @ '' = '' @ v) = k @ '' = '' @ v"
    using key_word_ends [OF assms(1)] v by (intro str_trim_solid) (auto simp: tidy_def)
  then show ?thesis using v by (intro exI [of _ "CHR '' '' # v"]) auto
qed

lemma header_head:
  "eq_ignore_ascii_case l (CHR ''['' # t) \<Longrightarrow> l \<noteq> [] \<and> hd l = CHR ''[''"
proof (cases l)
  case (Cons a r)
  assume "eq_ignore_ascii_case l (CHR ''['' # t)"
  then have "ascii_lower1 a = CHR ''[''"
    using Cons by (simp add: eq_ignore_ascii_case_def to_ascii_lowercase_def ascii_lower1_def)
  then have "byte (ascii_lower1 a) = 91" by simp
  then have "byte a = 91"
    unfolding ascii_lower1_def by (auto split: if_splits)
  then have "byte a = byte CHR ''[''" by simp
  then have "a = CHR ''[''" by (simp only: of_char_eq_iff)
  then show "l \<noteq> [] \<and> hd l = CHR ''[''" using Cons by simp
qed (simp add: eq_ignore_ascii_case_def to_ascii_lowercase_def)

lemma parse_line_kv:
  assumes "key_word k" "tidy_opt v"
  shows "parse_line cd n (k @ '' = '' @ v) st =
    (case st_section st of
       SNone \<Rightarrow> Inl (Fail (WgQuickParse n ''key-value pair outside of a section''))
     | SInterface \<Rightarrow>
         res_bind (map_err Fail (parse_interface_kv cd (st_iface st) k v n))
           (\<lambda>b. Inr (st\<lparr>st_iface := b\<rparr>))
     | SPeer \<Rightarrow>
         (if st_peers st = [] then Inl Unreachable
          else res_bind (map_err Fail (parse_peer_kv cd (last (st_peers st)) k v n))
            (\<lambda>b. Inr (st\<lparr>st_peers := butlast (st_peers st) @ [b]\<rparr>))))"
proof -
  note k = key_word_ends [OF assms(1)]
  obtain w where w: "str_trim (k @ '' = '' @ v) = k @ '' ='' @ w" "str_trim w = v"
    using trim_kv [OF assms] by blast
  let ?l = "k @ '' ='' @ w"
  have hd: "hd ?l = hd k" "?l \<noteq> []" using k by auto
  have "\<not> skipped_line ?l" using k hd by (simp add: skipped_line_def starts_with_def)
  moreover have "\<not> eq_ignore_ascii_case ?l ''[interface]''" "\<not> eq_ignore_ascii_case ?l ''[peer]''"
    using k hd header_head [of ?l] by metis+
  moreover have "split_kv ?l n = Inr (k, v)"
  proof -
    have "str_split_once CHR ''='' ((k @ '' '') @ CHR ''='' # w) = Some (k @ '' '', w)"
      using k by (intro str_split_once_append) auto
    then show ?thesis
      using k w by (simp add: split_kv_def str_trim_end_space)
  qed
  ultimately show ?thesis
    by (simp only: parse_line_def w(1) Let_def if_False map_err.simps res_bind.simps prod.case)
qed

section \<open>Runs over segments of lines\<close>

definition runs :: "codec \<Rightarrow> string list \<Rightarrow> parse_state \<Rightarrow> parse_state \<Rightarrow> bool" where
  "runs cd ls st st' = (\<forall>n. parse_lines cd n ls st = Inr st')"

lemma runs_Nil: "st = st' \<Longrightarrow> runs cd [] st st'"
  by (simp add: runs_def)

lemma parse_lines_append:
  "parse_lines cd n (xs @ ys) st =
     res_bind (parse_lines cd n xs st) (\<lambda>st'. parse_lines cd (n + length xs) ys st')"
proof (induction xs arbitrary: n st)
  case (Cons x xs)
  show ?case by (cases "parse_line cd (n + 1) x st") (simp_all add: Cons.IH)
qed simp

lemma runs_append: "runs cd xs st st' \<Longrightarrow> runs cd ys st' st'' \<Longrightarrow> runs cd (xs @ ys) st st''"
  by (simp add: runs_def parse_lines_append)

lemma runs_one: "(\<And>n. parse_line cd n l st = Inr st') \<Longrightarrow> runs cd [l] st st'"
  by (simp add: runs_def)

lemma runs_map:
  "(\<And>x st. x \<in> set xs \<Longrightarrow> P st \<Longrightarrow> runs cd [f x] st (g x st) \<and> P (g x st)) \<Longrightarrow> P st \<Longrightarrow>
   runs cd (map f xs) st (fold g xs st)"
proof (induction xs arbitrary: st)
  case (Cons x xs)
  then have "runs cd [f x] st (g x st)" "runs cd (map f xs) (g x st) (fold g xs (g x st))"
    by auto
  then show ?case using runs_append [of cd "[f x]"] by simp
qed (simp add: runs_Nil)

text \<open>The effect of a line on the interface builder, and on the last peer builder.\<close>

definition on_iface :: "(interface_builder \<Rightarrow> interface_builder) \<Rightarrow> parse_state \<Rightarrow> parse_state" where
  "on_iface f st = st\<lparr>st_iface := f (st_iface st)\<rparr>"

definition on_peer :: "(peer_builder \<Rightarrow> peer_builder) \<Rightarrow> parse_state \<Rightarrow> parse_state" where
  "on_peer f st = st\<lparr>st_peers := butlast (st_peers st) @ [f (last (st_peers st))]\<rparr>"

definition in_peer :: "parse_state \<Rightarrow> bool" where
  "in_peer st = (st_section st = SPeer \<and> st_peers st \<noteq> [])"

lemma on_iface_section [simp]: "st_section (on_iface f st) = st_section st"
  by (simp add: on_iface_def)

lemma on_iface_iface [simp]: "st_iface (on_iface f st) = f (st_iface st)"
  by (simp add: on_iface_def)

lemma on_iface_id: "(\<And>b. b = st_iface st \<Longrightarrow> f b = b) \<Longrightarrow> on_iface f st = st"
  by (simp add: on_iface_def)

lemma on_iface_compose: "on_iface g (on_iface f st) = on_iface (g \<circ> f) st"
  by (simp add: on_iface_def)

lemma on_peer_in_peer [simp]: "in_peer st \<Longrightarrow> in_peer (on_peer f st)"
  by (simp add: on_peer_def in_peer_def)

lemma last_on_peer [simp]: "last (st_peers (on_peer f st)) = f (last (st_peers st))"
  by (simp add: on_peer_def)

lemma on_peer_id: "in_peer st \<Longrightarrow> f (last (st_peers st)) = last (st_peers st) \<Longrightarrow> on_peer f st = st"
  by (simp add: on_peer_def in_peer_def)

lemma on_peer_compose: "on_peer g (on_peer f st) = on_peer (g \<circ> f) st"
  by (simp add: on_peer_def)

lemma runs_iface_kv:
  assumes "key_word k" "tidy_opt v" "st_section st = SInterface"
    and "\<And>n. parse_interface_kv cd (st_iface st) k v n = Inr (f (st_iface st))"
  shows "runs cd [k @ '' = '' @ v] st (on_iface f st)"
proof (rule runs_one)
  fix n
  show "parse_line cd n (k @ '' = '' @ v) st = Inr (on_iface f st)"
    unfolding parse_line_kv [OF assms(1,2)] using assms(3,4) by (simp add: on_iface_def)
qed

lemma runs_peer_kv:
  assumes "key_word k" "tidy_opt v" "in_peer st"
    and "\<And>n. parse_peer_kv cd (last (st_peers st)) k v n = Inr (f (last (st_peers st)))"
  shows "runs cd [k @ '' = '' @ v] st (on_peer f st)"
proof (rule runs_one)
  fix n
  show "parse_line cd n (k @ '' = '' @ v) st = Inr (on_peer f st)"
    unfolding parse_line_kv [OF assms(1,2)] using assms(3,4) by (simp add: on_peer_def in_peer_def)
qed


section \<open>The interface section\<close>

lemma lower_keys [simp]:
  "to_ascii_lowercase ''PrivateKey'' = ''privatekey''"
  "to_ascii_lowercase ''ListenPort'' = ''listenport''"
  "to_ascii_lowercase ''Address'' = ''address''"
  "to_ascii_lowercase ''DNS'' = ''dns''"
  "to_ascii_lowercase ''MTU'' = ''mtu''"
  "to_ascii_lowercase ''PreUp'' = ''preup''"
  "to_ascii_lowercase ''PostUp'' = ''postup''"
  "to_ascii_lowercase ''PreDown'' = ''predown''"
  "to_ascii_lowercase ''PostDown'' = ''postdown''"
  "to_ascii_lowercase ''PublicKey'' = ''publickey''"
  "to_ascii_lowercase ''PresharedKey'' = ''presharedkey''"
  "to_ascii_lowercase ''Endpoint'' = ''endpoint''"
  "to_ascii_lowercase ''AllowedIPs'' = ''allowedips''"
  "to_ascii_lowercase ''PersistentKeepalive'' = ''persistentkeepalive''"
  by code_simp+

lemma key_words [simp]:
  "key_word ''PrivateKey''" "key_word ''ListenPort''" "key_word ''Address''" "key_word ''DNS''"
  "key_word ''MTU''" "key_word ''PreUp''" "key_word ''PostUp''" "key_word ''PreDown''"
  "key_word ''PostDown''" "key_word ''PublicKey''" "key_word ''PresharedKey''"
  "key_word ''Endpoint''" "key_word ''AllowedIPs''" "key_word ''PersistentKeepalive''"
  by code_simp+

lemma tidy_opt_tidy: "tidy s \<Longrightarrow> tidy_opt s"
  by (simp add: tidy_opt_def)

lemma read_groups_Nil: "read_groups k 0 [] = ([], False, [])"
  by (cases k) (simp_all add: sep_first_def read_ipv4_def read_octet_def read_number_def)

lemma parse_ip_Nil: "parse_ip [] = None"
  by (simp add: parse_ip_def read_ipv6_def read_groups_Nil read_ipv4_def read_octet_def
      read_number_def read_char_def)

lemma tidy_show_ip: "ip_rt ip \<Longrightarrow> tidy (show_ip ip)"
proof -
  assume "ip_rt ip"
  then have "show_ip ip \<noteq> []"
    using parse_ip_Nil by (auto simp: ip_rt_def)
  then show ?thesis
    by (rule all_solid_tidy) (auto intro: ip_char_solid show_ip_chars)
qed

lemma add_dns_append: "add_dns (xs @ ys) b = add_dns ys (add_dns xs b)"
  by (induction xs b rule: add_dns.induct) (auto simp: Let_def split: option.splits)

lemma add_dns_cong: "map str_trim xs = map str_trim ys \<Longrightarrow> add_dns xs b = add_dns ys b"
proof (induction xs arbitrary: ys b)
  case (Cons x xs)
  then obtain y ys' where "ys = y # ys'" "str_trim x = str_trim y" "map str_trim xs = map str_trim ys'"
    by (cases ys) auto
  then show ?case using Cons.IH [of ys'] by (simp add: Let_def split: option.split)
qed simp

lemma add_dns_ips:
  "list_all ip_rt ips \<Longrightarrow> add_dns (map show_ip ips) b = b\<lparr>ib_dns := ib_dns b @ ips\<rparr>"
proof (induction ips arbitrary: b)
  case (Cons ip ips)
  then have "tidy (show_ip ip)" "parse_ip (show_ip ip) = Some ip"
    by (auto simp: tidy_show_ip ip_rt_def)
  then show ?case using Cons by (simp add: tidy_def)
qed simp

lemma add_dns_search:
  "list_all (\<lambda>d. tidy_item d \<and> parse_ip d = None) ds \<Longrightarrow>
   add_dns ds b = b\<lparr>ib_dns_search := ib_dns_search b @ ds\<rparr>"
proof (induction ds arbitrary: b)
  case (Cons d ds)
  then have "tidy d" "parse_ip d = None" "str_trim d = d"
    by (auto simp: tidy_item_def)
  then show ?case using Cons by (simp add: tidy_def)
qed simp

context base64_codec begin

lemma tidy_encode: "bs \<noteq> [] \<Longrightarrow> tidy (b64_encode cd bs)"
proof (rule all_solid_tidy)
  assume "bs \<noteq> []"
  then have "length (b64_encode cd bs) > 0" by (cases bs) (simp_all add: encode_length)
  then show "b64_encode cd bs \<noteq> []" by auto
qed (auto intro: b64_char_solid encode_chars)

lemma tidy_key: "key_wf bs \<Longrightarrow> tidy (b64_encode cd bs)"
  by (rule tidy_encode) (auto simp: key_wf_def)

end

lemma fold_snoc:
  "fold (\<lambda>x. on_iface (\<lambda>b. b\<lparr>ib_addresses := ib_addresses b @ [x]\<rparr>)) xs st =
   on_iface (\<lambda>b. b\<lparr>ib_addresses := ib_addresses b @ xs\<rparr>) st"
  "fold (\<lambda>x. on_iface (\<lambda>b. b\<lparr>ib_pre_up := ib_pre_up b @ [x]\<rparr>)) xs st =
   on_iface (\<lambda>b. b\<lparr>ib_pre_up := ib_pre_up b @ xs\<rparr>) st"
  "fold (\<lambda>x. on_iface (\<lambda>b. b\<lparr>ib_post_up := ib_post_up b @ [x]\<rparr>)) xs st =
   on_iface (\<lambda>b. b\<lparr>ib_post_up := ib_post_up b @ xs\<rparr>) st"
  "fold (\<lambda>x. on_iface (\<lambda>b. b\<lparr>ib_pre_down := ib_pre_down b @ [x]\<rparr>)) xs st =
   on_iface (\<lambda>b. b\<lparr>ib_pre_down := ib_pre_down b @ xs\<rparr>) st"
  "fold (\<lambda>x. on_iface (\<lambda>b. b\<lparr>ib_post_down := ib_post_down b @ [x]\<rparr>)) xs st =
   on_iface (\<lambda>b. b\<lparr>ib_post_down := ib_post_down b @ xs\<rparr>) st"
  by (induction xs arbitrary: st) (simp_all add: on_iface_def)

lemma runs_iface_each:
  assumes "key_word k" "list_all tidy_opt xs" "st_section st = SInterface"
    and "\<And>x b n. x \<in> set xs \<Longrightarrow> parse_interface_kv cd b k x n = Inr (f x b)"
  shows "runs cd (map (\<lambda>x. k @ '' = '' @ x) xs) st (fold (\<lambda>x. on_iface (f x)) xs st)"
proof (rule runs_map [where P = "\<lambda>st. st_section st = SInterface"])
  fix x and st' :: parse_state
  assume x: "x \<in> set xs" and st': "st_section st' = SInterface"
  then have "tidy_opt x" using assms(2) by (simp add: list_all_iff)
  then have "runs cd [k @ '' = '' @ x] st' (on_iface (f x) st')"
    using assms(1,4) x st' by (intro runs_iface_kv)
  then show "runs cd [k @ '' = '' @ x] st' (on_iface (f x) st') \<and>
      st_section (on_iface (f x) st') = SInterface"
    using st' by simp
qed (rule assms(3))

lemma runs_if:
  "(c \<Longrightarrow> runs cd ls st st') \<Longrightarrow> (\<not> c \<Longrightarrow> st = st') \<Longrightarrow> runs cd (if c then ls else []) st st'"
  by (simp add: runs_Nil)

lemma runs_address:
  assumes "list_all tidy_item xs" "st_section st = SInterface"
  shows "runs cd (map (\<lambda>a. ''Address = '' @ a) xs) st
    (on_iface (\<lambda>b. b\<lparr>ib_addresses := ib_addresses b @ xs\<rparr>) st)"
proof -
  have "runs cd (map (\<lambda>a. ''Address'' @ '' = '' @ a) xs) st
      (fold (\<lambda>x. on_iface (\<lambda>b. b\<lparr>ib_addresses := ib_addresses b @ [x]\<rparr>)) xs st)"
    using assms by (intro runs_iface_each)
      (auto simp: list_all_iff tidy_item_def parse_interface_kv_def str_split_no_sep intro: tidy_opt_tidy)
  then show ?thesis by (simp add: fold_snoc)
qed

lemma runs_commands:
  assumes "list_all tidy_opt xs" "st_section st = SInterface"
  shows "runs cd (map (\<lambda>a. ''PreUp = '' @ a) xs) st
      (on_iface (\<lambda>b. b\<lparr>ib_pre_up := ib_pre_up b @ xs\<rparr>) st)"
    "runs cd (map (\<lambda>a. ''PostUp = '' @ a) xs) st
      (on_iface (\<lambda>b. b\<lparr>ib_post_up := ib_post_up b @ xs\<rparr>) st)"
    "runs cd (map (\<lambda>a. ''PreDown = '' @ a) xs) st
      (on_iface (\<lambda>b. b\<lparr>ib_pre_down := ib_pre_down b @ xs\<rparr>) st)"
    "runs cd (map (\<lambda>a. ''PostDown = '' @ a) xs) st
      (on_iface (\<lambda>b. b\<lparr>ib_post_down := ib_post_down b @ xs\<rparr>) st)"
  using
    runs_iface_each [OF key_words(6) assms, of cd "\<lambda>x b. b\<lparr>ib_pre_up := ib_pre_up b @ [x]\<rparr>"]
    runs_iface_each [OF key_words(7) assms, of cd "\<lambda>x b. b\<lparr>ib_post_up := ib_post_up b @ [x]\<rparr>"]
    runs_iface_each [OF key_words(8) assms, of cd "\<lambda>x b. b\<lparr>ib_pre_down := ib_pre_down b @ [x]\<rparr>"]
    runs_iface_each [OF key_words(9) assms, of cd "\<lambda>x b. b\<lparr>ib_post_down := ib_post_down b @ [x]\<rparr>"]
  by (simp_all add: parse_interface_kv_def fold_snoc)

lemma runs_dns:
  assumes "list_all ip_rt ips" "list_all (\<lambda>d. tidy_item d \<and> parse_ip d = None) ds"
    and "ips \<noteq> [] \<or> ds \<noteq> []" "st_section st = SInterface"
  shows "runs cd [''DNS = '' @ str_join '', '' (map show_ip ips @ ds)] st
    (on_iface (\<lambda>b. b\<lparr>ib_dns := ib_dns b @ ips, ib_dns_search := ib_dns_search b @ ds\<rparr>) st)"
proof -
  let ?xs = "map show_ip ips @ ds"
  have ne: "?xs \<noteq> []" and items: "list_all tidy_item ?xs"
    using assms by (auto simp: list_all_iff tidy_item_def tidy_show_ip)
  then have "tidy (str_join '', '' ?xs)"
    by (intro tidy_join) (auto simp: list_all_iff tidy_item_def)
  moreover have "add_dns (str_split CHR '','' (str_join '', '' ?xs)) b =
      b\<lparr>ib_dns := ib_dns b @ ips, ib_dns_search := ib_dns_search b @ ds\<rparr>" for b
  proof -
    have "add_dns (str_split CHR '','' (str_join '', '' ?xs)) b = add_dns ?xs b"
      using split_join_tidy [OF ne items] items by (intro add_dns_cong) simp
    then show ?thesis
      using assms(1,2) by (simp add: add_dns_append add_dns_ips add_dns_search)
  qed
  ultimately have "runs cd [''DNS'' @ '' = '' @ str_join '', '' ?xs] st
      (on_iface (\<lambda>b. b\<lparr>ib_dns := ib_dns b @ ips, ib_dns_search := ib_dns_search b @ ds\<rparr>) st)"
    using assms(4) by (intro runs_iface_kv) (simp_all add: parse_interface_kv_def tidy_opt_tidy)
  then show ?thesis by simp
qed


lemma runs_number:
  assumes "st_section st = SInterface"
  shows "ib_listen_port (st_iface st) = 0 \<Longrightarrow>
      runs cd (if p \<noteq> 0 then [''ListenPort = '' @ show_nat (unat p)] else []) st
        (on_iface (\<lambda>b. b\<lparr>ib_listen_port := p\<rparr>) st)"
    "ib_mtu (st_iface st) = 0 \<Longrightarrow>
      runs cd (if m \<noteq> 0 then [''MTU = '' @ show_nat (unat m)] else []) st
        (on_iface (\<lambda>b. b\<lparr>ib_mtu := m\<rparr>) st)"
  using
    runs_iface_kv [OF key_words(2) tidy_opt_tidy [OF tidy_show_nat] assms,
      of cd "unat p" "\<lambda>b. b\<lparr>ib_listen_port := p\<rparr>"]
    runs_iface_kv [OF key_words(5) tidy_opt_tidy [OF tidy_show_nat] assms,
      of cd "unat m" "\<lambda>b. b\<lparr>ib_mtu := m\<rparr>"]
  by (auto simp: parse_interface_kv_def int_field_def intro!: runs_Nil on_iface_id [symmetric])

lemma runs_header:
  "runs cd [''[Interface]''] st (st\<lparr>st_section := SInterface\<rparr>)"
  "runs cd ['''', ''[Peer]''] st (st\<lparr>st_section := SPeer, st_peers := st_peers st @ [default_pb]\<rparr>)"
proof -
  have i: "str_trim ''[Interface]'' = ''[Interface]''" "\<not> skipped_line ''[Interface]''"
    "eq_ignore_ascii_case ''[Interface]'' ''[interface]''" by code_simp+
  have p: "str_trim ''[Peer]'' = ''[Peer]''" "\<not> skipped_line ''[Peer]''"
    "\<not> eq_ignore_ascii_case ''[Peer]'' ''[interface]''"
    "eq_ignore_ascii_case ''[Peer]'' ''[peer]''" by code_simp+
  show "runs cd [''[Interface]''] st (st\<lparr>st_section := SInterface\<rparr>)"
    unfolding runs_def parse_lines.simps parse_line_def i Let_def using i by simp
  have "runs cd [[]] st st"
    by (simp add: runs_def parse_line_def skipped_line_def)
  moreover have "runs cd [''[Peer]''] st
      (st\<lparr>st_section := SPeer, st_peers := st_peers st @ [default_pb]\<rparr>)"
    unfolding runs_def parse_lines.simps parse_line_def p Let_def using p by simp
  ultimately show "runs cd ['''', ''[Peer]''] st
      (st\<lparr>st_section := SPeer, st_peers := st_peers st @ [default_pb]\<rparr>)"
    using runs_append [of cd "['''']"] by simp
qed

definition filled :: "interface_config \<Rightarrow> interface_builder" where
  "filled i = \<lparr>ib_private_key = Some (if_private_key i), ib_listen_port = if_listen_port i,
     ib_addresses = if_addresses i, ib_dns = if_dns i, ib_dns_search = if_dns_search i,
     ib_mtu = if_mtu i, ib_fwmark = 0, ib_pre_up = if_pre_up i, ib_post_up = if_post_up i,
     ib_pre_down = if_pre_down i, ib_post_down = if_post_down i\<rparr>"

context base64_codec begin

lemma runs_private_key:
  assumes "key_wf (private_bytes k)" "st_section st = SInterface"
  shows "runs cd [''PrivateKey = '' @ private_to_base64 cd k] st
    (on_iface (\<lambda>b. b\<lparr>ib_private_key := Some k\<rparr>) st)"
proof -
  have "runs cd [''PrivateKey'' @ '' = '' @ private_to_base64 cd k] st
      (on_iface (\<lambda>b. b\<lparr>ib_private_key := Some k\<rparr>) st)"
    using assms by (intro runs_iface_kv)
      (simp_all add: parse_interface_kv_def key_field_def private_base64,
       simp add: private_to_base64_def tidy_opt_tidy tidy_key)
  then show ?thesis by simp
qed

lemma runs_hooks:
  assumes "exportable_interface i" "st_section st = SInterface"
  shows "runs cd (map (\<lambda>c. ''PreUp = '' @ c) (if_pre_up i) @ map (\<lambda>c. ''PostUp = '' @ c) (if_post_up i) @
      map (\<lambda>c. ''PreDown = '' @ c) (if_pre_down i) @ map (\<lambda>c. ''PostDown = '' @ c) (if_post_down i)) st
    (on_iface (\<lambda>b. b\<lparr>ib_pre_up := ib_pre_up b @ if_pre_up i, ib_post_up := ib_post_up b @ if_post_up i,
      ib_pre_down := ib_pre_down b @ if_pre_down i, ib_post_down := ib_post_down b @ if_post_down i\<rparr>) st)"
proof -
  note e = assms(1) [unfolded exportable_interface_def]
  define s1 where "s1 = on_iface (\<lambda>b. b\<lparr>ib_pre_up := ib_pre_up b @ if_pre_up i\<rparr>) st"
  define s2 where "s2 = on_iface (\<lambda>b. b\<lparr>ib_post_up := ib_post_up b @ if_post_up i\<rparr>) s1"
  define s3 where "s3 = on_iface (\<lambda>b. b\<lparr>ib_pre_down := ib_pre_down b @ if_pre_down i\<rparr>) s2"
  define s4 where "s4 = on_iface (\<lambda>b. b\<lparr>ib_post_down := ib_post_down b @ if_post_down i\<rparr>) s3"
  note ss = s1_def s2_def s3_def s4_def
  have r1: "runs cd (map (\<lambda>c. ''PreUp = '' @ c) (if_pre_up i)) st s1"
    unfolding s1_def using e assms(2) by (intro runs_commands) simp_all
  have r2: "runs cd (map (\<lambda>c. ''PostUp = '' @ c) (if_post_up i)) s1 s2"
    unfolding s2_def using e assms(2) by (intro runs_commands) (simp_all add: ss)
  have r3: "runs cd (map (\<lambda>c. ''PreDown = '' @ c) (if_pre_down i)) s2 s3"
    unfolding s3_def using e assms(2) by (intro runs_commands) (simp_all add: ss)
  have r4: "runs cd (map (\<lambda>c. ''PostDown = '' @ c) (if_post_down i)) s3 s4"
    unfolding s4_def using e assms(2) by (intro runs_commands) (simp_all add: ss)
  have "s4 = on_iface (\<lambda>b. b\<lparr>ib_pre_up := ib_pre_up b @ if_pre_up i, ib_post_up := ib_post_up b @ if_post_up i,
      ib_pre_down := ib_pre_down b @ if_pre_down i, ib_post_down := ib_post_down b @ if_post_down i\<rparr>) st"
    by (simp add: ss on_iface_def)
  then show ?thesis
    using runs_append [OF r1 runs_append [OF r2 runs_append [OF r3 r4]]] by simp
qed

lemma runs_interface:
  assumes "exportable_interface i" "st_iface st = default_ib"
  shows "runs cd (export_interface cd i) st (st\<lparr>st_section := SInterface, st_iface := filled i\<rparr>)"
proof -
  note e = assms(1) [unfolded exportable_interface_def]
  define s1 where "s1 = st\<lparr>st_section := SInterface\<rparr>"
  define s2 where "s2 = on_iface (\<lambda>b. b\<lparr>ib_private_key := Some (if_private_key i)\<rparr>) s1"
  define s3 where "s3 = on_iface (\<lambda>b. b\<lparr>ib_listen_port := if_listen_port i\<rparr>) s2"
  define s4 where "s4 = on_iface (\<lambda>b. b\<lparr>ib_addresses := ib_addresses b @ if_addresses i\<rparr>) s3"
  define s5 where "s5 = on_iface (\<lambda>b. b\<lparr>ib_dns := ib_dns b @ if_dns i,
    ib_dns_search := ib_dns_search b @ if_dns_search i\<rparr>) s4"
  define s6 where "s6 = on_iface (\<lambda>b. b\<lparr>ib_mtu := if_mtu i\<rparr>) s5"
  define s7 where "s7 = on_iface (\<lambda>b. b\<lparr>ib_pre_up := ib_pre_up b @ if_pre_up i,
    ib_post_up := ib_post_up b @ if_post_up i, ib_pre_down := ib_pre_down b @ if_pre_down i,
    ib_post_down := ib_post_down b @ if_post_down i\<rparr>) s6"
  note ss = s1_def s2_def s3_def s4_def s5_def s6_def s7_def
  have sec: "st_section s1 = SInterface" by (simp add: s1_def)
  have r2: "runs cd [''[Interface]'', ''PrivateKey = '' @ private_to_base64 cd (if_private_key i)] st s2"
  proof -
    have "runs cd [''[Interface]''] st s1" unfolding s1_def by (rule runs_header)
    moreover have "runs cd [''PrivateKey = '' @ private_to_base64 cd (if_private_key i)] s1 s2"
      unfolding s2_def using e sec by (intro runs_private_key) simp_all
    ultimately show ?thesis using runs_append by fastforce
  qed
  have r3: "runs cd (if if_listen_port i \<noteq> 0 then [''ListenPort = '' @ show_nat (unat (if_listen_port i))]
      else []) s2 s3"
    unfolding s3_def using assms(2) by (intro runs_number) (simp_all add: ss default_ib_def)
  have r4: "runs cd (map (\<lambda>a. ''Address = '' @ a) (if_addresses i)) s3 s4"
    unfolding s4_def using e by (intro runs_address) (simp_all add: ss)
  have r5: "runs cd (if if_dns i \<noteq> [] \<or> if_dns_search i \<noteq> [] then
      [''DNS = '' @ str_join '', '' (map show_ip (if_dns i) @ if_dns_search i)] else []) s4 s5"
    unfolding s5_def using e by (intro runs_if runs_dns on_iface_id [symmetric]) (auto simp: ss)
  have r6: "runs cd (if if_mtu i \<noteq> 0 then [''MTU = '' @ show_nat (unat (if_mtu i))] else []) s5 s6"
    unfolding s6_def using assms(2) by (intro runs_number) (simp_all add: ss default_ib_def)
  have "runs cd (export_interface cd i) st s7"
    unfolding export_interface_def s7_def using assms(1)
    by (intro runs_append [OF r2] runs_append [OF r3] runs_append [OF r4] runs_append [OF r5]
        runs_append [OF r6] runs_hooks) (simp_all add: ss)
  moreover have "s7 = st\<lparr>st_section := SInterface, st_iface := filled i\<rparr>"
    using assms(2) by (simp add: ss on_iface_def filled_def default_ib_def)
  ultimately show ?thesis by simp
qed

end


section \<open>A peer section\<close>

definition filled_peer :: "peer_config \<Rightarrow> peer_builder" where
  "filled_peer p = \<lparr>pb_name = [], pb_public_key = Some (pc_public_key p),
     pb_preshared_key = pc_preshared_key p, pb_endpoint = pc_endpoint p,
     pb_allowed_ips = pc_allowed_ips p, pb_keepalive = pc_keepalive p\<rparr>"

lemma uni_ws_solid_last: "is_uni_ws3 (rev s) \<Longrightarrow> s \<noteq> [] \<Longrightarrow> \<not> solid (last s)"
  by (cases s rule: rev_cases) (auto simp: solid_def)

lemma trim_rev_last:
  "x \<noteq> [] \<Longrightarrow> solid (last x) \<Longrightarrow> trim_rev x \<noteq> [] \<and> last (trim_rev x) = last x"
proof (induction x rule: trim_rev.induct)
  case (2 a r)
  have drop: "drop k r \<noteq> [] \<and> last (drop k r) = last (a # r)"
    if "is_uni_ws3 (rev (take (Suc k) (a # r)))" for k
  proof (cases "length r \<le> k")
    case True
    then have "is_uni_ws3 (rev (a # r))" using that by simp
    then show ?thesis using uni_ws_solid_last [of "a # r"] "2.prems" by blast
  next
    case False
    then show ?thesis by auto
  qed
  consider "ascii_ws a" | "\<not> ascii_ws a" "is_uni_ws3 (rev (take 2 (a # r)))"
    | "\<not> ascii_ws a" "\<not> is_uni_ws3 (rev (take 2 (a # r)))" "is_uni_ws3 (rev (take 3 (a # r)))"
    | "\<not> ascii_ws a" "\<not> is_uni_ws3 (rev (take 2 (a # r)))" "\<not> is_uni_ws3 (rev (take 3 (a # r)))"
    by blast
  then show ?case
  proof cases
    case 1
    then have "r \<noteq> []" using "2.prems" by (auto simp: solid_def)
    then show ?thesis using 1 "2.IH"(1) "2.prems" by simp
  next
    case 2
    then have "drop 1 r \<noteq> []" "last (drop 1 r) = last (a # r)" using drop [of 1] by simp_all
    then show ?thesis using 2 "2.IH"(2) "2.prems" by (simp del: last.simps)
  next
    case 3
    then have "drop 2 r \<noteq> []" "last (drop 2 r) = last (a # r)" using drop [of 2] by simp_all
    then show ?thesis using 3 "2.IH"(3) "2.prems" by (simp del: last.simps)
  next
    case 4
    then show ?thesis by simp
  qed
qed simp

lemma str_trim_head: "s \<noteq> [] \<Longrightarrow> solid (hd s) \<Longrightarrow> str_trim s \<noteq> [] \<and> hd (str_trim s) = hd s"
  using trim_rev_last [of "rev s"] by (auto simp: str_trim_def trim_start_solid last_rev hd_rev)

lemma runs_comment: "runs cd [''# Name = '' @ n] st st"
proof -
  have "str_trim (''# Name = '' @ n) \<noteq> [] \<and> hd (str_trim (''# Name = '' @ n)) = CHR ''#''"
    using str_trim_head [of "''# Name = '' @ n"] by (simp add: solid_def ascii_ws_def)
  then show ?thesis
    by (intro runs_one) (simp add: parse_line_def skipped_line_def starts_with_def)
qed

context base64_codec begin

lemma runs_peer_fields:
  assumes "in_peer st"
  shows "key_wf (public_bytes k) \<Longrightarrow> runs cd [''PublicKey = '' @ public_to_base64 cd k] st
      (on_peer (\<lambda>b. b\<lparr>pb_public_key := Some k\<rparr>) st)"
    "key_wf (preshared_bytes ps) \<Longrightarrow> runs cd [''PresharedKey = '' @ preshared_to_base64 cd ps] st
      (on_peer (\<lambda>b. b\<lparr>pb_preshared_key := Some ps\<rparr>) st)"
    "tidy_opt e \<Longrightarrow> runs cd [''Endpoint = '' @ e] st (on_peer (\<lambda>b. b\<lparr>pb_endpoint := Some e\<rparr>) st)"
    "ips \<noteq> [] \<Longrightarrow> list_all tidy_item ips \<Longrightarrow> runs cd [''AllowedIPs = '' @ str_join '', '' ips] st
      (on_peer (\<lambda>b. b\<lparr>pb_allowed_ips := pb_allowed_ips b @ ips\<rparr>) st)"
    "runs cd [''PersistentKeepalive = '' @ show_nat (unat w)] st
      (on_peer (\<lambda>b. b\<lparr>pb_keepalive := w\<rparr>) st)"
proof -
  show "key_wf (public_bytes k) \<Longrightarrow> runs cd [''PublicKey = '' @ public_to_base64 cd k] st
      (on_peer (\<lambda>b. b\<lparr>pb_public_key := Some k\<rparr>) st)"
    using runs_peer_kv [OF key_words(10), of "public_to_base64 cd k" st cd
        "\<lambda>b. b\<lparr>pb_public_key := Some k\<rparr>"] assms
    by (simp add: parse_peer_kv_def key_field_def public_base64)
      (simp add: public_to_base64_def tidy_opt_tidy tidy_key)
  show "key_wf (preshared_bytes ps) \<Longrightarrow> runs cd [''PresharedKey = '' @ preshared_to_base64 cd ps] st
      (on_peer (\<lambda>b. b\<lparr>pb_preshared_key := Some ps\<rparr>) st)"
    using runs_peer_kv [OF key_words(11), of "preshared_to_base64 cd ps" st cd
        "\<lambda>b. b\<lparr>pb_preshared_key := Some ps\<rparr>"] assms
    by (simp add: parse_peer_kv_def key_field_def preshared_base64)
      (simp add: preshared_to_base64_def tidy_opt_tidy tidy_key)
  show "tidy_opt e \<Longrightarrow> runs cd [''Endpoint = '' @ e] st (on_peer (\<lambda>b. b\<lparr>pb_endpoint := Some e\<rparr>) st)"
    using runs_peer_kv [OF key_words(12), of e st cd "\<lambda>b. b\<lparr>pb_endpoint := Some e\<rparr>"] assms
    by (simp add: parse_peer_kv_def)
  show "runs cd [''PersistentKeepalive = '' @ show_nat (unat w)] st
      (on_peer (\<lambda>b. b\<lparr>pb_keepalive := w\<rparr>) st)"
    using runs_peer_kv [OF key_words(14), of "show_nat (unat w)" st cd
        "\<lambda>b. b\<lparr>pb_keepalive := w\<rparr>"] assms
    by (simp add: parse_peer_kv_def int_field_def tidy_opt_tidy)
  show "ips \<noteq> [] \<Longrightarrow> list_all tidy_item ips \<Longrightarrow> runs cd [''AllowedIPs = '' @ str_join '', '' ips] st
      (on_peer (\<lambda>b. b\<lparr>pb_allowed_ips := pb_allowed_ips b @ ips\<rparr>) st)"
  proof -
    assume ips: "ips \<noteq> []" "list_all tidy_item ips"
    then have "tidy (str_join '', '' ips)"
      by (intro tidy_join) (auto simp: list_all_iff tidy_item_def)
    then show ?thesis
      using runs_peer_kv [OF key_words(13), of "str_join '', '' ips" st cd
          "\<lambda>b. b\<lparr>pb_allowed_ips := pb_allowed_ips b @ ips\<rparr>"] assms split_join_tidy [OF ips]
      by (simp add: parse_peer_kv_def tidy_opt_tidy)
  qed
qed

lemma runs_peer_options:
  assumes "in_peer st"
  shows "(\<And>k. x = Some k \<Longrightarrow> key_wf (preshared_bytes k)) \<Longrightarrow> pb_preshared_key (last (st_peers st)) = None \<Longrightarrow>
      runs cd (case x of None \<Rightarrow> [] | Some k \<Rightarrow> [''PresharedKey = '' @ preshared_to_base64 cd k]) st
        (on_peer (\<lambda>b. b\<lparr>pb_preshared_key := x\<rparr>) st)"
    and "(\<And>e. y = Some e \<Longrightarrow> tidy_opt e) \<Longrightarrow> pb_endpoint (last (st_peers st)) = None \<Longrightarrow>
      runs cd (case y of None \<Rightarrow> [] | Some e \<Rightarrow> [''Endpoint = '' @ e]) st
        (on_peer (\<lambda>b. b\<lparr>pb_endpoint := y\<rparr>) st)"
  by (cases x; use runs_peer_fields(2) [OF assms] assms in \<open>auto intro!: runs_Nil on_peer_id [symmetric]\<close>)
    (cases y; use runs_peer_fields(3) [OF assms] assms in \<open>auto intro!: runs_Nil on_peer_id [symmetric]\<close>)

lemma runs_peer:
  assumes "exportable_peer p"
  shows "runs cd (export_peer cd p) st
    (st\<lparr>st_section := SPeer, st_peers := st_peers st @ [filled_peer p]\<rparr>)"
proof -
  note e = assms [unfolded exportable_peer_def]
  define s1 where "s1 = st\<lparr>st_section := SPeer, st_peers := st_peers st @ [default_pb]\<rparr>"
  define s2 where "s2 = on_peer (\<lambda>b. b\<lparr>pb_public_key := Some (pc_public_key p)\<rparr>) s1"
  define s3 where "s3 = on_peer (\<lambda>b. b\<lparr>pb_preshared_key := pc_preshared_key p\<rparr>) s2"
  define s4 where "s4 = on_peer (\<lambda>b. b\<lparr>pb_endpoint := pc_endpoint p\<rparr>) s3"
  define s5 where "s5 = on_peer (\<lambda>b. b\<lparr>pb_allowed_ips := pb_allowed_ips b @ pc_allowed_ips p\<rparr>) s4"
  define s6 where "s6 = on_peer (\<lambda>b. b\<lparr>pb_keepalive := pc_keepalive p\<rparr>) s5"
  note ss = s1_def s2_def s3_def s4_def s5_def s6_def
  have in_peer: "in_peer s1" "in_peer s2" "in_peer s3" "in_peer s4" "in_peer s5"
    by (simp_all add: ss in_peer_def on_peer_def)
  have lasts: "pb_preshared_key (last (st_peers s2)) = None" "pb_endpoint (last (st_peers s3)) = None"
    "pb_keepalive (last (st_peers s5)) = 0"
    by (simp_all add: ss default_pb_def)
  have r1: "runs cd ['''', ''[Peer]''] st s1" unfolding s1_def by (rule runs_header)
  have rn: "runs cd (if pc_name p \<noteq> [] then [''# Name = '' @ pc_name p] else []) s1 s1"
    by (intro runs_if runs_comment) simp
  have r2: "runs cd [''PublicKey = '' @ public_to_base64 cd (pc_public_key p)] s1 s2"
    unfolding s2_def using e in_peer by (intro runs_peer_fields) simp_all
  have r3: "runs cd (case pc_preshared_key p of None \<Rightarrow> []
        | Some k \<Rightarrow> [''PresharedKey = '' @ preshared_to_base64 cd k]) s2 s3"
    unfolding s3_def using e lasts in_peer by (intro runs_peer_options) auto
  have r4: "runs cd (case pc_endpoint p of None \<Rightarrow> [] | Some e \<Rightarrow> [''Endpoint = '' @ e]) s3 s4"
    unfolding s4_def using e lasts in_peer by (intro runs_peer_options) auto
  have r5: "runs cd (if pc_allowed_ips p \<noteq> [] then
      [''AllowedIPs = '' @ str_join '', '' (pc_allowed_ips p)] else []) s4 s5"
    unfolding s5_def using e in_peer by (intro runs_if runs_peer_fields) simp_all
  have r6: "runs cd (if pc_keepalive p \<noteq> 0 then
      [''PersistentKeepalive = '' @ show_nat (unat (pc_keepalive p))] else []) s5 s6"
    unfolding s6_def using e in_peer lasts
    by (intro runs_if runs_peer_fields on_peer_id [symmetric]) simp_all
  have "runs cd (export_peer cd p) st s6"
    unfolding export_peer_def
    by (intro runs_append [OF r1] runs_append [OF rn] runs_append [OF r2] runs_append [OF r3]
        runs_append [OF r4] runs_append [OF r5] r6)
  moreover have "s6 = st\<lparr>st_section := SPeer, st_peers := st_peers st @ [filled_peer p]\<rparr>"
    by (simp add: ss on_peer_def filled_peer_def default_pb_def)
  ultimately show ?thesis by simp
qed

lemma runs_peers:
  "list_all exportable_peer ps \<Longrightarrow> ps \<noteq> [] \<Longrightarrow>
   runs cd (concat (map (export_peer cd) ps)) st
     (st\<lparr>st_section := SPeer, st_peers := st_peers st @ map filled_peer ps\<rparr>)"
proof (induction ps arbitrary: st)
  case (Cons p ps)
  let ?st = "st\<lparr>st_section := SPeer, st_peers := st_peers st @ [filled_peer p]\<rparr>"
  have "runs cd (export_peer cd p) st ?st" using Cons.prems by (intro runs_peer) simp
  moreover have "runs cd (concat (map (export_peer cd) ps)) ?st
      (?st\<lparr>st_section := SPeer, st_peers := st_peers ?st @ map filled_peer ps\<rparr>)"
  proof (cases "ps = []")
    case False
    then show ?thesis using Cons.prems by (intro Cons.IH) simp_all
  qed (simp add: runs_Nil)
  ultimately show ?case using runs_append [of cd "export_peer cd p" st ?st] by simp
qed simp

end


section \<open>The whole file\<close>

definition clean :: "string \<Rightarrow> bool" where
  "clean s = (nl \<notin> set s \<and> CHR 13 \<notin> set s)"

lemma clean_simps [simp]:
  "clean []" "clean (c # s) \<longleftrightarrow> c \<noteq> nl \<and> c \<noteq> CHR 13 \<and> clean s"
  "clean (s @ t) \<longleftrightarrow> clean s \<and> clean t"
  by (auto simp: clean_def)

lemma clean_tidy: "tidy s \<Longrightarrow> clean s" "tidy_opt s \<Longrightarrow> clean s" "tidy_item s \<Longrightarrow> clean s"
  by (auto simp: clean_def tidy_def tidy_opt_def tidy_item_def)

lemma clean_join: "list_all tidy_item xs \<Longrightarrow> clean (str_join '', '' xs)"
  by (cases "xs = []") (auto simp: list_all_iff tidy_item_def intro!: clean_tidy(1) tidy_join)

lemma build_filled: "build_interface (filled i) = Inr (i\<lparr>if_fwmark := 0\<rparr>)"
  by (cases i) (simp add: build_interface_def filled_def)

lemma finish_filled:
  assumes "exportable c"
  shows "finish_parse (init_parse\<lparr>st_section := SPeer, st_iface := filled (wg_interface c),
      st_peers := map filled_peer (wg_peers c)\<rparr>) = Inr (imported c)"
proof -
  have peers: "wg_peers c \<noteq> []" "\<forall>p \<in> set (wg_peers c). pc_allowed_ips p \<noteq> []"
    using assms by (auto simp: exportable_def list_all_iff exportable_peer_def)
  have "collect_results (map build_peer (map filled_peer (wg_peers c))) =
      Inr (map (\<lambda>p. p\<lparr>pc_name := []\<rparr>) (wg_peers c))"
    unfolding map_map
    by (rule collect_results_map_Inr) (simp add: build_peer_def filled_peer_def)
  moreover have "wg_validate (imported c) = Inr ()"
    using peers by (simp add: wg_validate_iff wg_ok_def imported_def list_all_iff peer_ok_def)
  ultimately show ?thesis
    by (simp add: finish_parse_def build_filled imported_def o_def)
qed

context base64_codec begin

lemma clean_keys [simp]:
  "clean (private_to_base64 cd k)" "clean (public_to_base64 cd k')" "clean (preshared_to_base64 cd k'')"
  by (auto simp: clean_def private_to_base64_def public_to_base64_def preshared_to_base64_def
      b64_char_def dest: encode_chars)

lemma clean_interface: "exportable_interface i \<Longrightarrow> list_all clean (export_interface cd i)"
proof -
  assume e: "exportable_interface i"
  then have "list_all tidy_item (map show_ip (if_dns i) @ if_dns_search i)"
    by (auto simp: exportable_interface_def list_all_iff tidy_item_def tidy_show_ip)
  then have dns: "clean (str_join '', '' (map show_ip (if_dns i) @ if_dns_search i))"
    by (rule clean_join)
  have each: "list_all P (map f xs) \<longleftrightarrow> (\<forall>x \<in> set xs. P (f x))" for P and f :: "string \<Rightarrow> string" and xs
    by (simp add: list_all_iff)
  have "\<forall>a \<in> set (if_addresses i). clean a"
    "\<forall>a \<in> set (if_pre_up i). clean a" "\<forall>a \<in> set (if_post_up i). clean a"
    "\<forall>a \<in> set (if_pre_down i). clean a" "\<forall>a \<in> set (if_post_down i). clean a"
    using e by (auto simp: exportable_interface_def list_all_iff intro: clean_tidy)
  then show ?thesis
    using dns clean_tidy(1) [OF tidy_show_nat] by (simp add: export_interface_def each)
qed

lemma clean_peer: "exportable_peer p \<Longrightarrow> list_all clean (export_peer cd p)"
  using clean_join [of "pc_allowed_ips p"] clean_tidy(1) [OF tidy_show_nat]
  by (cases "pc_preshared_key p"; cases "pc_endpoint p")
    (simp_all add: export_peer_def exportable_peer_def clean_tidy clean_def [of "pc_name p"])

lemma export_lines_clean:
  assumes "exportable c" "l \<in> set (export_lines cd c)"
  shows "nl \<notin> set l \<and> CHR 13 \<notin> set l"
proof -
  have "clean l"
    using assms clean_interface [of "wg_interface c"] clean_peer
    unfolding exportable_def export_lines_def list_all_iff by auto
  then show ?thesis by (simp add: clean_def)
qed

lemma load_export:
  assumes "exportable c"
  shows "load_from_str cd (export_to_string cd c) = Inr (imported c)"
proof -
  have lines: "str_lines (export_to_string cd c) = export_lines cd c"
    unfolding export_to_string_def
    by (rule str_lines_concat) (rule export_lines_clean [OF assms])
  let ?st = "init_parse\<lparr>st_section := SInterface, st_iface := filled (wg_interface c)\<rparr>"
  have "runs cd (export_interface cd (wg_interface c)) init_parse ?st"
    using assms by (intro runs_interface) (simp_all add: exportable_def init_parse_def)
  moreover have "runs cd (concat (map (export_peer cd) (wg_peers c))) ?st
      (?st\<lparr>st_section := SPeer, st_peers := st_peers ?st @ map filled_peer (wg_peers c)\<rparr>)"
    using assms by (intro runs_peers) (simp_all add: exportable_def)
  ultimately have "runs cd (export_lines cd c) init_parse
      (init_parse\<lparr>st_section := SPeer, st_iface := filled (wg_interface c),
        st_peers := map filled_peer (wg_peers c)\<rparr>)"
    unfolding export_lines_def using runs_append by (fastforce simp: init_parse_def)
  then show ?thesis
    using finish_filled [OF assms] by (simp add: load_from_str_def lines runs_def)
qed

end

end
