(* ===== verification/WgQuickProps.thy ===== *)
theory WgQuickProps
  imports WgQuickRoundtrip
begin

text \<open>
  What the \<open>wg-quick\<close> reader and writer promise: the reader never reaches its
  \<open>unreachable!\<close>, every configuration it accepts is valid, and it reads back what the
  writer prints up to the peer names and the firewall mark.
\<close>

section \<open>Accepted files\<close>

definition builders_wf :: "parse_state \<Rightarrow> bool" where
  "builders_wf st =
     ((\<forall>k. ib_private_key (st_iface st) = Some k \<longrightarrow> key_wf (private_bytes k)) \<and>
      (\<forall>b \<in> set (st_peers st).
        (\<forall>k. pb_public_key b = Some k \<longrightarrow> key_wf (public_bytes k)) \<and>
        (\<forall>k. pb_preshared_key b = Some k \<longrightarrow> key_wf (preshared_bytes k))))"

definition keys_wf :: "wg_config \<Rightarrow> bool" where
  "keys_wf c =
     (key_wf (private_bytes (if_private_key (wg_interface c))) \<and>
      (\<forall>p \<in> set (wg_peers c). key_wf (public_bytes (pc_public_key p)) \<and>
        (\<forall>k. pc_preshared_key p = Some k \<longrightarrow> key_wf (preshared_bytes k))))"

lemma add_dns_key [simp]: "ib_private_key (add_dns ts b) = ib_private_key b"
  by (induction ts b rule: add_dns.induct) (auto simp: Let_def split: option.splits)

lemma parse_interface_kv_key:
  "parse_interface_kv cd b k v n = Inr b' \<Longrightarrow>
   ib_private_key b' = ib_private_key b \<or>
   (\<exists>key. ib_private_key b' = Some key \<and> private_from_base64 cd v = Inr key)"
  by (auto simp: parse_interface_kv_def key_field_def Let_def res_simps split: if_splits)

lemma parse_peer_kv_key:
  "parse_peer_kv cd b k v n = Inr b' \<Longrightarrow>
   (pb_public_key b' = pb_public_key b \<or>
     (\<exists>key. pb_public_key b' = Some key \<and> public_from_base64 cd v = Inr key)) \<and>
   (pb_preshared_key b' = pb_preshared_key b \<or>
     (\<exists>key. pb_preshared_key b' = Some key \<and> preshared_from_base64 cd v = Inr key))"
  by (auto simp: parse_peer_kv_def key_field_def Let_def res_simps split: if_splits)

lemma from_base64_wf:
  "private_from_base64 cd s = Inr k1 \<Longrightarrow> key_wf (private_bytes k1)"
  "public_from_base64 cd s = Inr k2 \<Longrightarrow> key_wf (public_bytes k2)"
  "preshared_from_base64 cd s = Inr k3 \<Longrightarrow> key_wf (preshared_bytes k3)"
  by (auto simp: private_from_base64_def public_from_base64_def preshared_from_base64_def res_simps
      dest: decode_key_bytes_wf)

lemma kv_line_wf:
  assumes "builders_wf st"
    "(case st_section st of
        SNone \<Rightarrow> Inl (Fail (WgQuickParse n m))
      | SInterface \<Rightarrow>
          res_bind (map_err Fail (parse_interface_kv cd (st_iface st) key v n))
            (\<lambda>b. Inr (st\<lparr>st_iface := b\<rparr>))
      | SPeer \<Rightarrow>
          (if st_peers st = [] then Inl Unreachable
           else res_bind (map_err Fail (parse_peer_kv cd (last (st_peers st)) key v n))
             (\<lambda>b. Inr (st\<lparr>st_peers := butlast (st_peers st) @ [b]\<rparr>)))) = Inr st'"
  shows "builders_wf st'"
proof (cases "st_section st")
  case SInterface
  then obtain b where b: "parse_interface_kv cd (st_iface st) key v n = Inr b"
    "st' = st\<lparr>st_iface := b\<rparr>"
    using assms(2) by (auto simp: res_simps)
  then show ?thesis
    using assms(1) parse_interface_kv_key [OF b(1)] from_base64_wf(1)
    by (auto simp: builders_wf_def)
next
  case SPeer
  then obtain b where b: "st_peers st \<noteq> []"
    "parse_peer_kv cd (last (st_peers st)) key v n = Inr b"
    "st' = st\<lparr>st_peers := butlast (st_peers st) @ [b]\<rparr>"
    using assms(2) by (auto simp: res_simps split: if_splits)
  have "last (st_peers st) \<in> set (st_peers st)" using b by simp
  then have "(\<forall>k. pb_public_key b = Some k \<longrightarrow> key_wf (public_bytes k)) \<and>
      (\<forall>k. pb_preshared_key b = Some k \<longrightarrow> key_wf (preshared_bytes k))"
    using assms(1) parse_peer_kv_key [OF b(2)] from_base64_wf(2,3)
    unfolding builders_wf_def by (metis option.inject)
  then show ?thesis
    using b assms(1) by (auto simp: builders_wf_def dest: in_set_butlastD)
qed (use assms in simp)

lemma parse_line_wf:
  assumes "parse_line cd n raw st = Inr st'" "builders_wf st"
  shows "builders_wf st'"
proof -
  define l where "l = str_trim raw"
  consider "skipped_line l" | "\<not> skipped_line l" "eq_ignore_ascii_case l ''[interface]''"
    | "\<not> skipped_line l" "\<not> eq_ignore_ascii_case l ''[interface]''" "eq_ignore_ascii_case l ''[peer]''"
    | "\<not> skipped_line l" "\<not> eq_ignore_ascii_case l ''[interface]''"
      "\<not> eq_ignore_ascii_case l ''[peer]''" by blast
  then show ?thesis
  proof cases
    case 4
    obtain key v where kv: "split_kv l n = Inr (key, v)"
      using assms(1) 4 by (auto simp: parse_line_def Let_def res_simps l_def [symmetric])
    show ?thesis
      by (rule kv_line_wf [OF assms(2)])
        (use assms(1) 4 kv in \<open>simp add: parse_line_def Let_def l_def [symmetric]
           res_bind.simps map_err.simps\<close>)
  qed (use assms in \<open>auto simp: parse_line_def Let_def l_def [symmetric] builders_wf_def default_pb_def\<close>)
qed

lemma parse_lines_wf: "parse_lines cd n ls st = Inr st' \<Longrightarrow> builders_wf st \<Longrightarrow> builders_wf st'"
  by (induction ls arbitrary: n st) (auto simp: res_simps intro: parse_line_wf)

lemma collect_results_Inr:
  "collect_results (map f xs) = Inr ys \<Longrightarrow> \<forall>y \<in> set ys. \<exists>x \<in> set xs. f x = Inr y"
proof (induction xs arbitrary: ys)
  case (Cons x xs)
  obtain z zs where "f x = Inr z" "collect_results (map f xs) = Inr zs" "ys = z # zs"
    using Cons.prems by (auto simp: res_simps)
  then show ?case using Cons.IH by fastforce
qed simp

lemma finish_parse_wf: "finish_parse st = Inr c \<Longrightarrow> builders_wf st \<Longrightarrow> wg_ok c \<and> keys_wf c"
  by (auto simp: finish_parse_def Let_def res_simps wg_validate_iff keys_wf_def build_interface_def
      build_peer_def builders_wf_def dest!: collect_results_Inr) (fastforce+)?

section \<open>Properties\<close>

text \<open>Reading a file never reaches the \<open>unreachable!\<close> of the \<open>[Peer]\<close> case: a key-value
  line is only parsed as a peer's after a \<open>[Peer]\<close> header has pushed a builder.\<close>

theorem load_never_unreachable: "load_from_str cd s \<noteq> Inl Unreachable"
proof
  assume "load_from_str cd s = Inl Unreachable"
  then have "parse_lines cd 0 (str_lines s) init_parse = Inl Unreachable"
    by (auto simp: load_from_str_def res_simps)
  then show False using parse_lines_reachable [OF init_parse_inv] by blast
qed

lemma load_from_str_wf: "load_from_str cd s = Inr c \<Longrightarrow> wg_ok c \<and> keys_wf c"
proof -
  assume "load_from_str cd s = Inr c"
  then obtain st where st: "parse_lines cd 0 (str_lines s) init_parse = Inr st"
    "finish_parse st = Inr c"
    by (auto simp: load_from_str_def res_simps)
  have "builders_wf init_parse" by (simp add: builders_wf_def init_parse_def default_ib_def)
  then show ?thesis using finish_parse_wf parse_lines_wf st by blast
qed

text \<open>C25. A file that loads gives a valid configuration: at least one peer, every peer with an
  allowed IP and an empty or well-formed name, and every key 32 bytes long.\<close>

theorem load_accepts_valid: "load_from_str cd s = Inr c \<Longrightarrow> wg_ok c \<and> keys_wf c"
  by (rule load_from_str_wf)

definition sample_config :: wg_config where
  "sample_config = \<lparr>
     wg_interface = \<lparr>if_private_key = PrivateKey (replicate 32 7), if_listen_port = 51820,
       if_addresses = [''10.0.0.2/24''], if_dns = [V4 1 1 1 1], if_dns_search = [''internal''],
       if_mtu = 1420, if_fwmark = 51, if_pre_up = [], if_post_up = [''echo up''],
       if_pre_down = [], if_post_down = []\<rparr>,
     wg_peers = [\<lparr>pc_name = ''mia'', pc_public_key = PublicKey (replicate 32 9),
       pc_preshared_key = None, pc_endpoint = Some ''vpn.example.com:51820'',
       pc_allowed_ips = [''10.21.0.0/16'', ''10.32.0.0/16''], pc_keepalive = 25\<rparr>]\<rparr>"

lemma to_digit_mono: "to_digit 16 c = None \<Longrightarrow> to_digit 10 c = None"
  by (auto simp: to_digit_def Let_def split: if_splits)

text \<open>A text that starts with neither a hexadecimal digit nor a colon is no address.\<close>

lemma parse_ip_word:
  assumes "to_digit 16 c = None" "c \<noteq> CHR '':''"
  shows "parse_ip (c # s) = None"
proof -
  have v4: "read_ipv4 (c # s) = None"
    using to_digit_mono [OF assms(1)]
    by (simp add: read_ipv4_def read_octet_def read_number_def)
  have "read_groups 8 0 (c # s) = ([], False, c # s)"
    using assms(1) v4 read_groups.simps(2) [of 7 0 "c # s"]
    by (simp add: sep_first_def read_number_def)
  then show ?thesis
    using v4 assms by (simp add: parse_ip_def read_ipv6_def read_char_def)
qed

lemma sample_exportable: "exportable sample_config"
  by (simp add: sample_config_def exportable_def exportable_interface_def exportable_peer_def
      key_wf_def parse_ip_word to_digit_def Let_def tidy_item_def tidy_opt_def tidy_def solid_def ascii_ws_def)

text \<open>C4. Reading back what \<open>export_to_string\<close> prints gives the configuration again, except
  that the firewall mark is 0 and the peer names are empty: for any base64 codec, and for any
  configuration whose text fields survive a line-based format.\<close>

theorem export_load_roundtrip:
  assumes "base64_codec cd" "exportable c"
  shows "load_from_str cd (export_to_string cd c) = Inr (imported c)"
  using base64_codec.load_export [OF assms] .

theorem export_load_roundtrip_witness:
  "load_from_str rfc4648 (export_to_string rfc4648 sample_config) = Inr (imported sample_config)"
  by (rule export_load_roundtrip [OF rfc.base64_codec_axioms sample_exportable])

theorem load_accepts_valid_witness: "wg_ok (imported sample_config) \<and> keys_wf (imported sample_config)"
  by (rule load_accepts_valid
      [OF base64_codec.load_export [OF rfc.base64_codec_axioms sample_exportable]])

end
