(* ===== verification/PacketLoop.thy ===== *)
theory PacketLoop
  imports Backend WgQuickProps
begin

text \<open>
  The packet loop of a connection (\<open>packet_loop\<close>, \<open>handle_outgoing\<close> and \<open>handle_incoming\<close> of
  \<open>ferro-wg-core/src/tunnel/mod.rs\<close>). What \<open>select!\<close> picks is an event; a run is a list of them, in
  any order. A send is recorded whether or not the socket takes it, since its error is only logged.
  A slice that is out of bounds panics: \<open>None\<close>.
\<close>

section \<open>The loop\<close>

definition buf_size :: nat where
  "buf_size = 65536"

datatype packet_out =
    SendUdp bytes sock_addr
  | WriteTun bytes

datatype loop_event =
    TunRead "(string, bytes) result"
  | UdpRead "(string, bytes \<times> sock_addr) result"
  | Tick
  | ShutdownSignal

record 'b loop_state =
  ls_backend :: 'b
  ls_tun_buf :: bytes
  ls_udp_buf :: bytes
  ls_wg_buf :: bytes
  ls_stats :: tunnel_stats

text \<open>A read fills the front of the buffer, with no more than fits.\<close>

definition read_into :: "bytes \<Rightarrow> bytes \<Rightarrow> nat \<times> bytes" where
  "read_into data buf =
     (let n = min (length data) (length buf) in (n, take n data @ drop n buf))"

text \<open>\<open>&buf[..n]\<close>.\<close>

definition slice_to :: "nat \<Rightarrow> bytes \<Rightarrow> bytes option" where
  "slice_to n buf = (if n \<le> length buf then Some (take n buf) else None)"

text \<open>The datagram of a \<open>WriteToNetwork\<close>, for the configured endpoint.\<close>

definition send_out :: "packet_action \<Rightarrow> bytes \<Rightarrow> sock_addr \<Rightarrow> packet_out list option" where
  "send_out a buf endpoint =
     (case a of
        WriteToNetwork len \<Rightarrow> map_option (\<lambda>d. [SendUdp d endpoint]) (slice_to len buf)
      | _ \<Rightarrow> Some [])"

definition handle_outgoing ::
  "'b wg_backend \<Rightarrow> 'b \<Rightarrow> bytes \<Rightarrow> bytes \<Rightarrow> sock_addr \<Rightarrow> (packet_out list \<times> bytes \<times> 'b) option" where
  "handle_outgoing ops b ip_packet wg_buf endpoint =
     (case wb_encapsulate ops b ip_packet wg_buf of (a, wg_buf', b') \<Rightarrow>
       map_option (\<lambda>out. (out, wg_buf', b')) (send_out a wg_buf' endpoint))"

definition handle_incoming ::
  "'b wg_backend \<Rightarrow> 'b \<Rightarrow> bytes \<Rightarrow> sock_addr \<Rightarrow> bytes \<Rightarrow> sock_addr \<Rightarrow> (packet_out list \<times> bytes \<times> 'b) option" where
  "handle_incoming ops b datagram src_addr tun_buf endpoint =
     (case wb_decapsulate ops b (Some src_addr) datagram tun_buf of (a, tun_buf', b') \<Rightarrow>
       map_option (\<lambda>out. (out, tun_buf', b'))
         (case a of
            WriteToTun len \<Rightarrow> map_option (\<lambda>d. [WriteTun d]) (slice_to len tun_buf')
          | _ \<Rightarrow> send_out a tun_buf' endpoint))"

definition on_tun :: "'b wg_backend \<Rightarrow> sock_addr \<Rightarrow> bytes \<Rightarrow> 'b loop_state \<Rightarrow> (packet_out list \<times> 'b loop_state) option"
where
  "on_tun ops endpoint data s =
     (case read_into data (ls_tun_buf s) of (n, tun_buf) \<Rightarrow>
       let s1 = s\<lparr>ls_tun_buf := tun_buf\<rparr> in
       if n > 0 then
         Option.bind (slice_to n tun_buf) (\<lambda>packet.
         Option.bind (handle_outgoing ops (ls_backend s) packet (ls_wg_buf s) endpoint)
           (\<lambda>(out, wg_buf, b). Some (out, s1\<lparr>ls_wg_buf := wg_buf, ls_backend := b\<rparr>)))
       else Some ([], s1))"

definition on_udp ::
  "'b wg_backend \<Rightarrow> sock_addr \<Rightarrow> bytes \<Rightarrow> sock_addr \<Rightarrow> 'b loop_state \<Rightarrow> (packet_out list \<times> 'b loop_state) option"
where
  "on_udp ops endpoint data addr s =
     (case read_into data (ls_udp_buf s) of (n, udp_buf) \<Rightarrow>
       let s1 = s\<lparr>ls_udp_buf := udp_buf\<rparr> in
       Option.bind (slice_to n udp_buf) (\<lambda>datagram.
       Option.bind (handle_incoming ops (ls_backend s) datagram addr (ls_tun_buf s) endpoint)
         (\<lambda>(out, tun_buf, b). Some (out, s1\<lparr>ls_tun_buf := tun_buf, ls_backend := b\<rparr>))))"

definition on_tick :: "'b wg_backend \<Rightarrow> sock_addr \<Rightarrow> 'b loop_state \<Rightarrow> (packet_out list \<times> 'b loop_state) option" where
  "on_tick ops endpoint s =
     (case wb_tick ops (ls_backend s) (ls_wg_buf s) of (a, wg_buf, b) \<Rightarrow>
       map_option (\<lambda>out. (out, s\<lparr>ls_wg_buf := wg_buf, ls_backend := b, ls_stats := wb_stats ops b\<rparr>))
         (send_out a wg_buf endpoint))"

text \<open>One turn of the loop: its packets, the state, and whether it goes on.\<close>

fun loop_step ::
  "'b wg_backend \<Rightarrow> sock_addr \<Rightarrow> loop_event \<Rightarrow> 'b loop_state \<Rightarrow> (packet_out list \<times> 'b loop_state \<times> bool) option"
where
  "loop_step ops endpoint (TunRead (Inr data)) s =
     map_option (\<lambda>(out, s'). (out, s', True)) (on_tun ops endpoint data s)"
| "loop_step ops endpoint (UdpRead (Inr (data, addr))) s =
     map_option (\<lambda>(out, s'). (out, s', True)) (on_udp ops endpoint data addr s)"
| "loop_step ops endpoint Tick s =
     map_option (\<lambda>(out, s'). (out, s', True)) (on_tick ops endpoint s)"
| "loop_step ops endpoint ShutdownSignal s = Some ([], s, False)"
| "loop_step ops endpoint _ s = Some ([], s, True)"

fun loop_run ::
  "'b wg_backend \<Rightarrow> sock_addr \<Rightarrow> loop_event list \<Rightarrow> 'b loop_state \<Rightarrow> (packet_out list \<times> 'b loop_state \<times> bool) option"
where
  "loop_run ops endpoint [] s = Some ([], s, True)"
| "loop_run ops endpoint (e # es) s =
     (case loop_step ops endpoint e s of
        None \<Rightarrow> None
      | Some (out, s', running) \<Rightarrow>
          if running then map_option (\<lambda>(out', r). (out @ out', r)) (loop_run ops endpoint es s')
          else Some (out, s', False))"

definition loop_start ::
  "'b wg_backend \<Rightarrow> sock_addr \<Rightarrow> 'b \<Rightarrow> (packet_out list \<times> 'b loop_state) option" where
  "loop_start ops endpoint b =
     (let z = replicate buf_size 0 in
      case wb_initiate_handshake ops b True z of (a, wg_buf, b') \<Rightarrow>
        map_option (\<lambda>out. (out, \<lparr>ls_backend = b', ls_tun_buf = z, ls_udp_buf = z, ls_wg_buf = wg_buf,
            ls_stats = default_stats\<rparr>))
          (send_out a wg_buf endpoint))"

definition packet_loop ::
  "'b wg_backend \<Rightarrow> sock_addr \<Rightarrow> 'b \<Rightarrow> loop_event list \<Rightarrow> (packet_out list \<times> 'b loop_state \<times> bool) option" where
  "packet_loop ops endpoint b es =
     (case loop_start ops endpoint b of
        None \<Rightarrow> None
      | Some (out, s) \<Rightarrow> map_option (\<lambda>(out', r). (out @ out', r)) (loop_run ops endpoint es s))"

section \<open>What a turn does\<close>

text \<open>Buffers keep their size; an event sends at most one packet, only a datagram leads to a write
  to the device, and every datagram goes to the endpoint.\<close>

definition bufs_ok :: "'b loop_state \<Rightarrow> bool" where
  "bufs_ok s = (length (ls_tun_buf s) = buf_size \<and> length (ls_udp_buf s) = buf_size \<and>
     length (ls_wg_buf s) = buf_size)"

fun out_ok :: "sock_addr \<Rightarrow> packet_out \<Rightarrow> bool" where
  "out_ok endpoint (SendUdp d a) = (a = endpoint \<and> length d \<le> buf_size)"
| "out_ok endpoint (WriteTun d) = (length d \<le> buf_size)"

lemma read_into_len: "read_into d buf = (n, buf') \<Longrightarrow> n \<le> length buf \<and> length buf' = length buf"
  by (auto simp: read_into_def Let_def)

lemma send_out_ok:
  "length buf = buf_size \<Longrightarrow> action_len a \<le> buf_size \<Longrightarrow>
   \<exists>out. send_out a buf endpoint = Some out \<and> length out \<le> 1 \<and> list_all (out_ok endpoint) out"
  by (cases a) (auto simp: send_out_def slice_to_def)

definition turn_ok :: "sock_addr \<Rightarrow> (packet_out list \<times> 'b loop_state) option \<Rightarrow> bool" where
  "turn_ok endpoint r = (\<exists>out s. r = Some (out, s) \<and> length out \<le> 1 \<and>
     list_all (out_ok endpoint) out \<and> bufs_ok s)"

context packet_backend
begin

lemma handle_outgoing_ok:
  assumes "length wg_buf = buf_size"
  shows "\<exists>out wg_buf' b'. handle_outgoing ops b p wg_buf endpoint = Some (out, wg_buf', b') \<and>
    length out \<le> 1 \<and> list_all (out_ok endpoint) out \<and> length wg_buf' = buf_size"
proof -
  obtain a wg_buf' b' where e: "wb_encapsulate ops b p wg_buf = (a, wg_buf', b')"
    by (cases "wb_encapsulate ops b p wg_buf")
  show ?thesis
    using op_fitsD [OF encapsulate_fits e] send_out_ok [of wg_buf' a endpoint] assms
    by (auto simp: handle_outgoing_def e)
qed

lemma handle_incoming_ok:
  assumes "length tun_buf = buf_size"
  shows "\<exists>out tun_buf' b'. handle_incoming ops b d addr tun_buf endpoint = Some (out, tun_buf', b') \<and>
    length out \<le> 1 \<and> list_all (out_ok endpoint) out \<and> length tun_buf' = buf_size"
proof -
  obtain a tun_buf' b' where e: "wb_decapsulate ops b (Some addr) d tun_buf = (a, tun_buf', b')"
    by (cases "wb_decapsulate ops b (Some addr) d tun_buf")
  show ?thesis
    using op_fitsD [OF decapsulate_fits e] send_out_ok [of tun_buf' a endpoint] assms
    by (cases a) (auto simp: handle_incoming_def e slice_to_def)
qed

lemma on_tun_ok:
  assumes "bufs_ok s" shows "turn_ok endpoint (on_tun ops endpoint data s)"
proof -
  obtain n buf where r: "read_into data (ls_tun_buf s) = (n, buf)" by fastforce
  have len: "n \<le> length buf" "length buf = buf_size"
    using read_into_len [OF r] assms by (simp_all add: bufs_ok_def)
  have wg: "length (ls_wg_buf s) = buf_size" using assms by (simp add: bufs_ok_def)
  obtain out wb' b' where o: "handle_outgoing ops (ls_backend s) (take n buf) (ls_wg_buf s) endpoint =
      Some (out, wb', b')" "length out \<le> 1" "list_all (out_ok endpoint) out" "length wb' = buf_size"
    using handle_outgoing_ok [OF wg] by blast
  show ?thesis
    using assms len o by (simp add: on_tun_def r turn_ok_def slice_to_def bufs_ok_def Let_def)
qed

lemma on_udp_ok:
  assumes "bufs_ok s" shows "turn_ok endpoint (on_udp ops endpoint data addr s)"
proof -
  obtain n buf where r: "read_into data (ls_udp_buf s) = (n, buf)" by fastforce
  have len: "n \<le> length buf" "length buf = buf_size"
    using read_into_len [OF r] assms by (simp_all add: bufs_ok_def)
  have tb: "length (ls_tun_buf s) = buf_size" using assms by (simp add: bufs_ok_def)
  obtain out tb' b' where o: "handle_incoming ops (ls_backend s) (take n buf) addr (ls_tun_buf s) endpoint =
      Some (out, tb', b')" "length out \<le> 1" "list_all (out_ok endpoint) out" "length tb' = buf_size"
    using handle_incoming_ok [OF tb] by blast
  show ?thesis
    using assms len o by (simp add: on_udp_def r turn_ok_def slice_to_def bufs_ok_def Let_def)
qed

lemma on_tick_ok:
  assumes "bufs_ok s" shows "turn_ok endpoint (on_tick ops endpoint s)"
proof -
  obtain a wb' b' where e: "wb_tick ops (ls_backend s) (ls_wg_buf s) = (a, wb', b')"
    by (cases "wb_tick ops (ls_backend s) (ls_wg_buf s)")
  have f: "length wb' = buf_size" "action_len a \<le> buf_size"
    using op_fitsD [OF tick_fits e] assms by (simp_all add: bufs_ok_def)
  show ?thesis
    using assms send_out_ok [OF f, of endpoint] f(1) by (auto simp: on_tick_def e turn_ok_def bufs_ok_def)
qed

lemma loop_step_ok:
  assumes "bufs_ok s"
  shows "\<exists>out s' go. loop_step ops endpoint e s = Some (out, s', go) \<and> length out \<le> 1 \<and>
    list_all (out_ok endpoint) out \<and> bufs_ok s' \<and> go = (e \<noteq> ShutdownSignal)"
  using on_tun_ok [OF assms] on_udp_ok [OF assms] on_tick_ok [OF assms, of endpoint] assms
  by (cases "(ops, endpoint, e, s)" rule: loop_step.cases) (auto simp: turn_ok_def, (metis)+)

lemma loop_run_ok:
  assumes "bufs_ok s"
  shows "\<exists>out s' go. loop_run ops endpoint es s = Some (out, s', go) \<and> length out \<le> length es \<and>
    list_all (out_ok endpoint) out \<and> bufs_ok s' \<and> go = (ShutdownSignal \<notin> set es)"
  using assms
proof (induction es arbitrary: s)
  case (Cons e es)
  obtain o1 s1 g1 where 1: "loop_step ops endpoint e s = Some (o1, s1, g1)" "length o1 \<le> 1"
    "list_all (out_ok endpoint) o1" "bufs_ok s1" "g1 = (e \<noteq> ShutdownSignal)"
    using loop_step_ok [OF Cons.prems, of endpoint e] by blast
  obtain o2 s2 g2 where 2: "loop_run ops endpoint es s1 = Some (o2, s2, g2)" "length o2 \<le> length es"
    "list_all (out_ok endpoint) o2" "bufs_ok s2" "g2 = (ShutdownSignal \<notin> set es)"
    using Cons.IH [OF 1(4)] by blast
  show ?case using 1 2 by auto
qed auto

lemma packet_loop_ok:
  "\<exists>out s go. packet_loop ops endpoint b es = Some (out, s, go) \<and> length out \<le> Suc (length es) \<and>
    list_all (out_ok endpoint) out \<and> bufs_ok s \<and> go = (ShutdownSignal \<notin> set es)"
proof -
  obtain a wb b' where h: "wb_initiate_handshake ops b True (replicate buf_size 0) = (a, wb, b')"
    by (cases "wb_initiate_handshake ops b True (replicate buf_size 0)")
  have f: "length wb = buf_size" "action_len a \<le> buf_size"
    using op_fitsD [OF handshake_fits h] by simp_all
  obtain o1 where o1: "send_out a wb endpoint = Some o1" "length o1 \<le> 1" "list_all (out_ok endpoint) o1"
    using send_out_ok [OF f] by blast
  let ?s = "\<lparr>ls_backend = b', ls_tun_buf = replicate buf_size 0, ls_udp_buf = replicate buf_size 0,
    ls_wg_buf = wb, ls_stats = default_stats\<rparr>"
  have start: "loop_start ops endpoint b = Some (o1, ?s)" by (simp add: loop_start_def h o1 Let_def)
  have "bufs_ok ?s" using f by (simp add: bufs_ok_def)
  from loop_run_ok [OF this, of endpoint es] show ?thesis
    using o1 by (auto simp: packet_loop_def start)
qed

end

section \<open>Properties\<close>

text \<open>C9. The packet loop never panics, whichever backend was boxed and whatever it receives: all
  its slices are in bounds. Every datagram it sends goes to the resolved endpoint, also the answer to
  a datagram from elsewhere, and it sends at most one packet per event besides the first handshake.
  It runs until it is told to stop.\<close>

theorem packet_loop_safe:
  assumes "bt_slices (cr_bt cr)" "nt_slices (cr_nt cr)"
  shows "\<exists>out s go. packet_loop (boxed_ops cr) endpoint b es = Some (out, s, go) \<and>
    length out \<le> Suc (length es) \<and> list_all (out_ok endpoint) out \<and> go = (ShutdownSignal \<notin> set es)"
  using packet_backend.packet_loop_ok [OF boxed_backend_ok [OF assms]] by blast

lemma loop_run_append_shutdown:
  "loop_run ops endpoint (es @ ShutdownSignal # rest) s = loop_run ops endpoint (es @ [ShutdownSignal]) s"
  by (induction es arbitrary: s) (auto split: option.split)

text \<open>Whatever comes after the shutdown signal has no effect: the loop has ended.\<close>

theorem packet_loop_stops:
  "packet_loop ops endpoint b (es @ ShutdownSignal # rest) =
   packet_loop ops endpoint b (es @ [ShutdownSignal])"
  by (simp add: packet_loop_def loop_run_append_shutdown [of _ _ es rest] split: option.split)

text \<open>A crate that turns every packet into the same answer, for examples.\<close>

definition echo_bt :: "(nat, unit) bt_crate" where
  "echo_bt = \<lparr>bt_public = (\<lambda>k. k), bt_limiter = (\<lambda>_ _. ()), bt_new = (\<lambda>_ _ _ _ _ _. 0),
     bt_encapsulate = (\<lambda>t src dst. (BtWriteToNetwork (take 1 dst), dst, Suc t)),
     bt_decapsulate = (\<lambda>t ip d dst. (BtWriteToTunnelV4 (take 1 dst) (V4 10 0 0 1), dst, t)),
     bt_handshake = (\<lambda>t dst force. (BtWriteToNetwork (take 2 dst), dst, t)),
     bt_timers = (\<lambda>t dst. (BtDone, dst, t)),
     bt_stats = (\<lambda>t. (None, t, 0, 0, None))\<rparr>"

definition echo_nt :: "(nat, unit) nt_crate" where
  "echo_nt = \<lparr>nt_public = (\<lambda>k. k), nt_limiter = (\<lambda>_ _. ()), nt_new = (\<lambda>_ _ _ _ _ _. Inl ''no''),
     nt_encapsulate = (\<lambda>t src dst. (NtDone, dst, t)), nt_decapsulate = (\<lambda>t ip d dst. (NtDone, dst, t)),
     nt_handshake = (\<lambda>t dst force. (NtDone, dst, t)), nt_timers = (\<lambda>t dst. (NtDone, dst, t)),
     nt_stats = (\<lambda>t. (None, t, 0, 0, None))\<rparr>"

definition echo_gt :: "(nat, unit, bytes, unit) gt_crate" where
  "echo_gt = \<lparr>gt_public = (\<lambda>k. k), gt_limiter = (\<lambda>_ _. ()), gt_new = (\<lambda>_ _ _ _ _ _. 0),
     gt_kind_bytes = (\<lambda>k. k), gt_try_into_wg = Inr, gt_outgoing = (\<lambda>t d. (Some d, t)),
     gt_incoming = (\<lambda>t k. (GtWriteToTunnel k, t)), gt_format_handshake = (\<lambda>t force. (None, t)),
     gt_timers = (\<lambda>t. (Inr None, t)), gt_stats = (\<lambda>t. (None, t, 0, 0, None))\<rparr>"

definition echo_crates :: "(nat, nat, nat, unit, bytes, unit) crates" where
  "echo_crates = \<lparr>cr_bt = echo_bt, cr_nt = echo_nt, cr_gt = echo_gt, cr_table = ()\<rparr>"

lemma echo_slices: "bt_slices (cr_bt echo_crates)" "nt_slices (cr_nt echo_crates)"
  by (simp_all add: echo_crates_def echo_bt_def echo_nt_def bt_slices_def nt_slices_def bt_within_def
      nt_within_def)

definition echo_backend :: "(nat, nat, nat, unit) boxed" where
  "echo_backend = BoxBoringtun \<lparr>bb_tunn = 0,
     bb_config = make_tunnel_config sample_config (hd (wg_peers sample_config))\<rparr>"

definition echo_endpoint :: sock_addr where
  "echo_endpoint = \<lparr>sa_ip = V4 192 0 2 1, sa_port = 51820\<rparr>"

definition echo_events :: "loop_event list" where
  "echo_events = [TunRead (Inr [69, 0]),
     UdpRead (Inr ([1, 2, 3], \<lparr>sa_ip = V4 203 0 113 9, sa_port = 4\<rparr>)), Tick,
     UdpRead (Inl ''Connection refused''), ShutdownSignal, Tick]"

theorem packet_loop_safe_witness:
  "\<exists>out s. packet_loop (boxed_ops echo_crates) echo_endpoint echo_backend echo_events = Some (out, s, False) \<and>
     list_all (out_ok echo_endpoint) out"
  using packet_loop_safe [OF echo_slices, of echo_endpoint echo_backend echo_events]
  by (auto simp: echo_events_def)

end
