(* ===== verification/ConfigEdit.thy ===== *)
theory ConfigEdit
  imports Config
begin

text \<open>
  The in-terminal configuration editor's pure layer
  (\<open>ferro-wg-tui-core/src/config_edit.rs\<close>): the editable fields, one validator per field,
  the text shown for a field, the write-back into the draft, and the diff preview.

  Non-ASCII characters are alphanumeric when the parameter \<open>ua\<close> (Unicode's tables) says so.
\<close>

section \<open>Sections, fields, drafts, errors\<close>

datatype config_section = CsInterface | CsPeer nat

datatype editable_field =
    FListenPort | FAddresses | FDns | FDnsSearch | FMtu | FFwmark
  | FPreUp | FPostUp | FPreDown | FPostDown
  | FPeerName | FPeerPublicKey | FPeerEndpoint | FPeerAllowedIps | FPeerKeepalive

record config_edit_state =
  ce_connection_name :: string
  ce_draft :: wg_config
  ce_focused_section :: config_section
  ce_focused_field_idx :: nat
  ce_edit_buffer :: "string option"
  ce_field_error :: "string option"
  ce_new_peer_indices :: "nat set"
  ce_session_error :: "string option"

datatype diff_line = Removed string | Added string | Ctx string

record config_diff_pending =
  cd_connection_name :: string
  cd_draft :: wg_config
  cd_diff_lines :: "diff_line list"
  cd_scroll_offset :: nat

datatype config_edit_error =
    PortTooHigh | PortNotNumeric | InvalidCidr string | InvalidIp string | InvalidDomain string
  | MtuOutOfRange | MtuNotNumeric | FwmarkNotNumeric | PublicKeyLength | PublicKeyInvalidBase64
  | EndpointFormat | EndpointHostEmpty | EndpointPortNotNumeric | DuplicateAllowedIp string
  | DuplicateCidrInInput | KeepaliveTooHigh | KeepaliveNotNumeric

fun show_edit_error :: "config_edit_error \<Rightarrow> string" where
  "show_edit_error PortTooHigh = ''Port must be <= 65535''"
| "show_edit_error PortNotNumeric = ''Port must be a number''"
| "show_edit_error (InvalidCidr s) = ''Invalid CIDR: '' @ s"
| "show_edit_error (InvalidIp s) = ''Invalid IP address: '' @ s"
| "show_edit_error (InvalidDomain s) = ''Invalid domain: '' @ s"
| "show_edit_error MtuOutOfRange = ''MTU must be 0 (auto) or 576-9000''"
| "show_edit_error MtuNotNumeric = ''MTU must be a number''"
| "show_edit_error FwmarkNotNumeric = ''Fwmark must be a number''"
| "show_edit_error PublicKeyLength = ''Public key must be 44 characters''"
| "show_edit_error PublicKeyInvalidBase64 = ''Invalid base64 public key''"
| "show_edit_error EndpointFormat = ''Endpoint must be host:port''"
| "show_edit_error EndpointHostEmpty = ''Host cannot be empty''"
| "show_edit_error EndpointPortNotNumeric = ''Port must be a number''"
| "show_edit_error (DuplicateAllowedIp s) = ''Duplicate allowed IP: '' @ s"
| "show_edit_error DuplicateCidrInInput = ''Duplicate CIDR in input''"
| "show_edit_error KeepaliveTooHigh = ''Keepalive must be <= 65535''"
| "show_edit_error KeepaliveNotNumeric = ''Keepalive must be a number''"

section \<open>Lexical checks\<close>

definition parse_comma_list :: "string \<Rightarrow> string list" where
  "parse_comma_list s = filter (\<lambda>t. t \<noteq> []) (map str_trim (str_split CHR '','' s))"

definition is_valid_cidr :: "string \<Rightarrow> bool" where
  "is_valid_cidr cidr =
     (case str_split CHR ''/'' cidr of
        [ip, pre] \<Rightarrow>
          (case parse_ip ip of
             None \<Rightarrow> False
           | Some addr \<Rightarrow>
               (case parse_u8 pre of
                  Inl _ \<Rightarrow> False
                | Inr p \<Rightarrow> (case addr of V4 _ _ _ _ \<Rightarrow> p \<le> 32 | V6 _ \<Rightarrow> p \<le> 128)))
      | _ \<Rightarrow> False)"

function chars :: "string \<Rightarrow> rchar list" where
  "chars [] = []"
| "chars (b # s) = (b # takeWhile is_cont s) # chars (dropWhile is_cont s)"
  by pat_completeness auto

termination chars
  by (relation "measure length") (auto simp: le_imp_less_Suc length_dropWhile_le)

definition is_alphanumeric :: "(rchar \<Rightarrow> bool) \<Rightarrow> rchar \<Rightarrow> bool" where
  "is_alphanumeric ua c =
     (case c of
        [b] \<Rightarrow> if byte b < 128 then
                 (97 \<le> byte b \<and> byte b \<le> 122) \<or> (65 \<le> byte b \<and> byte b \<le> 90) \<or>
                 (48 \<le> byte b \<and> byte b \<le> 57)
               else ua c
      | _ \<Rightarrow> ua c)"

definition is_valid_domain :: "(rchar \<Rightarrow> bool) \<Rightarrow> string \<Rightarrow> bool" where
  "is_valid_domain ua domain =
     (domain \<noteq> [] \<and>
      list_all (\<lambda>c. is_alphanumeric ua c \<or> c = ''.'' \<or> c = ''-'') (chars domain) \<and>
      (chars domain \<noteq> [] \<and> is_alphanumeric ua (hd (chars domain))) \<and>
      (chars domain \<noteq> [] \<and> is_alphanumeric ua (last (chars domain))))"

section \<open>Validators\<close>

definition validate_port :: "string \<Rightarrow> (config_edit_error, unit) result" where
  "validate_port s =
     (if s = [] then Inr ()
      else res_bind (map_err (\<lambda>_. PortNotNumeric) (parse_u32 s))
        (\<lambda>n. if 65535 < n then Inl PortTooHigh else Inr ()))"

text \<open>The token loops of the list validators: trim, skip empty tokens, stop at the first bad
  one.\<close>

fun check_tokens ::
  "(string \<Rightarrow> bool) \<Rightarrow> (string \<Rightarrow> config_edit_error) \<Rightarrow> string list \<Rightarrow> (config_edit_error, unit) result"
where
  "check_tokens ok err [] = Inr ()"
| "check_tokens ok err (t # ts) =
     (let t' = str_trim t in
      if t' = [] then check_tokens ok err ts
      else if \<not> ok t' then Inl (err t')
      else check_tokens ok err ts)"

definition validate_addresses :: "string \<Rightarrow> (config_edit_error, unit) result" where
  "validate_addresses s =
     (if s = [] then Inr () else check_tokens is_valid_cidr InvalidCidr (str_split CHR '','' s))"

definition validate_dns_ips :: "string \<Rightarrow> (config_edit_error, unit) result" where
  "validate_dns_ips s =
     (if s = [] then Inr ()
      else check_tokens (\<lambda>t. parse_ip t \<noteq> None) InvalidIp (str_split CHR '','' s))"

definition validate_dns_search ::
  "(rchar \<Rightarrow> bool) \<Rightarrow> string \<Rightarrow> (config_edit_error, unit) result" where
  "validate_dns_search ua s =
     (if s = [] then Inr ()
      else check_tokens (is_valid_domain ua) InvalidDomain (str_split CHR '','' s))"

definition validate_mtu :: "string \<Rightarrow> (config_edit_error, unit) result" where
  "validate_mtu s =
     (if s = [] then Inr ()
      else (case parse_u16 s of
        Inr mtu \<Rightarrow>
          if mtu = 0 \<or> (576 \<le> mtu \<and> mtu \<le> 9000) then Inr () else Inl MtuOutOfRange
      | Inl _ \<Rightarrow> Inl MtuNotNumeric))"

definition validate_fwmark :: "string \<Rightarrow> (config_edit_error, unit) result" where
  "validate_fwmark s =
     (if s = [] then Inr ()
      else res_bind (map_err (\<lambda>_. FwmarkNotNumeric) (parse_u32 s)) (\<lambda>_. Inr ()))"

definition validate_public_key :: "codec \<Rightarrow> string \<Rightarrow> (config_edit_error, unit) result" where
  "validate_public_key cd s =
     (if length s \<noteq> 44 then Inl PublicKeyLength
      else (case b64_decode cd s of
        Inl _ \<Rightarrow> Inl PublicKeyInvalidBase64
      | Inr bs \<Rightarrow> if length bs \<noteq> 32 then Inl PublicKeyInvalidBase64 else Inr ()))"

definition validate_endpoint :: "string \<Rightarrow> (config_edit_error, unit) result" where
  "validate_endpoint s =
     (if s = [] then Inr ()
      else (case str_split CHR '':'' s of
        [host, port] \<Rightarrow>
          if host = [] then Inl EndpointHostEmpty
          else res_bind (map_err (\<lambda>_. EndpointPortNotNumeric) (parse_u16 port)) (\<lambda>_. Inr ())
      | _ \<Rightarrow> Inl EndpointFormat))"

fun allowed_ips_loop ::
  "string list \<Rightarrow> string set \<Rightarrow> string list \<Rightarrow> (config_edit_error, unit) result" where
  "allowed_ips_loop others seen [] = Inr ()"
| "allowed_ips_loop others seen (t # ts) =
     (let cidr = str_trim t in
      if cidr = [] then allowed_ips_loop others seen ts
      else if \<not> is_valid_cidr cidr then Inl (InvalidCidr cidr)
      else if cidr \<in> set others then Inl (DuplicateAllowedIp cidr)
      else if cidr \<in> seen then Inl DuplicateCidrInInput
      else allowed_ips_loop others (insert cidr seen) ts)"

definition validate_allowed_ips ::
  "string \<Rightarrow> string list \<Rightarrow> (config_edit_error, unit) result" where
  "validate_allowed_ips s others =
     (if s = [] then Inr () else allowed_ips_loop others {} (str_split CHR '','' s))"

definition validate_keepalive :: "string \<Rightarrow> (config_edit_error, unit) result" where
  "validate_keepalive s =
     (if s = [] then Inr ()
      else res_bind (map_err (\<lambda>_. KeepaliveNotNumeric) (parse_u32 s))
        (\<lambda>n. if 65535 < n then Inl KeepaliveTooHigh else Inr ()))"

definition other_allowed_ips :: "config_section \<Rightarrow> wg_config \<Rightarrow> string list" where
  "other_allowed_ips sec draft =
     concat (map (\<lambda>(i, p). pc_allowed_ips p)
       (filter (\<lambda>(i, p). (case sec of CsPeer k \<Rightarrow> i \<noteq> k | CsInterface \<Rightarrow> True))
         (enumerate 0 (wg_peers draft))))"

fun validate_field ::
  "(rchar \<Rightarrow> bool) \<Rightarrow> codec \<Rightarrow> editable_field \<Rightarrow> string \<Rightarrow> wg_config \<Rightarrow> config_section \<Rightarrow>
   (config_edit_error, unit) result" where
  "validate_field ua cd FListenPort v draft sec = validate_port v"
| "validate_field ua cd FAddresses v draft sec = validate_addresses v"
| "validate_field ua cd FDns v draft sec = validate_dns_ips v"
| "validate_field ua cd FDnsSearch v draft sec = validate_dns_search ua v"
| "validate_field ua cd FMtu v draft sec = validate_mtu v"
| "validate_field ua cd FFwmark v draft sec = validate_fwmark v"
| "validate_field ua cd FPreUp v draft sec = Inr ()"
| "validate_field ua cd FPostUp v draft sec = Inr ()"
| "validate_field ua cd FPreDown v draft sec = Inr ()"
| "validate_field ua cd FPostDown v draft sec = Inr ()"
| "validate_field ua cd FPeerName v draft sec = Inr ()"
| "validate_field ua cd FPeerPublicKey v draft sec = validate_public_key cd v"
| "validate_field ua cd FPeerEndpoint v draft sec = validate_endpoint v"
| "validate_field ua cd FPeerAllowedIps v draft sec =
     validate_allowed_ips v (other_allowed_ips sec draft)"
| "validate_field ua cd FPeerKeepalive v draft sec = validate_keepalive v"

section \<open>The text of a field and the write-back\<close>

definition peer_at :: "config_section \<Rightarrow> wg_config \<Rightarrow> peer_config option" where
  "peer_at sec c = (case sec of CsPeer i \<Rightarrow> vec_get (wg_peers c) i | CsInterface \<Rightarrow> None)"

definition nonzero_text :: "nat \<Rightarrow> string" where
  "nonzero_text n = (if n = 0 then [] else show_nat n)"

definition peer_text :: "config_section \<Rightarrow> wg_config \<Rightarrow> (peer_config \<Rightarrow> string) \<Rightarrow> string" where
  "peer_text sec c f = (case peer_at sec c of None \<Rightarrow> [] | Some p \<Rightarrow> f p)"

fun field_current_value ::
  "codec \<Rightarrow> editable_field \<Rightarrow> config_section \<Rightarrow> wg_config \<Rightarrow> string" where
  "field_current_value cd FListenPort sec c = nonzero_text (unat (if_listen_port (wg_interface c)))"
| "field_current_value cd FAddresses sec c = str_join '', '' (if_addresses (wg_interface c))"
| "field_current_value cd FDns sec c = str_join '', '' (map show_ip (if_dns (wg_interface c)))"
| "field_current_value cd FDnsSearch sec c = str_join '', '' (if_dns_search (wg_interface c))"
| "field_current_value cd FMtu sec c = nonzero_text (unat (if_mtu (wg_interface c)))"
| "field_current_value cd FFwmark sec c = nonzero_text (unat (if_fwmark (wg_interface c)))"
| "field_current_value cd FPreUp sec c = str_join '', '' (if_pre_up (wg_interface c))"
| "field_current_value cd FPostUp sec c = str_join '', '' (if_post_up (wg_interface c))"
| "field_current_value cd FPreDown sec c = str_join '', '' (if_pre_down (wg_interface c))"
| "field_current_value cd FPostDown sec c = str_join '', '' (if_post_down (wg_interface c))"
| "field_current_value cd FPeerName sec c = peer_text sec c pc_name"
| "field_current_value cd FPeerPublicKey sec c =
     peer_text sec c (\<lambda>p. public_to_base64 cd (pc_public_key p))"
| "field_current_value cd FPeerEndpoint sec c =
     peer_text sec c (\<lambda>p. case pc_endpoint p of None \<Rightarrow> [] | Some e \<Rightarrow> e)"
| "field_current_value cd FPeerAllowedIps sec c =
     peer_text sec c (\<lambda>p. str_join '', '' (pc_allowed_ips p))"
| "field_current_value cd FPeerKeepalive sec c =
     peer_text sec c (\<lambda>p. nonzero_text (unat (pc_keepalive p)))"

definition set_iface :: "(interface_config \<Rightarrow> interface_config) \<Rightarrow> wg_config \<Rightarrow> wg_config" where
  "set_iface f c = c\<lparr>wg_interface := f (wg_interface c)\<rparr>"

definition set_peer ::
  "config_section \<Rightarrow> (peer_config \<Rightarrow> peer_config) \<Rightarrow> wg_config \<Rightarrow> wg_config" where
  "set_peer sec f c =
     (case sec of
        CsPeer i \<Rightarrow>
          (if i < length (wg_peers c) then
             c\<lparr>wg_peers := (wg_peers c)[i := f (wg_peers c ! i)]\<rparr>
           else c)
      | CsInterface \<Rightarrow> c)"

definition dns_tokens :: "string \<Rightarrow> ip_addr list" where
  "dns_tokens v = List.map_filter parse_ip (parse_comma_list v)"

fun apply_field :: "editable_field \<Rightarrow> string \<Rightarrow> wg_config \<Rightarrow> config_section \<Rightarrow> wg_config" where
  "apply_field FListenPort v c sec =
     set_iface (\<lambda>i. i\<lparr>if_listen_port := unwrap_or 0 (parse_u16 v)\<rparr>) c"
| "apply_field FAddresses v c sec = set_iface (\<lambda>i. i\<lparr>if_addresses := parse_comma_list v\<rparr>) c"
| "apply_field FDns v c sec = set_iface (\<lambda>i. i\<lparr>if_dns := dns_tokens v\<rparr>) c"
| "apply_field FDnsSearch v c sec = set_iface (\<lambda>i. i\<lparr>if_dns_search := parse_comma_list v\<rparr>) c"
| "apply_field FMtu v c sec = set_iface (\<lambda>i. i\<lparr>if_mtu := unwrap_or 0 (parse_u16 v)\<rparr>) c"
| "apply_field FFwmark v c sec = set_iface (\<lambda>i. i\<lparr>if_fwmark := unwrap_or 0 (parse_u32 v)\<rparr>) c"
| "apply_field FPreUp v c sec = set_iface (\<lambda>i. i\<lparr>if_pre_up := parse_comma_list v\<rparr>) c"
| "apply_field FPostUp v c sec = set_iface (\<lambda>i. i\<lparr>if_post_up := parse_comma_list v\<rparr>) c"
| "apply_field FPreDown v c sec = set_iface (\<lambda>i. i\<lparr>if_pre_down := parse_comma_list v\<rparr>) c"
| "apply_field FPostDown v c sec = set_iface (\<lambda>i. i\<lparr>if_post_down := parse_comma_list v\<rparr>) c"
| "apply_field FPeerName v c sec = set_peer sec (\<lambda>p. p\<lparr>pc_name := v\<rparr>) c"
| "apply_field FPeerPublicKey v c sec = c"
| "apply_field FPeerEndpoint v c sec =
     set_peer sec (\<lambda>p. p\<lparr>pc_endpoint := if v = [] then None else Some v\<rparr>) c"
| "apply_field FPeerAllowedIps v c sec =
     set_peer sec (\<lambda>p. p\<lparr>pc_allowed_ips := parse_comma_list v\<rparr>) c"
| "apply_field FPeerKeepalive v c sec =
     set_peer sec (\<lambda>p. p\<lparr>pc_keepalive := unwrap_or 0 (parse_u16 v)\<rparr>) c"

section \<open>Fields of a section, diff\<close>

definition fields_for_section :: "config_section \<Rightarrow> bool \<Rightarrow> editable_field list" where
  "fields_for_section sec is_new_peer =
     (case sec of
        CsInterface \<Rightarrow> [FListenPort, FAddresses, FDns, FDnsSearch, FMtu, FFwmark,
          FPreUp, FPostUp, FPreDown, FPostDown]
      | CsPeer _ \<Rightarrow>
          if is_new_peer then
            [FPeerPublicKey, FPeerName, FPeerEndpoint, FPeerAllowedIps, FPeerKeepalive]
          else [FPeerName, FPeerEndpoint, FPeerAllowedIps, FPeerKeepalive])"

fun diff_loop :: "string list \<Rightarrow> string list \<Rightarrow> diff_line list" where
  "diff_loop (x # xs) (y # ys) =
     (if x = y then Ctx x # diff_loop xs ys else Removed x # Added y # diff_loop xs ys)"
| "diff_loop (x # xs) [] = Removed x # diff_loop xs []"
| "diff_loop [] (y # ys) = Added y # diff_loop [] ys"
| "diff_loop [] [] = []"

definition config_diff :: "string \<Rightarrow> string \<Rightarrow> diff_line list" where
  "config_diff old_toml new_toml = diff_loop (str_lines old_toml) (str_lines new_toml)"

end
