(* ===== verification/Benchmark.thy ===== *)
theory Benchmark
  imports CoreTypes "HOL-Library.Multiset"
begin

text \<open>
  Benchmark results (\<open>ferro-wg-core/src/stats.rs\<close>,
  \<open>ferro-wg-tui-core/src/benchmark.rs\<close>): throughput, chart data, best backend, CSV and the
  capped history.

  A \<open>HashMap\<close> of results is an association list in iteration order, which Rust leaves open;
  a float is a rational number. The text of a float is the parameter \<open>show_f64\<close>.
\<close>

section \<open>Throughput\<close>

definition compute_throughput :: "benchmark_result \<Rightarrow> benchmark_result" where
  "compute_throughput r =
     (let secs = (of_nat (elapsed r) :: float) / 1000000000
      in r\<lparr>throughput_bps :=
        (if 0 < secs then of_nat (unat (bytes_encapsulated r)) / secs else 0)\<rparr>)"

section \<open>Runs and history\<close>

definition benchmark_progress_history_cap :: nat where
  "benchmark_progress_history_cap = 60"

definition benchmark_history_cap :: nat where
  "benchmark_history_cap = 50"

type_synonym benchmark_result_map = "(string, benchmark_result) amap"

record benchmark_run =
  run_timestamp_ms :: int
  run_connection_name :: string
  run_results :: benchmark_result_map

datatype benchmark_error =
    AlreadyRunning
  | NoActiveConnection string
  | DaemonError string
  | SerializeErr string
  | IoErr string

fun show_benchmark_error :: "benchmark_error \<Rightarrow> string" where
  "show_benchmark_error AlreadyRunning = ''benchmark already running''"
| "show_benchmark_error (NoActiveConnection s) = ''no active connection: '' @ s"
| "show_benchmark_error (DaemonError s) = ''daemon error: '' @ s"
| "show_benchmark_error (SerializeErr s) = ''serialization failed: '' @ s"
| "show_benchmark_error (IoErr s) = ''I/O error: '' @ s"

definition cap_history :: "'a list \<Rightarrow> nat \<Rightarrow> 'a list" where
  "cap_history runs cap =
     (let len = length runs in if len \<le> cap then runs else drop (len - cap) runs)"

section \<open>Charts\<close>

text \<open>\<open>as u64\<close> of a float truncates and saturates.\<close>

definition f64_as_u64 :: "float \<Rightarrow> nat" where
  "f64_as_u64 x = min (nat \<lfloor>x\<rfloor>) 18446744073709551615"

definition format_duration :: "duration \<Rightarrow> string" where
  "format_duration d = show_nat (d div 1000000000) @ ''s''"

text \<open>\<open>sort_by_key\<close> is stable; the keys of a map are distinct.\<close>

definition throughput_bar_data :: "benchmark_result_map \<Rightarrow> (string \<times> nat) list" where
  "throughput_bar_data results =
     map (\<lambda>(backend, r). (backend, f64_as_u64 (throughput_bps r / 1000)))
       (sort_key fst results)"

definition throughput_sparkline_data :: "benchmark_progress list \<Rightarrow> nat list" where
  "throughput_sparkline_data progress =
     map (\<lambda>p. f64_as_u64 (current_throughput_bps p / 1000)) progress"

text \<open>\<open>Iterator::max_by\<close>: the last of the largest elements.\<close>

fun max_by_throughput ::
  "(string \<times> benchmark_result) \<Rightarrow> benchmark_result_map \<Rightarrow> string \<times> benchmark_result" where
  "max_by_throughput best [] = best"
| "max_by_throughput best (x # xs) =
     max_by_throughput (if throughput_bps (snd best) \<le> throughput_bps (snd x) then x else best) xs"

definition best_backend :: "benchmark_result_map \<Rightarrow> string option" where
  "best_backend results =
     (case results of
        [] \<Rightarrow> None
      | x # xs \<Rightarrow>
          (let m = max_by_throughput x xs
           in if 0 < throughput_bps (snd m) then Some (fst m) else None))"

section \<open>CSV and JSON\<close>

definition as_micros :: "duration \<Rightarrow> nat" where
  "as_micros d = d div 1000"

definition show_i64 :: "int \<Rightarrow> string" where
  "show_i64 z = (if z < 0 then CHR ''-'' # show_nat (nat (- z)) else show_nat (nat z))"

definition csv_header :: string where
  "csv_header = ''timestamp_ms,connection_name,backend,throughput_bps,'' @
     ''avg_latency_us,p50_latency_us,p95_latency_us,p99_latency_us''"

definition csv_row ::
  "(float \<Rightarrow> string) \<Rightarrow> benchmark_run \<Rightarrow> string \<times> benchmark_result \<Rightarrow> string" where
  "csv_row show_f64 run x =
     (case x of (backend, r) \<Rightarrow>
       str_join '','' [show_i64 (run_timestamp_ms run), run_connection_name run, backend,
         show_f64 (throughput_bps r), show_nat (as_micros (avg_latency r)),
         show_nat (as_micros (p50_latency r)), show_nat (as_micros (p95_latency r)),
         show_nat (as_micros (p99_latency r))])"

definition benchmark_to_csv :: "(float \<Rightarrow> string) \<Rightarrow> benchmark_run list \<Rightarrow> string" where
  "benchmark_to_csv show_f64 runs =
     line csv_header @
     concat (map (\<lambda>run. concat (map (\<lambda>x. line (csv_row show_f64 run x)) (run_results run))) runs)"

definition benchmark_to_json ::
  "(benchmark_run list \<Rightarrow> (string, string) result) \<Rightarrow> benchmark_run list \<Rightarrow>
   (benchmark_error, string) result" where
  "benchmark_to_json to_string_pretty runs = map_err SerializeErr (to_string_pretty runs)"

section \<open>Lemmas\<close>

lemma length_cap_history: "length (cap_history runs cap) = min (length runs) cap"
  by (auto simp: cap_history_def Let_def)

lemma cap_history_drop: "cap_history runs cap = drop (length runs - cap) runs"
  by (simp add: cap_history_def Let_def)

lemma max_by_throughput_max:
  "max_by_throughput b xs \<in> insert b (set xs) \<and>
   (\<forall>x \<in> insert b (set xs). throughput_bps (snd x) \<le> throughput_bps (snd (max_by_throughput b xs)))"
  by (induction xs arbitrary: b) (auto, (meson dual_order.trans le_cases)+)

text \<open>Capping keeps the newest entries: the result is the longest suffix of the runs that
  has at most \<open>cap\<close> of them, so capping again or appending before capping changes nothing.\<close>

theorem cap_history_newest:
  "length (cap_history runs cap) = min (length runs) cap \<and> suffix (cap_history runs cap) runs \<and>
   cap_history (cap_history runs cap @ [r]) cap = cap_history (runs @ [r]) cap"
proof (cases "length runs \<le> cap")
  case True
  then show ?thesis by (simp add: cap_history_drop suffix_drop)
next
  case False
  then have "cap_history (cap_history runs cap @ [r]) cap = cap_history (runs @ [r]) cap"
    by (cases cap) (auto simp: cap_history_drop Suc_diff_Suc [symmetric] not_le)
  then show ?thesis by (simp add: length_cap_history) (simp add: cap_history_drop suffix_drop)
qed

text \<open>The bar chart does not depend on the iteration order of the hash map: two orders of
  the same map give the same bars.\<close>

theorem bar_data_order_free:
  assumes "amap_wf m" "mset m = mset m'"
  shows "throughput_bar_data m = throughput_bar_data m'"
proof -
  have "inj_on fst (set m)"
    using assms(1) by (simp add: amap_wf_def amap_keys_def distinct_map)
  then have "sort_key fst m = sort_key fst m'"
    using assms(2) by (intro sort_key_eq_sort_key)
  then show ?thesis by (simp add: throughput_bar_data_def)
qed

definition sample_result :: "float \<Rightarrow> benchmark_result" where
  "sample_result t = \<lparr>br_backend = ''x'', packets_processed = 0, bytes_encapsulated = 0, elapsed = 0,
     throughput_bps = t, avg_latency = 0, p50_latency = 0, p95_latency = 0, p99_latency = 0\<rparr>"

theorem bar_data_order_free_witness:
  "throughput_bar_data [(''neptun'', sample_result 1), (''boringtun'', sample_result 2)] =
   throughput_bar_data [(''boringtun'', sample_result 2), (''neptun'', sample_result 1)]"
  by (rule bar_data_order_free) (simp_all add: amap_wf_def amap_keys_def)

text \<open>The best backend is one of the results, none has a higher throughput, and there is
  none exactly when no result has a positive throughput.\<close>

theorem best_backend_best:
  "(case best_backend m of
      None \<Rightarrow> list_all (\<lambda>x. throughput_bps (snd x) \<le> 0) m
    | Some k \<Rightarrow> list_ex (\<lambda>x. fst x = k \<and> 0 < throughput_bps (snd x) \<and>
        list_all (\<lambda>y. throughput_bps (snd y) \<le> throughput_bps (snd x)) m) m)"
proof (cases m)
  case Nil
  then show ?thesis by (simp add: best_backend_def)
next
  case (Cons x xs)
  then show ?thesis
    using max_by_throughput_max [of x xs]
    by (auto simp: best_backend_def Let_def list_all_iff list_ex_iff)
qed

end
