(* ===== verification/Logs.thy ===== *)
theory Logs
  imports CoreTypes Config
begin

text \<open>
  Log entries on their way to a viewer: the tracing layer and its ring buffer
  (\<open>ferro-wg-core/src/daemon.rs\<close>) and the filters of the viewers
  (\<open>ferro-wg-core/src/logs.rs\<close>).

  A \<open>VecDeque\<close> is its entries and its capacity. What \<open>with_capacity\<close> allocates (at least the
  number asked for) and how a full deque grows are parameters.
\<close>

section \<open>Filters\<close>

datatype connection_filter = CfAll | CfActive

fun toggle_filter :: "connection_filter \<Rightarrow> connection_filter" where
  "toggle_filter CfAll = CfActive"
| "toggle_filter CfActive = CfAll"

definition line_matches_search :: "string \<Rightarrow> string \<Rightarrow> bool" where
  "line_matches_search l query = (query = [] \<or> str_contains (to_ascii_lowercase l) query)"

definition entry_passes_filter ::
  "log_entry \<Rightarrow> log_level \<Rightarrow> connection_filter \<Rightarrow> string option \<Rightarrow> bool" where
  "entry_passes_filter e min_level cf active =
     (let level_ok = (level e = LTrace \<or> min_level \<le> level e);
          conn_ok = (case cf of
              CfAll \<Rightarrow> True
            | CfActive \<Rightarrow> connection_name e = None \<or>
                (case active of None \<Rightarrow> False | Some name \<Rightarrow> connection_name e = Some name))
      in level_ok \<and> conn_ok)"

definition filtered_lines ::
  "log_entry list \<Rightarrow> string \<Rightarrow> log_level \<Rightarrow> connection_filter \<Rightarrow> string option \<Rightarrow> log_entry list" where
  "filtered_lines buf search min_level cf active =
     (if min_level = LDebug \<and> search = [] \<and> cf = CfAll then buf
      else filter (\<lambda>e. entry_passes_filter e min_level cf active \<and>
             line_matches_search (message e) search) buf)"

section \<open>The ring buffer\<close>

record log_buffer =
  lb_entries :: "log_entry list"
  lb_capacity :: nat
  lb_poisoned :: bool

record alloc =
  with_capacity :: "nat \<Rightarrow> nat"
  grow_capacity :: "nat \<Rightarrow> nat"

definition exact_alloc :: alloc where
  "exact_alloc = \<lparr>with_capacity = (\<lambda>n. n), grow_capacity = (\<lambda>n. max 4 (2 * n))\<rparr>"

definition log_buffer_new :: "alloc \<Rightarrow> nat \<Rightarrow> log_buffer" where
  "log_buffer_new al capacity =
     \<lparr>lb_entries = [], lb_capacity = with_capacity al capacity, lb_poisoned = False\<rparr>"

definition push_back :: "alloc \<Rightarrow> log_entry \<Rightarrow> log_buffer \<Rightarrow> log_buffer" where
  "push_back al e b =
     (let cap = (if length (lb_entries b) = lb_capacity b then grow_capacity al (lb_capacity b)
                 else lb_capacity b)
      in b\<lparr>lb_entries := lb_entries b @ [e], lb_capacity := cap\<rparr>)"

definition add_entry :: "alloc \<Rightarrow> log_entry \<Rightarrow> log_buffer \<Rightarrow> log_buffer" where
  "add_entry al e b =
     (if lb_poisoned b then b
      else
        (let b1 = (if length (lb_entries b) = lb_capacity b
                   then b\<lparr>lb_entries := drop 1 (lb_entries b)\<rparr> else b)
         in push_back al e b1))"

definition get_buffer :: "log_buffer \<Rightarrow> log_entry list" where
  "get_buffer b = (if lb_poisoned b then [] else lb_entries b)"

definition drain_logs :: "log_buffer \<Rightarrow> log_entry list \<times> log_buffer" where
  "drain_logs b =
     (if lb_poisoned b then ([], b) else (lb_entries b, b\<lparr>lb_entries := []\<rparr>))"

section \<open>The tracing layer\<close>

datatype tracing_level = TTRACE | TDEBUG | TINFO | TWARN | TERROR

fun map_tracing_level :: "tracing_level \<Rightarrow> log_level" where
  "map_tracing_level TTRACE = LTrace"
| "map_tracing_level TDEBUG = LDebug"
| "map_tracing_level TINFO = LInfo"
| "map_tracing_level TWARN = LWarn"
| "map_tracing_level TERROR = LError"

text \<open>A field is recorded as a string, or as the text of its \<open>Debug\<close> format.\<close>

datatype field_value = FieldStr string | FieldDebug string

record tracing_event =
  ev_target :: string
  ev_level :: tracing_level
  ev_fields :: "(string \<times> field_value) list"

record log_visitor =
  lv_message :: string
  lv_connection :: "string option"

definition default_visitor :: log_visitor where
  "default_visitor = \<lparr>lv_message = [], lv_connection = None\<rparr>"

fun field_text :: "field_value \<Rightarrow> string" where
  "field_text (FieldStr s) = s"
| "field_text (FieldDebug s) = s"

definition record_field :: "string \<times> field_value \<Rightarrow> log_visitor \<Rightarrow> log_visitor" where
  "record_field f v =
     (if fst f = ''message'' then v\<lparr>lv_message := field_text (snd f)\<rparr>
      else if fst f = ''connection'' then v\<lparr>lv_connection := Some (field_text (snd f))\<rparr>
      else v)"

definition entry_now :: "int \<Rightarrow> log_level \<Rightarrow> string option \<Rightarrow> string \<Rightarrow> log_entry" where
  "entry_now now lvl conn msg =
     \<lparr>timestamp_ms = now, level = lvl, connection_name = conn, message = msg\<rparr>"

definition on_event :: "alloc \<Rightarrow> int \<Rightarrow> tracing_event \<Rightarrow> log_buffer \<Rightarrow> log_buffer" where
  "on_event al now ev b =
     (let v = fold record_field (ev_fields ev) default_visitor;
          msg = ev_target ev @ '': '' @ lv_message v
      in add_entry al (entry_now now (map_tracing_level (ev_level ev)) (lv_connection v) msg) b)"

section \<open>Lemmas\<close>

lemma passes_debug: "entry_passes_filter e LDebug CfAll active"
  by (cases "level e") (auto simp: entry_passes_filter_def less_eq_log_level_def)

lemma add_entry_room:
  "\<not> lb_poisoned b \<Longrightarrow> length (lb_entries b) < lb_capacity b \<Longrightarrow>
   add_entry al e b = b\<lparr>lb_entries := lb_entries b @ [e]\<rparr>"
  by (simp add: add_entry_def push_back_def Let_def)

lemma add_entry_full:
  "\<not> lb_poisoned b \<Longrightarrow> length (lb_entries b) = lb_capacity b \<Longrightarrow> 0 < lb_capacity b \<Longrightarrow>
   add_entry al e b = b\<lparr>lb_entries := drop 1 (lb_entries b) @ [e]\<rparr>"
  by (simp add: add_entry_def push_back_def Let_def)

lemma add_entries:
  assumes "\<not> lb_poisoned b" "length (lb_entries b) \<le> lb_capacity b" "0 < lb_capacity b"
  shows "fold (add_entry al) es b =
    b\<lparr>lb_entries := drop (length (lb_entries b) + length es - lb_capacity b) (lb_entries b @ es)\<rparr>"
  using assms
proof (induction es arbitrary: b)
  case Nil
  then show ?case by simp
next
  case (Cons e es)
  show ?case
  proof (cases "length (lb_entries b) = lb_capacity b")
    case True
    define b' where "b' = b\<lparr>lb_entries := drop 1 (lb_entries b) @ [e]\<rparr>"
    have "add_entry al e b = b'" using add_entry_full True Cons.prems by (simp add: b'_def)
    moreover have "fold (add_entry al) es b' =
        b'\<lparr>lb_entries := drop (length (lb_entries b') + length es - lb_capacity b') (lb_entries b' @ es)\<rparr>"
      by (rule Cons.IH) (use Cons.prems True in \<open>auto simp: b'_def\<close>)
    ultimately show ?thesis using Cons.prems True by (simp add: b'_def)
  next
    case False
    define b' where "b' = b\<lparr>lb_entries := lb_entries b @ [e]\<rparr>"
    have "add_entry al e b = b'" using add_entry_room False Cons.prems by (simp add: b'_def)
    moreover have "fold (add_entry al) es b' =
        b'\<lparr>lb_entries := drop (length (lb_entries b') + length es - lb_capacity b') (lb_entries b' @ es)\<rparr>"
      by (rule Cons.IH) (use Cons.prems False in \<open>auto simp: b'_def\<close>)
    ultimately show ?thesis by (simp add: b'_def)
  qed
qed

section \<open>Properties\<close>

text \<open>The fast path of \<open>filtered_lines\<close> is only a shortcut: with or without it the result
  is the entries that pass both filters, in order.\<close>

theorem filtered_lines_spec:
  "filtered_lines buf search lv cf active =
   filter (\<lambda>e. entry_passes_filter e lv cf active \<and> line_matches_search (message e) search) buf"
  by (auto simp: filtered_lines_def passes_debug line_matches_search_def)

text \<open>C37. The buffer is a ring: after any number of entries it holds exactly the newest ones, as
  many as were allocated. Only the allocator being exact makes that the capacity asked for.\<close>

theorem log_buffer_ring:
  assumes "0 < with_capacity al n"
  shows "get_buffer (fold (add_entry al) es (log_buffer_new al n)) =
    drop (length es - with_capacity al n) es"
  using assms by (simp add: add_entries log_buffer_new_def get_buffer_def)

theorem log_buffer_ring_witness:
  "get_buffer (fold (add_entry exact_alloc)
     [entry_now 1 LInfo None ''a'', entry_now 2 LInfo None ''b'', entry_now 3 LInfo None ''c'']
     (log_buffer_new exact_alloc 2)) = [entry_now 2 LInfo None ''b'', entry_now 3 LInfo None ''c'']"
  using log_buffer_ring [of exact_alloc 2
      "[entry_now 1 LInfo None ''a'', entry_now 2 LInfo None ''b'', entry_now 3 LInfo None ''c'']"]
  by (simp add: exact_alloc_def)

end
