(* ===== verification/AppTypes.thy ===== *)
theory AppTypes
  imports ConfigEdit Benchmark Logs
begin

text \<open>
  The data of the terminal client: tabs and input modes (\<open>ferro-wg-tui-core/src/app.rs\<close>),
  themes (\<open>theme.rs\<close>), actions (\<open>action.rs\<close>) and the state all of them act on
  (\<open>state.rs\<close>).

  A key event keeps what the code looks at: the key code and whether control is held. Instants
  are nanoseconds.
\<close>

section \<open>Tabs, modes, keys\<close>

datatype tab = TabOverview | TabStatus | TabPeers | TabCompare | TabConfig | TabLogs

definition tab_all :: "tab list" where
  "tab_all = [TabOverview, TabStatus, TabPeers, TabCompare, TabConfig, TabLogs]"

fun tab_title :: "tab \<Rightarrow> string" where
  "tab_title TabOverview = ''Overview''"
| "tab_title TabStatus = ''Status''"
| "tab_title TabPeers = ''Peers''"
| "tab_title TabCompare = ''Compare''"
| "tab_title TabConfig = ''Config''"
| "tab_title TabLogs = ''Logs''"

fun tab_index :: "tab \<Rightarrow> nat" where
  "tab_index TabOverview = 0"
| "tab_index TabStatus = 1"
| "tab_index TabPeers = 2"
| "tab_index TabCompare = 3"
| "tab_index TabConfig = 4"
| "tab_index TabLogs = 5"

definition tab_next :: "tab \<Rightarrow> tab" where
  "tab_next t = tab_all ! ((tab_index t + 1) mod length tab_all)"

definition tab_prev :: "tab \<Rightarrow> tab" where
  "tab_prev t = tab_all ! ((tab_index t + length tab_all - 1) mod length tab_all)"

datatype input_mode = MNormal | MSearch | MImport string | MExport string | MEditField

datatype key_code =
    KChar rchar | KBackspace | KEnter | KEsc | KTab | KBackTab
  | KUp | KDown | KLeft | KRight | KOther

record key_event =
  ke_code :: key_code
  ke_control :: bool

section \<open>Themes\<close>

datatype theme_kind = Mocha | Latte

fun theme_toggle :: "theme_kind \<Rightarrow> theme_kind" where
  "theme_toggle Mocha = Latte"
| "theme_toggle Latte = Mocha"

datatype color = Rgb u8 u8 u8

record theme =
  th_base :: color
  th_surface :: color
  th_text :: color
  th_subtext :: color
  th_accent :: color
  th_success :: color
  th_error :: color
  th_warning :: color
  th_muted :: color
  th_highlight_bg :: color

definition theme_mocha :: theme where
  "theme_mocha = \<lparr>th_base = Rgb 30 30 46, th_surface = Rgb 49 50 68, th_text = Rgb 205 214 244,
     th_subtext = Rgb 186 194 222, th_accent = Rgb 180 190 254, th_success = Rgb 166 227 161,
     th_error = Rgb 243 139 168, th_warning = Rgb 249 226 175, th_muted = Rgb 108 112 134,
     th_highlight_bg = Rgb 69 71 90\<rparr>"

definition theme_latte :: theme where
  "theme_latte = \<lparr>th_base = Rgb 239 241 245, th_surface = Rgb 204 208 218, th_text = Rgb 76 79 105,
     th_subtext = Rgb 92 95 119, th_accent = Rgb 114 135 253, th_success = Rgb 64 160 43,
     th_error = Rgb 210 15 57, th_warning = Rgb 223 142 29, th_muted = Rgb 156 160 176,
     th_highlight_bg = Rgb 220 224 232\<rparr>"

fun into_theme :: "theme_kind \<Rightarrow> theme" where
  "into_theme Mocha = theme_mocha"
| "into_theme Latte = theme_latte"

section \<open>Actions\<close>

datatype confirm_action = CDisconnectAll | CStopDaemon | CDeletePeer nat

datatype (plugins only: code size) action =
    AQuit | ANextTab | APrevTab | ASelectTab tab | ANextRow | APrevRow
  | AEnterSearch | AExitSearch | AClearSearch | ASearchInput rchar | ASearchBackspace | ATick
  | ASelectNextConnection | ASelectPrevConnection | ASelectConnection nat
  | AUpdatePeers "peer_status list" | AConnectPeer string | ADisconnectPeer string
  | ACyclePeerBackend string | ADaemonError string | ADaemonOk string
  | ADaemonConnectivityChanged bool
  | AConnectAll | ADisconnectAll | AStartDaemon | AStopDaemon
  | AEnterImport | AImportKey key_event | ASubmitImport | AExitImport
  | AStartBenchmark | AStartBenchmarkForBackend string
  | ABenchmarkProgressUpdate benchmark_progress | ABenchmarkComplete benchmark_result
  | ASwitchBenchmarkBackend string | AToggleCompareView
  | AToggleTheme | AShowHelp | AHideHelp | AShowConnectionFilter | AHideConnectionFilter
  | AToggleConnectionVisibility string | ASetConnectionFilterSearch string
  | AEnterExport | AExportKey key_event | ASubmitExport | AExitExport
  | ARequestConfirm string confirm_action | AConfirmYes | AConfirmNo
  | AEnterConfigEdit config_section nat | AConfigEditKey key_event
  | AConfigFocusNext | AConfigFocusPrev | AConfigFocusInterface | AConfigFocusPeer nat
  | AAddConfigPeer | ADeleteConfigPeer nat | APreviewConfig
  | AConfigDiffScrollDown | AConfigDiffScrollUp | ASaveConfig bool | ADiscardConfigEdits

section \<open>The state\<close>

datatype compare_view = CvLive | CvHistorical

datatype connection_state = CsConnected | CsDisconnected

record connection_status =
  cst_state :: connection_state
  cst_backend :: backend_kind
  cst_stats :: tunnel_stats
  cst_endpoint :: "string option"
  cst_interface :: "string option"
  cst_health_warning :: "string option"

record connection_view =
  cv_name :: string
  cv_config :: wg_config
  cv_status :: "connection_status option"
  cv_selected_peer_row :: nat

record confirm_pending =
  cp_message :: string
  cp_action :: confirm_action

record toast =
  to_message :: string
  to_is_error :: bool
  to_expires_at :: nat

record app_state =
  running :: bool
  active_tab :: tab
  input_mode :: input_mode
  search_query :: string
  connections :: "connection_view list"
  visible_connections :: "string set"
  log_entries :: log_buffer
  theme_kind :: theme_kind
  app_theme :: theme
  show_help :: bool
  show_connection_filter :: bool
  connection_filter_search :: string
  daemon_connected :: bool
  toasts :: "toast list"
  log_display :: log_display_config
  pending_confirm :: "confirm_pending option"
  benchmark_results :: benchmark_result_map
  benchmark_history :: "benchmark_run list"
  benchmark_running :: bool
  benchmark_progress_history :: "benchmark_progress list"
  compare_view :: compare_view
  config_edit :: "config_edit_state option"
  config_diff_pending :: "config_diff_pending option"

text \<open>What \<open>dispatch\<close> takes from outside: the monotonic clock, the milliseconds since the Unix
  epoch, Unicode's lower case and alphanumeric tables, the text of a percentage, the base64
  codec, the TOML writer and the deque allocator.\<close>

record app_env =
  env_now :: nat
  env_unix_millis :: nat
  env_lower :: "string \<Rightarrow> string"
  env_alnum :: "rchar \<Rightarrow> bool"
  env_show_pct :: "float \<Rightarrow> string"
  env_codec :: codec
  env_toml :: toml_io
  env_alloc :: alloc

end
