(* ===== verification/AppState.thy ===== *)
theory AppState
  imports AppTypes
begin

text \<open>
  The central state machine of the terminal client (\<open>ferro-wg-tui-core/src/state.rs\<close>): one
  handler per group of actions, as in the source, composed by \<open>dispatch\<close>. A handler that can
  panic gives \<open>None\<close> when it does. The edit session has one definition per action.
\<close>

section \<open>Construction and reload\<close>

definition max_visible_toasts :: nat where
  "max_visible_toasts = 5"

definition toast_duration :: duration where
  "toast_duration = 3000000000"

definition log_capacity :: nat where
  "log_capacity = 1000"

definition connection_views :: "(string, wg_config) amap \<Rightarrow> connection_view list" where
  "connection_views cs =
     map (\<lambda>(name, config). \<lparr>cv_name = name, cv_config = config, cv_status = None,
       cv_selected_peer_row = 0\<rparr>) cs"

definition new_state :: "alloc \<Rightarrow> app_config \<Rightarrow> app_state" where
  "new_state al c =
     (let conns = connection_views (ac_connections c)
      in \<lparr>running = True, active_tab = TabOverview, input_mode = MNormal, search_query = [],
        connections = conns, visible_connections = set (map cv_name conns),
        log_entries = log_buffer_new al log_capacity,
        theme_kind = Mocha, app_theme = into_theme Mocha,
        show_help = False, show_connection_filter = False, connection_filter_search = [],
        daemon_connected = False, toasts = [], log_display = ac_log_display c,
        pending_confirm = None, benchmark_results = [], benchmark_history = [],
        benchmark_running = False, benchmark_progress_history = [], compare_view = CvLive,
        config_edit = None, config_diff_pending = None\<rparr>)"

text \<open>The state the client starts with: the history that is on disk, as it was loaded.\<close>

definition start_state ::
  "alloc \<Rightarrow> app_config \<Rightarrow> (benchmark_error, benchmark_run list) result \<Rightarrow> app_state" where
  "start_state al c hist =
     (let s = new_state al c in
      case hist of Inr h \<Rightarrow> s\<lparr>benchmark_history := h\<rparr> | Inl _ \<Rightarrow> s)"

definition reload_from_config :: "app_config \<Rightarrow> app_state \<Rightarrow> app_state" where
  "reload_from_config c s =
     (let conns = connection_views (ac_connections c)
      in s\<lparr>connections := conns, log_display := ac_log_display c,
        visible_connections := set (map cv_name conns)\<rparr>)"

definition append_log :: "alloc \<Rightarrow> log_entry \<Rightarrow> app_state \<Rightarrow> app_state" where
  "append_log al e s = s\<lparr>log_entries := add_entry al e (log_entries s)\<rparr>"

section \<open>Toasts\<close>

definition toast_success :: "nat \<Rightarrow> string \<Rightarrow> toast" where
  "toast_success now msg =
     \<lparr>to_message = msg, to_is_error = False, to_expires_at = now + toast_duration\<rparr>"

definition toast_error :: "nat \<Rightarrow> string \<Rightarrow> toast" where
  "toast_error now msg =
     \<lparr>to_message = msg, to_is_error = True, to_expires_at = now + toast_duration\<rparr>"

definition toast_is_expired :: "nat \<Rightarrow> toast \<Rightarrow> bool" where
  "toast_is_expired now t = (to_expires_at t \<le> now)"

definition push_toast :: "toast \<Rightarrow> app_state \<Rightarrow> app_state" where
  "push_toast t s =
     (let ts = toasts s @ [t]
      in s\<lparr>toasts := (if max_visible_toasts < length ts then drop 1 ts else ts)\<rparr>)"

definition clear_expired_toasts :: "nat \<Rightarrow> app_state \<Rightarrow> app_state" where
  "clear_expired_toasts now s = s\<lparr>toasts := dropWhile (toast_is_expired now) (toasts s)\<rparr>"

section \<open>Peer status\<close>

definition stale_handshake :: duration where
  "stale_handshake = 180000000000"

text \<open>The \<open>f32\<close> nearest to 0.1.\<close>

definition high_packet_loss :: float where
  "high_packet_loss = 13421773 / 134217728"

definition compute_health_warning :: "(float \<Rightarrow> string) \<Rightarrow> tunnel_stats \<Rightarrow> string option" where
  "compute_health_warning show_pct stats =
     (if (case last_handshake stats of None \<Rightarrow> False | Some age \<Rightarrow> stale_handshake < age)
      then Some ''stale handshake''
      else if high_packet_loss < packet_loss stats
      then Some (''high packet loss ('' @ show_pct (packet_loss stats * 100) @ ''%)'')
      else None)"

definition status_of :: "(float \<Rightarrow> string) \<Rightarrow> peer_status \<Rightarrow> connection_status" where
  "status_of show_pct p =
     \<lparr>cst_state = (if ps_connected p then CsConnected else CsDisconnected),
      cst_backend = ps_backend p, cst_stats = ps_stats p, cst_endpoint = ps_endpoint p,
      cst_interface = ps_interface p,
      cst_health_warning =
        (if ps_connected p then compute_health_warning show_pct (ps_stats p) else None)\<rparr>"

fun update_statuses ::
  "(float \<Rightarrow> string) \<Rightarrow> peer_status list \<Rightarrow> connection_view list \<Rightarrow> connection_view list" where
  "update_statuses show_pct [] conns = conns"
| "update_statuses show_pct (p # ps) conns =
     update_statuses show_pct ps
       (update_first (\<lambda>c. cv_name c = ps_name p)
         (\<lambda>c. c\<lparr>cv_status := Some (status_of show_pct p)\<rparr>) conns)"

definition apply_peer_updates ::
  "(float \<Rightarrow> string) \<Rightarrow> peer_status list \<Rightarrow> app_state \<Rightarrow> app_state" where
  "apply_peer_updates show_pct ps s =
     s\<lparr>daemon_connected := True, connections := update_statuses show_pct ps (connections s)\<rparr>"

definition text_matches :: "(string \<Rightarrow> string) \<Rightarrow> string \<Rightarrow> string \<Rightarrow> bool" where
  "text_matches lower query t = str_contains (lower t) query"

definition filtered_peers :: "(string \<Rightarrow> string) \<Rightarrow> app_state \<Rightarrow> peer_config list" where
  "filtered_peers lower s =
     (let query = lower (search_query s) in
      filter (\<lambda>p. query = [] \<or> text_matches lower query (pc_name p) \<or>
          (case pc_endpoint p of None \<Rightarrow> False | Some ep \<Rightarrow> text_matches lower query ep))
        (concat (map (\<lambda>c. wg_peers (cv_config c))
          (filter (\<lambda>c. cv_name c \<in> visible_connections s) (connections s)))))"

section \<open>Tabs, search, overlays, paths\<close>

definition close_buffer :: "config_edit_state \<Rightarrow> config_edit_state" where
  "close_buffer e = e\<lparr>ce_edit_buffer := None, ce_field_error := None\<rparr>"

definition handle_tab_actions :: "action \<Rightarrow> app_state \<Rightarrow> app_state" where
  "handle_tab_actions a s =
     (let s1 = (if input_mode s = MEditField then
                  s\<lparr>config_edit := map_option close_buffer (config_edit s), input_mode := MNormal\<rparr>
                else s)
      in case a of
           ANextTab \<Rightarrow> s1\<lparr>active_tab := tab_next (active_tab s1)\<rparr>
         | APrevTab \<Rightarrow> s1\<lparr>active_tab := tab_prev (active_tab s1)\<rparr>
         | ASelectTab t \<Rightarrow> s1\<lparr>active_tab := t\<rparr>
         | _ \<Rightarrow> s1)"

definition handle_search_actions :: "action \<Rightarrow> app_state \<Rightarrow> app_state" where
  "handle_search_actions a s =
     (case a of
        AEnterSearch \<Rightarrow> s\<lparr>input_mode := MSearch, search_query := []\<rparr>
      | AExitSearch \<Rightarrow> s\<lparr>input_mode := MNormal\<rparr>
      | AClearSearch \<Rightarrow> s\<lparr>input_mode := MNormal, search_query := []\<rparr>
      | ASearchInput c \<Rightarrow> s\<lparr>search_query := str_push (search_query s) c\<rparr>
      | ASearchBackspace \<Rightarrow> s\<lparr>search_query := str_pop (search_query s)\<rparr>
      | _ \<Rightarrow> s)"

definition handle_peer_actions :: "app_env \<Rightarrow> action \<Rightarrow> app_state \<Rightarrow> app_state" where
  "handle_peer_actions env a s =
     (case a of AUpdatePeers ps \<Rightarrow> apply_peer_updates (env_show_pct env) ps s | _ \<Rightarrow> s)"

definition handle_daemon_actions :: "action \<Rightarrow> app_state \<Rightarrow> app_state" where
  "handle_daemon_actions a s =
     (case a of ADaemonConnectivityChanged c \<Rightarrow> s\<lparr>daemon_connected := c\<rparr> | _ \<Rightarrow> s)"

definition handle_feedback_actions :: "app_env \<Rightarrow> action \<Rightarrow> app_state \<Rightarrow> app_state" where
  "handle_feedback_actions env a s =
     (case a of
        ADaemonOk m \<Rightarrow> push_toast (toast_success (env_now env) m) s
      | ADaemonError m \<Rightarrow> push_toast (toast_error (env_now env) m) s
      | _ \<Rightarrow> s)"

definition edit_text :: "key_event \<Rightarrow> string \<Rightarrow> string" where
  "edit_text key buf =
     (case ke_code key of KChar c \<Rightarrow> str_push buf c | KBackspace \<Rightarrow> str_pop buf | _ \<Rightarrow> buf)"

definition apply_import_key :: "key_event \<Rightarrow> app_state \<Rightarrow> app_state" where
  "apply_import_key key s =
     (case input_mode s of MImport buf \<Rightarrow> s\<lparr>input_mode := MImport (edit_text key buf)\<rparr> | _ \<Rightarrow> s)"

definition apply_export_key :: "key_event \<Rightarrow> app_state \<Rightarrow> app_state" where
  "apply_export_key key s =
     (case input_mode s of MExport buf \<Rightarrow> s\<lparr>input_mode := MExport (edit_text key buf)\<rparr> | _ \<Rightarrow> s)"

definition import_buffer :: "app_state \<Rightarrow> string option" where
  "import_buffer s = (case input_mode s of MImport buf \<Rightarrow> Some buf | _ \<Rightarrow> None)"

definition export_buffer :: "app_state \<Rightarrow> string option" where
  "export_buffer s = (case input_mode s of MExport buf \<Rightarrow> Some buf | _ \<Rightarrow> None)"

definition handle_import_actions :: "action \<Rightarrow> app_state \<Rightarrow> app_state" where
  "handle_import_actions a s =
     (case a of
        AEnterImport \<Rightarrow> s\<lparr>input_mode := MImport []\<rparr>
      | AImportKey key \<Rightarrow> apply_import_key key s
      | _ \<Rightarrow> s)"

definition handle_export_actions :: "action \<Rightarrow> app_state \<Rightarrow> app_state" where
  "handle_export_actions a s =
     (case a of
        AEnterExport \<Rightarrow> s\<lparr>input_mode := MExport []\<rparr>
      | AExportKey key \<Rightarrow> apply_export_key key s
      | ASubmitImport \<Rightarrow> s\<lparr>input_mode := MNormal\<rparr>
      | AExitImport \<Rightarrow> s\<lparr>input_mode := MNormal\<rparr>
      | ASubmitExport \<Rightarrow> s\<lparr>input_mode := MNormal\<rparr>
      | AExitExport \<Rightarrow> s\<lparr>input_mode := MNormal\<rparr>
      | _ \<Rightarrow> s)"

definition handle_compare_actions :: "action \<Rightarrow> app_state \<Rightarrow> app_state" where
  "handle_compare_actions a s =
     (case a of
        AToggleCompareView \<Rightarrow>
          s\<lparr>compare_view := (case compare_view s of CvLive \<Rightarrow> CvHistorical | CvHistorical \<Rightarrow> CvLive)\<rparr>
      | _ \<Rightarrow> s)"

definition handle_theme_action :: "action \<Rightarrow> app_state \<Rightarrow> app_state" where
  "handle_theme_action a s =
     (case a of
        AToggleTheme \<Rightarrow>
          (let k = theme_toggle (theme_kind s) in s\<lparr>theme_kind := k, app_theme := into_theme k\<rparr>)
      | _ \<Rightarrow> s)"

definition toggle_name :: "string \<Rightarrow> string set \<Rightarrow> string set" where
  "toggle_name n v = (if n \<in> v then v - {n} else insert n v)"

definition handle_help_action :: "action \<Rightarrow> app_state \<Rightarrow> app_state" where
  "handle_help_action a s =
     (case a of
        AShowHelp \<Rightarrow> s\<lparr>show_help := True\<rparr>
      | AHideHelp \<Rightarrow> s\<lparr>show_help := False\<rparr>
      | AShowConnectionFilter \<Rightarrow> s\<lparr>show_connection_filter := True\<rparr>
      | AHideConnectionFilter \<Rightarrow> s\<lparr>show_connection_filter := False, connection_filter_search := []\<rparr>
      | AToggleConnectionVisibility n \<Rightarrow>
          s\<lparr>visible_connections := toggle_name n (visible_connections s)\<rparr>
      | ASetConnectionFilterSearch q \<Rightarrow> s\<lparr>connection_filter_search := q\<rparr>
      | _ \<Rightarrow> s)"

section \<open>Benchmarks\<close>

definition set_min :: "string set \<Rightarrow> string option" where
  "set_min v = (if v = {} then None else Some (Min v))"

definition start_benchmark :: "app_env \<Rightarrow> app_state \<Rightarrow> app_state" where
  "start_benchmark env s =
     (if benchmark_running s then push_toast (toast_error (env_now env) ''benchmark already running'') s
      else s\<lparr>benchmark_running := True, benchmark_results := [], benchmark_progress_history := []\<rparr>)"

definition benchmark_progress_update :: "benchmark_progress \<Rightarrow> app_state \<Rightarrow> app_state" where
  "benchmark_progress_update p s =
     (let h = benchmark_progress_history s;
          h1 = (if benchmark_progress_history_cap \<le> length h then drop 1 h else h)
      in s\<lparr>benchmark_progress_history := h1 @ [p]\<rparr>)"

text \<open>The milliseconds must fit an \<open>i64\<close>.\<close>

definition benchmark_complete :: "app_env \<Rightarrow> benchmark_result \<Rightarrow> app_state \<Rightarrow> app_state option" where
  "benchmark_complete env r s =
     (if 9223372036854775807 < env_unix_millis env then None
      else
        (let results = hmap_insert (br_backend r) r (benchmark_results s);
             run = \<lparr>run_timestamp_ms = int (env_unix_millis env),
               run_connection_name = (case set_min (visible_connections s) of None \<Rightarrow> [] | Some n \<Rightarrow> n),
               run_results = results\<rparr>
         in Some (s\<lparr>benchmark_running := False, benchmark_results := results,
              benchmark_history := cap_history (benchmark_history s @ [run]) benchmark_history_cap\<rparr>)))"

definition handle_benchmark_actions :: "app_env \<Rightarrow> action \<Rightarrow> app_state \<Rightarrow> app_state option" where
  "handle_benchmark_actions env a s =
     (case a of
        AStartBenchmark \<Rightarrow> Some (start_benchmark env s)
      | AStartBenchmarkForBackend _ \<Rightarrow> Some (start_benchmark env s)
      | ABenchmarkProgressUpdate p \<Rightarrow> Some (benchmark_progress_update p s)
      | ABenchmarkComplete r \<Rightarrow> benchmark_complete env r s
      | _ \<Rightarrow> Some s)"

section \<open>The edit session\<close>

definition map_edit :: "(config_edit_state \<Rightarrow> config_edit_state) \<Rightarrow> app_state \<Rightarrow> app_state" where
  "map_edit f s = s\<lparr>config_edit := map_option f (config_edit s)\<rparr>"

definition is_new_peer :: "config_edit_state \<Rightarrow> bool" where
  "is_new_peer e =
     (case ce_focused_section e of CsPeer i \<Rightarrow> i \<in> ce_new_peer_indices e | CsInterface \<Rightarrow> False)"

definition focused_fields :: "config_edit_state \<Rightarrow> editable_field list" where
  "focused_fields e = fields_for_section (ce_focused_section e) (is_new_peer e)"

definition field_or_default :: "editable_field list \<Rightarrow> nat \<Rightarrow> editable_field" where
  "field_or_default fs i = (case vec_get fs i of None \<Rightarrow> FListenPort | Some f \<Rightarrow> f)"

definition find_connection :: "string \<Rightarrow> app_state \<Rightarrow> connection_view option" where
  "find_connection n s = find (\<lambda>c. cv_name c = n) (connections s)"

definition enter_config_edit ::
  "app_env \<Rightarrow> config_section \<Rightarrow> nat \<Rightarrow> app_state \<Rightarrow> app_state option" where
  "enter_config_edit env sec idx s =
     (case set_min (visible_connections s) of
        None \<Rightarrow> Some s
      | Some name \<Rightarrow>
          (case find_connection name s of
             None \<Rightarrow> None
           | Some conn \<Rightarrow>
               (let field = field_or_default (fields_for_section sec False) idx in
                Some (s\<lparr>config_edit := Some
                    \<lparr>ce_connection_name = cv_name conn, ce_draft = cv_config conn,
                     ce_focused_section = sec, ce_focused_field_idx = idx,
                     ce_edit_buffer =
                       Some (field_current_value (env_codec env) field sec (cv_config conn)),
                     ce_field_error = None, ce_new_peer_indices = {}, ce_session_error = None\<rparr>,
                  input_mode := MEditField\<rparr>))))"

text \<open>Confirming a new peer's key ends its \<open>new\<close> status whether or not the peer exists.\<close>

definition commit_public_key :: "codec \<Rightarrow> string \<Rightarrow> config_edit_state \<Rightarrow> config_edit_state" where
  "commit_public_key cd v e =
     (case ce_focused_section e of
        CsInterface \<Rightarrow> e
      | CsPeer i \<Rightarrow>
          (let d = (case public_from_base64 cd v of
                      Inl _ \<Rightarrow> ce_draft e
                    | Inr key \<Rightarrow> set_peer (CsPeer i) (\<lambda>p. p\<lparr>pc_public_key := key\<rparr>) (ce_draft e));
               left = ce_new_peer_indices e - {i}
           in e\<lparr>ce_draft := d, ce_new_peer_indices := left,
                ce_session_error := (if left = {} then None else ce_session_error e)\<rparr>))"

definition commit_field ::
  "codec \<Rightarrow> editable_field \<Rightarrow> string \<Rightarrow> config_edit_state \<Rightarrow> config_edit_state" where
  "commit_field cd f v e =
     (if f = FPeerPublicKey then commit_public_key cd v e
      else e\<lparr>ce_draft := apply_field f v (ce_draft e) (ce_focused_section e)\<rparr>)"

definition config_enter :: "app_env \<Rightarrow> config_edit_state \<Rightarrow> app_state \<Rightarrow> app_state" where
  "config_enter env e s =
     (case ce_edit_buffer e of
        None \<Rightarrow> s\<lparr>config_edit := Some e\<rparr>
      | Some v \<Rightarrow>
          (let f = field_or_default (focused_fields e) (ce_focused_field_idx e) in
           case validate_field (env_alnum env) (env_codec env) f v (ce_draft e) (ce_focused_section e) of
             Inr _ \<Rightarrow> s\<lparr>config_edit := Some (close_buffer (commit_field (env_codec env) f v e)),
                        input_mode := MNormal\<rparr>
           | Inl err \<Rightarrow> s\<lparr>config_edit := Some (e\<lparr>ce_field_error := Some (show_edit_error err)\<rparr>)\<rparr>))"

definition config_edit_key :: "app_env \<Rightarrow> key_event \<Rightarrow> app_state \<Rightarrow> app_state" where
  "config_edit_key env key s =
     (case config_edit s of
        None \<Rightarrow> s
      | Some e0 \<Rightarrow>
          (let e = e0\<lparr>ce_edit_buffer := map_option (edit_text key) (ce_edit_buffer e0)\<rparr> in
           case ke_code key of
             KEnter \<Rightarrow> config_enter env e s
           | KEsc \<Rightarrow>
               (if ce_edit_buffer e \<noteq> None
                then s\<lparr>config_edit := Some (close_buffer e), input_mode := MNormal\<rparr>
                else s\<lparr>config_edit := Some e\<rparr>)
           | _ \<Rightarrow> s\<lparr>config_edit := Some e\<rparr>))"

definition focus_next :: "config_edit_state \<Rightarrow> config_edit_state" where
  "focus_next e =
     e\<lparr>ce_focused_field_idx := (ce_focused_field_idx e + 1) mod length (focused_fields e)\<rparr>"

definition focus_prev :: "config_edit_state \<Rightarrow> config_edit_state" where
  "focus_prev e =
     e\<lparr>ce_focused_field_idx :=
       (if ce_focused_field_idx e = 0 then length (focused_fields e) - 1
        else ce_focused_field_idx e - 1)\<rparr>"

definition focus_section :: "config_section \<Rightarrow> config_edit_state \<Rightarrow> config_edit_state" where
  "focus_section sec e = e\<lparr>ce_focused_section := sec, ce_focused_field_idx := 0\<rparr>"

definition blank_peer :: peer_config where
  "blank_peer = \<lparr>pc_name = [], pc_public_key = PublicKey (replicate 32 0), pc_preshared_key = None,
     pc_endpoint = None, pc_allowed_ips = [], pc_keepalive = 0\<rparr>"

definition add_peer :: "config_edit_state \<Rightarrow> config_edit_state" where
  "add_peer e =
     (let peers = wg_peers (ce_draft e) @ [blank_peer];
          idx = length peers - 1
      in e\<lparr>ce_draft := (ce_draft e)\<lparr>wg_peers := peers\<rparr>,
           ce_new_peer_indices := insert idx (ce_new_peer_indices e),
           ce_focused_section := CsPeer idx, ce_focused_field_idx := 0,
           ce_edit_buffer := Some [], ce_field_error := None\<rparr>)"

definition add_config_peer :: "app_state \<Rightarrow> app_state" where
  "add_config_peer s =
     (case config_edit s of
        None \<Rightarrow> s
      | Some e \<Rightarrow> s\<lparr>config_edit := Some (add_peer e), input_mode := MEditField\<rparr>)"

definition shift_indices :: "nat \<Rightarrow> nat set \<Rightarrow> nat set" where
  "shift_indices i ns = (\<lambda>k. if i < k then k - 1 else k) ` Set.filter (\<lambda>k. k \<noteq> i) ns"

definition clamp_section :: "nat \<Rightarrow> config_section \<Rightarrow> config_section" where
  "clamp_section n sec =
     (case sec of CsPeer j \<Rightarrow> CsPeer (min j (n - 1)) | CsInterface \<Rightarrow> CsInterface)"

definition delete_peer :: "nat \<Rightarrow> config_edit_state \<Rightarrow> config_edit_state" where
  "delete_peer i e =
     (if i < length (wg_peers (ce_draft e)) then
        (let peers = vec_remove i (wg_peers (ce_draft e));
             e1 = e\<lparr>ce_draft := (ce_draft e)\<lparr>wg_peers := peers\<rparr>,
                    ce_new_peer_indices := shift_indices i (ce_new_peer_indices e)\<rparr>
         in if peers = [] then focus_section CsInterface e1
            else
              (let e2 = e1\<lparr>ce_focused_section := clamp_section (length peers) (ce_focused_section e1)\<rparr>
               in e2\<lparr>ce_focused_field_idx :=
                    min (ce_focused_field_idx e2) (length (focused_fields e2) - 1)\<rparr>))
      else e)"

definition original_toml :: "app_env \<Rightarrow> string \<Rightarrow> app_state \<Rightarrow> string" where
  "original_toml env name s =
     (case find_connection name s of
        None \<Rightarrow> []
      | Some c \<Rightarrow> unwrap_or [] (toml_save_string (env_toml env) (cv_config c)))"

definition preview_config :: "app_env \<Rightarrow> app_state \<Rightarrow> app_state" where
  "preview_config env s =
     (case config_edit s of
        None \<Rightarrow> s
      | Some e \<Rightarrow>
          if ce_new_peer_indices e \<noteq> {} then
            s\<lparr>config_edit := Some (e\<lparr>ce_session_error :=
                Some ''All new peers must have a public key before saving''\<rparr>)\<rparr>
          else if ce_field_error e = None then
            s\<lparr>config_diff_pending := Some
              \<lparr>cd_connection_name = ce_connection_name e, cd_draft = ce_draft e,
               cd_diff_lines = config_diff (original_toml env (ce_connection_name e) s)
                 (unwrap_or [] (toml_save_string (env_toml env) (ce_draft e))),
               cd_scroll_offset = 0\<rparr>\<rparr>
          else s)"

text \<open>\<open>usize::MAX\<close> on the 64-bit targets the project builds for.\<close>

definition usize_max :: nat where
  "usize_max = 18446744073709551615"

definition map_diff :: "(config_diff_pending \<Rightarrow> config_diff_pending) \<Rightarrow> app_state \<Rightarrow> app_state" where
  "map_diff f s = s\<lparr>config_diff_pending := map_option f (config_diff_pending s)\<rparr>"

definition scroll_down :: "config_diff_pending \<Rightarrow> config_diff_pending" where
  "scroll_down d = d\<lparr>cd_scroll_offset := min (cd_scroll_offset d + 1) usize_max\<rparr>"

definition scroll_up :: "config_diff_pending \<Rightarrow> config_diff_pending" where
  "scroll_up d = d\<lparr>cd_scroll_offset := cd_scroll_offset d - 1\<rparr>"

definition handle_config_actions :: "app_env \<Rightarrow> action \<Rightarrow> app_state \<Rightarrow> app_state option" where
  "handle_config_actions env a s =
     (case a of
        AEnterConfigEdit sec idx \<Rightarrow> enter_config_edit env sec idx s
      | AConfigEditKey key \<Rightarrow> Some (config_edit_key env key s)
      | AConfigFocusNext \<Rightarrow> Some (map_edit focus_next s)
      | AConfigFocusPrev \<Rightarrow> Some (map_edit focus_prev s)
      | AConfigFocusInterface \<Rightarrow> Some (map_edit (focus_section CsInterface) s)
      | AConfigFocusPeer i \<Rightarrow> Some (map_edit (focus_section (CsPeer i)) s)
      | AAddConfigPeer \<Rightarrow> Some (add_config_peer s)
      | ADeleteConfigPeer i \<Rightarrow> Some (map_edit (delete_peer i) s)
      | APreviewConfig \<Rightarrow> Some (preview_config env s)
      | AConfigDiffScrollDown \<Rightarrow> Some (map_diff scroll_down s)
      | AConfigDiffScrollUp \<Rightarrow> Some (map_diff scroll_up s)
      | ASaveConfig _ \<Rightarrow> Some (s\<lparr>config_edit := None, config_diff_pending := None\<rparr>)
      | ADiscardConfigEdits \<Rightarrow>
          Some (s\<lparr>config_edit := None, config_diff_pending := None, input_mode := MNormal\<rparr>)
      | _ \<Rightarrow> Some s)"

section \<open>Confirmation and dispatch\<close>

text \<open>\<open>ConfirmYes\<close> on a peer deletion dispatches \<open>DeleteConfigPeer\<close>, which
  \<open>handle_config_actions\<close> handles.\<close>

definition handle_confirm_actions :: "app_env \<Rightarrow> action \<Rightarrow> app_state \<Rightarrow> app_state option" where
  "handle_confirm_actions env a s =
     (case a of
        ARequestConfirm m ca \<Rightarrow>
          Some (s\<lparr>pending_confirm := Some \<lparr>cp_message = m, cp_action = ca\<rparr>\<rparr>)
      | AConfirmYes \<Rightarrow>
          (case pending_confirm s of
             None \<Rightarrow> Some s
           | Some p \<Rightarrow>
               (let s1 = s\<lparr>pending_confirm := None\<rparr> in
                case cp_action p of
                  CDeletePeer i \<Rightarrow> handle_config_actions env (ADeleteConfigPeer i) s1
                | _ \<Rightarrow> Some s1))
      | AConfirmNo \<Rightarrow> Some (s\<lparr>pending_confirm := None\<rparr>)
      | _ \<Rightarrow> Some s)"

datatype action_group =
    GQuit | GTab | GSearch | GPeer | GDaemon | GFeedback | GImport | GBenchmark | GCompare | GTheme
  | GHelp | GExport | GConfirm | GConfig | GOther

definition group_of :: "action \<Rightarrow> action_group" where
  "group_of a =
     (case a of
        AQuit \<Rightarrow> GQuit
      | ANextTab \<Rightarrow> GTab | APrevTab \<Rightarrow> GTab | ASelectTab _ \<Rightarrow> GTab
      | AEnterSearch \<Rightarrow> GSearch | AExitSearch \<Rightarrow> GSearch | AClearSearch \<Rightarrow> GSearch
      | ASearchInput _ \<Rightarrow> GSearch | ASearchBackspace \<Rightarrow> GSearch
      | AUpdatePeers _ \<Rightarrow> GPeer
      | ADaemonConnectivityChanged _ \<Rightarrow> GDaemon
      | ADaemonOk _ \<Rightarrow> GFeedback | ADaemonError _ \<Rightarrow> GFeedback
      | AEnterImport \<Rightarrow> GImport | AImportKey _ \<Rightarrow> GImport
      | AStartBenchmark \<Rightarrow> GBenchmark | AStartBenchmarkForBackend _ \<Rightarrow> GBenchmark
      | ABenchmarkProgressUpdate _ \<Rightarrow> GBenchmark | ABenchmarkComplete _ \<Rightarrow> GBenchmark
      | AToggleCompareView \<Rightarrow> GCompare
      | AToggleTheme \<Rightarrow> GTheme
      | AShowHelp \<Rightarrow> GHelp | AHideHelp \<Rightarrow> GHelp | AShowConnectionFilter \<Rightarrow> GHelp
      | AHideConnectionFilter \<Rightarrow> GHelp | AToggleConnectionVisibility _ \<Rightarrow> GHelp
      | ASetConnectionFilterSearch _ \<Rightarrow> GHelp
      | AEnterExport \<Rightarrow> GExport | AExportKey _ \<Rightarrow> GExport | ASubmitImport \<Rightarrow> GExport
      | AExitImport \<Rightarrow> GExport | ASubmitExport \<Rightarrow> GExport | AExitExport \<Rightarrow> GExport
      | ARequestConfirm _ _ \<Rightarrow> GConfirm | AConfirmYes \<Rightarrow> GConfirm | AConfirmNo \<Rightarrow> GConfirm
      | AEnterConfigEdit _ _ \<Rightarrow> GConfig | AConfigEditKey _ \<Rightarrow> GConfig | AConfigFocusNext \<Rightarrow> GConfig
      | AConfigFocusPrev \<Rightarrow> GConfig | AConfigFocusInterface \<Rightarrow> GConfig | AConfigFocusPeer _ \<Rightarrow> GConfig
      | AAddConfigPeer \<Rightarrow> GConfig | ADeleteConfigPeer _ \<Rightarrow> GConfig | APreviewConfig \<Rightarrow> GConfig
      | AConfigDiffScrollDown \<Rightarrow> GConfig | AConfigDiffScrollUp \<Rightarrow> GConfig | ASaveConfig _ \<Rightarrow> GConfig
      | ADiscardConfigEdits \<Rightarrow> GConfig
      | _ \<Rightarrow> GOther)"

definition dispatch :: "app_env \<Rightarrow> action \<Rightarrow> app_state \<Rightarrow> app_state option" where
  "dispatch env a s =
     (case group_of a of
        GQuit \<Rightarrow> Some (s\<lparr>running := False\<rparr>)
      | GTab \<Rightarrow> Some (handle_tab_actions a s)
      | GSearch \<Rightarrow> Some (handle_search_actions a s)
      | GPeer \<Rightarrow> Some (handle_peer_actions env a s)
      | GDaemon \<Rightarrow> Some (handle_daemon_actions a s)
      | GFeedback \<Rightarrow> Some (handle_feedback_actions env a s)
      | GImport \<Rightarrow> Some (handle_import_actions a s)
      | GBenchmark \<Rightarrow> handle_benchmark_actions env a s
      | GCompare \<Rightarrow> Some (handle_compare_actions a s)
      | GTheme \<Rightarrow> Some (handle_theme_action a s)
      | GHelp \<Rightarrow> Some (handle_help_action a s)
      | GExport \<Rightarrow> Some (handle_export_actions a s)
      | GConfirm \<Rightarrow> handle_confirm_actions env a s
      | GConfig \<Rightarrow> handle_config_actions env a s
      | GOther \<Rightarrow> Some s)"

end
