(* ===== verification/ConfigEditProps.thy ===== *)
theory ConfigEditProps
  imports ConfigEdit WgQuickProps
begin

text \<open>
  What committing a field of the configuration editor does: a validated value is stored as it
  was typed, an unedited value changes nothing, the draft keeps its networks valid and
  unshared, and the diff shows both files in full. It also shows where the editor falls short:
  hook commands are split at commas, names are not checked, and the diff is not an LCS.
\<close>

section \<open>Lists\<close>

lemma parse_comma_list_join: "list_all tidy_item xs \<Longrightarrow> parse_comma_list (str_join '', '' xs) = xs"
proof (cases "xs = []")
  case True
  then show ?thesis by (simp add: parse_comma_list_def)
next
  case False
  assume "list_all tidy_item xs"
  then show ?thesis
    using False split_join_tidy [of xs]
    by (simp add: parse_comma_list_def list_all_iff tidy_item_def tidy_def)
qed

lemma tidy_item_show_ip: "ip_rt ip \<Longrightarrow> tidy_item (show_ip ip)"
  by (simp add: tidy_item_def tidy_show_ip)

lemma map_filter_show_ip: "list_all ip_rt ips \<Longrightarrow> List.map_filter parse_ip (map show_ip ips) = ips"
  by (induction ips) (simp_all add: List.map_filter_def ip_rt_def)

lemma dns_tokens_join: "list_all ip_rt ips \<Longrightarrow> dns_tokens (str_join '', '' (map show_ip ips)) = ips"
  unfolding dns_tokens_def
  by (subst parse_comma_list_join) (auto simp: list_all_iff tidy_item_show_ip map_filter_show_ip)

lemma trim_start_subset: "set (trim_start s) \<subseteq> set s"
  by (induction s rule: trim_start.induct) (auto dest: in_set_dropD)

lemma trim_rev_subset: "set (trim_rev s) \<subseteq> set s"
  by (induction s rule: trim_rev.induct) (auto dest: in_set_dropD)

lemma str_trim_subset: "set (str_trim s) \<subseteq> set s"
  using trim_start_subset [of s] trim_rev_subset [of "rev (trim_start s)"]
  by (auto simp: str_trim_def)

lemma parse_comma_list_no_comma: "x \<in> set (parse_comma_list v) \<Longrightarrow> CHR '','' \<notin> set x"
  using str_trim_subset str_split_pieces by (fastforce simp: parse_comma_list_def)

section \<open>The loops of the validators\<close>

lemma check_tokens_iff:
  "check_tokens ok err ts = Inr () \<longleftrightarrow>
   (\<forall>t \<in> set (filter (\<lambda>t. t \<noteq> []) (map str_trim ts)). ok t)"
  by (induction ts) (auto simp: Let_def)

lemma allowed_ips_loop_iff:
  "allowed_ips_loop others seen ts = Inr () \<longleftrightarrow>
   (let xs = filter (\<lambda>t. t \<noteq> []) (map str_trim ts)
    in (\<forall>t \<in> set xs. is_valid_cidr t) \<and> set xs \<inter> set others = {} \<and> distinct xs \<and>
       set xs \<inter> seen = {})"
  by (induction ts arbitrary: seen) (auto simp: Let_def)

lemma parse_comma_list_Nil [simp]: "parse_comma_list [] = []"
  by (simp add: parse_comma_list_def)

lemma validate_addresses_iff:
  "validate_addresses s = Inr () \<longleftrightarrow> (\<forall>t \<in> set (parse_comma_list s). is_valid_cidr t)"
  by (cases "s = []") (simp_all add: validate_addresses_def check_tokens_iff parse_comma_list_def)

lemma validate_allowed_ips_iff:
  "validate_allowed_ips s others = Inr () \<longleftrightarrow>
   (\<forall>t \<in> set (parse_comma_list s). is_valid_cidr t) \<and>
   set (parse_comma_list s) \<inter> set others = {} \<and> distinct (parse_comma_list s)"
  by (cases "s = []")
    (simp_all add: validate_allowed_ips_def allowed_ips_loop_iff parse_comma_list_def Let_def)

lemma validate_dns_ips_iff:
  "validate_dns_ips s = Inr () \<longleftrightarrow> (\<forall>t \<in> set (parse_comma_list s). parse_ip t \<noteq> None)"
  by (cases "s = []") (simp_all add: validate_dns_ips_def check_tokens_iff parse_comma_list_def)

section \<open>Frame of a write-back\<close>

lemma set_peer_beyond: "length (wg_peers c) \<le> i \<Longrightarrow> set_peer (CsPeer i) f c = c"
  by (simp add: set_peer_def)

lemma set_peer_id: "(\<And>p. peer_at sec c = Some p \<Longrightarrow> f p = p) \<Longrightarrow> set_peer sec f c = c"
  by (auto simp: set_peer_def peer_at_def split: config_section.splits)

lemma length_peers_apply [simp]: "length (wg_peers (apply_field f v c sec)) = length (wg_peers c)"
  by (cases f) (auto simp: set_iface_def set_peer_def split: config_section.splits)

section \<open>Fields that read back\<close>

fun field_clean :: "editable_field \<Rightarrow> config_section \<Rightarrow> wg_config \<Rightarrow> bool" where
  "field_clean FAddresses sec c = list_all tidy_item (if_addresses (wg_interface c))"
| "field_clean FDns sec c = list_all ip_rt (if_dns (wg_interface c))"
| "field_clean FDnsSearch sec c = list_all tidy_item (if_dns_search (wg_interface c))"
| "field_clean FPreUp sec c = list_all tidy_item (if_pre_up (wg_interface c))"
| "field_clean FPostUp sec c = list_all tidy_item (if_post_up (wg_interface c))"
| "field_clean FPreDown sec c = list_all tidy_item (if_pre_down (wg_interface c))"
| "field_clean FPostDown sec c = list_all tidy_item (if_post_down (wg_interface c))"
| "field_clean FPeerEndpoint sec c =
     (case peer_at sec c of None \<Rightarrow> True | Some p \<Rightarrow> pc_endpoint p \<noteq> Some [])"
| "field_clean FPeerAllowedIps sec c =
     (case peer_at sec c of None \<Rightarrow> True | Some p \<Rightarrow> list_all tidy_item (pc_allowed_ips p))"
| "field_clean _ sec c = True"

lemma empty_is_zero [simp]:
  "unwrap_or 0 (parse_u16 []) = 0" "unwrap_or 0 (parse_u32 []) = 0"
  by (simp_all add: parse_u16_def parse_u32_def parse_uint_def)

lemma unat_pos: "w \<noteq> 0 \<Longrightarrow> 0 < unat w"
  using unsigned_eq_0_iff [of w, where 'a = nat] by blast

lemma nonzero_text_u16: "unwrap_or 0 (parse_u16 (nonzero_text (unat w))) = w"
  by (cases "w = 0") (simp_all add: nonzero_text_def unat_pos)

lemma nonzero_text_u32: "unwrap_or 0 (parse_u32 (nonzero_text (unat w))) = w"
  by (cases "w = 0") (simp_all add: nonzero_text_def unat_pos)

text \<open>C40. Opening a field and confirming it unchanged leaves the draft as it is, for numbers
  and names always, and for lists whose items are trimmed and free of commas.\<close>

theorem commit_unchanged:
  "field_clean f sec c \<Longrightarrow> apply_field f (field_current_value cd f sec c) c sec = c"
proof (cases f)
  case FPeerEndpoint
  assume "field_clean f sec c"
  with FPeerEndpoint show ?thesis
    by (auto simp: peer_text_def intro!: set_peer_id split: option.splits)
qed (auto simp: set_iface_def parse_comma_list_join dns_tokens_join nonzero_text_u16
      nonzero_text_u32 peer_text_def intro!: set_peer_id)

theorem commit_unchanged_witness:
  "apply_field FPeerAllowedIps (field_current_value rfc4648 FPeerAllowedIps (CsPeer 0) sample_config)
     sample_config (CsPeer 0) = sample_config"
  by (rule commit_unchanged)
    (simp add: peer_at_def sample_config_def tidy_item_def tidy_def solid_def ascii_ws_def vec_get_def)

text \<open>A hook command with a comma does not survive: confirming the unchanged field
  replaces it by its pieces.\<close>

theorem commit_splits_hooks:
  assumes "cmd \<in> set (if_post_up (wg_interface c))" "CHR '','' \<in> set cmd"
  shows "cmd \<notin> set (if_post_up (wg_interface
           (apply_field FPostUp (field_current_value cd FPostUp sec c) c sec)))"
  using assms(2) parse_comma_list_no_comma by (auto simp: set_iface_def)

definition hooked_config :: wg_config where
  "hooked_config = set_iface (\<lambda>i. i\<lparr>if_post_up := [''iptables -m multiport --dports 80,443'']\<rparr>)
     sample_config"

theorem commit_splits_hooks_witness:
  "''iptables -m multiport --dports 80,443'' \<notin> set (if_post_up (wg_interface
     (apply_field FPostUp (field_current_value rfc4648 FPostUp CsInterface hooked_config)
        hooked_config CsInterface)))"
  by (rule commit_splits_hooks) (simp_all add: hooked_config_def set_iface_def)

section \<open>Numbers\<close>

fun field_number :: "editable_field \<Rightarrow> config_section \<Rightarrow> wg_config \<Rightarrow> nat option" where
  "field_number FListenPort sec c = Some (unat (if_listen_port (wg_interface c)))"
| "field_number FMtu sec c = Some (unat (if_mtu (wg_interface c)))"
| "field_number FFwmark sec c = Some (unat (if_fwmark (wg_interface c)))"
| "field_number FPeerKeepalive sec c = map_option (\<lambda>p. unat (pc_keepalive p)) (peer_at sec c)"
| "field_number _ sec c = None"

lemma unat_u16: "n \<le> 65535 \<Longrightarrow> unat (word_of_nat n :: u16) = n"
  by (simp add: unsigned_of_nat take_bit_nat_eq_self)

lemma unat_u32: "n \<le> 4294967295 \<Longrightarrow> unat (word_of_nat n :: u32) = n"
  by (simp add: unsigned_of_nat take_bit_nat_eq_self)

lemma parse_u32_u16:
  assumes "parse_u32 v = Inr w" "\<not> 65535 < w"
  shows "parse_uint 4294967295 v = Inr (unat (unwrap_or 0 (parse_u16 v)))"
proof -
  obtain n where n: "parse_uint 4294967295 v = Inr n" "w = word_of_nat n"
    using assms(1) by (auto simp: parse_u32_def res_simps)
  then have "n \<le> 4294967295" using parse_uint_bound by blast
  then have "unat w = n" using n(2) by (simp add: unat_u32)
  then have le: "n \<le> 65535" using assms(2) by (simp add: word_less_nat_alt)
  then have "parse_uint 65535 v = Inr n" using n(1) parse_uint_shrink by blast
  then show ?thesis using n(1) le by (simp add: parse_u16_def unat_u16)
qed

lemma parse_u32_exact: "parse_u32 v = Inr w \<Longrightarrow> parse_uint 4294967295 v = Inr (unat w)"
proof -
  assume "parse_u32 v = Inr w"
  then obtain n where n: "parse_uint 4294967295 v = Inr n" "w = word_of_nat n"
    by (auto simp: parse_u32_def res_simps)
  then have "n \<le> 4294967295" using parse_uint_bound by blast
  with n show ?thesis by (simp add: unat_u32)
qed

lemma parse_u16_exact: "parse_u16 v = Inr w \<Longrightarrow> parse_uint 4294967295 v = Inr (unat w)"
proof -
  assume "parse_u16 v = Inr w"
  then obtain n where n: "parse_uint 65535 v = Inr n" "w = word_of_nat n"
    by (auto simp: parse_u16_def res_simps)
  then have "n \<le> 65535" using parse_uint_bound by blast
  with n show ?thesis using parse_digits_mono [of 65535 0 _ n 4294967295]
    by (auto simp: unat_u16 parse_uint_def split: if_splits)
qed

lemma peer_at_set_peer:
  "peer_at sec (set_peer sec f c) = map_option f (peer_at sec c)"
  by (auto simp: peer_at_def set_peer_def vec_get_def split: config_section.splits)

text \<open>A number the validator lets through is the number stored: the write-back never falls
  back to zero except for the empty text, and never truncates.\<close>

theorem commit_stores_number:
  assumes "validate_field ua cd f v c sec = Inr ()"
    and "field_number f sec (apply_field f v c sec) = Some n"
  shows "v = [] \<and> n = 0 \<or> parse_uint 4294967295 v = Inr n"
  using assms
  by (cases f)
    (auto simp: validate_port_def validate_mtu_def validate_fwmark_def validate_keepalive_def
      set_iface_def peer_at_set_peer res_simps parse_u32_u16 parse_u32_exact parse_u16_exact
      split: if_splits sum.splits)

theorem commit_stores_number_witness:
  "''1420'' = [] \<and> (1420::nat) = 0 \<or> parse_uint 4294967295 ''1420'' = Inr 1420"
  by (rule commit_stores_number [of "\<lambda>_. False" rfc4648 FMtu _ sample_config CsInterface])
    (simp_all add: validate_mtu_def parse_u16_def parse_uint_def is_digit_def digit_val_def
      set_iface_def)

section \<open>The networks of a draft\<close>

definition all_allowed_ips :: "wg_config \<Rightarrow> string list" where
  "all_allowed_ips c = concat (map pc_allowed_ips (wg_peers c))"

definition nets_inv :: "wg_config \<Rightarrow> bool" where
  "nets_inv c = ((\<forall>a \<in> set (if_addresses (wg_interface c)). is_valid_cidr a) \<and>
     (\<forall>a \<in> set (all_allowed_ips c). is_valid_cidr a) \<and> distinct (all_allowed_ips c))"

lemma concat_update:
  "i < length xs \<Longrightarrow> concat (map f (xs[i := y])) =
     concat (map f (take i xs)) @ f y @ concat (map f (drop (Suc i) xs))"
  by (simp add: upd_conv_take_nth_drop)

lemma filter_enumerate_ne:
  "map snd (filter (\<lambda>(j, x). j \<noteq> i + n) (enumerate n xs)) = take i xs @ drop (Suc i) xs"
proof (induction xs arbitrary: i n)
  case (Cons x xs)
  show ?case
  proof (cases i)
    case 0
    have "filter (\<lambda>(j, x). j \<noteq> n) (enumerate (Suc n) xs) = enumerate (Suc n) xs"
      by (rule filter_True) (auto simp: in_set_enumerate_eq)
    then show ?thesis using 0 by simp
  next
    case (Suc k)
    then show ?thesis using Cons.IH [of k "Suc n"] by simp
  qed
qed simp

lemma other_allowed_ips_peer:
  "other_allowed_ips (CsPeer i) c =
     concat (map pc_allowed_ips (take i (wg_peers c))) @
     concat (map pc_allowed_ips (drop (Suc i) (wg_peers c)))"
proof -
  have "other_allowed_ips (CsPeer i) c =
      concat (map pc_allowed_ips (map snd (filter (\<lambda>(j, x). j \<noteq> i + 0) (enumerate 0 (wg_peers c)))))"
    by (simp add: other_allowed_ips_def comp_def case_prod_beta')
  then show ?thesis by (simp only: filter_enumerate_ne map_append concat_append)
qed

lemma all_allowed_ips_split:
  "i < length (wg_peers c) \<Longrightarrow> all_allowed_ips c =
     concat (map pc_allowed_ips (take i (wg_peers c))) @ pc_allowed_ips (wg_peers c ! i) @
     concat (map pc_allowed_ips (drop (Suc i) (wg_peers c)))"
  unfolding all_allowed_ips_def
  by (subst id_take_nth_drop [of i]) simp_all

lemma nets_inv_set_peer_allowed:
  assumes "nets_inv c" "validate_allowed_ips v (other_allowed_ips sec c) = Inr ()"
  shows "nets_inv (set_peer sec (\<lambda>p. p\<lparr>pc_allowed_ips := parse_comma_list v\<rparr>) c)"
proof (cases sec)
  case (CsPeer i)
  show ?thesis
  proof (cases "i < length (wg_peers c)")
    case True
    then show ?thesis
      using assms CsPeer all_allowed_ips_split [OF True]
      by (auto simp: nets_inv_def set_peer_def validate_allowed_ips_iff other_allowed_ips_peer
          all_allowed_ips_def concat_update dest: in_set_takeD in_set_dropD)
  qed (use assms CsPeer in \<open>simp add: set_peer_def\<close>)
qed (use assms in \<open>simp add: set_peer_def\<close>)

lemma nets_inv_set_peer_same:
  "(\<And>p. pc_allowed_ips (f p) = pc_allowed_ips p) \<Longrightarrow> nets_inv (set_peer sec f c) = nets_inv c"
proof -
  assume same: "\<And>p. pc_allowed_ips (f p) = pc_allowed_ips p"
  have "map pc_allowed_ips (wg_peers (set_peer sec f c)) = map pc_allowed_ips (wg_peers c)"
    by (auto simp: set_peer_def map_update same split: config_section.splits)
      (metis list_update_id nth_map)
  moreover have "wg_interface (set_peer sec f c) = wg_interface c"
    by (simp add: set_peer_def split: config_section.splits)
  ultimately show ?thesis by (simp add: nets_inv_def all_allowed_ips_def)
qed

text \<open>C7. A validated commit keeps the networks of a draft in order: interface addresses and
  allowed IPs are CIDR blocks, and no allowed IP is listed twice, by one peer or by two.\<close>

theorem commit_keeps_nets:
  assumes "validate_field ua cd f v c sec = Inr ()" "nets_inv c"
  shows "nets_inv (apply_field f v c sec)"
  using assms
  by (cases f)
    (auto simp: nets_inv_set_peer_allowed nets_inv_set_peer_same,
     auto simp: nets_inv_def set_iface_def validate_addresses_iff all_allowed_ips_def)

lemma sample_cidr: "is_valid_cidr ''10.0.0.0/8''"
  by (simp add: is_valid_cidr_def parse_ip_def read_ipv4_def read_octet_def read_dot_octet_def
      read_number_def read_char_def starts_with_def to_digit_def Let_def parse_u8_def parse_uint_def
      is_digit_def digit_val_def)

definition netless_config :: wg_config where
  "netless_config = sample_config\<lparr>wg_interface := (wg_interface sample_config)\<lparr>if_addresses := []\<rparr>,
     wg_peers := map (pc_allowed_ips_update (\<lambda>_. [])) (wg_peers sample_config)\<rparr>"

theorem commit_keeps_nets_witness:
  "nets_inv (apply_field FPeerAllowedIps ''10.0.0.0/8'' netless_config (CsPeer 0))"
proof (rule commit_keeps_nets)
  have "parse_comma_list ''10.0.0.0/8'' = [''10.0.0.0/8'']"
    using parse_comma_list_join [of "[''10.0.0.0/8'']"]
    by (simp add: tidy_item_def tidy_def solid_def ascii_ws_def)
  then show "validate_field (\<lambda>_. False) rfc4648 FPeerAllowedIps ''10.0.0.0/8'' netless_config
      (CsPeer 0) = Inr ()"
    by (simp add: validate_allowed_ips_iff sample_cidr other_allowed_ips_peer netless_config_def
        sample_config_def)
  show "nets_inv netless_config"
    by (simp add: nets_inv_def all_allowed_ips_def netless_config_def sample_config_def)
qed

section \<open>Edits the loader refuses\<close>

text \<open>The editor takes any peer name, the loader does not: confirming a non-empty name
  outside \<open>[A-Za-z0-9_-]\<close> or longer than 64 bytes leaves a draft that
  \<open>WgConfig::validate\<close> refuses.\<close>

theorem name_edit_not_loadable:
  assumes "i < length (wg_peers c)" "v \<noteq> []" "\<not> name_ok v"
  shows "validate_field ua cd FPeerName v c (CsPeer i) = Inr () \<and>
    wg_validate (apply_field FPeerName v c (CsPeer i)) \<noteq> Inr ()"
proof -
  have "(wg_peers c)[i := (wg_peers c ! i)\<lparr>pc_name := v\<rparr>] ! i = (wg_peers c ! i)\<lparr>pc_name := v\<rparr>"
    using assms(1) by simp
  then have "(wg_peers c ! i)\<lparr>pc_name := v\<rparr> \<in> set ((wg_peers c)[i := (wg_peers c ! i)\<lparr>pc_name := v\<rparr>])"
    using assms(1) by (metis length_list_update nth_mem)
  moreover have "\<not> peer_ok ((wg_peers c ! i)\<lparr>pc_name := v\<rparr>)"
    using assms by (simp add: peer_ok_def)
  ultimately show ?thesis
    using assms(1) by (auto simp: wg_validate_iff wg_ok_def set_peer_def list_all_iff)
qed

theorem name_edit_not_loadable_witness:
  "validate_field (\<lambda>_. False) rfc4648 FPeerName ''my laptop'' sample_config (CsPeer 0) = Inr () \<and>
    wg_validate (apply_field FPeerName ''my laptop'' sample_config (CsPeer 0)) \<noteq> Inr ()"
  by (rule name_edit_not_loadable) (simp_all add: sample_config_def name_ok_def name_char_def)

section \<open>The diff\<close>

fun old_side :: "diff_line list \<Rightarrow> string list" where
  "old_side [] = []"
| "old_side (Removed l # d) = l # old_side d"
| "old_side (Added l # d) = old_side d"
| "old_side (Ctx l # d) = l # old_side d"

fun new_side :: "diff_line list \<Rightarrow> string list" where
  "new_side [] = []"
| "new_side (Removed l # d) = new_side d"
| "new_side (Added l # d) = l # new_side d"
| "new_side (Ctx l # d) = l # new_side d"

fun is_ctx :: "diff_line \<Rightarrow> bool" where
  "is_ctx (Ctx _) = True"
| "is_ctx _ = False"

lemma diff_sides: "old_side (diff_loop xs ys) = xs \<and> new_side (diff_loop xs ys) = ys"
  by (induction xs ys rule: diff_loop.induct) auto

lemma diff_loop_Nil: "list_all is_ctx (diff_loop [] ys) \<longleftrightarrow> ys = []"
  by (cases ys) auto

lemma diff_all_ctx: "list_all is_ctx (diff_loop xs ys) \<longleftrightarrow> xs = ys"
  by (induction xs ys rule: diff_loop.induct) auto

text \<open>The diff shows both files in full: its removed and context lines are the old file,
  its added and context lines the new one, and it has context lines only exactly when the two
  have the same lines.\<close>

theorem config_diff_complete:
  "old_side (config_diff a b) = str_lines a \<and> new_side (config_diff a b) = str_lines b \<and>
   (list_all is_ctx (config_diff a b) \<longleftrightarrow> str_lines a = str_lines b)"
  by (simp add: config_diff_def diff_sides diff_all_ctx)

text \<open>The diff is a line-by-line comparison and not an LCS: putting one line in front of a
  file with distinct lines leaves no context line at all.\<close>

theorem config_diff_not_lcs:
  assumes "str_lines new = l # str_lines old" "distinct (str_lines new)"
  shows "\<not> list_ex is_ctx (config_diff old new)"
proof -
  have "distinct (l # xs) \<Longrightarrow> \<not> list_ex is_ctx (diff_loop xs (l # xs))" for xs
    by (induction xs arbitrary: l) auto
  then show ?thesis using assms by (simp add: config_diff_def)
qed

definition diff_old :: string where
  "diff_old = concat (map line [''b'', ''c''])"

definition diff_new :: string where
  "diff_new = concat (map line [''a'', ''b'', ''c''])"

theorem config_diff_not_lcs_witness: "\<not> list_ex is_ctx (config_diff diff_old diff_new)"
proof (rule config_diff_not_lcs)
  have old: "str_lines diff_old = [''b'', ''c'']"
    unfolding diff_old_def by (rule str_lines_concat) auto
  have new: "str_lines diff_new = [''a'', ''b'', ''c'']"
    unfolding diff_new_def by (rule str_lines_concat) auto
  show "str_lines diff_new = ''a'' # str_lines diff_old" "distinct (str_lines diff_new)"
    by (simp_all add: old new)
qed

end
