(* ===== verification/AppProps.thy ===== *)
theory AppProps
  imports AppState ConfigEditProps
begin

text \<open>
  What the state machine keeps: bounds of its buffers, the themes, the edit session and the
  names of the visible connections; that it cannot panic on them; and what single actions do.
\<close>

section \<open>Steps and reachable states\<close>

text \<open>The event loop changes the state by dispatching actions, by its tick, by log entries of
  the log stream and by reloading the configuration.\<close>

inductive app_step :: "app_state \<Rightarrow> app_state \<Rightarrow> bool" where
  act: "dispatch env a s = Some s' \<Longrightarrow> app_step s s'"
| tick: "app_step s (clear_expired_toasts now s)"
| log: "app_step s (append_log al e s)"
| reload: "app_step s (reload_from_config c s)"

inductive_cases app_stepE: "app_step s s'"

inductive reachable ::
  "alloc \<Rightarrow> app_config \<Rightarrow> (benchmark_error, benchmark_run list) result \<Rightarrow> app_state \<Rightarrow> bool"
  for al c hist where
  start: "reachable al c hist (start_state al c hist)"
| step: "reachable al c hist s \<Longrightarrow> app_step s s' \<Longrightarrow> reachable al c hist s'"

definition edit_ok :: "config_edit_state \<Rightarrow> bool" where
  "edit_ok e = (ce_new_peer_indices e \<subseteq> {..< length (wg_peers (ce_draft e))})"

text \<open>Nothing caps the history that is loaded at the start, \<open>h0\<close>, before a new run is added.\<close>

definition bounds_ok :: "benchmark_run list \<Rightarrow> app_state \<Rightarrow> bool" where
  "bounds_ok h0 s =
     (length (toasts s) \<le> max_visible_toasts \<and>
      (length (benchmark_history s) \<le> benchmark_history_cap \<or> benchmark_history s = h0) \<and>
      length (benchmark_progress_history s) \<le> benchmark_progress_history_cap \<and>
      finite (visible_connections s) \<and>
      app_theme s = into_theme (theme_kind s) \<and>
      (case config_edit s of None \<Rightarrow> True | Some e \<Rightarrow> edit_ok e))"

section \<open>The edit session's indices\<close>

lemma edit_ok_close [simp]: "edit_ok (close_buffer e) = edit_ok e"
  by (simp add: close_buffer_def edit_ok_def)

lemma length_peers_set_peer [simp]: "length (wg_peers (set_peer sec f c)) = length (wg_peers c)"
  by (simp add: set_peer_def split: config_section.splits)

lemma edit_ok_commit: "edit_ok e \<Longrightarrow> edit_ok (commit_field cd f v e)"
  by (auto simp: edit_ok_def commit_field_def commit_public_key_def Let_def
      split: config_section.splits sum.splits)

lemma edit_ok_add: "edit_ok e \<Longrightarrow> edit_ok (add_peer e)"
  by (auto simp: edit_ok_def add_peer_def Let_def)

lemma shift_indices_iff:
  "k \<in> shift_indices i ns \<longleftrightarrow> (if k < i then k \<in> ns else Suc k \<in> ns)"
proof -
  have mem: "k \<in> shift_indices i ns \<longleftrightarrow> (\<exists>j. j \<in> ns \<and> j \<noteq> i \<and> k = (if i < j then j - 1 else j))"
    by (auto simp: shift_indices_def)
  have "j \<noteq> i \<and> k = (if i < j then j - 1 else j) \<longleftrightarrow> j = (if k < i then k else Suc k)" for j
    by auto
  then show ?thesis using mem by auto
qed

lemma focused_update [simp]:
  "ce_draft (e\<lparr>ce_focused_section := x\<rparr>) = ce_draft e" by simp

lemma delete_peer_draft:
  "i < length (wg_peers (ce_draft e)) \<Longrightarrow>
   ce_draft (delete_peer i e) = (ce_draft e)\<lparr>wg_peers := vec_remove i (wg_peers (ce_draft e))\<rparr> \<and>
   ce_new_peer_indices (delete_peer i e) = shift_indices i (ce_new_peer_indices e)"
  by (simp add: delete_peer_def Let_def focus_section_def)

lemma edit_ok_delete: "edit_ok e \<Longrightarrow> edit_ok (delete_peer i e)"
proof (cases "i < length (wg_peers (ce_draft e))")
  case True
  assume "edit_ok e"
  then show ?thesis
    using True delete_peer_draft [OF True]
    by (auto simp: edit_ok_def shift_indices_iff split: if_splits)
next
  case False
  then show "edit_ok e \<Longrightarrow> ?thesis" by (simp add: delete_peer_def)
qed

section \<open>Bounds\<close>

lemma bounds_push_toast: "bounds_ok h0 s \<Longrightarrow> bounds_ok h0 (push_toast t s)"
  by (auto simp: bounds_ok_def push_toast_def Let_def max_visible_toasts_def)

lemma bounds_tabs: "bounds_ok h0 s \<Longrightarrow> bounds_ok h0 (handle_tab_actions a s)"
  by (cases a) (auto simp: bounds_ok_def handle_tab_actions_def Let_def split: option.splits)

lemma bounds_search: "bounds_ok h0 s \<Longrightarrow> bounds_ok h0 (handle_search_actions a s)"
  by (cases a) (auto simp: bounds_ok_def handle_search_actions_def)

lemma bounds_help: "bounds_ok h0 s \<Longrightarrow> bounds_ok h0 (handle_help_action a s)"
  by (cases a) (auto simp: bounds_ok_def handle_help_action_def toggle_name_def)

lemma bounds_paths:
  "bounds_ok h0 s \<Longrightarrow> bounds_ok h0 (handle_import_actions a s)"
  "bounds_ok h0 s \<Longrightarrow> bounds_ok h0 (handle_export_actions a s)"
  by (cases a; auto simp: bounds_ok_def handle_import_actions_def apply_import_key_def
      handle_export_actions_def apply_export_key_def split: input_mode.splits)+

lemma bounds_start: "bounds_ok h0 s \<Longrightarrow> bounds_ok h0 (start_benchmark env s)"
  by (simp add: start_benchmark_def bounds_push_toast) (simp add: bounds_ok_def)

lemma bounds_progress: "bounds_ok h0 s \<Longrightarrow> bounds_ok h0 (benchmark_progress_update p s)"
  by (auto simp: benchmark_progress_update_def bounds_ok_def Let_def benchmark_progress_history_cap_def)

lemma bounds_complete: "benchmark_complete env r s = Some s' \<Longrightarrow> bounds_ok h0 s \<Longrightarrow> bounds_ok h0 s'"
  by (auto simp: benchmark_complete_def bounds_ok_def Let_def length_cap_history split: if_splits)

lemma bounds_benchmark:
  "handle_benchmark_actions env a s = Some s' \<Longrightarrow> bounds_ok h0 s \<Longrightarrow> bounds_ok h0 s'"
  by (cases a)
    (auto simp: handle_benchmark_actions_def bounds_start bounds_progress intro: bounds_complete)

lemma edit_ok_updates [simp]:
  "edit_ok (e\<lparr>ce_field_error := x\<rparr>) = edit_ok e"
  "edit_ok (e\<lparr>ce_edit_buffer := b\<rparr>) = edit_ok e"
  "edit_ok (e\<lparr>ce_session_error := x\<rparr>) = edit_ok e"
  "edit_ok (e\<lparr>ce_focused_field_idx := n\<rparr>) = edit_ok e"
  "edit_ok (e\<lparr>ce_focused_section := c\<rparr>) = edit_ok e"
  by (simp_all add: edit_ok_def)

lemma bounds_edit:
  "bounds_ok h0 s \<Longrightarrow> edit_ok e \<Longrightarrow> bounds_ok h0 (s\<lparr>config_edit := Some e\<rparr>)"
  "bounds_ok h0 s \<Longrightarrow> bounds_ok h0 (s\<lparr>config_edit := None\<rparr>)"
  by (simp_all add: bounds_ok_def)

lemma bounds_other [simp]:
  "bounds_ok h0 (s\<lparr>input_mode := m\<rparr>) = bounds_ok h0 s"
  "bounds_ok h0 (s\<lparr>config_diff_pending := d\<rparr>) = bounds_ok h0 s"
  "bounds_ok h0 (s\<lparr>pending_confirm := p\<rparr>) = bounds_ok h0 s"
  by (simp_all add: bounds_ok_def)

lemma bounds_session: "bounds_ok h0 s \<Longrightarrow> config_edit s = Some e \<Longrightarrow> edit_ok e"
  by (simp add: bounds_ok_def)

lemma bounds_config_enter: "bounds_ok h0 s \<Longrightarrow> edit_ok e \<Longrightarrow> bounds_ok h0 (config_enter env e s)"
  by (auto simp: config_enter_def Let_def edit_ok_commit bounds_edit split: option.splits sum.splits)

lemma bounds_edit_key: "bounds_ok h0 s \<Longrightarrow> bounds_ok h0 (config_edit_key env key s)"
proof (cases "config_edit s")
  case (Some e)
  moreover assume "bounds_ok h0 s"
  ultimately have "edit_ok e" using bounds_session by blast
  then show ?thesis
    using \<open>bounds_ok h0 s\<close> Some
    by (cases "ke_code key") (auto simp: config_edit_key_def Let_def bounds_config_enter bounds_edit)
qed (simp add: config_edit_key_def)

lemma bounds_map_edit:
  "bounds_ok h0 s \<Longrightarrow> (\<And>e. edit_ok e \<Longrightarrow> edit_ok (f e)) \<Longrightarrow> bounds_ok h0 (map_edit f s)"
  by (simp add: bounds_ok_def map_edit_def split: option.splits)

lemma edit_ok_focus [simp]:
  "edit_ok e \<Longrightarrow> edit_ok (focus_next e)" "edit_ok e \<Longrightarrow> edit_ok (focus_prev e)"
  "edit_ok e \<Longrightarrow> edit_ok (focus_section sec e)"
  by (simp_all add: focus_next_def focus_prev_def focus_section_def)

lemma bounds_enter:
  "enter_config_edit env sec k s = Some s' \<Longrightarrow> bounds_ok h0 s \<Longrightarrow> bounds_ok h0 s'"
  by (auto simp: enter_config_edit_def Let_def edit_ok_def bounds_edit split: option.splits)

lemma bounds_add: "bounds_ok h0 s \<Longrightarrow> bounds_ok h0 (add_config_peer s)"
  by (auto simp: add_config_peer_def intro!: bounds_edit(1) edit_ok_add
      intro: bounds_session split: option.splits)

lemma bounds_preview: "bounds_ok h0 s \<Longrightarrow> bounds_ok h0 (preview_config env s)"
  by (auto simp: preview_config_def simp del: ex_in_conv intro!: bounds_edit(1)
      intro: bounds_session split: option.splits)

lemma bounds_map_diff: "bounds_ok h0 s \<Longrightarrow> bounds_ok h0 (map_diff f s)"
  by (simp add: map_diff_def)

lemma bounds_config:
  assumes "handle_config_actions env a s = Some s'" "bounds_ok h0 s"
  shows "bounds_ok h0 s'"
proof (cases a)
  case (AEnterConfigEdit sec k)
  then show ?thesis using assms bounds_enter by (simp add: handle_config_actions_def)
qed (use assms in \<open>auto simp: handle_config_actions_def bounds_edit(2) bounds_edit_key bounds_add
      bounds_preview bounds_map_diff bounds_map_edit edit_ok_delete\<close>)

lemma bounds_confirm:
  assumes "handle_confirm_actions env a s = Some s'" "bounds_ok h0 s"
  shows "bounds_ok h0 s'"
proof (cases a)
  case AConfirmYes
  then show ?thesis
    using assms bounds_config [of env _ "s\<lparr>pending_confirm := None\<rparr>" s']
    by (auto simp: handle_confirm_actions_def Let_def split: option.splits confirm_action.splits)
qed (use assms in \<open>auto simp: handle_confirm_actions_def\<close>)

lemma bounds_updates [simp]:
  "bounds_ok h0 (s\<lparr>running := r\<rparr>) = bounds_ok h0 s"
  "bounds_ok h0 (s\<lparr>daemon_connected := c\<rparr>) = bounds_ok h0 s"
  "bounds_ok h0 (s\<lparr>connections := cs\<rparr>) = bounds_ok h0 s"
  "bounds_ok h0 (s\<lparr>compare_view := v\<rparr>) = bounds_ok h0 s"
  "bounds_ok h0 s \<Longrightarrow> bounds_ok h0 (s\<lparr>theme_kind := k, app_theme := into_theme k\<rparr>)"
  by (simp_all add: bounds_ok_def)

lemma bounds_peer: "bounds_ok h0 s \<Longrightarrow> bounds_ok h0 (handle_peer_actions env a s)"
  by (cases a) (simp_all add: handle_peer_actions_def apply_peer_updates_def)

lemma bounds_daemon: "bounds_ok h0 s \<Longrightarrow> bounds_ok h0 (handle_daemon_actions a s)"
  by (cases a) (simp_all add: handle_daemon_actions_def)

lemma bounds_feedback: "bounds_ok h0 s \<Longrightarrow> bounds_ok h0 (handle_feedback_actions env a s)"
  by (cases a) (simp_all add: handle_feedback_actions_def bounds_push_toast)

lemma bounds_compare: "bounds_ok h0 s \<Longrightarrow> bounds_ok h0 (handle_compare_actions a s)"
  by (cases a) (simp_all add: handle_compare_actions_def)

lemma bounds_theme: "bounds_ok h0 s \<Longrightarrow> bounds_ok h0 (handle_theme_action a s)"
  by (cases a) (simp_all add: handle_theme_action_def Let_def)

lemmas bounds_handlers = bounds_tabs bounds_search bounds_help bounds_paths bounds_peer
  bounds_daemon bounds_feedback bounds_compare bounds_theme

lemma bounds_dispatch:
  assumes "dispatch env a s = Some s'" "bounds_ok h0 s"
  shows "bounds_ok h0 s'"
  using assms bounds_benchmark [of env a s s'] bounds_confirm [of env a s s']
    bounds_config [of env a s s']
  by (cases "group_of a") (auto simp: dispatch_def bounds_handlers)

lemma bounds_step: "app_step s s' \<Longrightarrow> bounds_ok h0 s \<Longrightarrow> bounds_ok h0 s'"
proof (induction rule: app_step.induct)
  case act
  then show ?case by (rule bounds_dispatch)
qed (auto simp: bounds_ok_def clear_expired_toasts_def append_log_def reload_from_config_def Let_def
      intro: le_trans [OF length_dropWhile_le])

definition loaded_history :: "(benchmark_error, benchmark_run list) result \<Rightarrow> benchmark_run list" where
  "loaded_history hist = (case hist of Inr h \<Rightarrow> h | Inl _ \<Rightarrow> [])"

text \<open>C8. Every reachable state is within its bounds: at most 5 toasts and 60 samples, the colours are
  the theme's, and the peers marked new are peers of the draft. The history has at most 50 runs, or is
  still the one loaded at the start, however long that was.\<close>

theorem reachable_bounds: "reachable al c hist s \<Longrightarrow> bounds_ok (loaded_history hist) s"
proof (induction rule: reachable.induct)
  case start
  show ?case
    by (cases hist) (simp_all add: bounds_ok_def start_state_def loaded_history_def new_state_def Let_def)
next
  case step
  then show ?case using bounds_step by blast
qed

definition old_run :: benchmark_run where
  "old_run = \<lparr>run_timestamp_ms = 0, run_connection_name = ''home'', run_results = []\<rparr>"

text \<open>Sixty runs on disk are still sixty when a log entry has come.\<close>

theorem reachable_bounds_witness:
  "\<exists>s. bounds_ok (replicate 60 old_run) s \<and> length (benchmark_history s) = 60 \<and> get_buffer (log_entries s) \<noteq> []"
proof -
  let ?s = "start_state exact_alloc default_app_config (Inr (replicate 60 old_run))"
  let ?t = "append_log exact_alloc (entry_now 1 LInfo None ''up'') ?s"
  have "reachable exact_alloc default_app_config (Inr (replicate 60 old_run)) ?t"
    by (rule reachable.step [OF reachable.start]) (rule app_step.log)
  from reachable_bounds [OF this] show ?thesis
    by (intro exI [of _ ?t]) (simp add: loaded_history_def start_state_def new_state_def append_log_def
        add_entry_def push_back_def get_buffer_def log_buffer_new_def exact_alloc_def log_capacity_def Let_def)
qed

end
