(* ===== verification/DispatchProps.thy ===== *)
theory DispatchProps
  imports AppProps
begin

text \<open>
  Properties of single actions: dispatch is total on the states the interface builds, deleting a
  peer keeps the record of which peers are new, a status update reaches its connection, and the
  life of an edit session and of a benchmark run.
\<close>

section \<open>Dispatch does not panic\<close>

definition conn_names :: "app_state \<Rightarrow> string set" where
  "conn_names s = set (map cv_name (connections s))"

definition visible_ok :: "app_state \<Rightarrow> bool" where
  "visible_ok s = (finite (visible_connections s) \<and> visible_connections s \<subseteq> conn_names s)"

definition known_toggle :: "app_state \<Rightarrow> action \<Rightarrow> bool" where
  "known_toggle s a = (case a of AToggleConnectionVisibility n \<Rightarrow> n \<in> conn_names s | _ \<Rightarrow> True)"

lemma visible_ok_cong:
  "visible_connections s' = visible_connections s \<Longrightarrow> connections s' = connections s \<Longrightarrow>
   visible_ok s' = visible_ok s"
  by (simp add: visible_ok_def conn_names_def)

lemma names_update_statuses: "map cv_name (update_statuses f ps cs) = map cv_name cs"
  by (induction ps arbitrary: cs) (simp_all add: map_update_first)

lemma find_visible:
  assumes "visible_ok s" "set_min (visible_connections s) = Some n"
  shows "\<exists>c. find_connection n s = Some c"
proof -
  have "n \<in> visible_connections s"
    using assms unfolding set_min_def visible_ok_def by (metis Min_in option.distinct(1) option.inject)
  then have "n \<in> conn_names s" using assms(1) by (auto simp: visible_ok_def)
  then have "find (\<lambda>c. cv_name c = n) (connections s) \<noteq> None"
    by (auto simp: conn_names_def find_None_iff)
  then show ?thesis by (simp add: find_connection_def)
qed

lemma enter_total:
  assumes "visible_ok s"
  shows "\<exists>s'. enter_config_edit env sec k s = Some s' \<and> visible_ok s'"
proof (cases "set_min (visible_connections s)")
  case (Some n)
  then obtain c where "find_connection n s = Some c" using find_visible assms by blast
  with Some assms show ?thesis
    by (simp add: enter_config_edit_def Let_def visible_ok_def conn_names_def)
qed (use assms in \<open>simp add: enter_config_edit_def\<close>)

lemma visible_updates [simp]:
  "visible_ok (s\<lparr>running := r\<rparr>) = visible_ok s"
  "visible_ok (s\<lparr>daemon_connected := c\<rparr>) = visible_ok s"
  "visible_ok (s\<lparr>input_mode := m\<rparr>) = visible_ok s"
  "visible_ok (s\<lparr>config_edit := e\<rparr>) = visible_ok s"
  "visible_ok (s\<lparr>config_diff_pending := d\<rparr>) = visible_ok s"
  "visible_ok (s\<lparr>pending_confirm := p\<rparr>) = visible_ok s"
  "visible_ok (s\<lparr>search_query := q\<rparr>) = visible_ok s"
  "visible_ok (s\<lparr>active_tab := t\<rparr>) = visible_ok s"
  "visible_ok (s\<lparr>compare_view := v\<rparr>) = visible_ok s"
  "visible_ok (s\<lparr>app_theme := v2\<rparr>) = visible_ok s"
  "visible_ok (s\<lparr>theme_kind := v3\<rparr>) = visible_ok s"
  "visible_ok (s\<lparr>toasts := ts\<rparr>) = visible_ok s"
  "visible_ok (s\<lparr>show_help := b1\<rparr>) = visible_ok s"
  "visible_ok (s\<lparr>show_connection_filter := b2\<rparr>) = visible_ok s"
  "visible_ok (s\<lparr>connection_filter_search := q2\<rparr>) = visible_ok s"
  "visible_ok (s\<lparr>benchmark_running := b3\<rparr>) = visible_ok s"
  "visible_ok (s\<lparr>benchmark_results := b4\<rparr>) = visible_ok s"
  "visible_ok (s\<lparr>benchmark_history := b5\<rparr>) = visible_ok s"
  "visible_ok (s\<lparr>benchmark_progress_history := b6\<rparr>) = visible_ok s"
  "visible_ok (s\<lparr>connections := update_statuses f ps (connections s)\<rparr>) = visible_ok s"
  by (simp_all add: visible_ok_def conn_names_def names_update_statuses
      del: set_map flip: set_map)

lemma visible_toggle:
  "visible_ok s \<Longrightarrow> n \<in> conn_names s \<Longrightarrow>
   visible_ok (s\<lparr>visible_connections := toggle_name n (visible_connections s)\<rparr>)"
  by (auto simp: visible_ok_def conn_names_def toggle_name_def)

lemma visible_push_toast [simp]: "visible_ok (push_toast t s) = visible_ok s"
  by (simp add: push_toast_def Let_def)

lemma visible_tabs: "visible_ok s \<Longrightarrow> visible_ok (handle_tab_actions a s)"
  by (cases a) (simp_all add: handle_tab_actions_def Let_def)

lemma visible_search: "visible_ok s \<Longrightarrow> visible_ok (handle_search_actions a s)"
  by (cases a) (simp_all add: handle_search_actions_def)

lemma visible_peer: "visible_ok s \<Longrightarrow> visible_ok (handle_peer_actions env a s)"
  by (cases a)
    (simp_all add: handle_peer_actions_def apply_peer_updates_def visible_ok_def conn_names_def
      names_update_statuses del: set_map flip: set_map)

lemma visible_daemon: "visible_ok s \<Longrightarrow> visible_ok (handle_daemon_actions a s)"
  by (cases a) (simp_all add: handle_daemon_actions_def)

lemma visible_feedback: "visible_ok s \<Longrightarrow> visible_ok (handle_feedback_actions env a s)"
  by (cases a) (simp_all add: handle_feedback_actions_def)

lemma visible_import: "visible_ok s \<Longrightarrow> visible_ok (handle_import_actions a s)"
  by (cases a) (simp_all add: handle_import_actions_def apply_import_key_def split: input_mode.splits)

lemma visible_export: "visible_ok s \<Longrightarrow> visible_ok (handle_export_actions a s)"
  by (cases a) (simp_all add: handle_export_actions_def apply_export_key_def split: input_mode.splits)

lemma visible_compare: "visible_ok s \<Longrightarrow> visible_ok (handle_compare_actions a s)"
  by (cases a) (simp_all add: handle_compare_actions_def)

lemma visible_theme: "visible_ok s \<Longrightarrow> visible_ok (handle_theme_action a s)"
  by (cases a) (simp_all add: handle_theme_action_def Let_def)

lemma visible_help:
  "visible_ok s \<Longrightarrow> known_toggle s a \<Longrightarrow> visible_ok (handle_help_action a s)"
  by (cases a) (simp_all add: handle_help_action_def known_toggle_def visible_toggle)

lemma benchmark_total:
  "visible_ok s \<Longrightarrow> env_unix_millis env \<le> 9223372036854775807 \<Longrightarrow>
   \<exists>s'. handle_benchmark_actions env a s = Some s' \<and> visible_ok s'"
  by (cases a)
    (simp_all add: handle_benchmark_actions_def start_benchmark_def benchmark_progress_update_def
      benchmark_complete_def Let_def not_less)

lemma visible_edit_key: "visible_ok s \<Longrightarrow> visible_ok (config_edit_key env key s)"
  by (cases "ke_code key")
    (simp_all add: config_edit_key_def config_enter_def Let_def split: option.splits sum.splits)

lemma visible_edit_ops:
  "visible_ok s \<Longrightarrow> visible_ok (map_edit f s)" "visible_ok s \<Longrightarrow> visible_ok (map_diff g s)"
  "visible_ok s \<Longrightarrow> visible_ok (add_config_peer s)" "visible_ok s \<Longrightarrow> visible_ok (preview_config env s)"
  by (simp_all add: map_edit_def map_diff_def add_config_peer_def preview_config_def
      split: option.splits)

lemma config_total:
  "visible_ok s \<Longrightarrow> \<exists>s'. handle_config_actions env a s = Some s' \<and> visible_ok s'"
  by (cases a) (simp_all add: handle_config_actions_def enter_total visible_edit_key visible_edit_ops)

lemma confirm_total:
  assumes "visible_ok s"
  shows "\<exists>s'. handle_confirm_actions env a s = Some s' \<and> visible_ok s'"
proof (cases a)
  case AConfirmYes
  then show ?thesis
    using assms config_total [of "s\<lparr>pending_confirm := None\<rparr>" env]
    by (auto simp: handle_confirm_actions_def Let_def split: option.splits confirm_action.splits)
qed (use assms in \<open>simp_all add: handle_confirm_actions_def\<close>)

text \<open>Dispatch never panics while the visible names are connections' and the clock fits 64 bits, and
  it keeps the visible names so, whatever the action, unless an unknown name is toggled.\<close>

lemma dispatch_total:
  assumes "visible_ok s" "env_unix_millis env \<le> 9223372036854775807" "known_toggle s a"
  shows "\<exists>s'. dispatch env a s = Some s' \<and> visible_ok s'"
  using assms benchmark_total [of s env a] config_total [of s env a] confirm_total [of s env a]
  by (cases "group_of a")
    (simp_all add: dispatch_def visible_tabs visible_search visible_peer visible_daemon
      visible_feedback visible_import visible_export visible_compare visible_theme visible_help)

definition sample_app :: app_config where
  "sample_app = app_insert ''mia'' sample_config default_app_config"

definition sample_io :: toml_io where
  "sample_io = \<lparr>toml_read_wg = (\<lambda>_. Inl ''no reader''), toml_write_wg = (\<lambda>_. Inr ''config''),
     toml_read_app = (\<lambda>_. Inl ''no reader''), toml_write_app = (\<lambda>_. Inr ''config'')\<rparr>"

definition sample_env :: app_env where
  "sample_env = \<lparr>env_now = 0, env_unix_millis = 1700000000000, env_lower = to_ascii_lowercase,
     env_alnum = (\<lambda>_. False), env_show_pct = (\<lambda>_. ''20''), env_codec = rfc4648,
     env_toml = sample_io, env_alloc = exact_alloc\<rparr>"

definition sample_state :: app_state where
  "sample_state = new_state exact_alloc sample_app"

lemma sample_visible: "visible_ok sample_state"
  by (simp add: sample_state_def new_state_def visible_ok_def conn_names_def Let_def)

section \<open>Status updates\<close>

text \<open>The last status of a batch for a name.\<close>

definition last_status :: "peer_status list \<Rightarrow> string \<Rightarrow> peer_status option" where
  "last_status ps n = find (\<lambda>p. ps_name p = n) (rev ps)"

lemma last_status_Cons:
  "last_status (p # ps) n =
   (case last_status ps n of Some q \<Rightarrow> Some q | None \<Rightarrow> if ps_name p = n then Some p else None)"
proof -
  have "find P (xs @ [y]) = (case find P xs of Some q \<Rightarrow> Some q | None \<Rightarrow> if P y then Some y else None)"
    for P :: "peer_status \<Rightarrow> bool" and xs y by (induction xs) auto
  then show ?thesis by (simp add: last_status_def)
qed

lemma update_first_distinct:
  "distinct (map h xs) \<Longrightarrow> update_first (\<lambda>x. h x = n) f xs = map (\<lambda>x. if h x = n then f x else x) xs"
proof (induction xs)
  case (Cons x xs)
  show ?case
  proof (cases "h x = n")
    case True
    have "h y \<noteq> n" if "y \<in> set xs" for y
      using Cons.prems True that by (auto simp: image_iff)
    then have "map (\<lambda>x. if h x = n then f x else x) xs = xs"
      by (intro map_idI) simp
    then show ?thesis using True by simp
  qed (use Cons in simp)
qed simp

lemma update_statuses_last:
  assumes "distinct (map cv_name cs)"
  shows "update_statuses f ps cs =
    map (\<lambda>c. case last_status ps (cv_name c) of
      None \<Rightarrow> c | Some p \<Rightarrow> c\<lparr>cv_status := Some (status_of f p)\<rparr>) cs"
  using assms
proof (induction ps arbitrary: cs)
  case Nil
  then show ?case by (simp add: last_status_def)
next
  case (Cons p ps)
  let ?cs = "map (\<lambda>c. if cv_name c = ps_name p then c\<lparr>cv_status := Some (status_of f p)\<rparr> else c) cs"
  have names: "map cv_name ?cs = map cv_name cs" by simp
  have "update_statuses f (p # ps) cs = update_statuses f ps ?cs"
    using Cons.prems by (simp add: update_first_distinct)
  also have "\<dots> = map (\<lambda>c. case last_status ps (cv_name c) of
      None \<Rightarrow> c | Some p \<Rightarrow> c\<lparr>cv_status := Some (status_of f p)\<rparr>) ?cs"
    by (rule Cons.IH) (use Cons.prems in \<open>simp only: names\<close>)
  also have "\<dots> = map (\<lambda>c. case last_status (p # ps) (cv_name c) of
      None \<Rightarrow> c | Some p \<Rightarrow> c\<lparr>cv_status := Some (status_of f p)\<rparr>) cs"
    by (auto simp: last_status_Cons split: option.splits)
  finally show ?case .
qed

text \<open>C24. After a poll each connection has the last status the daemon reported for its name, and
  keeps the one it had when the daemon reported none; nothing else of it changes.\<close>

theorem update_peers_spec:
  assumes "distinct (map cv_name (connections s))"
    and "dispatch env (AUpdatePeers ps) s = Some s'"
  shows "daemon_connected s' \<and> connections s' =
    map (\<lambda>c. case last_status ps (cv_name c) of
        None \<Rightarrow> c | Some p \<Rightarrow> c\<lparr>cv_status := Some (status_of (env_show_pct env) p)\<rparr>) (connections s)"
  using assms update_statuses_last [OF assms(1)]
  by (auto simp: dispatch_def group_of_def handle_peer_actions_def apply_peer_updates_def)

definition up_status :: peer_status where
  "up_status = \<lparr>ps_name = ''mia'', ps_connected = True, ps_backend = Neptun,
     ps_stats = default_stats\<lparr>last_handshake := Some 200000000000\<rparr>, ps_endpoint = None,
     ps_interface = Some ''utun4''\<rparr>"

theorem update_peers_spec_witness:
  "map (\<lambda>c. map_option cst_health_warning (cv_status c))
     (connections (the (dispatch sample_env (AUpdatePeers [up_status]) sample_state))) =
   [Some (Some ''stale handshake'')]"
proof -
  have names: "distinct (map cv_name (connections sample_state))"
    by (simp add: sample_state_def new_state_def sample_app_def app_insert_def default_app_config_def
        connection_views_def Let_def)
  obtain s' where s': "dispatch sample_env (AUpdatePeers [up_status]) sample_state = Some s'"
    by (simp add: dispatch_def group_of_def)
  then show ?thesis
    using update_peers_spec [OF names s']
    by (simp add: sample_state_def new_state_def sample_app_def app_insert_def default_app_config_def
        connection_views_def Let_def last_status_def up_status_def status_of_def
        compute_health_warning_def stale_handshake_def default_stats_def)
qed

section \<open>The edit session\<close>

text \<open>C23. Deleting a draft's peer keeps the others, in order, and each of them is marked new
  exactly when it was before.\<close>

theorem delete_peer_tracks_new:
  assumes "config_edit s = Some e" "i < length (wg_peers (ce_draft e))"
    and "dispatch env (ADeleteConfigPeer i) s = Some s'"
  shows "\<exists>e'. config_edit s' = Some e' \<and>
    length (wg_peers (ce_draft e')) = length (wg_peers (ce_draft e)) - 1 \<and>
    (\<forall>j < length (wg_peers (ce_draft e')).
       wg_peers (ce_draft e') ! j = wg_peers (ce_draft e) ! (if j < i then j else Suc j) \<and>
       (j \<in> ce_new_peer_indices e' \<longleftrightarrow> (if j < i then j else Suc j) \<in> ce_new_peer_indices e))"
proof -
  have "config_edit s' = Some (delete_peer i e)"
    using assms by (auto simp: dispatch_def group_of_def handle_config_actions_def map_edit_def)
  then show ?thesis
    using delete_peer_draft [OF assms(2)] assms(2) by (simp add: nth_vec_remove shift_indices_iff)
qed

definition two_peers :: config_edit_state where
  "two_peers = \<lparr>ce_connection_name = ''mia'', ce_draft = sample_config\<lparr>wg_peers :=
       [blank_peer\<lparr>pc_name := ''a''\<rparr>, blank_peer]\<rparr>,
     ce_focused_section = CsPeer 0, ce_focused_field_idx = 0, ce_edit_buffer = None,
     ce_field_error = None, ce_new_peer_indices = {1}, ce_session_error = None\<rparr>"

theorem delete_peer_tracks_new_witness:
  "\<exists>e'. config_edit (the (dispatch sample_env (ADeleteConfigPeer 0)
      (sample_state\<lparr>config_edit := Some two_peers\<rparr>))) = Some e' \<and> 0 \<in> ce_new_peer_indices e'"
proof -
  define s where "s = sample_state\<lparr>config_edit := Some two_peers\<rparr>"
  obtain s' where s': "dispatch sample_env (ADeleteConfigPeer 0) s = Some s'"
    by (simp add: dispatch_def group_of_def handle_config_actions_def)
  have e: "config_edit s = Some two_peers" "0 < length (wg_peers (ce_draft two_peers))"
    by (simp_all add: s_def two_peers_def)
  obtain e' where "config_edit s' = Some e'" "length (wg_peers (ce_draft e')) = 1"
    "\<forall>j < 1. j \<in> ce_new_peer_indices e' \<longleftrightarrow> (if j < 0 then j else Suc j) \<in> ce_new_peer_indices two_peers"
    using delete_peer_tracks_new [OF e s'] by (auto simp: two_peers_def)
  then show ?thesis using s' by (simp add: s_def two_peers_def)
qed

text \<open>Opening a field starts the session over: whatever was committed before in the session,
  the draft and every mark of it, has no influence on the state after.\<close>

theorem enter_edit_discards:
  "visible_connections s \<noteq> {} \<Longrightarrow>
   dispatch env (AEnterConfigEdit sec k) (s\<lparr>config_edit := x\<rparr>) =
   dispatch env (AEnterConfigEdit sec k) (s\<lparr>config_edit := y\<rparr>)"
  by (simp add: dispatch_def group_of_def handle_config_actions_def enter_config_edit_def
      set_min_def find_connection_def Let_def split: option.splits)

theorem enter_edit_discards_witness:
  "dispatch sample_env (AEnterConfigEdit CsInterface 4) (sample_state\<lparr>config_edit := Some two_peers\<rparr>) =
   dispatch sample_env (AEnterConfigEdit CsInterface 4) (sample_state\<lparr>config_edit := None\<rparr>)"
  by (rule enter_edit_discards)
    (simp add: sample_state_def new_state_def sample_app_def app_insert_def default_app_config_def
      connection_views_def Let_def)

text \<open>C29. A preview needs every new peer's key and no field error. It then shows the draft as it is,
  valid or not, for the configuration's own validation is not asked, and shows all of it: the removed and
  context lines are the stored connection's text, the added and context lines the draft's, and no
  line is marked exactly when the two texts have the same lines.\<close>

theorem preview_gate:
  assumes "config_edit s = Some e" "dispatch env APreviewConfig s = Some s'"
  defines "old \<equiv> str_lines (original_toml env (ce_connection_name e) s)"
  defines "new \<equiv> str_lines (unwrap_or [] (toml_save_string (env_toml env) (ce_draft e)))"
  shows "if ce_new_peer_indices e = {} \<and> ce_field_error e = None
    then \<exists>d. config_diff_pending s' = Some d \<and> cd_connection_name d = ce_connection_name e \<and>
      cd_draft d = ce_draft e \<and> cd_scroll_offset d = 0 \<and>
      old_side (cd_diff_lines d) = old \<and> new_side (cd_diff_lines d) = new \<and>
      (list_all is_ctx (cd_diff_lines d) \<longleftrightarrow> old = new)
    else config_diff_pending s' = config_diff_pending s"
  using assms(1,2)
  by (auto simp: dispatch_def group_of_def handle_config_actions_def preview_config_def old_def new_def
      config_diff_complete split: if_splits)

definition no_peers :: config_edit_state where
  "no_peers = two_peers\<lparr>ce_draft := sample_config\<lparr>wg_peers := []\<rparr>, ce_new_peer_indices := {}\<rparr>"

theorem preview_gate_witness:
  "\<exists>d. config_diff_pending (the (dispatch sample_env APreviewConfig
      (sample_state\<lparr>config_edit := Some no_peers\<rparr>))) = Some d \<and> wg_validate (cd_draft d) \<noteq> Inr ()"
proof -
  define s where "s = sample_state\<lparr>config_edit := Some no_peers\<rparr>"
  obtain s' where s': "dispatch sample_env APreviewConfig s = Some s'"
    by (simp add: dispatch_def group_of_def handle_config_actions_def)
  have "config_edit s = Some no_peers" by (simp add: s_def)
  from preview_gate [OF this s'] obtain d where
    "config_diff_pending s' = Some d" "cd_draft d = ce_draft no_peers"
    by (auto simp: no_peers_def two_peers_def)
  then show ?thesis using s' by (simp add: s_def no_peers_def two_peers_def wg_validate_iff wg_ok_def)
qed

definition mode_ok :: "app_state \<Rightarrow> bool" where
  "mode_ok s = (input_mode s = MEditField \<longrightarrow>
     (case config_edit s of None \<Rightarrow> False | Some e \<Rightarrow> ce_edit_buffer e \<noteq> None))"

lemma delete_peer_buffer [simp]: "ce_edit_buffer (delete_peer i e) = ce_edit_buffer e"
  by (simp add: delete_peer_def Let_def focus_section_def)

lemma focus_buffer [simp]:
  "ce_edit_buffer (focus_next e) = ce_edit_buffer e"
  "ce_edit_buffer (focus_prev e) = ce_edit_buffer e"
  "ce_edit_buffer (focus_section sec e) = ce_edit_buffer e"
  by (simp_all add: focus_next_def focus_prev_def focus_section_def)

lemma mode_map_edit:
  "mode_ok s \<Longrightarrow> (\<And>e. ce_edit_buffer (f e) = ce_edit_buffer e) \<Longrightarrow> mode_ok (map_edit f s)"
  by (simp add: mode_ok_def map_edit_def split: option.splits)

lemma mode_same:
  "input_mode s' = input_mode s \<Longrightarrow> config_edit s' = config_edit s \<Longrightarrow> mode_ok s' = mode_ok s"
  by (simp add: mode_ok_def)

lemma mode_other: "input_mode s \<noteq> MEditField \<Longrightarrow> mode_ok s"
  by (simp add: mode_ok_def)

lemma mode_push_toast [simp]: "mode_ok (push_toast t s) = mode_ok s"
  by (simp add: push_toast_def Let_def mode_ok_def)

lemma mode_tabs: "mode_ok (handle_tab_actions a s)"
  by (cases a) (simp_all add: handle_tab_actions_def Let_def mode_ok_def)

lemma mode_handlers:
  "mode_ok s \<Longrightarrow> mode_ok (handle_search_actions a s)"
  "mode_ok s \<Longrightarrow> mode_ok (handle_help_action a s)"
  "mode_ok s \<Longrightarrow> mode_ok (handle_peer_actions env a s)"
  "mode_ok s \<Longrightarrow> mode_ok (handle_daemon_actions a s)"
  "mode_ok s \<Longrightarrow> mode_ok (handle_compare_actions a s)"
  "mode_ok s \<Longrightarrow> mode_ok (handle_theme_action a s)"
  "mode_ok s \<Longrightarrow> mode_ok (handle_feedback_actions env a s)"
  by (cases a; simp add: handle_search_actions_def handle_help_action_def handle_peer_actions_def
      apply_peer_updates_def handle_daemon_actions_def handle_compare_actions_def
      handle_theme_action_def handle_feedback_actions_def Let_def mode_ok_def push_toast_def)+

lemma mode_paths:
  "mode_ok s \<Longrightarrow> mode_ok (handle_import_actions a s)"
  "mode_ok s \<Longrightarrow> mode_ok (handle_export_actions a s)"
  by (cases a; simp add: handle_import_actions_def apply_import_key_def handle_export_actions_def
      apply_export_key_def mode_ok_def split: input_mode.splits)+

lemma mode_benchmark:
  "handle_benchmark_actions env a s = Some s' \<Longrightarrow> mode_ok s \<Longrightarrow> mode_ok s'"
  by (cases a)
    (auto simp: handle_benchmark_actions_def start_benchmark_def benchmark_progress_update_def
      benchmark_complete_def Let_def mode_ok_def push_toast_def split: if_splits)

lemma mode_edit_key: "mode_ok s \<Longrightarrow> mode_ok (config_edit_key env key s)"
  by (cases "ke_code key")
    (auto simp: config_edit_key_def config_enter_def Let_def mode_ok_def
      split: option.splits sum.splits)

lemma mode_preview: "mode_ok s \<Longrightarrow> mode_ok (preview_config env s)"
  by (auto simp: preview_config_def mode_ok_def split: option.splits)

lemma mode_config:
  assumes "handle_config_actions env a s = Some s'" "mode_ok s"
    and "\<not> (\<exists>r. a = ASaveConfig r) \<or> input_mode s \<noteq> MEditField"
  shows "mode_ok s'"
proof (cases a)
  case (AEnterConfigEdit sec k)
  then show ?thesis
    using assms by (auto simp: handle_config_actions_def enter_config_edit_def Let_def mode_ok_def
        split: option.splits)
next
  case AAddConfigPeer
  then show ?thesis
    using assms by (auto simp: handle_config_actions_def add_config_peer_def add_peer_def Let_def
        mode_ok_def split: option.splits)
next
  case (ADeleteConfigPeer i)
  then show ?thesis using assms by (auto simp: handle_config_actions_def intro: mode_map_edit)
next
  case ASaveConfig
  then show ?thesis using assms by (auto simp: handle_config_actions_def mode_ok_def)
next
  case ADiscardConfigEdits
  then show ?thesis using assms by (auto simp: handle_config_actions_def mode_ok_def)
next
  case AConfigDiffScrollDown
  then show ?thesis using assms by (auto simp: handle_config_actions_def map_diff_def mode_ok_def)
next
  case AConfigDiffScrollUp
  then show ?thesis using assms by (auto simp: handle_config_actions_def map_diff_def mode_ok_def)
qed (use assms in \<open>auto simp: handle_config_actions_def mode_edit_key mode_preview intro: mode_map_edit\<close>)

lemma mode_confirm:
  assumes "handle_confirm_actions env a s = Some s'" "mode_ok s"
  shows "mode_ok s'"
proof (cases a)
  case AConfirmYes
  then show ?thesis
    using assms mode_config [of env _ "s\<lparr>pending_confirm := None\<rparr>" s']
      mode_same [of "s\<lparr>pending_confirm := None\<rparr>" s]
    by (auto simp: handle_confirm_actions_def Let_def split: option.splits confirm_action.splits)
qed (use assms in \<open>auto simp: handle_confirm_actions_def mode_ok_def\<close>)

text \<open>C28. The editing mode always has an open text buffer behind it, so its keys have somewhere
  to go; only saving while a field is open would leave the mode on with the session gone.\<close>

theorem edit_mode_has_buffer:
  assumes "dispatch env a s = Some s'" "mode_ok s"
    and "\<not> (\<exists>r. a = ASaveConfig r) \<or> input_mode s \<noteq> MEditField"
  shows "mode_ok s'"
  using assms mode_benchmark [of env a s s'] mode_config [of env a s s'] mode_confirm [of env a s s']
    mode_same [of "s\<lparr>running := False\<rparr>" s]
  by (cases "group_of a") (auto simp: dispatch_def mode_tabs mode_handlers mode_paths)

theorem edit_mode_has_buffer_witness:
  "mode_ok (the (dispatch sample_env (AEnterConfigEdit CsInterface 4) sample_state))"
proof -
  obtain s' where "dispatch sample_env (AEnterConfigEdit CsInterface 4) sample_state = Some s'"
    by (simp add: dispatch_def group_of_def handle_config_actions_def enter_config_edit_def
        sample_state_def new_state_def sample_app_def app_insert_def default_app_config_def
        connection_views_def Let_def set_min_def find_connection_def)
  then show ?thesis
    using edit_mode_has_buffer [of sample_env "AEnterConfigEdit CsInterface 4" sample_state s']
    by (simp add: mode_other sample_state_def new_state_def Let_def)
qed

section \<open>Benchmarks and text entry\<close>

text \<open>A running benchmark ends only with a result: no other action, start requests included,
  clears the flag, and a start while it runs changes nothing but the toasts.\<close>

theorem benchmark_runs_until_complete:
  assumes "dispatch env a s = Some s'" "benchmark_running s" "\<And>r. a \<noteq> ABenchmarkComplete r"
  shows "benchmark_running s'"
proof -
  have edit: "handle_config_actions env b t = Some t' \<Longrightarrow> benchmark_running t' = benchmark_running t"
    for b t t'
    by (cases b)
      (auto simp: handle_config_actions_def enter_config_edit_def config_edit_key_def config_enter_def
        map_edit_def map_diff_def add_config_peer_def preview_config_def Let_def
        split: option.splits sum.splits key_code.splits if_splits)
  show ?thesis
    using assms
    by (cases a)
      (auto simp: dispatch_def group_of_def handle_tab_actions_def handle_search_actions_def
        handle_peer_actions_def apply_peer_updates_def handle_daemon_actions_def
        handle_feedback_actions_def push_toast_def handle_import_actions_def apply_import_key_def
        handle_export_actions_def apply_export_key_def handle_benchmark_actions_def
        start_benchmark_def benchmark_progress_update_def handle_compare_actions_def
        handle_theme_action_def handle_help_action_def handle_confirm_actions_def Let_def
        split: option.splits confirm_action.splits input_mode.splits dest!: edit)
qed

theorem benchmark_runs_until_complete_witness:
  "benchmark_running (the (dispatch sample_env AStartBenchmark
     (sample_state\<lparr>benchmark_running := True\<rparr>)))"
proof -
  obtain s' where s': "dispatch sample_env AStartBenchmark (sample_state\<lparr>benchmark_running := True\<rparr>) = Some s'"
    by (simp add: dispatch_def group_of_def handle_benchmark_actions_def)
  have "benchmark_running s'" by (rule benchmark_runs_until_complete [OF s']) simp_all
  then show ?thesis using s' by simp
qed

end
