(* ===== verification/Daemon.thy ===== *)
theory Daemon
  imports Tunnel Logs
begin

text \<open>
  The daemon's server (\<open>ferro-wg-core/src/daemon.rs\<close>): a client sends one command per connection,
  the loop decodes it, runs it on the manager and answers. A connection is what its \<open>read_line\<close>
  yields and the configuration file at that time; the JSON crate is a reader of commands and a
  writer of responses. The log stream's task is separate: its client's connection is a number of
  writes that succeed.
\<close>

record json =
  js_read_command :: "string \<Rightarrow> (string, daemon_command) result"
  js_write_response :: "daemon_response \<Rightarrow> (string, string) result"

section \<open>Commands\<close>

fun needs_config_reload :: "daemon_command \<Rightarrow> bool" where
  "needs_config_reload (Up _ _) = True"
| "needs_config_reload Status = True"
| "needs_config_reload _ = False"

definition reload_from_file ::
  "toml_io \<Rightarrow> (string, string) result \<Rightarrow> 'b manager \<Rightarrow> 'b manager" where
  "reload_from_file io contents m =
     (case load_app_config io contents of Inr c \<Rightarrow> reload_config c m | Inl _ \<Rightarrow> m)"

definition result_response :: "(wg_error, unit) result \<Rightarrow> daemon_response" where
  "result_response r = (case r of Inl e \<Rightarrow> RError (show_wg_error e) | Inr _ \<Rightarrow> ROk)"

fun handle_command ::
  "('w, 'b) daemon_env \<Rightarrow> daemon_command \<Rightarrow> 'b manager \<Rightarrow> 'w \<Rightarrow> daemon_response \<times> 'b manager \<times> 'w" where
  "handle_command env (Up (Some name) kind) m w =
     (case up env name kind m w of (r, m', w') \<Rightarrow> (result_response r, m', w'))"
| "handle_command env (Up None kind) m w =
     (case up_all env kind m w of (r, m', w') \<Rightarrow> (result_response r, m', w'))"
| "handle_command env (Down (Some name)) m w =
     (case down env name m w of (r, m', w') \<Rightarrow> (result_response r, m', w'))"
| "handle_command env (Down None) m w = (case down_all env m w of (m', w') \<Rightarrow> (ROk, m', w'))"
| "handle_command env Status m w = (RStatus (status m), m, w)"
| "handle_command env (SwitchBackend name kind) m w =
     (case down env name m w of (_, m1, w1) \<Rightarrow>
       (case up env name kind m1 w1 of (r, m', w') \<Rightarrow> (result_response r, m', w')))"
| "handle_command env Shutdown m w = (ROk, m, w)"
| "handle_command env (Benchmark _ _) m w = (RError ''Benchmark not implemented yet'', m, w)"
| "handle_command env StreamLogs m w = (RError ''StreamLogs not supported here'', m, w)"

definition send_response :: "json \<Rightarrow> daemon_response \<Rightarrow> (string, string) result" where
  "send_response js r = encode_message (js_write_response js) r"

section \<open>One connection\<close>

record client =
  cl_line :: "(string, string) result"
  cl_config :: "(string, string) result"

text \<open>The command, and what is sent while reading it.\<close>

definition read_command :: "json \<Rightarrow> client \<Rightarrow> daemon_command option \<times> (string, string) result option" where
  "read_command js cl =
     (case cl_line cl of
        Inl _ \<Rightarrow> (None, None)
      | Inr l \<Rightarrow>
          if l = [] then (None, None)
          else (case decode_message (js_read_command js) l of
                  Inr cmd \<Rightarrow> (Some cmd, None)
                | Inl e \<Rightarrow> (None, Some (send_response js (RError (''invalid command: '' @ e))))))"

text \<open>The daemon: its manager and world, the responses sent (an encoding error sends nothing) and
  the number of log streams it has started.\<close>

record ('w, 'b) daemon =
  dm_manager :: "'b manager"
  dm_world :: 'w
  dm_sent :: "string list"
  dm_streams :: nat

definition sent :: "(string, string) result \<Rightarrow> string list" where
  "sent r = (case r of Inl _ \<Rightarrow> [] | Inr s \<Rightarrow> [s])"

definition process_command ::
  "json \<Rightarrow> toml_io \<Rightarrow> ('w, 'b) daemon_env \<Rightarrow> client \<Rightarrow> daemon_command \<Rightarrow> ('w, 'b) daemon \<Rightarrow>
   bool \<times> ('w, 'b) daemon" where
  "process_command js io env cl cmd d =
     (let m = (if needs_config_reload cmd then reload_from_file io (cl_config cl) (dm_manager d)
               else dm_manager d) in
      case handle_command env cmd m (dm_world d) of (r, m', w') \<Rightarrow>
        (r = ROk \<and> cmd = Shutdown,
         d\<lparr>dm_manager := m', dm_world := w', dm_sent := dm_sent d @ sent (send_response js r)\<rparr>))"

definition serve ::
  "json \<Rightarrow> toml_io \<Rightarrow> ('w, 'b) daemon_env \<Rightarrow> client \<Rightarrow> ('w, 'b) daemon \<Rightarrow> bool \<times> ('w, 'b) daemon" where
  "serve js io env cl d =
     (case read_command js cl of
        (None, out) \<Rightarrow>
          (False, d\<lparr>dm_sent := dm_sent d @ (case out of None \<Rightarrow> [] | Some r \<Rightarrow> sent r)\<rparr>)
      | (Some StreamLogs, _) \<Rightarrow> (False, d\<lparr>dm_streams := Suc (dm_streams d)\<rparr>)
      | (Some cmd, _) \<Rightarrow> process_command js io env cl cmd d)"

section \<open>The loop\<close>

text \<open>What happens to the daemon, in any order: \<open>accept\<close> yields a client or an error, which ends the
  daemon with it, and between clients the packet loops publish statistics and end. While nothing
  comes the daemon waits: the list ends.\<close>

datatype 'b daemon_event =
    AcceptErr string
  | Accepted client
  | LoopStats "'b loop_task" tunnel_stats
  | LoopEnd "'b loop_task"

datatype daemon_end = Serving | Finished | Broken string

fun serve_all ::
  "json \<Rightarrow> toml_io \<Rightarrow> ('w, 'b) daemon_env \<Rightarrow> 'b daemon_event list \<Rightarrow> ('w, 'b) daemon \<Rightarrow>
   daemon_end \<times> ('w, 'b) daemon" where
  "serve_all js io env [] d = (Serving, d)"
| "serve_all js io env (AcceptErr e # cs) d = (Broken e, d)"
| "serve_all js io env (Accepted cl # cs) d =
     (case serve js io env cl d of
        (True, d') \<Rightarrow> (Finished, d')
      | (False, d') \<Rightarrow> serve_all js io env cs d')"
| "serve_all js io env (LoopStats l st # cs) d =
     serve_all js io env cs (d\<lparr>dm_manager := publish_stats l st (dm_manager d)\<rparr>)"
| "serve_all js io env (LoopEnd l # cs) d =
     (case loop_end (de_ops env) l (dm_manager d) (dm_world d) of (m, w) \<Rightarrow>
        serve_all js io env cs (d\<lparr>dm_manager := m, dm_world := w\<rparr>))"

text \<open>When \<open>run\<close> returns, either way, the manager is dropped, which takes everything down.\<close>

definition drop_manager :: "('w, 'b) daemon_env \<Rightarrow> ('w, 'b) daemon \<Rightarrow> ('w, 'b) daemon" where
  "drop_manager env d =
     (case down_all env (dm_manager d) (dm_world d) of (m, w) \<Rightarrow> d\<lparr>dm_manager := m, dm_world := w\<rparr>)"

definition daemon_new :: "app_config \<Rightarrow> 'w \<Rightarrow> ('w, 'b) daemon" where
  "daemon_new c w = \<lparr>dm_manager = manager_new c, dm_world = w, dm_sent = [], dm_streams = 0\<rparr>"

definition run_daemon ::
  "json \<Rightarrow> toml_io \<Rightarrow> ('w, 'b) daemon_env \<Rightarrow> app_config \<Rightarrow> 'b daemon_event list \<Rightarrow> 'w \<Rightarrow>
   daemon_end \<times> ('w, 'b) daemon" where
  "run_daemon js io env c cs w =
     (case serve_all js io env cs (daemon_new c w) of
        (Serving, d) \<Rightarrow> (Serving, d)
      | (r, d) \<Rightarrow> (r, drop_manager env d))"

section \<open>Log streams\<close>

text \<open>A write succeeds while the client is there: \<open>left\<close> more times.\<close>

definition send_line :: "json \<Rightarrow> log_entry \<Rightarrow> nat \<Rightarrow> (string \<times> nat) option" where
  "send_line js e left =
     (case send_response js (RLogEntry e) of
        Inl _ \<Rightarrow> None
      | Inr s \<Rightarrow> (case left of 0 \<Rightarrow> None | Suc n \<Rightarrow> Some (s, n)))"

fun replay :: "json \<Rightarrow> log_entry list \<Rightarrow> nat \<Rightarrow> string list \<times> nat option" where
  "replay js [] left = ([], Some left)"
| "replay js (e # es) left =
     (case send_line js e left of
        None \<Rightarrow> ([], None)
      | Some (s, left') \<Rightarrow> (case replay js es left' of (out, r) \<Rightarrow> (s # out, r)))"

datatype rx_event = RxEntry log_entry | RxLagged nat | RxClosed

fun live_entries :: "json \<Rightarrow> rx_event list \<Rightarrow> nat \<Rightarrow> string list" where
  "live_entries js [] left = []"
| "live_entries js (RxEntry e # es) left =
     (case send_line js e left of None \<Rightarrow> [] | Some (s, left') \<Rightarrow> s # live_entries js es left')"
| "live_entries js (RxLagged _ # es) left = live_entries js es left"
| "live_entries js (RxClosed # es) left = []"

definition handle_stream_logs :: "json \<Rightarrow> log_entry list \<Rightarrow> rx_event list \<Rightarrow> nat \<Rightarrow> string list" where
  "handle_stream_logs js history rx left =
     (case replay js history left of
        (out, None) \<Rightarrow> out
      | (out, Some left') \<Rightarrow> out @ live_entries js rx left')"

section \<open>The broadcaster\<close>

text \<open>Every 10 ms the broadcaster drains the ring buffer into the broadcast channel, which holds the
  last \<open>hb_slots\<close> entries sent. A stream subscribes when its connection is handled and reads the buffer
  when its task runs. What has been sent since and not yet received waits for it in the channel; when
  that is more than the channel holds, the oldest are gone, and the next \<open>recv\<close> is the notice of how
  many. Each \<open>recv\<close> is a step of its own, since its task goes on only when the client has taken the
  entry before. \<open>st_entries\<close> are the entries sent to a client that stays.

  What the daemon logs itself, such as the warning that a stream lagged, is \<open>Logged\<close> as any entry.\<close>

record stream =
  st_entries :: "log_entry list"
  st_waiting :: "log_entry list"
  st_lagged :: nat
  st_replayed :: bool

record hub =
  hb_buffer :: log_buffer
  hb_slots :: nat
  hb_streams :: "stream list"

datatype hub_event = Logged log_entry | Drain | Subscribe | Replay nat | Recv nat

definition stream_new :: stream where
  "stream_new = \<lparr>st_entries = [], st_waiting = [], st_lagged = 0, st_replayed = False\<rparr>"

definition broadcast :: "nat \<Rightarrow> log_entry list \<Rightarrow> stream \<Rightarrow> stream" where
  "broadcast slots es s =
     (let unread = st_waiting s @ es; over = length unread - slots
      in s\<lparr>st_waiting := drop over unread, st_lagged := st_lagged s + over\<rparr>)"

definition replay_stream :: "log_entry list \<Rightarrow> stream \<Rightarrow> stream" where
  "replay_stream history s =
     (if st_replayed s then s else s\<lparr>st_entries := history, st_replayed := True\<rparr>)"

definition receive :: "stream \<Rightarrow> stream" where
  "receive s =
     (if \<not> st_replayed s then s
      else if 0 < st_lagged s then s\<lparr>st_lagged := 0\<rparr>
      else (case st_waiting s of
              [] \<Rightarrow> s
            | e # es \<Rightarrow> s\<lparr>st_entries := st_entries s @ [e], st_waiting := es\<rparr>))"

definition at_stream :: "nat \<Rightarrow> (stream \<Rightarrow> stream) \<Rightarrow> hub \<Rightarrow> hub" where
  "at_stream i f h =
     (if i < length (hb_streams h) then h\<lparr>hb_streams := (hb_streams h)[i := f (hb_streams h ! i)]\<rparr> else h)"

fun hub_step :: "alloc \<Rightarrow> hub_event \<Rightarrow> hub \<Rightarrow> hub" where
  "hub_step al (Logged e) h = h\<lparr>hb_buffer := add_entry al e (hb_buffer h)\<rparr>"
| "hub_step al Drain h =
     (case drain_logs (hb_buffer h) of (es, b) \<Rightarrow>
        h\<lparr>hb_buffer := b, hb_streams := map (broadcast (hb_slots h) es) (hb_streams h)\<rparr>)"
| "hub_step al Subscribe h = h\<lparr>hb_streams := hb_streams h @ [stream_new]\<rparr>"
| "hub_step al (Replay i) h = at_stream i (replay_stream (get_buffer (hb_buffer h))) h"
| "hub_step al (Recv i) h = at_stream i receive h"

definition hub_run :: "alloc \<Rightarrow> hub_event list \<Rightarrow> hub \<Rightarrow> hub" where
  "hub_run al es h = fold (hub_step al) es h"

end
