(* ===== verification/TunnelProps.thy ===== *)
theory TunnelProps
  imports Tunnel WgQuickProps
begin

text \<open>
  What the tunnel manager guarantees: a failed \<open>up\<close> leaves it as it was, one packet loop runs per
  active connection, the status covers the configured connections, and the bulk operations reach
  every connection.
\<close>

section \<open>Up and down\<close>

lemma up_target_Inr:
  "up_target m name = Inr (wg, peer, endpoint) \<longleftrightarrow>
   \<not> is_up m name \<and> app_get (tm_config m) name = Some wg \<and> vec_get (wg_peers wg) 0 = Some peer \<and>
   pc_endpoint peer = Some endpoint"
  by (auto simp: up_target_def Let_def res_simps)

lemma io_bind_ok:
  "io_bind m f w = (Inr y, w2) \<longleftrightarrow> (\<exists>x w1. m w = (Inr x, w1) \<and> f x w1 = (Inr y, w2))"
  by (auto simp: io_bind_eq)

lemma on_error_ok [simp]: "on_error c m w = (Inr x, w') \<longleftrightarrow> m w = (Inr x, w')"
  by (auto simp: on_error_def split: prod.splits sum.splits)

lemma bring_up_Inr:
  assumes "bring_up env name kind wg peer endpoint w = (Inr (conn, lp), w')"
  shows "cn_backend_kind conn = kind \<and> cn_endpoint conn = pc_endpoint peer \<and> pl_name lp = name \<and>
    \<not> pl_shutdown lp"
  using assms by (auto simp: bring_up_def io_bind_ok)

lemma up_cases:
  obtains (refused) e where "up_target m name = Inl e" "up env name kind m w = (Inl e, m, w)"
  | (failed) wg peer endpoint e w1 where "up_target m name = Inr (wg, peer, endpoint)"
      "bring_up env name kind wg peer endpoint w = (Inl e, w1)" "up env name kind m w = (Inl e, m, w1)"
  | (brought) wg peer endpoint conn lp w1 where "up_target m name = Inr (wg, peer, endpoint)"
      "bring_up env name kind wg peer endpoint w = (Inr (conn, lp), w1)"
      "up env name kind m w = (Inr (), m\<lparr>tm_connections := hmap_insert name conn (tm_connections m),
         tm_loops := lp # tm_loops m\<rparr>, w1)"
proof (cases "up_target m name")
  case (Inl e)
  then show ?thesis using refused by (simp add: up_def)
next
  case (Inr x)
  obtain wg peer endpoint where x: "x = (wg, peer, endpoint)" by (cases x) auto
  obtain r w1 where b: "bring_up env name kind wg peer endpoint w = (r, w1)" by fastforce
  show ?thesis
  proof (cases r)
    case (Inl e)
    then show ?thesis using failed Inr x b by (simp add: up_def)
  next
    case b': (Inr y)
    obtain conn lp where "y = (conn, lp)" by (cases y)
    then show ?thesis using brought Inr x b b' by (simp add: up_def)
  qed
qed

lemma up_effect:
  "case up env name kind m w of
     (Inl _, m', _) \<Rightarrow> m' = m
   | (Inr _, m', _) \<Rightarrow> \<not> is_up m name \<and> tm_config m' = tm_config m \<and>
       (\<exists>conn. amap_get (tm_connections m') = (amap_get (tm_connections m))(name \<mapsto> conn) \<and>
          cn_backend_kind conn = kind)"
proof (cases rule: up_cases [of m name env kind w])
  case (brought wg peer endpoint conn lp w1)
  then show ?thesis
    using bring_up_Inr [OF brought(2)] by (auto simp: up_target_Inr amap_get_hmap_insert)
qed simp_all

text \<open>C21. Bringing a connection up is atomic for the manager: on an error its state is what it was;
  on success the connection, and only it, is new, with the backend asked for.\<close>

theorem up_atomic:
  "case up env name kind m w of
     (Inl _, m', _) \<Rightarrow> m' = m
   | (Inr _, m', _) \<Rightarrow> \<not> is_up m name \<and> tm_config m' = tm_config m \<and>
       (\<exists>conn. amap_get (tm_connections m') = (amap_get (tm_connections m))(name \<mapsto> conn) \<and>
          cn_backend_kind conn = kind)"
  by (rule up_effect)

section \<open>One loop per connection\<close>

definition live :: "'b manager \<Rightarrow> string \<Rightarrow> nat" where
  "live m n = length (filter (\<lambda>l. pl_name l = n \<and> \<not> pl_shutdown l) (tm_loops m))"

definition loops_ok :: "'b manager \<Rightarrow> bool" where
  "loops_ok m = (amap_wf (tm_connections m) \<and> (\<forall>n. live m n = (if is_up m n then 1 else 0)))"

text \<open>Everything that happens to the manager.\<close>

inductive manager_step ::
  "('w, 'b) daemon_env \<Rightarrow> 'b manager \<times> 'w \<Rightarrow> 'b manager \<times> 'w \<Rightarrow> bool" for env where
  step_up: "manager_step env (m, w) (snd (up env name kind m w))"
| step_down: "manager_step env (m, w) (snd (down env name m w))"
| step_reload: "manager_step env (m, w) (reload_config c m, w)"
| step_stats: "manager_step env (m, w) (publish_stats l st m, w)"
| step_loop: "manager_step env (m, w) (loop_end (de_ops env) l m w)"

inductive_cases manager_stepE: "manager_step env s s'"

lemma is_up_insert: "is_up (m\<lparr>tm_connections := hmap_insert n c (tm_connections m), tm_loops := ls\<rparr>) k =
  (k = n \<or> is_up m k)"
  by (auto simp: is_up_def amap_get_hmap_insert)

lemma is_up_remove: "is_up (m\<lparr>tm_connections := amap_remove n (tm_connections m), tm_loops := ls\<rparr>) k =
  (k \<noteq> n \<and> is_up m k)"
  by (auto simp: is_up_def amap_get_remove)

lemma live_cons:
  "live (m\<lparr>tm_connections := cs, tm_loops := lp # tm_loops m\<rparr>) n =
   (if pl_name lp = n \<and> \<not> pl_shutdown lp then 1 else 0) + live m n"
  by (simp add: live_def)

lemma loops_up: "loops_ok m \<Longrightarrow> loops_ok (fst (snd (up env name kind m w)))"
proof (cases rule: up_cases [of m name env kind w])
  case (brought wg peer endpoint conn lp w1)
  assume ok: "loops_ok m"
  have new: "\<not> is_up m name" using brought(1) by (simp add: up_target_Inr)
  have lp: "pl_name lp = name" "\<not> pl_shutdown lp" using bring_up_Inr [OF brought(2)] by auto
  show ?thesis
    using ok new lp brought(3)
    by (auto simp: loops_ok_def is_up_insert live_cons amap_wf_hmap_insert)
qed simp_all

lemma live_signal:
  "live (m\<lparr>tm_connections := cs, tm_loops := signal_loop n (tm_loops m)\<rparr>) k =
   (if k = n then 0 else live m k)"
proof -
  have "length (filter (\<lambda>l. pl_name l = k \<and> \<not> pl_shutdown l) (signal_loop n ls)) =
      (if k = n then 0 else length (filter (\<lambda>l. pl_name l = k \<and> \<not> pl_shutdown l) ls))"
    for ls :: "'a loop_task list"
  proof (cases "k = n")
    case True
    then show ?thesis by (auto simp: signal_loop_def filter_empty_conv)
  next
    case False
    then show ?thesis by (induction ls) (auto simp: signal_loop_def)
  qed
  then show ?thesis by (simp add: live_def)
qed

lemma loops_down: "loops_ok m \<Longrightarrow> loops_ok (fst (snd (down env name m w)))"
  by (simp add: down_def loops_ok_def Let_def is_up_remove live_signal hash_map.wf_remove
      split: option.split)

lemma loops_stats: "loops_ok m \<Longrightarrow> loops_ok (publish_stats l st m)"
proof -
  have keys: "amap_keys (map (\<lambda>(n, c). (n, if n = k then f c else c)) cs) = amap_keys cs"
    for k f and cs :: "(string, active_conn) amap"
    by (induction cs) (auto simp: amap_keys_def)
  assume "loops_ok m"
  then show ?thesis
    by (auto simp: publish_stats_def loops_ok_def amap_wf_def keys live_def is_up_def
        amap_get_None_iff)
qed

lemma loops_end: "loops_ok m \<Longrightarrow> loops_ok (fst (loop_end ops l m w))"
proof -
  have "filter P (remove1 l ls) = filter P ls" if "\<not> P l" for P :: "'a loop_task \<Rightarrow> bool" and ls
    using that by (induction ls) auto
  then show "loops_ok m \<Longrightarrow> ?thesis"
    by (auto simp: loop_end_def loops_ok_def live_def is_up_def)
qed

lemma loops_reload: "loops_ok m \<Longrightarrow> loops_ok (reload_config c m)"
  by (simp add: reload_config_def loops_ok_def live_def is_up_def)

lemma loops_step: "manager_step env s s' \<Longrightarrow> loops_ok (fst s) \<Longrightarrow> loops_ok (fst s')"
  by (induction rule: manager_step.induct)
    (simp_all add: loops_up loops_down loops_stats loops_end loops_reload)

text \<open>Whatever commands, reloads and loop events came before, each active connection has
  exactly one packet loop that has not been told to stop, and a connection that is not active has
  none.\<close>

lemma steps_live:
  assumes "(manager_step env)\<^sup>*\<^sup>* (manager_new c, w) (m, w')"
  shows "live m n = (if is_up m n then 1 else 0)"
proof -
  have "loops_ok (fst (m, w'))"
    using assms by (induction rule: rtranclp_induct)
      (simp add: manager_new_def loops_ok_def live_def is_up_def amap_wf_def, rule loops_step)
  then show ?thesis by (simp add: loops_ok_def)
qed

section \<open>Status and bulk operations\<close>

text \<open>The status lists the configured connections, in their order, each connected exactly
  when it is active; an active connection that was dropped from the configuration is not in it.\<close>

theorem status_reports:
  "map ps_name (status m) = app_connection_names (tm_config m) \<and>
   list_all (\<lambda>p. ps_connected p = is_up m (ps_name p) \<and>
     (case amap_get (tm_connections m) (ps_name p) of
        None \<Rightarrow> ps_stats p = default_stats
      | Some c \<Rightarrow> ps_stats p = cn_stats c \<and> ps_backend p = cn_backend_kind c)) (status m)"
  by (auto simp: status_def status_entry_def app_connection_names_def amap_keys_def list_all_iff
      is_up_def Let_def split: option.splits)

lemma down_names_empty:
  "set (amap_keys (tm_connections m)) \<subseteq> set ns \<Longrightarrow> tm_connections (fst (down_names env ns m w)) = []"
proof (induction ns arbitrary: m w)
  case Nil
  then show ?case by (simp add: amap_keys_def)
next
  case (Cons n ns)
  obtain r m1 w1 where d: "down env n m w = (r, m1, w1)" by (cases "down env n m w") auto
  have "set (amap_keys (tm_connections m1)) \<subseteq> set ns"
  proof (cases "amap_get (tm_connections m) n")
    case None
    then have "m1 = m" "n \<notin> set (amap_keys (tm_connections m))"
      using d by (simp_all add: down_def amap_get_None_iff [symmetric])
    then show ?thesis using Cons.prems by auto
  next
    case (Some c)
    then have "tm_connections m1 = amap_remove n (tm_connections m)"
      using d by (auto simp: down_def Let_def)
    then show ?thesis using Cons.prems by auto
  qed
  then show ?case using Cons.IH d by simp
qed

lemma loops_down_names: "loops_ok m \<Longrightarrow> loops_ok (fst (down_names env ns m w))"
proof (induction ns arbitrary: m w)
  case (Cons n ns)
  obtain r m1 w1 where d: "down env n m w = (r, m1, w1)" by (cases "down env n m w") auto
  then have "loops_ok m1" using loops_down [OF Cons.prems, of env n w] by simp
  then show ?case using Cons.IH d by simp
qed simp

lemma down_all_effect:
  assumes "loops_ok m"
  shows "tm_connections (fst (down_all env m w)) = [] \<and>
    list_all pl_shutdown (tm_loops (fst (down_all env m w)))"
proof -
  let ?m = "fst (down_all env m w)"
  have empty: "tm_connections ?m = []" by (simp add: down_all_def down_names_empty)
  moreover have "loops_ok ?m" using assms by (simp add: down_all_def loops_down_names)
  ultimately have "live ?m n = 0" for n by (simp add: loops_ok_def is_up_def)
  then show ?thesis using empty by (auto simp: live_def list_all_iff filter_empty_conv)
qed

text \<open>Taking everything down leaves no connection, and no loop that is not told to stop.\<close>

theorem down_all_clears:
  assumes "loops_ok m"
  shows "tm_connections (fst (down_all env m w)) = [] \<and>
    list_all pl_shutdown (tm_loops (fst (down_all env m w)))"
  using down_all_effect [OF assms] .

lemma up_keeps_up: "up env n kind m w = (r, m', w') \<Longrightarrow> is_up m k \<Longrightarrow> is_up m' k"
  by (cases rule: up_cases [of m n env kind w]) (auto simp: is_up_insert)

lemma up_makes_up: "up env n kind m w = (Inr u, m', w') \<Longrightarrow> is_up m' n"
  by (cases rule: up_cases [of m n env kind w]) (auto simp: is_up_insert)

lemma up_names_spec:
  "up_names env kind ns m w = (r, m', w') \<Longrightarrow>
   (\<forall>k. is_up m k \<longrightarrow> is_up m' k) \<and> (r = Inr () \<longrightarrow> (\<forall>n \<in> set ns. is_up m' n))"
proof (induction ns arbitrary: m w)
  case (Cons n ns)
  show ?case
  proof (cases "is_up m n")
    case True
    then show ?thesis using Cons by auto
  next
    case False
    obtain r1 m1 w1 where u: "up env n kind m w = (r1, m1, w1)" by (cases "up env n kind m w") auto
    show ?thesis
    proof (cases r1)
      case (Inl e)
      then show ?thesis using Cons.prems u False up_keeps_up by auto
    next
      case (Inr x)
      then have "up_names env kind ns m1 w1 = (r, m', w')" using Cons.prems u False by simp
      then show ?thesis using Cons.IH up_keeps_up [OF u] up_makes_up [of env n kind m w x] u Inr by auto
    qed
  qed
qed simp

text \<open>Bringing everything up either reports an error or leaves every configured connection
  active; in both cases the connections that were active stay so.\<close>

theorem up_all_spec:
  "case up_all env kind m w of (r, m', _) \<Rightarrow>
     (case r of Inr _ \<Rightarrow> list_all (is_up m') (app_connection_names (tm_config m)) | Inl _ \<Rightarrow> True) \<and>
     list_all (is_up m') (amap_keys (tm_connections m))"
proof -
  obtain r m' w' where u: "up_all env kind m w = (r, m', w')" by (cases "up_all env kind m w") auto
  have "is_up m k" if "k \<in> set (amap_keys (tm_connections m))" for k
    using that amap_get_None_iff [of "tm_connections m" k] by (simp add: is_up_def)
  then show ?thesis
    using up_names_spec [OF u [unfolded up_all_def]] by (auto simp: u list_all_iff split: sum.split)
qed

end
