(* ===== verification/DnsProps.thy ===== *)
theory DnsProps
  imports TunnelProps
begin

text \<open>
  What becomes of the system's DNS settings across tunnels: on Linux without
  \<open>systemd-resolved\<close>, the file \<open>/etc/resolv.conf\<close>; on macOS, the service they are set for.
\<close>

section \<open>What leaves the file alone\<close>

definition keeps :: "'w sysops \<Rightarrow> ('w, 'e, 'a) io \<Rightarrow> bool" where
  "keeps ops m = (\<forall>w. file_of ops resolv_conf (snd (m w)) = file_of ops resolv_conf w)"

named_theorems keeps_intros "effects that leave the file alone"

lemma keepsD: "keeps ops m \<Longrightarrow> m w = (r, w') \<Longrightarrow> file_of ops resolv_conf w' = file_of ops resolv_conf w"
  unfolding keeps_def by (metis snd_conv)

lemma keeps_return [keeps_intros]: "keeps ops (io_return x)"
  by (simp add: keeps_def)

lemma keeps_fail [keeps_intros]: "keeps ops (io_fail e)"
  by (simp add: keeps_def)

lemma keeps_bind [keeps_intros]:
  "keeps ops m \<Longrightarrow> (\<And>x. keeps ops (f x)) \<Longrightarrow> keeps ops (io_bind m f)"
  by (auto simp: keeps_def io_bind_def split: prod.split sum.split) (metis snd_conv)+

lemma keeps_map_err [keeps_intros]: "keeps ops m \<Longrightarrow> keeps ops (io_map_err g m)"
  by (auto simp: keeps_def io_map_err_def split: prod.split) (metis snd_conv)

lemma keeps_for [keeps_intros]: "(\<And>x. keeps ops (f x)) \<Longrightarrow> keeps ops (io_for f xs)"
  by (induction xs) (auto intro: keeps_intros)

lemma keeps_lift [keeps_intros]: "keeps ops (lift_result r)"
  by (simp add: keeps_def lift_result_def)

lemma keeps_if [keeps_intros]: "keeps ops a \<Longrightarrow> keeps ops b \<Longrightarrow> keeps ops (if c then a else b)"
  by simp

definition no_resolvectl :: "'w sysops \<Rightarrow> bool" where
  "no_resolvectl ops = (\<forall>w. fst (resolvectl_available ops w) = Inr False)"

definition writable :: "'w sysops \<Rightarrow> bool" where
  "writable ops = (\<forall>s w. fst (write_resolv_conf ops s w) = Inr ())"

context host
begin

lemma keeps_run [keeps_intros]: "keeps ops (so_run ops c args)"
  by (simp add: keeps_def run_keeps)

lemma keeps_routes [keeps_intros]:
  "keeps ops (set_interface_addr ops iface a)" "keeps ops (add_route ops iface cidr)"
  "keeps ops (remove_route ops cidr)"
  by (auto simp: set_interface_addr_def add_route_def remove_route_def Let_def
      intro!: keeps_intros)

lemma keeps_resolve [keeps_intros]: "keeps ops (resolve_endpoint ops e)"
proof -
  have "keeps ops (so_lookup_host ops e)" by (simp add: keeps_def lookup_keeps)
  then show ?thesis
    by (auto simp: resolve_endpoint_def intro!: keeps_intros split: list.split)
qed

lemma keeps_devices [keeps_intros]:
  "keeps ops (create_tun ops)" "keeps ops (get_tun_name ops t)" "keeps ops (create_udp_socket ops p)"
proof -
  have "keeps ops (so_create_tun ops)" "keeps ops (so_bind_udp ops a)" for a
    by (simp_all add: keeps_def tun_keeps udp_keeps)
  then show "keeps ops (create_tun ops)" "keeps ops (create_udp_socket ops p)"
    by (auto simp: create_tun_def create_udp_socket_def intro!: keeps_intros)
  show "keeps ops (get_tun_name ops t)" by (simp add: keeps_def get_tun_name_def)
qed

lemma keeps_on_error:
  "keeps ops m \<Longrightarrow> (\<And>w. file_of ops resolv_conf (cl w) = file_of ops resolv_conf w) \<Longrightarrow>
   keeps ops (on_error cl m)"
  by (auto simp: keeps_def on_error_def split: prod.split sum.split) (metis snd_conv)+

lemma keeps_start:
  "de_ops env = ops \<Longrightarrow> keeps ops (start_backend env kind wg peer)"
proof -
  assume e: "de_ops env = ops"
  show ?thesis
    unfolding start_backend_def e
    by (intro keeps_bind keeps_on_error keeps_devices keeps_lift keeps_return close_udp_keeps)
qed

lemma keeps_remove_routes: "file_of ops resolv_conf (remove_routes ops cs w) = file_of ops resolv_conf w"
proof (induction cs arbitrary: w)
  case (Cons c cs)
  have "keeps ops (remove_route ops c)" by (rule keeps_routes)
  then show ?case using Cons.IH by (simp add: keeps_def)
qed simp

lemma try_dns_file:
  assumes "de_ops env = ops" "de_os env = Linux" "no_resolvectl ops" "writable ops"
    and "try_dns env iface wg w = (Inr dns, w')"
    and "file_of ops resolv_conf w = Inr s"
    and "if_dns (wg_interface wg) \<noteq> [] \<or> if_dns_search (wg_interface wg) \<noteq> []"
  shows "dns = Some (ResolvConf s) \<and> file_of ops resolv_conf w' =
    Inr (resolv_lines (if_dns (wg_interface wg)) (if_dns_search (wg_interface wg)) @ s)"
proof -
  let ?d = "if_dns (wg_interface wg)" and ?s = "if_dns_search (wg_interface wg)"
  obtain w1 where av: "resolvectl_available ops w = (Inr False, w1)"
    using assms(3) unfolding no_resolvectl_def by (metis prod.collapse)
  have same: "file_of ops resolv_conf w1 = file_of ops resolv_conf w"
    using av run_keeps [of resolvectl "[''--version'']" w]
    by (auto simp: resolvectl_available_def split: prod.splits sum.splits)
  have rd: "so_read_file ops resolv_conf w1 = (Inr s, w1)"
    using same assms(6) read_pure [of resolv_conf w1] by (metis file_of_def prod.collapse)
  obtain w2 where wr: "write_resolv_conf ops (resolv_lines ?d ?s @ s) w1 = (Inr (), w2)"
    using assms(4) unfolding writable_def by (metis prod.collapse)
  have "apply_resolv_conf ops ?d ?s w1 = (Inr s, w2)"
    using rd wr by (simp add: apply_resolv_conf_def io_bind_def io_map_err_def)
  then have "linux_apply ops iface ?d ?s w = (Inr (ResolvConf s), w2)"
    using av by (simp add: linux_apply_def Let_def io_bind_def)
  then have "apply_dns ops Linux iface ?d ?s w = (Inr (Some (ResolvConf s)), w2)"
    using assms(7) by (auto simp: apply_dns_def io_bind_def)
  then have "dns = Some (ResolvConf s)" "w' = w2"
    using assms(1,2,5) by (auto simp: try_dns_def)
  then show ?thesis using write_resolv_read [OF wr] by simp
qed

lemma configure_file:
  assumes "de_ops env = ops" "de_os env = Linux" "no_resolvectl ops" "writable ops"
    and "configure_tun env wg peer tun w = (Inr (name, dns), w')"
    and "file_of ops resolv_conf w = Inr s"
    and "if_dns (wg_interface wg) \<noteq> [] \<or> if_dns_search (wg_interface wg) \<noteq> []"
  shows "dns = Some (ResolvConf s) \<and> file_of ops resolv_conf w' =
    Inr (resolv_lines (if_dns (wg_interface wg)) (if_dns_search (wg_interface wg)) @ s)"
proof -
  obtain w1 w2 w3 where steps: "get_tun_name ops tun w = (Inr name, w1)"
    "io_for (set_interface_addr ops name) (if_addresses (wg_interface wg)) w1 = (Inr (), w2)"
    "io_for (add_route ops name) (pc_allowed_ips peer) w2 = (Inr (), w3)"
    "try_dns env name wg w3 = (Inr dns, w')"
    using assms(1,5) by (auto simp: configure_tun_def Let_def io_bind_ok)
  have "file_of ops resolv_conf w3 = Inr s"
    using keepsD [OF keeps_devices(2) steps(1)] keepsD [OF keeps_for [OF keeps_routes(1)] steps(2)]
      keepsD [OF keeps_for [OF keeps_routes(2)] steps(3)] assms(6) by simp
  then show ?thesis using try_dns_file assms(1-4,7) steps(4) by blast
qed

text \<open>The file after a successful \<open>up\<close>: the connection's lines in front of what was there, which
  the connection remembers.\<close>

lemma up_file:
  assumes "de_ops env = ops" "de_os env = Linux" "no_resolvectl ops" "writable ops"
    and "up env n kind m w = (Inr (), m', w')" "file_of ops resolv_conf w = Inr s"
    and "app_get (tm_config m) n = Some wg"
    and "if_dns (wg_interface wg) \<noteq> [] \<or> if_dns_search (wg_interface wg) \<noteq> []"
  shows "(\<exists>conn. tm_connections m' = hmap_insert n conn (tm_connections m) \<and>
      cn_dns_state conn = Some (ResolvConf s)) \<and> file_of ops resolv_conf w' =
    Inr (resolv_lines (if_dns (wg_interface wg)) (if_dns_search (wg_interface wg)) @ s)"
proof (cases rule: up_cases [of m n env kind w])
  case (brought wg' peer endpoint conn lp w1)
  have wg: "wg' = wg" using brought(1) assms(7) by (simp add: up_target_Inr)
  obtain addr w2 tun w3 name dns w4 udp b where steps:
    "resolve_endpoint ops endpoint w = (Inr addr, w2)" "create_tun ops w2 = (Inr tun, w3)"
    "configure_tun env wg peer tun w3 = (Inr (name, dns), w4)"
    "start_backend env kind wg peer w4 = (Inr (udp, b), w1)" "cn_dns_state conn = dns"
    using brought(2) assms(1) wg by (auto simp: bring_up_def io_bind_ok)
  have "file_of ops resolv_conf w3 = Inr s"
    using keepsD [OF keeps_resolve steps(1)] keepsD [OF keeps_devices(1) steps(2)] assms(6) by simp
  then have d: "dns = Some (ResolvConf s) \<and> file_of ops resolv_conf w4 =
      Inr (resolv_lines (if_dns (wg_interface wg)) (if_dns_search (wg_interface wg)) @ s)"
    using configure_file assms(1-4,8) steps(3) by blast
  then show ?thesis
    using keepsD [OF keeps_start [OF assms(1)] steps(4)] brought(3) assms(5) steps(5) by auto
qed (use assms in auto)

lemma down_file:
  assumes "de_ops env = ops" "writable ops" "down env n m w = (Inr (), m', w')"
    and "amap_get (tm_connections m) n = Some conn" "cn_dns_state conn = Some (ResolvConf s)"
  shows "tm_connections m' = amap_remove n (tm_connections m) \<and>
    file_of ops resolv_conf w' =
      (if other_dns_active (amap_remove n (tm_connections m)) then file_of ops resolv_conf w else Inr s)"
proof -
  let ?w1 = "remove_routes ops (config_routes (tm_config m) n) w"
  obtain w2 where wr: "write_resolv_conf ops s ?w1 = (Inr (), w2)"
    using assms(2) unfolding writable_def by (metis prod.collapse)
  have "remove_dns ops (ResolvConf s) ?w1 = (Inr (), w2)"
    using wr by (simp add: remove_dns_def linux_revert_def)
  then show ?thesis
    using assms write_resolv_read [OF wr] keeps_remove_routes [of _ w]
    by (auto simp: down_def Let_def revert_dns_def)
qed

end

section \<open>Going down in the two orders\<close>

text \<open>A Linux machine without \<open>systemd-resolved\<close> whose \<open>/etc/resolv.conf\<close> can be written.\<close>

definition plain_linux :: "('w, 'b) daemon_env \<Rightarrow> bool" where
  "plain_linux env = (host (de_ops env) \<and> de_os env = Linux \<and> no_resolvectl (de_ops env) \<and>
     writable (de_ops env))"

definition dns_lines :: "app_config \<Rightarrow> string \<Rightarrow> string" where
  "dns_lines c n = (case app_get c n of None \<Rightarrow> []
     | Some wg \<Rightarrow> resolv_lines (if_dns (wg_interface wg)) (if_dns_search (wg_interface wg)))"

definition uses_dns :: "app_config \<Rightarrow> string \<Rightarrow> bool" where
  "uses_dns c n = (case app_get c n of None \<Rightarrow> False
     | Some wg \<Rightarrow> if_dns (wg_interface wg) \<noteq> [] \<or> if_dns_search (wg_interface wg) \<noteq> [])"

lemma two_up:
  assumes "plain_linux env" "tm_connections m0 = []"
    and "uses_dns (tm_config m0) a" "uses_dns (tm_config m0) b"
    and "file_of (de_ops env) resolv_conf w0 = Inr orig"
    and "up env a k m0 w0 = (Inr (), m1, w1)" "up env b k' m1 w1 = (Inr (), m2, w2)"
  shows "\<exists>ca cb. a \<noteq> b \<and> tm_connections m2 = [(a, ca), (b, cb)] \<and>
    cn_dns_state ca = Some (ResolvConf orig) \<and>
    cn_dns_state cb = Some (ResolvConf (dns_lines (tm_config m0) a @ orig)) \<and>
    file_of (de_ops env) resolv_conf w2 =
      Inr (dns_lines (tm_config m0) b @ dns_lines (tm_config m0) a @ orig)"
proof -
  have h: "host (de_ops env)" "de_os env = Linux" "no_resolvectl (de_ops env)"
    "writable (de_ops env)"
    using assms(1) by (simp_all add: plain_linux_def)
  obtain wa wb where wa: "app_get (tm_config m0) a = Some wa"
      "if_dns (wg_interface wa) \<noteq> [] \<or> if_dns_search (wg_interface wa) \<noteq> []"
    and wb: "app_get (tm_config m0) b = Some wb"
      "if_dns (wg_interface wb) \<noteq> [] \<or> if_dns_search (wg_interface wb) \<noteq> []"
    using assms(3,4) by (auto simp: uses_dns_def split: option.splits)
  have conf: "tm_config m1 = tm_config m0" using up_effect [where env = env and name = a and kind = k and m = m0 and w = w0] assms(6) by simp
  obtain ca where ca: "tm_connections m1 = [(a, ca)]" "cn_dns_state ca = Some (ResolvConf orig)"
    "file_of (de_ops env) resolv_conf w1 = Inr (dns_lines (tm_config m0) a @ orig)"
    using host.up_file [OF h(1) refl h(2,3,4) assms(6,5) wa] assms(2) wa(1)
    by (auto simp: dns_lines_def)
  have "\<not> is_up m1 b" using up_effect [where env = env and name = b and kind = k' and m = m1 and w = w1] assms(7) by simp
  then have ab: "a \<noteq> b" using ca(1) by (auto simp: is_up_def amap_get_def)
  obtain cb where cb: "tm_connections m2 = hmap_insert b cb [(a, ca)]"
    "cn_dns_state cb = Some (ResolvConf (dns_lines (tm_config m0) a @ orig))"
    "file_of (de_ops env) resolv_conf w2 =
      Inr (dns_lines (tm_config m0) b @ dns_lines (tm_config m0) a @ orig)"
    using host.up_file [OF h(1) refl h(2,3,4) assms(7) ca(3), of wb] wb conf ca(1)
    by (auto simp: dns_lines_def)
  then show ?thesis using ab ca(2) by auto
qed

lemma down_two:
  assumes "plain_linux env" "tm_connections m = cs" "distinct (amap_keys cs)"
    and "amap_get cs n = Some c" "cn_dns_state c = Some (ResolvConf s)"
    and "down env n m w = (Inr (), m', w')"
  shows "tm_connections m' = amap_remove n cs \<and> file_of (de_ops env) resolv_conf w' =
    (if other_dns_active (amap_remove n cs) then file_of (de_ops env) resolv_conf w else Inr s)"
proof -
  have "host (de_ops env)" "writable (de_ops env)" using assms(1) by (simp_all add: plain_linux_def)
  from host.down_file [OF this(1) refl this(2) assms(6)] show ?thesis using assms by simp
qed

text \<open>C22. Two tunnels with DNS that go down in the reverse order of coming up leave
  \<open>/etc/resolv.conf\<close> as it was before the first.\<close>

theorem dns_restored_in_reverse:
  assumes "plain_linux env" "tm_connections m0 = []"
    and "uses_dns (tm_config m0) a" "uses_dns (tm_config m0) b"
    and "file_of (de_ops env) resolv_conf w0 = Inr orig"
    and "up env a k m0 w0 = (Inr (), m1, w1)" "up env b k' m1 w1 = (Inr (), m2, w2)"
    and "down env b m2 w2 = (Inr (), m3, w3)" "down env a m3 w3 = (Inr (), m4, w4)"
  shows "file_of (de_ops env) resolv_conf w4 = Inr orig"
proof -
  obtain ca cb where c: "a \<noteq> b" "tm_connections m2 = [(a, ca), (b, cb)]"
    "cn_dns_state ca = Some (ResolvConf orig)"
    "cn_dns_state cb = Some (ResolvConf (dns_lines (tm_config m0) a @ orig))"
    using two_up [OF assms(1-7)] by blast
  have "tm_connections m3 = [(a, ca)]"
    using down_two [OF assms(1) c(2) _ _ c(4) assms(8)] c(1) by (simp add: amap_get_def amap_remove_def)
  from down_two [OF assms(1) this _ _ c(3) assms(9)] show ?thesis
    by (simp add: amap_get_def amap_remove_def other_dns_active_def)
qed

text \<open>C30. In the order of coming up they do not: the first teardown is skipped because the other
  tunnel is active, the second restores what it had seen, and the first tunnel's lines stay in the
  file with no tunnel left to remove them.\<close>

theorem dns_stale_in_order:
  assumes "plain_linux env" "tm_connections m0 = []"
    and "uses_dns (tm_config m0) a" "uses_dns (tm_config m0) b"
    and "file_of (de_ops env) resolv_conf w0 = Inr orig"
    and "up env a k m0 w0 = (Inr (), m1, w1)" "up env b k' m1 w1 = (Inr (), m2, w2)"
    and "down env a m2 w2 = (Inr (), m3, w3)" "down env b m3 w3 = (Inr (), m4, w4)"
  shows "tm_connections m4 = [] \<and>
    file_of (de_ops env) resolv_conf w4 = Inr (dns_lines (tm_config m0) a @ orig)"
proof -
  obtain ca cb where c: "a \<noteq> b" "tm_connections m2 = [(a, ca), (b, cb)]"
    "cn_dns_state ca = Some (ResolvConf orig)"
    "cn_dns_state cb = Some (ResolvConf (dns_lines (tm_config m0) a @ orig))"
    using two_up [OF assms(1-7)] by blast
  have "tm_connections m3 = [(b, cb)]"
    using down_two [OF assms(1) c(2) _ _ c(3) assms(8)] c(1) by (simp add: amap_get_def amap_remove_def)
  from down_two [OF assms(1) this _ _ c(4) assms(9)] show ?thesis
    by (simp add: amap_get_def amap_remove_def other_dns_active_def)
qed

section \<open>A machine of this kind\<close>

text \<open>The simulated machine where every program but \<open>resolvectl\<close> is there and succeeds.\<close>

definition linux_box :: "sim sysops" where
  "linux_box = sim_ops\<lparr>so_run := (\<lambda>c args w.
     if c = resolvectl then (Inl ''No such file or directory'', w)
     else (Inr \<lparr>co_success = True, co_stdout = [], co_stderr = []\<rparr>, w))\<rparr>"

lemma box_run: "so_run linux_box c args w =
    (if c = resolvectl then (Inl ''No such file or directory'', w)
     else (Inr \<lparr>co_success = True, co_stdout = [], co_stderr = []\<rparr>, w))"
  by (simp add: linux_box_def)

lemma box_simps [simp]:
  "so_read_file linux_box = so_read_file sim_ops" "so_write_file linux_box = so_write_file sim_ops"
  "so_rename linux_box = so_rename sim_ops" "so_is_symlink linux_box = so_is_symlink sim_ops"
  "so_lookup_host linux_box = so_lookup_host sim_ops"
  "so_create_tun linux_box = so_create_tun sim_ops" "so_tun_name linux_box = so_tun_name sim_ops"
  "so_close_tun linux_box = so_close_tun sim_ops" "so_bind_udp linux_box = so_bind_udp sim_ops"
  "so_close_udp linux_box = so_close_udp sim_ops"
  by (simp_all add: linux_box_def)

lemma box_file [simp]: "file_of linux_box = file_of sim_ops"
  by (simp add: file_of_def [abs_def])

interpretation box_host: host linux_box
  by unfold_locales (auto simp: box_run amap_simps split: option.splits if_splits)

lemma box_write: "write_resolv_conf linux_box s w = (Inr (), w\<lparr>sim_files :=
    hmap_insert resolv_conf s (amap_remove resolv_tmp (hmap_insert resolv_tmp s (sim_files w)))\<rparr>)"
  by (simp add: write_resolv_conf_def io_bind_def io_map_err_def amap_get_hmap_insert)

text \<open>An environment on it; a backend is its kind.\<close>

definition box_env :: "(sim, backend_kind) daemon_env" where
  "box_env = \<lparr>de_ops = linux_box, de_os = Linux, de_features = [Boringtun, Neptun],
     de_make = (\<lambda>k _. Inr k)\<rparr>"

lemma box_env_simps [simp]:
  "de_ops box_env = linux_box" "de_os box_env = Linux" "de_features box_env = [Boringtun, Neptun]"
  "de_make box_env k tc = Inr k"
  by (simp_all add: box_env_def)

lemma box_plain: "plain_linux box_env"
  by (simp add: plain_linux_def box_host.host_axioms no_resolvectl_def resolvectl_available_def
      box_run writable_def box_write)

lemma box_for_ok:
  "(\<And>x w. fst (f x w) = Inr ()) \<Longrightarrow> fst (io_for f xs w) = Inr ()"
  by (induction xs arbitrary: w) (auto simp: io_bind_def split: prod.split sum.split, metis fst_conv sum.distinct(1))

lemma box_configure: "\<exists>d w'. configure_tun box_env wg peer t w = (Inr d, w')"
proof -
  have cfg: "fst (io_for (set_interface_addr linux_box i) as w) = Inr ()"
    "fst (io_for (add_route linux_box i) as w) = Inr ()" for i as w
    by (intro box_for_ok; simp add: set_interface_addr_def add_route_def io_bind_def io_map_err_def
        box_run Let_def resolvectl_def)+
  have dns: "\<exists>d w'. try_dns box_env i wg w = (Inr d, w')" for i w
    by (cases "apply_dns linux_box Linux i (if_dns (wg_interface wg)) (if_dns_search (wg_interface wg)) w")
      (auto simp: try_dns_def split: sum.split)
  define i where "i = ''utun'' @ show_nat t"
  have 0: "get_tun_name linux_box t w = (Inr i, w)" by (simp add: get_tun_name_def i_def)
  obtain w1 where 1: "io_for (set_interface_addr linux_box i) (if_addresses (wg_interface wg)) w = (Inr (), w1)"
    using cfg(1) by (metis prod.collapse)
  obtain w2 where 2: "io_for (add_route linux_box i) (pc_allowed_ips peer) w1 = (Inr (), w2)"
    using cfg(2) by (metis prod.collapse)
  obtain d w3 where 3: "try_dns box_env i wg w2 = (Inr d, w3)" using dns by blast
  show ?thesis by (simp add: configure_tun_def io_bind_def 0 1 2 3)
qed

lemma box_up:
  assumes "up_target m n = Inr x" "k \<in> {Boringtun, Neptun}"
  obtains m' w' where "up box_env n k m w = (Inr (), m', w')"
proof -
  obtain wg peer endpoint where x: "x = (wg, peer, endpoint)" by (cases x) auto
  let ?w = "w\<lparr>sim_tuns := sim_next w # sim_tuns w, sim_next := Suc (sim_next w)\<rparr>"
  obtain d w' where c: "configure_tun box_env wg peer (sim_next w) ?w = (Inr d, w')"
    using box_configure by blast
  have "\<exists>y w'. bring_up box_env n k wg peer endpoint w = (Inr y, w')"
    using assms(2) by (cases d) (auto simp: bring_up_def resolve_endpoint_def create_tun_def
        io_bind_def io_map_err_def on_error_def c start_backend_def create_udp_socket_def
        create_backend_def lift_result_def)
  then show ?thesis using that assms(1) x by (auto simp: up_def)
qed

text \<open>Two tunnels with DNS servers, and a file to start from.\<close>

definition two_vpns :: app_config where
  "two_vpns = app_insert ''work'' sample_config (app_insert ''home'' (sample_config\<lparr>wg_interface :=
     (wg_interface sample_config)\<lparr>if_dns := [V4 9 9 9 9]\<rparr>\<rparr>) default_app_config)"

definition box_world :: sim where
  "box_world = \<lparr>sim_files = [(resolv_conf, line ''nameserver 8.8.8.8'')], sim_programs = [],
     sim_log = [], sim_tuns = [], sim_udps = [], sim_next = 0\<rparr>"

lemma two_vpns_get:
  "app_get two_vpns ''home'' = Some (sample_config\<lparr>wg_interface :=
     (wg_interface sample_config)\<lparr>if_dns := [V4 9 9 9 9]\<rparr>\<rparr>)"
  "app_get two_vpns ''work'' = Some sample_config"
  by (simp_all add: two_vpns_def default_app_config_def app_insert_def app_get_def amap_get_def)

lemma home_target:
  "up_target (manager_new two_vpns) ''home'' = Inr (sample_config\<lparr>wg_interface :=
     (wg_interface sample_config)\<lparr>if_dns := [V4 9 9 9 9]\<rparr>\<rparr>, hd (wg_peers sample_config),
     ''vpn.example.com:51820'')"
  by (simp add: up_target_Inr manager_new_def is_up_def two_vpns_get vec_get_def sample_config_def)

lemma two_vpns_up:
  obtains m1 w1 m2 w2 where
    "up box_env ''home'' Neptun (manager_new two_vpns) box_world = (Inr (), m1, w1)"
    "up box_env ''work'' Boringtun m1 w1 = (Inr (), m2, w2)"
    "is_up m2 ''home''" "is_up m2 ''work''"
proof -
  let ?m = "manager_new two_vpns"
  obtain m1 w1 where u: "up box_env ''home'' Neptun ?m box_world = (Inr (), m1, w1)"
    using box_up [OF home_target] by (metis insertCI)
  then have m1: "tm_config m1 = two_vpns" "\<not> is_up m1 ''work''"
    using up_effect [where env = box_env and name = "''home''" and kind = Neptun and m = ?m and w = box_world]
    by (auto simp: is_up_def manager_new_def)
  have "up_target m1 ''work'' = Inr (sample_config, hd (wg_peers sample_config), ''vpn.example.com:51820'')"
    by (simp add: up_target_Inr m1 two_vpns_get vec_get_def sample_config_def)
  then obtain m2 w2 where u2: "up box_env ''work'' Boringtun m1 w1 = (Inr (), m2, w2)"
    using box_up by (metis insertCI)
  show ?thesis using that [OF u u2] up_makes_up [OF u] up_makes_up [OF u2] up_keeps_up [OF u2] by blast
qed

text \<open>Taking everything down on this machine.\<close>

theorem down_all_clears_witness:
  "\<exists>m1 w1. up box_env ''home'' Neptun (manager_new two_vpns) box_world = (Inr (), m1, w1) \<and>
     is_up m1 ''home'' \<and> tm_connections (fst (down_all box_env m1 w1)) = []"
proof -
  obtain m1 w1 where u: "up box_env ''home'' Neptun (manager_new two_vpns) box_world = (Inr (), m1, w1)"
    using box_up [OF home_target] by (metis insertCI)
  have "loops_ok (manager_new two_vpns :: backend_kind manager)"
    by (simp add: loops_ok_def live_def is_up_def manager_new_def amap_wf_def)
  from loops_up [OF this, of box_env "''home''" Neptun box_world] have "loops_ok m1" by (simp add: u)
  then have "tm_connections (fst (down_all box_env m1 w1)) = []" using down_all_clears by metis
  then show ?thesis using u up_makes_up [OF u] by (intro exI conjI)
qed

lemma down_ok:
  assumes "is_up m n" obtains m' w' where "down env n m w = (Inr (), m', w')"
    "\<forall>k. is_up m' k \<longleftrightarrow> k \<noteq> n \<and> is_up m k"
  using assms by (auto simp: down_def Let_def is_up_def amap_get_remove split: option.splits)

lemma tm_config_new [simp]: "tm_config (manager_new c) = c"
  by (simp add: manager_new_def)

lemma start:
  "tm_connections (manager_new two_vpns) = []"
  "uses_dns (tm_config (manager_new two_vpns)) ''home''"
  "uses_dns (tm_config (manager_new two_vpns)) ''work''"
  "file_of (de_ops box_env) resolv_conf box_world = Inr (line ''nameserver 8.8.8.8'')"
  by (simp_all add: uses_dns_def two_vpns_get sample_config_def manager_new_def box_world_def amap_get_def)

theorem dns_restored_in_reverse_witness:
  "\<exists>m1 w1 m2 w2 m3 w3 m4 w4.
     up box_env ''home'' Neptun (manager_new two_vpns) box_world = (Inr (), m1, w1) \<and>
     up box_env ''work'' Boringtun m1 w1 = (Inr (), m2, w2) \<and>
     down box_env ''work'' m2 w2 = (Inr (), m3, w3) \<and> down box_env ''home'' m3 w3 = (Inr (), m4, w4) \<and>
     file_of linux_box resolv_conf w4 = Inr (line ''nameserver 8.8.8.8'')"
proof -
  obtain m1 w1 m2 w2 where u: "up box_env ''home'' Neptun (manager_new two_vpns) box_world = (Inr (), m1, w1)"
    "up box_env ''work'' Boringtun m1 w1 = (Inr (), m2, w2)" "is_up m2 ''home''" "is_up m2 ''work''"
    by (rule two_vpns_up)
  obtain m3 w3 where d: "down box_env ''work'' m2 w2 = (Inr (), m3, w3)"
    "\<forall>k. is_up m3 k \<longleftrightarrow> k \<noteq> ''work'' \<and> is_up m2 k"
    by (rule down_ok [OF u(4), of box_env w2])
  have "is_up m3 ''home''" using d(2) u(3) by simp
  then obtain m4 w4 where d': "down box_env ''home'' m3 w3 = (Inr (), m4, w4)"
    by (rule down_ok [of m3 "''home''" box_env w3])
  have "file_of (de_ops box_env) resolv_conf w4 = Inr (line ''nameserver 8.8.8.8'')"
    using dns_restored_in_reverse [OF box_plain start(1,2,3) start(4) u(1,2) d(1) d'] by simp
  then show ?thesis using u d d' by auto
qed

theorem dns_stale_in_order_witness:
  "\<exists>m1 w1 m2 w2 m3 w3 m4 w4.
     up box_env ''home'' Neptun (manager_new two_vpns) box_world = (Inr (), m1, w1) \<and>
     up box_env ''work'' Boringtun m1 w1 = (Inr (), m2, w2) \<and>
     down box_env ''home'' m2 w2 = (Inr (), m3, w3) \<and> down box_env ''work'' m3 w3 = (Inr (), m4, w4) \<and>
     file_of linux_box resolv_conf w4 =
       Inr (resolv_lines [V4 9 9 9 9] [''internal''] @ line ''nameserver 8.8.8.8'')"
proof -
  obtain m1 w1 m2 w2 where u: "up box_env ''home'' Neptun (manager_new two_vpns) box_world = (Inr (), m1, w1)"
    "up box_env ''work'' Boringtun m1 w1 = (Inr (), m2, w2)" "is_up m2 ''home''" "is_up m2 ''work''"
    by (rule two_vpns_up)
  obtain m3 w3 where d: "down box_env ''home'' m2 w2 = (Inr (), m3, w3)"
    "\<forall>k. is_up m3 k \<longleftrightarrow> k \<noteq> ''home'' \<and> is_up m2 k"
    by (rule down_ok [OF u(3), of box_env w2])
  have "is_up m3 ''work''" using d(2) u(4) by simp
  then obtain m4 w4 where d': "down box_env ''work'' m3 w3 = (Inr (), m4, w4)"
    by (rule down_ok [of m3 "''work''" box_env w3])
  note stale = dns_stale_in_order [OF box_plain start u(1,2) d(1) d', unfolded tm_config_new]
  have "dns_lines two_vpns ''home'' = resolv_lines [V4 9 9 9 9] [''internal'']"
    by (simp add: dns_lines_def two_vpns_get sample_config_def)
  from stale [unfolded this] show ?thesis using u d d' by auto
qed

section \<open>A failed up\<close>

definition tunnel_only :: "('w, wg_error, 'a) io \<Rightarrow> bool" where
  "tunnel_only m = (\<forall>w e w'. m w = (Inl e, w') \<longrightarrow> (\<exists>s. e = TunnelErr s))"

named_theorems tunnel_intros "effects whose errors are tunnel errors"

lemma tunnel_onlyD: "tunnel_only m \<Longrightarrow> m w = (Inl e, w') \<Longrightarrow> \<exists>s. e = TunnelErr s"
  unfolding tunnel_only_def by blast

lemma tunnel_return [tunnel_intros]: "tunnel_only (io_return x)" "tunnel_only (io_fail (TunnelErr s))"
  by (simp_all add: tunnel_only_def)

lemma tunnel_bind [tunnel_intros]:
  "tunnel_only m \<Longrightarrow> (\<And>x. tunnel_only (f x)) \<Longrightarrow> tunnel_only (io_bind m f)"
  unfolding tunnel_only_def io_bind_eq by blast

lemma tunnel_map_err [tunnel_intros]: "tunnel_only (io_map_err (\<lambda>e. TunnelErr (g e)) m)"
  by (auto simp: tunnel_only_def io_map_err_eq map_err_eq_Inl [THEN trans [OF eq_commute]])

lemma tunnel_for [tunnel_intros]: "(\<And>x. tunnel_only (f x)) \<Longrightarrow> tunnel_only (io_for f xs)"
  by (induction xs) (auto intro: tunnel_intros)

lemma tunnel_if [tunnel_intros]: "tunnel_only a \<Longrightarrow> tunnel_only b \<Longrightarrow> tunnel_only (if c then a else b)"
  by simp

lemma tunnel_parts [tunnel_intros]:
  "tunnel_only (set_interface_addr ops i a)" "tunnel_only (add_route ops i a)"
  "tunnel_only (create_tun ops)" "tunnel_only (create_udp_socket ops p)"
  by (auto simp: set_interface_addr_def add_route_def create_tun_def create_udp_socket_def Let_def
      intro!: tunnel_intros)

lemma tunnel_endpoint [tunnel_intros]: "tunnel_only (resolve_endpoint ops e)"
  by (auto simp: resolve_endpoint_def intro!: tunnel_intros split: list.split)

lemma tunnel_dns [tunnel_intros]:
  "tunnel_only (get_tun_name ops t)" "tunnel_only (try_dns env i wg)"
  by (auto simp: tunnel_only_def get_tun_name_def try_dns_def res_simps split: prod.splits sum.splits)

lemma tunnel_configure: "tunnel_only (configure_tun env wg peer t)"
  unfolding configure_tun_def Let_def by (intro tunnel_intros)

lemma io_bind_Inl: "io_bind m f w = (Inl e, w2) \<Longrightarrow> tunnel_only m \<Longrightarrow> \<forall>s. e \<noteq> TunnelErr s \<Longrightarrow>
  \<exists>x w1. m w = (Inr x, w1) \<and> f x w1 = (Inl e, w2)"
  by (auto simp: io_bind_eq dest: tunnel_onlyD)

lemma on_error_Inl: "on_error c m w = (Inl e, w2) \<longleftrightarrow> (\<exists>w1. m w = (Inl e, w1) \<and> w2 = c w1)"
  by (auto simp: on_error_def split: prod.splits sum.splits)

lemma bring_up_backend_error:
  assumes "bring_up env n k wg peer endpoint w = (Inl e, w')" "\<forall>s. e \<noteq> TunnelErr s"
  obtains addr w2 tun w3 tn dns w4 w5 where
    "resolve_endpoint (de_ops env) endpoint w = (Inr addr, w2)"
    "create_tun (de_ops env) w2 = (Inr tun, w3)"
    "configure_tun env wg peer tun w3 = (Inr (tn, dns), w4)"
    "start_backend env k wg peer w4 = (Inl e, w5)" "w' = so_close_tun (de_ops env) tun w5"
proof -
  obtain addr w2 where 1: "resolve_endpoint (de_ops env) endpoint w = (Inr addr, w2)"
    using io_bind_Inl [OF assms(1) [unfolded bring_up_def] tunnel_endpoint assms(2)] by blast
  have r1: "io_bind (create_tun (de_ops env)) (\<lambda>tun. on_error (so_close_tun (de_ops env) tun)
       (io_bind (configure_tun env wg peer tun) (\<lambda>(i, dns).
          io_bind (start_backend env k wg peer) (\<lambda>(udp, b). io_return
            (\<lparr>cn_backend_kind = k, cn_tun_name = i, cn_endpoint = pc_endpoint peer,
              cn_dns_state = dns, cn_stats = default_stats\<rparr>,
             \<lparr>pl_name = n, pl_tun = tun, pl_udp = udp, pl_endpoint = addr, pl_backend = b,
              pl_shutdown = False\<rparr>))))) w2 = (Inl e, w')"
    using assms(1) 1 by (simp add: bring_up_def io_bind_Inr)
  obtain tun w3 where 2: "create_tun (de_ops env) w2 = (Inr tun, w3)"
    using io_bind_Inl [OF r1 tunnel_parts(3) assms(2)] by blast
  obtain w5 where r2: "io_bind (configure_tun env wg peer tun) (\<lambda>(i, dns).
          io_bind (start_backend env k wg peer) (\<lambda>(udp, b). io_return
            (\<lparr>cn_backend_kind = k, cn_tun_name = i, cn_endpoint = pc_endpoint peer,
              cn_dns_state = dns, cn_stats = default_stats\<rparr>,
             \<lparr>pl_name = n, pl_tun = tun, pl_udp = udp, pl_endpoint = addr, pl_backend = b,
              pl_shutdown = False\<rparr>))) w3 = (Inl e, w5)" "w' = so_close_tun (de_ops env) tun w5"
    using r1 2 by (auto simp: io_bind_Inr on_error_Inl)
  obtain tn dns w4 where 3: "configure_tun env wg peer tun w3 = (Inr (tn, dns), w4)"
    using io_bind_Inl [OF r2(1) tunnel_configure assms(2)] by fastforce
  have "start_backend env k wg peer w4 = (Inl e, w5)"
    using r2(1) 3 by (auto simp: io_bind_Inr io_bind_eq)
  then show ?thesis using that [OF 1 2 3] r2(2) by blast
qed

text \<open>C33. An \<open>up\<close> that fails because of its backend, after it has set the DNS, reports the error and
  keeps nothing of the connection, but its lines stay in \<open>/etc/resolv.conf\<close>.\<close>

theorem failed_up_leaves_dns:
  assumes "plain_linux env" "uses_dns (tm_config m) n"
    and "file_of (de_ops env) resolv_conf w = Inr orig"
    and "up env n k m w = (Inl e, m', w')" "\<forall>s. e \<noteq> TunnelErr s"
  shows "m' = m \<and> file_of (de_ops env) resolv_conf w' = Inr (dns_lines (tm_config m) n @ orig)"
proof (cases rule: up_cases [of m n env k w])
  case (refused e')
  then show ?thesis
    using assms(4,5) by (auto simp: up_target_def Let_def res_simps split: if_splits option.splits)
next
  case (failed wg peer endpoint e' w1)
  have h: "host (de_ops env)" "de_os env = Linux" "no_resolvectl (de_ops env)" "writable (de_ops env)"
    using assms(1) by (simp_all add: plain_linux_def)
  have e: "e' = e" "m' = m" "w' = w1" using failed(3) assms(4) by auto
  have wg: "app_get (tm_config m) n = Some wg" using failed(1) by (simp add: up_target_Inr)
  then have dns: "if_dns (wg_interface wg) \<noteq> [] \<or> if_dns_search (wg_interface wg) \<noteq> []"
      "dns_lines (tm_config m) n = resolv_lines (if_dns (wg_interface wg)) (if_dns_search (wg_interface wg))"
    using assms(2) by (auto simp: uses_dns_def dns_lines_def)
  obtain addr w2 tun w3 tn d w4 w5 where s:
    "resolve_endpoint (de_ops env) endpoint w = (Inr addr, w2)"
    "create_tun (de_ops env) w2 = (Inr tun, w3)"
    "configure_tun env wg peer tun w3 = (Inr (tn, d), w4)"
    "start_backend env k wg peer w4 = (Inl e, w5)" "w1 = so_close_tun (de_ops env) tun w5"
    by (rule bring_up_backend_error [OF failed(2) [unfolded e] assms(5)])
  have "file_of (de_ops env) resolv_conf w3 = Inr orig"
    using keepsD [OF host.keeps_resolve [OF h(1)] s(1)] keepsD [OF host.keeps_devices(1) [OF h(1)] s(2)]
      assms(3) by simp
  from host.configure_file [OF h(1) refl h(2-4) s(3) this dns(1)]
  have "file_of (de_ops env) resolv_conf w4 = Inr (dns_lines (tm_config m) n @ orig)"
    by (simp add: dns(2))
  then show ?thesis
    using keepsD [OF host.keeps_start [OF h(1) refl] s(4)] host.close_tun_keeps [OF h(1)] s(5) e
    by simp
qed (use assms in simp)

lemma box_up_missing:
  assumes "up_target m n = Inr x" "k \<notin> {Boringtun, Neptun}"
  obtains m' w' where "up box_env n k m w = (Inl (BackendUnavailable (show_backend k)), m', w')"
proof -
  obtain wg peer endpoint where x: "x = (wg, peer, endpoint)" by (cases x) auto
  let ?w = "w\<lparr>sim_tuns := sim_next w # sim_tuns w, sim_next := Suc (sim_next w)\<rparr>"
  obtain d w' where c: "configure_tun box_env wg peer (sim_next w) ?w = (Inr d, w')"
    using box_configure by blast
  have "\<exists>w'. bring_up box_env n k wg peer endpoint w = (Inl (BackendUnavailable (show_backend k)), w')"
    using assms(2) by (cases d) (auto simp: bring_up_def resolve_endpoint_def create_tun_def
      io_bind_def io_map_err_def on_error_def c start_backend_def create_udp_socket_def
      create_backend_def lift_result_def)
  then show ?thesis using that assms(1) x by (auto simp: up_def)
qed

theorem failed_up_leaves_dns_witness:
  "\<exists>m' w'. up box_env ''home'' Gotatun (manager_new two_vpns) box_world =
       (Inl (BackendUnavailable ''gotatun''), m', w') \<and> m' = manager_new two_vpns \<and>
     file_of linux_box resolv_conf w' =
       Inr (resolv_lines [V4 9 9 9 9] [''internal''] @ line ''nameserver 8.8.8.8'')"
proof -
  obtain m' w' where u: "up box_env ''home'' Gotatun (manager_new two_vpns) box_world =
       (Inl (BackendUnavailable ''gotatun''), m', w')"
    by (rule box_up_missing [OF home_target, of Gotatun box_world]) auto
  have "dns_lines two_vpns ''home'' = resolv_lines [V4 9 9 9 9] [''internal'']"
    by (simp add: dns_lines_def two_vpns_get sample_config_def)
  then show ?thesis
    using failed_up_leaves_dns [OF box_plain start(2,4) u, unfolded tm_config_new] u by auto
qed

section \<open>The service on macOS\<close>

text \<open>Device lines as \<open>networksetup\<close> prints them: one parenthesis around the whole line.\<close>

definition device_line_closed :: "string \<Rightarrow> bool" where
  "device_line_closed l0 = (let l = str_trim l0 in
     str_contains l ''Device:'' \<longrightarrow> starts_with l CHR ''('' \<and> str_split_once CHR '')'' l = Some (butlast l, []))"

lemma service_for_empty:
  "list_all device_line_closed ls \<Longrightarrow> service_for iface prev ls = Some s \<Longrightarrow> s = []"
proof (induction ls arbitrary: prev)
  case (Cons l ls)
  show ?case
  proof (cases "device_of_line (str_trim l) = Some iface")
    case True
    then have "str_contains (str_trim l) ''Device:''" by (auto simp: device_of_line_def split: if_splits)
    then show ?thesis using Cons.prems True by (auto simp: device_line_closed_def Let_def str_trim_Nil)
  next
    case False
    then show ?thesis using Cons by (simp add: Let_def)
  qed
qed simp

lemma service_found:
  assumes "detect_primary_service ops w = (Inr s, w')"
  obtains o1 w1 o2 where "so_run ops route_cmd [''-n'', ''get'', ''default''] w = (Inr o1, w1)"
    "so_run ops networksetup [''-listnetworkserviceorder''] w1 = (Inr o2, w')"
    "\<exists>iface. service_for iface None (str_lines (co_stdout o2)) = Some s"
  using assms
  by (auto simp: detect_primary_service_def io_bind_ok expect_success_def run_dns_def
      split: option.splits if_splits)

text \<open>While \<open>networksetup\<close> prints its device lines as it does, the service found for the DNS
  settings on macOS is the empty name: a device line is itself taken for a service line.\<close>

theorem macos_service_empty:
  assumes "\<And>w o' w'. so_run ops networksetup [''-listnetworkserviceorder''] w = (Inr o', w') \<Longrightarrow>
      list_all device_line_closed (str_lines (co_stdout o'))"
    and "apply_dns ops MacOs iface servers search w = (Inr (Some st), w')"
  shows "\<exists>original. st = MacDns [] original"
proof -
  obtain s w1 orig where s: "detect_primary_service ops w = (Inr s, w1)" "st = MacDns s orig"
    using assms(2) by (auto simp: apply_dns_def mac_apply_def io_bind_ok split: if_splits)
  show ?thesis using service_found [OF s(1)] service_for_empty assms(1) s(2) by metis
qed

definition service_listing :: string where
  "service_listing = line ''(1) Wi-Fi'' @ line ''(Hardware Port: Wi-Fi, Device: en0)''"

text \<open>The two programs, whatever ran before.\<close>

definition mac_box :: "sim sysops" where
  "mac_box = sim_ops\<lparr>so_run := (\<lambda>c args w.
     (Inr \<lparr>co_success = True, co_stdout =
        (if c = route_cmd then line ''  interface: en0'' else service_listing), co_stderr = []\<rparr>, w))\<rparr>"

lemma mac_box_run: "so_run mac_box c args w = (Inr \<lparr>co_success = True, co_stdout =
    (if c = route_cmd then line ''  interface: en0'' else service_listing), co_stderr = []\<rparr>, w)"
  by (simp add: mac_box_def)

lemma listing_closed: "list_all device_line_closed (str_lines service_listing)"
  by code_simp

lemma listing_service: "service_for ''en0'' None (str_lines service_listing) = Some []"
  by code_simp

lemma route_line: "route_interface (str_lines (line ''  interface: en0'')) = Some ''en0''"
  by code_simp

theorem macos_service_empty_witness:
  "\<exists>original. fst (apply_dns mac_box MacOs ''utun0'' [V4 9 9 9 9] [] box_world) =
     Inr (Some (MacDns [] original))"
proof -
  have net: "networksetup \<noteq> route_cmd" by (simp add: networksetup_def route_cmd_def)
  obtain st w' where st: "apply_dns mac_box MacOs ''utun0'' [V4 9 9 9 9] [] box_world = (Inr (Some st), w')"
    by (simp add: apply_dns_def mac_apply_def detect_primary_service_def expect_success_def run_dns_def
        io_bind_def io_map_err_def mac_box_run net route_line listing_service mac_set_dns_def
        mac_set_search_def)
  have "\<exists>original. st = MacDns [] original"
    by (rule macos_service_empty [OF _ st]) (auto simp: mac_box_run net listing_closed)
  then show ?thesis using st by auto
qed

end
