(* ===== verification/DaemonProps.thy ===== *)
theory DaemonProps
  imports Daemon DnsProps "HOL-Library.Sublist"
begin

text \<open>
  What the daemon guarantees: it is a client of the tunnel manager and nothing else, it stops only
  for a shutdown command or a broken socket and leaves no tunnel behind; and what a log stream
  contains.
\<close>

section \<open>Refinement of the manager's steps\<close>

abbreviation steps :: "('w, 'b) daemon_env \<Rightarrow> 'b manager \<times> 'w \<Rightarrow> 'b manager \<times> 'w \<Rightarrow> bool" where
  "steps env \<equiv> (manager_step env)\<^sup>*\<^sup>*"

named_theorems steps_intros "operations that are sequences of manager steps"

lemma steps_up [steps_intros]: "steps env (m, w) (snd (up env n k m w))"
  by (rule r_into_rtranclp) (rule step_up)

lemma steps_down [steps_intros]: "steps env (m, w) (snd (down env n m w))"
  by (rule r_into_rtranclp) (rule step_down)

lemma steps_reload [steps_intros]: "steps env (m, w) (reload_from_file io c m, w)"
  by (auto simp: reload_from_file_def intro: step_reload split: sum.split)

lemma steps_up_names: "steps env (m, w) (snd (up_names env k ns m w))"
proof (induction ns arbitrary: m w)
  case (Cons n ns)
  obtain r m1 w1 where u: "up env n k m w = (r, m1, w1)" by (cases "up env n k m w")
  have "steps env (m, w) (m1, w1)" using steps_up [of env m w n k] u by simp
  then show ?case
    using Cons.IH [of m w] rtranclp_trans [OF _ Cons.IH [of m1 w1]] u by (cases r) auto
qed simp

lemma steps_down_names: "steps env (m, w) (down_names env ns m w)"
proof (induction ns arbitrary: m w)
  case (Cons n ns)
  obtain r m1 w1 where d: "down env n m w = (r, m1, w1)" by (cases "down env n m w")
  have "steps env (m, w) (m1, w1)" using steps_down [of env m w n] d by simp
  then show ?case using Cons.IH [of m1 w1] d by (auto intro: rtranclp_trans)
qed simp

lemma steps_all [steps_intros]:
  "steps env (m, w) (snd (up_all env k m w))" "steps env (m, w) (down_all env m w)"
  by (simp_all add: up_all_def down_all_def steps_up_names steps_down_names)

lemma steps_handle: "steps env (m, w) (snd (handle_command env cmd m w))"
proof (cases "(env, cmd, m, w)" rule: handle_command.cases)
  case (6 env' name kind m' w')
  have "steps env (m, w) (snd (down env name m w))" by (rule steps_down)
  also have "steps env (snd (down env name m w))
      (snd (up env name kind (fst (snd (down env name m w))) (snd (snd (down env name m w)))))"
    using steps_up [of env "fst (snd (down env name m w))" "snd (snd (down env name m w))"] by simp
  finally show ?thesis using 6 by (simp add: split_beta)
qed (auto simp: split_beta intro: steps_intros)

lemma steps_serve:
  "steps env (dm_manager d, dm_world d)
     (dm_manager (snd (serve js io env cl d)), dm_world (snd (serve js io env cl d)))"
proof -
  have p: "steps env (dm_manager d, dm_world d)
      (dm_manager (snd (process_command js io env cl cmd d)),
       dm_world (snd (process_command js io env cl cmd d)))" for cmd
  proof -
    let ?m = "if needs_config_reload cmd then reload_from_file io (cl_config cl) (dm_manager d) else dm_manager d"
    have "steps env (dm_manager d, dm_world d) (?m, dm_world d)" by (simp add: steps_reload)
    from rtranclp_trans [OF this steps_handle [of env ?m "dm_world d" cmd]]
    show ?thesis by (simp add: process_command_def Let_def split_beta)
  qed
  show ?thesis
    using p by (auto simp: serve_def split: prod.split option.split daemon_command.split)
qed

lemma steps_serve_all:
  "serve_all js io env cs d = (r, d') \<Longrightarrow>
   steps env (dm_manager d, dm_world d) (dm_manager d', dm_world d')"
proof (induction js io env cs d rule: serve_all.induct)
  case (3 js io env cl cs d)
  show ?case
    using "3.prems" "3.IH" steps_serve [of env d js io cl]
    by (auto split: prod.splits bool.splits intro: rtranclp_trans)
next
  case (4 js io env l st cs d)
  have "steps env (dm_manager d, dm_world d) (publish_stats l st (dm_manager d), dm_world d)"
    by (rule r_into_rtranclp) (rule step_stats)
  then show ?case using 4 by (auto intro: rtranclp_trans)
next
  case (5 js io env l cs d)
  have "steps env (dm_manager d, dm_world d) (loop_end (de_ops env) l (dm_manager d) (dm_world d))"
    by (rule r_into_rtranclp) (rule step_loop)
  then show ?case using 5 by (auto split: prod.splits intro: rtranclp_trans)
qed auto

lemma run_daemon_steps:
  "run_daemon js io env c cs w = (r, d) \<Longrightarrow> steps env (manager_new c, w) (dm_manager d, dm_world d)"
proof -
  assume run: "run_daemon js io env c cs w = (r, d)"
  obtain r1 d1 where s: "serve_all js io env cs (daemon_new c w) = (r1, d1)" by fastforce
  have "steps env (manager_new c, w) (dm_manager d1, dm_world d1)"
    using steps_serve_all [OF s] by (simp add: daemon_new_def)
  moreover have "steps env (dm_manager d1, dm_world d1) (down_all env (dm_manager d1) (dm_world d1))"
    by (rule steps_all)
  ultimately show ?thesis
    using run s by (cases r1) (auto simp: run_daemon_def drop_manager_def split: prod.splits intro: rtranclp_trans)
qed

text \<open>C5. Whatever clients send, and whenever the packet loops run in between, the daemon only
  takes the manager's own steps: each active connection has exactly one running packet loop.\<close>

theorem daemon_refines_manager:
  "case run_daemon js io env c cs w of (_, d) \<Rightarrow>
     (manager_step env)\<^sup>*\<^sup>* (manager_new c, w) (dm_manager d, dm_world d) \<and>
     live (dm_manager d) n = (if is_up (dm_manager d) n then 1 else 0)"
proof -
  obtain r d where run: "run_daemon js io env c cs w = (r, d)" by fastforce
  show ?thesis using run_daemon_steps [OF run] steps_live [OF run_daemon_steps [OF run]] by (simp add: run)
qed

lemma loops_ok_steps: "steps env s s' \<Longrightarrow> loops_ok (fst s) \<Longrightarrow> loops_ok (fst s')"
  by (induction rule: rtranclp_induct) (auto intro: loops_step)

lemma loops_ok_new: "loops_ok (manager_new c)"
  by (simp add: loops_ok_def live_def is_up_def manager_new_def amap_wf_def)

section \<open>Stopping\<close>

text \<open>What the events say about the end: the first shutdown command or accept error.\<close>

fun end_of :: "json \<Rightarrow> 'b daemon_event list \<Rightarrow> daemon_end" where
  "end_of js [] = Serving"
| "end_of js (AcceptErr e # cs) = Broken e"
| "end_of js (Accepted cl # cs) =
     (if fst (read_command js cl) = Some Shutdown then Finished else end_of js cs)"
| "end_of js (_ # cs) = end_of js cs"

lemma serve_stops: "fst (serve js io env cl d) = (fst (read_command js cl) = Some Shutdown)"
proof (cases "fst (read_command js cl)")
  case None
  then show ?thesis by (simp add: serve_def split_beta)
next
  case (Some cmd)
  then obtain out where rc: "read_command js cl = (Some cmd, out)" by (metis prod.collapse)
  show ?thesis
    by (cases cmd) (auto simp: serve_def rc process_command_def Let_def split: prod.splits)
qed

lemma serve_all_end: "fst (serve_all js io env cs d) = end_of js cs"
proof (induction js io env cs d rule: serve_all.induct)
  case (3 js io env cl cs d)
  show ?case
    using serve_stops [of js io env cl d] "3.IH"
    by (cases "serve js io env cl d"; cases "fst (serve js io env cl d)") auto
qed (auto split: prod.splits)

text \<open>C12. Only a shutdown command or a failing \<open>accept\<close> ends the daemon: no client input that does
  not decode, no failing command and no unreadable configuration does. When it has ended, no
  connection is active and every packet loop has been told to stop.\<close>

theorem daemon_stops_clean:
  "case run_daemon js io env c cs w of (r, d) \<Rightarrow> r = end_of js cs \<and>
     (r = Serving \<or> tm_connections (dm_manager d) = [] \<and> list_all pl_shutdown (tm_loops (dm_manager d)))"
proof -
  obtain r1 d1 where s: "serve_all js io env cs (daemon_new c w) = (r1, d1)" by fastforce
  have "steps env (manager_new c, w) (dm_manager d1, dm_world d1)"
    using steps_serve_all [OF s] by (simp add: daemon_new_def)
  from loops_ok_steps [OF this] have "loops_ok (dm_manager d1)" by (simp add: loops_ok_new)
  note down = down_all_effect [OF this, of env "dm_world d1"]
  have "serve_all js io env cs (daemon_new c w) = (end_of js cs, d1)"
    using serve_all_end [of js io env cs "daemon_new c w"] s by simp
  then show ?thesis
    using down by (cases "end_of js cs")
      (simp_all add: run_daemon_def drop_manager_def split_beta)
qed

section \<open>Commands\<close>

lemma switch_effect:
  "case handle_command env (SwitchBackend n k) m w of (r, m', _) \<Rightarrow>
     (r = ROk) = is_up m' n \<and>
     (case amap_get (tm_connections m') n of None \<Rightarrow> True | Some conn \<Rightarrow> cn_backend_kind conn = k) \<and>
     (amap_get (tm_connections m'))(n := None) = (amap_get (tm_connections m))(n := None)"
proof -
  obtain r1 m1 w1 where d: "down env n m w = (r1, m1, w1)" by (cases "down env n m w")
  have m1: "amap_get (tm_connections m1) = (amap_get (tm_connections m))(n := None)"
    using d by (auto simp: down_def Let_def amap_get_remove fun_eq_iff split: option.splits)
  obtain r2 m2 w2 where u: "up env n k m1 w1 = (r2, m2, w2)" by (cases "up env n k m1 w1")
  show ?thesis
    using up_effect [where env = env and name = n and kind = k and m = m1 and w = w1] m1
    by (cases r2) (auto simp: d u result_response_def is_up_def fun_eq_iff)
qed

text \<open>C31. Switching the backend of a connection answers with success exactly when the connection is
  up afterwards, with the backend asked for. On an error it is left down, even if it was up before;
  no other connection changes either way.\<close>

theorem switch_backend_spec:
  "case handle_command env (SwitchBackend n k) m w of (r, m', _) \<Rightarrow>
     (r = ROk) = is_up m' n \<and>
     (case amap_get (tm_connections m') n of None \<Rightarrow> True | Some conn \<Rightarrow> cn_backend_kind conn = k) \<and>
     (amap_get (tm_connections m'))(n := None) = (amap_get (tm_connections m))(n := None)"
  by (rule switch_effect)

text \<open>C32. A client that asks for the status when the configuration file is valid is told about the
  connections of that file, in its order, and no tunnel changes; with an invalid file the answer is
  about the configuration the daemon has.\<close>

definition served_config :: "toml_io \<Rightarrow> client \<Rightarrow> ('w, 'b) daemon \<Rightarrow> app_config" where
  "served_config io cl d =
     (case load_app_config io (cl_config cl) of Inr c \<Rightarrow> c | Inl _ \<Rightarrow> tm_config (dm_manager d))"

theorem status_follows_file:
  assumes "fst (read_command js cl) = Some Status"
  shows "\<exists>sts d'. serve js io env cl d = (False, d') \<and>
    dm_sent d' = dm_sent d @ sent (send_response js (RStatus sts)) \<and>
    map ps_name sts = app_connection_names (served_config io cl d) \<and>
    tm_config (dm_manager d') = served_config io cl d \<and>
    tm_connections (dm_manager d') = tm_connections (dm_manager d) \<and> dm_world d' = dm_world d"
proof -
  obtain out where rc: "read_command js cl = (Some Status, out)" using assms by (metis prod.collapse)
  have names: "map ps_name (status m) = app_connection_names (tm_config m)" for m :: "'b manager"
    by (auto simp: status_def status_entry_def app_connection_names_def amap_keys_def Let_def)
  show ?thesis
    by (auto simp: serve_def rc process_command_def Let_def names served_config_def
        reload_from_file_def reload_config_def split: sum.split)
qed

text \<open>A JSON crate for examples, which knows two commands.\<close>

definition tiny_json :: json where
  "tiny_json = \<lparr>js_read_command = (\<lambda>s. if s = ''status'' then Inr Status
       else if s = ''shutdown'' then Inr Shutdown else Inl ''expected value''),
     js_write_response = (\<lambda>r. Inr (case r of ROk \<Rightarrow> ''ok'' | RError e \<Rightarrow> e | _ \<Rightarrow> ''data''))\<rparr>"

definition status_client :: client where
  "status_client = \<lparr>cl_line = Inr (line ''status''), cl_config = Inr ''[connections]''\<rparr>"

definition vpn_io :: toml_io where
  "vpn_io = \<lparr>toml_read_wg = (\<lambda>_. Inl ''no reader''), toml_write_wg = (\<lambda>_. Inr ''config''),
     toml_read_app = (\<lambda>_. Inr two_vpns), toml_write_app = (\<lambda>_. Inr ''config'')\<rparr>"

lemma status_decodes: "fst (read_command tiny_json status_client) = Some Status"
  by code_simp

lemma two_vpns_valid: "load_app_config vpn_io (cl_config status_client) = Inr two_vpns"
  by code_simp

theorem status_follows_file_witness:
  "\<exists>d'. serve tiny_json vpn_io box_env status_client (daemon_new default_app_config box_world) = (False, d') \<and>
     tm_config (dm_manager d') = two_vpns"
  using status_follows_file [OF status_decodes, of vpn_io box_env "daemon_new default_app_config box_world"]
  by (auto simp: served_config_def two_vpns_valid)

section \<open>Log streams\<close>

definition stream_entries :: "nat \<Rightarrow> hub \<Rightarrow> log_entry list" where
  "stream_entries i h = st_entries (hb_streams h ! i)"

lemma hub_logged:
  "fold (hub_step al) (map Logged es) h = h\<lparr>hb_buffer := fold (add_entry al) es (hb_buffer h)\<rparr>"
  by (induction es arbitrary: h) auto

lemma hub_receives:
  "i < length (hb_streams h) \<Longrightarrow>
   fold (hub_step al) (replicate n (Recv i)) h =
     h\<lparr>hb_streams := (hb_streams h)[i := (receive ^^ n) (hb_streams h ! i)]\<rparr>"
  by (induction n arbitrary: h) (simp_all add: at_stream_def funpow_swap1)

lemma receive_simps:
  "st_replayed s \<Longrightarrow> 0 < st_lagged s \<Longrightarrow> receive s = s\<lparr>st_lagged := 0\<rparr>"
  "st_replayed s \<Longrightarrow> st_lagged s = 0 \<Longrightarrow> st_waiting s = [] \<Longrightarrow> receive s = s"
  "st_replayed s \<Longrightarrow> st_lagged s = 0 \<Longrightarrow> st_waiting s = e # es \<Longrightarrow>
   receive s = s\<lparr>st_entries := st_entries s @ [e], st_waiting := es\<rparr>"
  by (simp_all add: receive_def)

text \<open>A client that takes everything that waits for it.\<close>

lemma receive_waiting:
  "st_replayed s \<Longrightarrow> st_lagged s = 0 \<Longrightarrow> length (st_waiting s) \<le> n \<Longrightarrow>
   st_entries ((receive ^^ n) s) = st_entries s @ st_waiting s"
proof (induction n arbitrary: s)
  case (Suc n)
  have step: "(receive ^^ Suc n) s = (receive ^^ n) (receive s)" by (simp only: funpow_Suc_right comp_apply)
  show ?case
  proof (cases "st_waiting s")
    case Nil
    then show ?thesis
      using Suc.IH [of s] Suc.prems receive_simps(2) [of s] unfolding step by simp
  next
    case (Cons e es)
    then show ?thesis
      using Suc.IH [of "s\<lparr>st_entries := st_entries s @ [e], st_waiting := es\<rparr>"] Suc.prems
        receive_simps(3) [of s e es] unfolding step by simp
  qed
qed simp

lemma receive_all:
  assumes "st_replayed s" "length (st_waiting s) + (if st_lagged s = 0 then 0 else 1) \<le> n"
  shows "st_entries ((receive ^^ n) s) = st_entries s @ st_waiting s"
proof (cases "st_lagged s = 0")
  case False
  then obtain k where k: "n = Suc k" "length (st_waiting s) \<le> k" using assms(2) by (cases n) auto
  moreover have "receive s = s\<lparr>st_lagged := 0\<rparr>" using False assms(1) by (simp add: receive_simps(1))
  ultimately show ?thesis
    using receive_waiting [of "s\<lparr>st_lagged := 0\<rparr>" k] assms(1)
    unfolding k(1) funpow_Suc_right comp_apply by simp
qed (use assms receive_waiting in simp)

text \<open>C36. A new log stream does not get the history: what was broadcast before it subscribed is gone
  from the buffer. What the buffer still holds it gets twice, as history and with the next
  broadcast, the latter as far as the channel holds it: a client that takes all it is sent gets the
  buffer as it was and then the buffer of the broadcast.\<close>

theorem stream_replay:
  fixes h :: hub
  defines "i \<equiv> length (hb_streams h)"
  shows "stream_entries i (hub_run al [Drain, Subscribe, Replay i] h) = [] \<and>
    (let b = get_buffer (fold (add_entry al) es (hb_buffer h)) in
     stream_entries i (hub_run al ([Subscribe, Replay i] @ map Logged es @ [Drain] @
         replicate (Suc (length b)) (Recv i)) h) =
       get_buffer (hb_buffer h) @ drop (length b - hb_slots h) b)"
proof -
  define b where "b = get_buffer (fold (add_entry al) es (hb_buffer h))"
  define s where "s = \<lparr>st_entries = get_buffer (hb_buffer h), st_waiting = drop (length b - hb_slots h) b,
    st_lagged = length b - hb_slots h, st_replayed = True\<rparr>"
  let ?h1 = "hub_run al ([Subscribe, Replay i] @ map Logged es @ [Drain]) h"
  have s: "i < length (hb_streams ?h1)" "hb_streams ?h1 ! i = s"
    by (auto simp: hub_run_def hub_logged i_def s_def b_def at_stream_def replay_stream_def stream_new_def
        broadcast_def drain_logs_def get_buffer_def nth_append Let_def split: prod.split)
  have "st_entries ((receive ^^ Suc (length b)) s) = st_entries s @ st_waiting s"
    by (rule receive_all) (auto simp: s_def)
  then have "stream_entries i (fold (hub_step al) (replicate (Suc (length b)) (Recv i)) ?h1) =
      get_buffer (hb_buffer h) @ drop (length b - hb_slots h) b"
    using s unfolding stream_entries_def hub_receives [OF s(1)] by (simp add: s_def del: funpow.simps)
  moreover have "stream_entries i (hub_run al [Drain, Subscribe, Replay i] h) = []"
    by (auto simp: hub_run_def stream_entries_def i_def at_stream_def replay_stream_def stream_new_def
        drain_logs_def get_buffer_def nth_append split: prod.split)
  moreover have "hub_run al ([Subscribe, Replay i] @ map Logged es @ [Drain] @
      replicate (Suc (length b)) (Recv i)) h = fold (hub_step al) (replicate (Suc (length b)) (Recv i)) ?h1"
    by (simp only: hub_run_def fold_append comp_apply)
  ultimately show ?thesis unfolding Let_def b_def [symmetric] by simp
qed

definition logged :: "hub_event list \<Rightarrow> log_entry list" where
  "logged es = List.map_filter (\<lambda>e. case e of Logged x \<Rightarrow> Some x | _ \<Rightarrow> None) es"

text \<open>What a stream has been sent, what waits for it in the channel and what is still to be broadcast.\<close>

definition stream_total :: "nat \<Rightarrow> hub \<Rightarrow> log_entry list" where
  "stream_total i h = stream_entries i h @ st_waiting (hb_streams h ! i) @ get_buffer (hb_buffer h)"

text \<open>No entry finds the buffer full, and no broadcast overruns the channel for the stream.\<close>

fun keeps_up :: "alloc \<Rightarrow> nat \<Rightarrow> hub_event list \<Rightarrow> hub \<Rightarrow> bool" where
  "keeps_up al i [] h = True"
| "keeps_up al i (e # es) h =
     ((case e of
         Logged _ \<Rightarrow> length (lb_entries (hb_buffer h)) < lb_capacity (hb_buffer h)
       | Drain \<Rightarrow> length (st_waiting (hb_streams h ! i)) + length (get_buffer (hb_buffer h)) \<le> hb_slots h
       | _ \<Rightarrow> True) \<and>
      keeps_up al i es (hub_step al e h))"

definition follows :: "nat \<Rightarrow> hub \<Rightarrow> bool" where
  "follows i h = (i < length (hb_streams h) \<and> st_replayed (hb_streams h ! i) \<and> \<not> lb_poisoned (hb_buffer h))"

lemma receive_replayed [simp]: "st_replayed (receive s) = st_replayed s"
  by (simp add: receive_def split: list.split)

lemma receive_total: "st_entries (receive s) @ st_waiting (receive s) = st_entries s @ st_waiting s"
  by (simp add: receive_def split: list.split)

lemma subseq_drop: "subseq (drop n xs) xs"
  by (metis append_take_drop_id list_emb_append2 subseq_order.order_refl)

lemma hub_step_follows: "follows i h \<Longrightarrow> follows i (hub_step al e h)"
  by (cases e) (auto simp: follows_def add_entry_def push_back_def drain_logs_def broadcast_def
      at_stream_def replay_stream_def nth_append nth_list_update Let_def)

lemma hub_step_total:
  assumes "follows i h"
  shows "subseq (stream_total i (hub_step al e h)) (stream_total i h @ logged [e]) \<and>
    (keeps_up al i [e] h \<longrightarrow> stream_total i (hub_step al e h) = stream_total i h @ logged [e])"
proof (cases e)
  case (Logged x)
  then show ?thesis
    using assms subseq_drop [of 1 "lb_entries (hb_buffer h)"]
    by (auto simp: stream_total_def stream_entries_def follows_def get_buffer_def add_entry_def
        push_back_def logged_def map_filter_simps Let_def intro: list_emb_append_mono)
next
  case Drain
  then show ?thesis
    using assms subseq_drop
    by (auto simp: stream_total_def stream_entries_def follows_def get_buffer_def drain_logs_def
        broadcast_def logged_def map_filter_simps Let_def intro!: list_emb_append_mono)
next
  case (Recv k)
  then have "stream_total i (hub_step al e h) = stream_total i h"
    using receive_total [of "hb_streams h ! i"]
    by (auto simp: stream_total_def stream_entries_def at_stream_def nth_list_update)
  then show ?thesis using Recv by (simp add: logged_def map_filter_simps)
qed (use assms in \<open>auto simp: stream_total_def stream_entries_def follows_def at_stream_def
      replay_stream_def logged_def map_filter_simps nth_append nth_list_update\<close>)

lemma logged_Cons: "logged (e # es) = logged [e] @ logged es"
  by (simp add: logged_def map_filter_simps split: option.split)

text \<open>C35. A stream that has started only gets entries that were logged, in their order and none
  twice: what it has been sent, with what waits in the channel and in the buffer, is a subsequence of
  what it was before and the entries logged since, whatever other streams come in between. It is all
  of them when the broadcaster keeps up with the buffer and the client with the channel.\<close>

theorem stream_gets_all:
  assumes "i < length (hb_streams h)" "st_replayed (hb_streams h ! i)" "\<not> lb_poisoned (hb_buffer h)"
  shows "subseq (stream_total i (hub_run al es h)) (stream_total i h @ logged es) \<and>
    (keeps_up al i es h \<longrightarrow> stream_total i (hub_run al es h) = stream_total i h @ logged es)"
proof -
  have "subseq (stream_total i (fold (hub_step al) es h)) (stream_total i h @ logged es) \<and>
      (keeps_up al i es h \<longrightarrow> stream_total i (fold (hub_step al) es h) = stream_total i h @ logged es)"
    if "follows i h" for h
    using that
  proof (induction es arbitrary: h)
    case Nil
    then show ?case by (simp add: logged_def map_filter_simps)
  next
    case (Cons e es)
    let ?h1 = "hub_step al e h"
    note step = hub_step_total [OF Cons.prems, of al e]
      and ih = Cons.IH [OF hub_step_follows [OF Cons.prems], of al e]
    have "subseq (stream_total i ?h1 @ logged es) ((stream_total i h @ logged [e]) @ logged es)"
      using step by (intro list_emb_append_mono) auto
    then show ?case
      using ih step subseq_order.order_trans unfolding logged_Cons [of e es] by auto
  qed
  then show ?thesis using assms by (auto simp: follows_def hub_run_def)
qed

text \<open>A client that is slow for a channel of one slot loses the older of two entries.\<close>

definition slow_hub :: "nat \<Rightarrow> hub" where
  "slow_hub slots = \<lparr>hb_buffer = log_buffer_new exact_alloc 2, hb_slots = slots,
     hb_streams = [\<lparr>st_entries = [], st_waiting = [], st_lagged = 0, st_replayed = True\<rparr>]\<rparr>"

definition two_logged :: "hub_event list" where
  "two_logged = [Logged (entry_now 1 LInfo None ''up''), Logged (entry_now 2 LInfo None ''down''), Drain, Recv 0]"

theorem stream_gets_all_witness:
  "stream_total 0 (hub_run exact_alloc two_logged (slow_hub 2)) =
      [entry_now 1 LInfo None ''up'', entry_now 2 LInfo None ''down''] \<and>
    stream_total 0 (hub_run exact_alloc two_logged (slow_hub 1)) = [entry_now 2 LInfo None ''down''] \<and>
    subseq (stream_total 0 (hub_run exact_alloc two_logged (slow_hub 1)))
      [entry_now 1 LInfo None ''up'', entry_now 2 LInfo None ''down'']"
proof -
  have h: "0 < length (hb_streams (slow_hub n))" "st_replayed (hb_streams (slow_hub n) ! 0)"
    "\<not> lb_poisoned (hb_buffer (slow_hub n))" "stream_total 0 (slow_hub n) = []" for n
    by (simp_all add: slow_hub_def log_buffer_new_def stream_total_def stream_entries_def get_buffer_def)
  have k: "keeps_up exact_alloc 0 two_logged (slow_hub 2)" by code_simp
  have l: "logged two_logged = [entry_now 1 LInfo None ''up'', entry_now 2 LInfo None ''down'']"
    by (simp add: logged_def two_logged_def map_filter_simps)
  have "stream_total 0 (hub_run exact_alloc two_logged (slow_hub 1)) = [entry_now 2 LInfo None ''down'']"
    by code_simp
  then show ?thesis
    using stream_gets_all [OF h(1-3), of exact_alloc two_logged 2]
      stream_gets_all [OF h(1-3), of exact_alloc two_logged 1] k by (simp add: h(4) l)
qed

end
