(* ===== verification/Client.thy ===== *)
theory Client
  imports DaemonProps
begin

text \<open>
  The client side of the one-shot protocol (\<open>ferro-wg-core/src/client.rs\<close>). What a socket does is
  data: how \<open>connect\<close>, the write and the read go. A reader hands out lines with their newline; the
  receiver of a channel takes \<open>room\<close> messages before it is dropped.
\<close>

section \<open>Errors\<close>

datatype client_error =
    NotRunning
  | EncodeErr string
  | IoErr string
  | NoResponse
  | DecodeErr string

fun show_client_error :: "client_error \<Rightarrow> string" where
  "show_client_error NotRunning = ''daemon is not running''"
| "show_client_error (EncodeErr e) = ''encode command: '' @ e"
| "show_client_error (IoErr e) = ''socket I/O: '' @ e"
| "show_client_error NoResponse = ''daemon closed connection without response''"
| "show_client_error (DecodeErr e) = ''decode response: '' @ e"

fun is_not_running :: "client_error \<Rightarrow> bool" where
  "is_not_running NotRunning = True"
| "is_not_running _ = False"

section \<open>One command, one response\<close>

record client_json =
  cj_write_command :: "daemon_command \<Rightarrow> (string, string) result"
  cj_read_response :: "string \<Rightarrow> (string, daemon_response) result"

datatype io_kind = IoNotFound | IoRefused | IoOther

text \<open>\<open>sk_write\<close> covers the write and the flush; \<open>sk_lines\<close> are the lines that come back before the
  end of the stream, with the error it ends with, if any.\<close>

record socket =
  sk_connect :: "(io_kind \<times> string, unit) result"
  sk_write :: "(string, unit) result"
  sk_lines :: "string list"
  sk_error :: "string option"

fun connect_error :: "io_kind \<times> string \<Rightarrow> client_error" where
  "connect_error (IoNotFound, _) = NotRunning"
| "connect_error (IoRefused, _) = NotRunning"
| "connect_error (IoOther, e) = IoErr e"

definition open_and_send ::
  "client_json \<Rightarrow> daemon_command \<Rightarrow> socket \<Rightarrow> (client_error, string) result" where
  "open_and_send cj cmd sk =
     res_bind (map_err connect_error (sk_connect sk)) (\<lambda>_.
     res_bind (map_err EncodeErr (encode_message (cj_write_command cj) cmd)) (\<lambda>json.
     res_bind (map_err IoErr (sk_write sk)) (\<lambda>_. Inr json)))"

text \<open>\<open>read_line\<close>: the next line, an empty one at the end.\<close>

definition next_line :: "socket \<Rightarrow> (string, string) result" where
  "next_line sk =
     (case sk_lines sk of
        l # _ \<Rightarrow> Inr l
      | [] \<Rightarrow> (case sk_error sk of Some e \<Rightarrow> Inl e | None \<Rightarrow> Inr []))"

definition send_command_to ::
  "client_json \<Rightarrow> daemon_command \<Rightarrow> socket \<Rightarrow> (client_error, daemon_response) result" where
  "send_command_to cj cmd sk =
     res_bind (open_and_send cj cmd sk) (\<lambda>_.
     res_bind (map_err IoErr (next_line sk)) (\<lambda>l.
       if l = [] then Inl NoResponse
       else map_err DecodeErr (decode_message (cj_read_response cj) l)))"

section \<open>Streams\<close>

text \<open>Lines that are no log entry are skipped; the task ends when the receiver is gone.\<close>

fun forward_logs :: "client_json \<Rightarrow> string list \<Rightarrow> nat \<Rightarrow> log_entry list" where
  "forward_logs cj [] room = []"
| "forward_logs cj (l # ls) room =
     (case decode_message (cj_read_response cj) l of
        Inr (RLogEntry e) \<Rightarrow> (case room of 0 \<Rightarrow> [] | Suc n \<Rightarrow> e # forward_logs cj ls n)
      | _ \<Rightarrow> forward_logs cj ls room)"

definition stream_logs_from :: "client_json \<Rightarrow> socket \<Rightarrow> nat \<Rightarrow> (client_error, log_entry list) result" where
  "stream_logs_from cj sk room =
     res_bind (open_and_send cj StreamLogs sk) (\<lambda>_. Inr (forward_logs cj (sk_lines sk) room))"

fun forward_responses :: "client_json \<Rightarrow> string list \<Rightarrow> nat \<Rightarrow> daemon_response list" where
  "forward_responses cj [] room = []"
| "forward_responses cj (l # ls) room =
     (case decode_message (cj_read_response cj) l of
        Inr r \<Rightarrow> (case room of 0 \<Rightarrow> [] | Suc n \<Rightarrow> r # forward_responses cj ls n)
      | Inl _ \<Rightarrow> forward_responses cj ls room)"

definition send_streaming_command_to ::
  "client_json \<Rightarrow> daemon_command \<Rightarrow> socket \<Rightarrow> nat \<Rightarrow> (client_error, daemon_response list) result" where
  "send_streaming_command_to cj cmd sk room =
     res_bind (open_and_send cj cmd sk) (\<lambda>_. Inr (forward_responses cj (sk_lines sk) room))"

section \<open>Client and daemon together\<close>

text \<open>A connection between the two: the daemon reads what the client wrote, the client what the
  daemon answered.\<close>

definition reply_socket :: "string list \<Rightarrow> socket" where
  "reply_socket ls = \<lparr>sk_connect = Inr (), sk_write = Inr (), sk_lines = ls, sk_error = None\<rparr>"

definition call_daemon ::
  "client_json \<Rightarrow> json \<Rightarrow> toml_io \<Rightarrow> ('w, 'b) daemon_env \<Rightarrow> (string, string) result \<Rightarrow> daemon_command \<Rightarrow>
   ('w, 'b) daemon \<Rightarrow> (client_error, daemon_response) result \<times> ('w, 'b) daemon" where
  "call_daemon cj js io env contents cmd d =
     (case open_and_send cj cmd (reply_socket []) of
        Inl e \<Rightarrow> (Inl e, d)
      | Inr l \<Rightarrow>
          (case serve js io env \<lparr>cl_line = Inr l, cl_config = contents\<rparr> d of
             (_, d') \<Rightarrow>
               (send_command_to cj cmd (reply_socket (drop (length (dm_sent d)) (dm_sent d'))), d')))"

text \<open>What the JSON crate documents, for one message: the text it writes is not empty, is read back,
  and has no white space around it.\<close>

definition carries :: "('a \<Rightarrow> (string, string) result) \<Rightarrow> (string \<Rightarrow> (string, 'a) result) \<Rightarrow> 'a \<Rightarrow> bool" where
  "carries wr rd x = (case wr x of Inl _ \<Rightarrow> False | Inr s \<Rightarrow> s \<noteq> [] \<and> str_trim (s @ [nl]) = s \<and> rd s = Inr x)"

lemma carries_encode:
  assumes "carries wr rd x"
  obtains l where "encode_message wr x = Inr l" "l \<noteq> []" "decode_message rd l = Inr x"
  using assms by (auto simp: carries_def encode_message_def decode_message_def split: sum.splits)

lemma serve_answers:
  assumes "read_command js cl = (Some cmd, out)" "cmd \<noteq> StreamLogs"
    and "handle_command env cmd (if needs_config_reload cmd
        then reload_from_file io (cl_config cl) (dm_manager d) else dm_manager d) (dm_world d) = (r, m', w')"
  shows "serve js io env cl d = (r = ROk \<and> cmd = Shutdown,
    d\<lparr>dm_manager := m', dm_world := w', dm_sent := dm_sent d @ sent (send_response js r)\<rparr>)"
proof -
  have "serve js io env cl d = process_command js io env cl cmd d"
    using assms(1,2) by (cases cmd) (simp_all add: serve_def)
  then show ?thesis using assms(3) by (simp add: process_command_def Let_def)
qed

lemma call_handles:
  assumes "carries (cj_write_command cj) (js_read_command js) cmd" "cmd \<noteq> StreamLogs"
    and "handle_command env cmd (if needs_config_reload cmd
        then reload_from_file io contents (dm_manager d) else dm_manager d) (dm_world d) = (r, m', w')"
    and "carries (js_write_response js) (cj_read_response cj) r"
  shows "\<exists>d'. call_daemon cj js io env contents cmd d = (Inr r, d') \<and> dm_manager d' = m' \<and>
    dm_world d' = w'"
proof -
  obtain l where l: "encode_message (cj_write_command cj) cmd = Inr l" "l \<noteq> []"
    "decode_message (js_read_command js) l = Inr cmd"
    using carries_encode [OF assms(1)] by blast
  obtain a where a: "encode_message (js_write_response js) r = Inr a" "a \<noteq> []"
    "decode_message (cj_read_response cj) a = Inr r"
    using carries_encode [OF assms(4)] by blast
  let ?cl = "\<lparr>cl_line = Inr l, cl_config = contents\<rparr>"
  have rc: "read_command js ?cl = (Some cmd, None)" using l by (simp add: read_command_def)
  have os: "open_and_send cj cmd (reply_socket ls) = Inr l" for ls
    using l by (simp add: open_and_send_def reply_socket_def res_simps)
  have nx: "next_line (reply_socket [a]) = Inr a" by (simp add: next_line_def reply_socket_def)
  have "serve js io env ?cl d = (r = ROk \<and> cmd = Shutdown,
      d\<lparr>dm_manager := m', dm_world := w', dm_sent := dm_sent d @ [a]\<rparr>)"
    using serve_answers [OF rc assms(2), of env io d r m' w', unfolded client.simps, OF assms(3)] a
    by (simp add: sent_def send_response_def)
  then show ?thesis
    using a by (auto simp: call_daemon_def os send_command_to_def res_simps nx)
qed

text \<open>C11. Over a JSON crate that carries the command and the answer, a client call is a call of the
  handler: the client gets the response of \<open>handle_command\<close> on the configuration the command is
  meant to see, and the daemon is left in its state.\<close>

theorem call_is_handle_command:
  assumes "carries (cj_write_command cj) (js_read_command js) cmd" "cmd \<noteq> StreamLogs"
    and "handle_command env cmd (if needs_config_reload cmd
        then reload_from_file io contents (dm_manager d) else dm_manager d) (dm_world d) = (r, m', w')"
    and "carries (js_write_response js) (cj_read_response cj) r"
  shows "\<exists>d'. call_daemon cj js io env contents cmd d = (Inr r, d') \<and> dm_manager d' = m' \<and>
    dm_world d' = w'"
  by (rule call_handles [OF assms])

text \<open>A streaming client with room for every line receives exactly the log entries among the
  lines, in order: other responses and lines that do not decode are passed over.\<close>

theorem stream_logs_filters:
  assumes "open_and_send cj StreamLogs sk = Inr l"
  shows "stream_logs_from cj sk (length (sk_lines sk) + n) =
    Inr (List.map_filter (\<lambda>l. case decode_message (cj_read_response cj) l of
      Inr (RLogEntry e) \<Rightarrow> Some e | _ \<Rightarrow> None) (sk_lines sk))"
proof -
  have "length ls \<le> room \<Longrightarrow> forward_logs cj ls room =
      List.map_filter (\<lambda>l. case decode_message (cj_read_response cj) l of
        Inr (RLogEntry e) \<Rightarrow> Some e | _ \<Rightarrow> None) ls" for ls room
    by (induction cj ls room rule: forward_logs.induct)
      (auto simp: List.map_filter_def split: sum.split daemon_response.split nat.split)
  then show ?thesis using assms by (simp add: stream_logs_from_def res_simps)
qed

section \<open>Examples\<close>

definition tiny_client :: client_json where
  "tiny_client = \<lparr>cj_write_command = (\<lambda>c. Inr (case c of Shutdown \<Rightarrow> ''shutdown'' | _ \<Rightarrow> ''status'')),
     cj_read_response = (\<lambda>s. if s = ''ok'' then Inr ROk
       else if s = ''entry'' then Inr (RLogEntry (entry_now 1 LInfo None ''up'')) else Inl ''bad'')\<rparr>"

theorem call_is_handle_command_witness:
  "\<exists>d'. call_daemon tiny_client tiny_json vpn_io box_env (Inr []) Shutdown
      (daemon_new default_app_config box_world) = (Inr ROk, d')"
proof -
  have c: "carries (cj_write_command tiny_client) (js_read_command tiny_json) Shutdown"
    "carries (js_write_response tiny_json) (cj_read_response tiny_client) ROk"
    by code_simp+
  show ?thesis
    using call_is_handle_command [OF c(1) _ _ c(2), of box_env vpn_io "Inr []"
        "daemon_new default_app_config box_world"] by auto
qed

theorem stream_logs_filters_witness:
  "stream_logs_from tiny_client (reply_socket [''entry'', ''junk'', ''ok'', ''entry'']) 5 =
   Inr [entry_now 1 LInfo None ''up'', entry_now 1 LInfo None ''up'']"
proof -
  let ?sk = "reply_socket [''entry'', ''junk'', ''ok'', ''entry'']"
  have o: "open_and_send tiny_client StreamLogs ?sk = Inr (line ''status'')"
    by code_simp
  have e: "decode_message (cj_read_response tiny_client) ''entry'' = Inr (RLogEntry (entry_now 1 LInfo None ''up''))"
    "decode_message (cj_read_response tiny_client) ''junk'' = Inl ''bad''"
    "decode_message (cj_read_response tiny_client) ''ok'' = Inr ROk"
    by code_simp+
  show ?thesis
    using stream_logs_filters [OF o, of 1] e
    by (simp add: reply_socket_def List.map_filter_def eval_nat_numeral)
qed

end
