(* ===== verification/Files.thy ===== *)
theory Files
  imports Host WgQuick
begin

text \<open>
  Paths and files as the configuration code uses them: \<open>std::path\<close> on Unix, and the loaders and
  writers of \<open>toml.rs\<close> and \<open>wg_quick.rs\<close> that take a path. A path is its bytes; what the file system
  does is the record \<open>fsops\<close>, what the code relies on about it the locale \<open>files\<close>, interpreted on a map
  from paths to contents.
\<close>

section \<open>Paths\<close>

text \<open>Components: empty ones and \<open>.\<close> are dropped, except a \<open>.\<close> at the very start.\<close>

definition path_rooted :: "string \<Rightarrow> bool" where
  "path_rooted p = starts_with p CHR ''/''"

definition path_comps :: "string \<Rightarrow> string list" where
  "path_comps p =
     (let parts = str_split CHR ''/'' p; keep = filter (\<lambda>c. c \<noteq> [] \<and> c \<noteq> ''.'')
      in if parts \<noteq> [] \<and> hd parts = ''.'' then ''.'' # keep (tl parts) else keep parts)"

definition path_file_name :: "string \<Rightarrow> string option" where
  "path_file_name p =
     (case rev (path_comps p) of
        [] \<Rightarrow> None
      | c # _ \<Rightarrow> if c = ''.'' \<or> c = ''..'' then None else Some c)"

text \<open>\<open>rsplitn(2, '.')\<close>: what stands before and after the last dot.\<close>

definition rsplit_dot :: "string \<Rightarrow> (string \<times> string) option" where
  "rsplit_dot s =
     (case dropWhile (\<lambda>c. c \<noteq> CHR ''.'') (rev s) of
        [] \<Rightarrow> None
      | _ # before \<Rightarrow> Some (rev before, rev (takeWhile (\<lambda>c. c \<noteq> CHR ''.'') (rev s))))"

definition path_file_stem :: "string \<Rightarrow> string option" where
  "path_file_stem p =
     map_option (\<lambda>f. case rsplit_dot f of
         None \<Rightarrow> f
       | Some (before, after) \<Rightarrow> if before = [] then f else before) (path_file_name p)"

definition path_extension :: "string \<Rightarrow> string option" where
  "path_extension p =
     (case path_file_name p of
        None \<Rightarrow> None
      | Some f \<Rightarrow>
          (case rsplit_dot f of
             None \<Rightarrow> None
           | Some (before, after) \<Rightarrow> if before = [] then None else Some after))"

definition path_of :: "bool \<Rightarrow> string list \<Rightarrow> string" where
  "path_of rooted cs = (if rooted then ''/'' else []) @ str_join ''/'' cs"

text \<open>No parent: the root, and the empty path.\<close>

definition path_parent :: "string \<Rightarrow> string option" where
  "path_parent p =
     (if path_comps p = [] then None else Some (path_of (path_rooted p) (butlast (path_comps p))))"

definition with_extension :: "string \<Rightarrow> string \<Rightarrow> string" where
  "with_extension ext p =
     (case path_file_stem p of
        None \<Rightarrow> p
      | Some st \<Rightarrow> path_of (path_rooted p) (butlast (path_comps p) @ [st @ ''.'' @ ext]))"

section \<open>File operations\<close>

record 'w fsops =
  fo_exists :: "string \<Rightarrow> 'w \<Rightarrow> bool"
  fo_read :: "string \<Rightarrow> 'w \<Rightarrow> (string, string) result"
  fo_write :: "string \<Rightarrow> string \<Rightarrow> ('w, string, unit) io"
  fo_mkdirs :: "string \<Rightarrow> ('w, string, unit) io"

definition load_app_file :: "toml_io \<Rightarrow> 'w fsops \<Rightarrow> string \<Rightarrow> 'w \<Rightarrow> (config_error, app_config) result" where
  "load_app_file io fs p w = load_app_config io (fo_read fs p w)"

definition toml_load_file :: "toml_io \<Rightarrow> 'w fsops \<Rightarrow> string \<Rightarrow> 'w \<Rightarrow> (config_error, wg_config) result" where
  "toml_load_file io fs p w = res_bind (map_err TomlParse (fo_read fs p w)) (toml_load_str io)"

definition wg_quick_load_file ::
  "codec \<Rightarrow> 'w fsops \<Rightarrow> string \<Rightarrow> 'w \<Rightarrow> (load_fault, wg_config) result" where
  "wg_quick_load_file cd fs p w =
     res_bind (map_err (\<lambda>e. Fail (TomlParse e)) (fo_read fs p w)) (load_from_str cd)"

text \<open>Both writers make the parent directories first.\<close>

definition write_with_dirs :: "'w fsops \<Rightarrow> string \<Rightarrow> string \<Rightarrow> ('w, config_error, unit) io" where
  "write_with_dirs fs p contents =
     io_bind (case path_parent p of
         None \<Rightarrow> io_return ()
       | Some d \<Rightarrow> io_map_err (\<lambda>e. TomlParse (''create dir: '' @ e)) (fo_mkdirs fs d))
       (\<lambda>_. io_map_err TomlParse (fo_write fs p contents))"

definition save_app_config :: "toml_io \<Rightarrow> 'w fsops \<Rightarrow> app_config \<Rightarrow> string \<Rightarrow> ('w, config_error, unit) io" where
  "save_app_config io fs c p w =
     (case save_app_config_string io c of
        Inl e \<Rightarrow> (Inl e, w)
      | Inr contents \<Rightarrow> write_with_dirs fs p contents w)"

definition toml_save_file :: "toml_io \<Rightarrow> 'w fsops \<Rightarrow> wg_config \<Rightarrow> string \<Rightarrow> ('w, config_error, unit) io" where
  "toml_save_file io fs c p w =
     (case toml_save_string io c of
        Inl e \<Rightarrow> (Inl e, w)
      | Inr contents \<Rightarrow> write_with_dirs fs p contents w)"

section \<open>What the code relies on\<close>

text \<open>A file just written reads back; making directories changes no file; \<open>separate\<close> are paths of
  different files, which a write leaves alone.\<close>

locale files =
  fixes fs :: "'w fsops"
    and separate :: "string \<Rightarrow> string \<Rightarrow> bool"
  assumes write_read: "fo_write fs p s w = (Inr (), w') \<Longrightarrow> fo_read fs p w' = Inr s"
    and write_other: "fo_write fs p s w = (r, w') \<Longrightarrow> separate p q \<Longrightarrow> fo_read fs q w' = fo_read fs q w"
    and mkdirs_keeps: "fo_read fs q w = Inr s \<Longrightarrow> fo_mkdirs fs d w = (r, w') \<Longrightarrow> fo_read fs q w' = Inr s"
begin

lemma write_dirs_ok:
  assumes "write_with_dirs fs p s w = (Inr (), w')"
  shows "fo_read fs p w' = Inr s"
  using assms by (auto simp: write_with_dirs_def io_bind_eq intro: write_read split: option.splits)

lemma write_dirs_other:
  assumes "write_with_dirs fs p s w = (r, w')" "separate p q" "fo_read fs q w = Inr t"
  shows "fo_read fs q w' = Inr t"
  using assms
  by (auto simp: write_with_dirs_def io_bind_eq io_map_err_eq split: option.splits)
    (metis mkdirs_keeps write_other)+

lemma save_app_ok:
  assumes "save_app_config io fs c p w = (Inr (), w')"
  shows "\<exists>s. save_app_config_string io c = Inr s \<and> fo_read fs p w' = Inr s"
  using assms by (auto simp: save_app_config_def intro: write_dirs_ok split: sum.splits)

lemma save_app_other:
  assumes "save_app_config io fs c p w = (r, w')" "separate p q" "fo_read fs q w = Inr t"
  shows "fo_read fs q w' = Inr t"
  using assms by (auto simp: save_app_config_def intro: write_dirs_other split: sum.splits)

text \<open>What was saved loads again, when the TOML crate reads back what it wrote and the
  configuration is valid.\<close>

lemma save_load:
  assumes "save_app_config io fs c p w = (Inr (), w')"
    and "\<And>s. toml_write_app io c = Inr s \<Longrightarrow> toml_read_app io s = Inr c"
  shows "load_app_file io fs p w' = res_bind (app_validate c) (\<lambda>_. Inr c)"
proof -
  obtain s where s: "save_app_config_string io c = Inr s" "fo_read fs p w' = Inr s"
    using save_app_ok [OF assms(1)] by blast
  then have "toml_read_app io s = Inr c" using assms(2) by (simp add: save_app_config_string_def)
  then show ?thesis using s by (simp add: load_app_file_def load_app_config_def load_app_config_str_def)
qed

end

section \<open>A simulated file system\<close>

definition map_fs :: "(string, string) amap fsops" where
  "map_fs = \<lparr>
     fo_exists = (\<lambda>p w. amap_get w p \<noteq> None),
     fo_read = (\<lambda>p w. ok_or ''No such file or directory'' (amap_get w p)),
     fo_write = (\<lambda>p s w. (Inr (), hmap_insert p s w)),
     fo_mkdirs = (\<lambda>d w. (Inr (), w))\<rparr>"

lemma map_fs_simps [simp]:
  "fo_exists map_fs p w = (amap_get w p \<noteq> None)"
  "fo_read map_fs p w = ok_or ''No such file or directory'' (amap_get w p)"
  "fo_write map_fs p s w = (Inr (), hmap_insert p s w)"
  "fo_mkdirs map_fs d w = (Inr (), w)"
  by (simp_all add: map_fs_def)

interpretation map_files: files map_fs "\<lambda>p q. p \<noteq> q"
  by unfold_locales (auto simp: amap_get_hmap_insert)

end
