(* ===== verification/DaemonMain.thy ===== *)
theory DaemonMain
  imports DaemonProps Files
begin

text \<open>
  The daemon program (\<open>ferro-wg-daemon/src/main.rs\<close>) and the start of its server (\<open>setup_listener\<close>,
  \<open>set_socket_permissions\<close> and \<open>run\<close> of \<open>ferro-wg-core/src/daemon.rs\<close>), up to the loop of the theory
  \<open>Daemon\<close>. The parsed arguments are data; what the system does with the socket file is a record.
\<close>

record daemon_cli =
  dc_config :: string
  dc_socket :: string
  dc_verbose :: u8

definition env_filter :: "u8 \<Rightarrow> string" where
  "env_filter v = (if v = 0 then ''info'' else if v = 1 then ''debug'' else ''trace'')"

text \<open>The channel crate may give a channel more slots than asked for.\<close>

definition daemon_hub :: "alloc \<Rightarrow> (nat \<Rightarrow> nat) \<Rightarrow> hub" where
  "daemon_hub al slots_for =
     \<lparr>hb_buffer = log_buffer_new al 1000, hb_slots = slots_for 1000, hb_streams = []\<rparr>"

section \<open>The socket\<close>

record 'w listen_ops =
  lo_exists :: "string \<Rightarrow> 'w \<Rightarrow> bool"
  lo_remove :: "string \<Rightarrow> ('w, string, unit) io"
  lo_bind :: "string \<Rightarrow> ('w, string, unit) io"
  lo_chmod :: "string \<Rightarrow> nat \<Rightarrow> ('w, string, unit) io"

definition setup_listener :: "'w listen_ops \<Rightarrow> string \<Rightarrow> ('w, string, unit) io" where
  "setup_listener ops p w =
     (if lo_exists ops p w then io_bind (lo_remove ops p) (\<lambda>_. lo_bind ops p) w
      else lo_bind ops p w)"

text \<open>\<open>0o666\<close>.\<close>

definition set_socket_permissions :: "'w listen_ops \<Rightarrow> string \<Rightarrow> ('w, string, unit) io" where
  "set_socket_permissions ops p = lo_chmod ops p 438"

definition listen_on :: "'w listen_ops \<Rightarrow> string \<Rightarrow> ('w, string, unit) io" where
  "listen_on ops p = io_bind (setup_listener ops p) (\<lambda>_. set_socket_permissions ops p)"

section \<open>The program\<close>

datatype ('w, 'b) daemon_exit = NotStarted string 'w | Ran daemon_end "('w, 'b) daemon"

definition serve_on ::
  "'w listen_ops \<Rightarrow> json \<Rightarrow> toml_io \<Rightarrow> ('w, 'b) daemon_env \<Rightarrow> string \<Rightarrow> app_config \<Rightarrow>
   'b daemon_event list \<Rightarrow> 'w \<Rightarrow> ('w, 'b) daemon_exit" where
  "serve_on lops js io env p c cs w =
     (case listen_on lops p w of
        (Inl e, w1) \<Rightarrow> NotStarted e w1
      | (Inr _, w1) \<Rightarrow> (case run_daemon js io env c cs w1 of (r, d) \<Rightarrow> Ran r d))"

definition loaded_line :: "app_config \<Rightarrow> string \<Rightarrow> string" where
  "loaded_line c p =
     ''Loaded config with '' @ show_nat (length (ac_connections c)) @ '' connection(s) from '' @ p"

definition daemon_main ::
  "'w listen_ops \<Rightarrow> json \<Rightarrow> toml_io \<Rightarrow> 'w fsops \<Rightarrow> ('w, 'b) daemon_env \<Rightarrow> daemon_cli \<Rightarrow>
   'b daemon_event list \<Rightarrow> 'w \<Rightarrow> string list \<times> ('w, 'b) daemon_exit" where
  "daemon_main lops js io fs env cli cs w =
     (case load_app_file io fs (dc_config cli) w of
        Inl e \<Rightarrow> ([], NotStarted (show_config_error e) w)
      | Inr c \<Rightarrow>
          ([loaded_line c (dc_config cli)], serve_on lops js io env (dc_socket cli) c cs w))"

text \<open>The daemon starts exactly when its configuration loads and the socket can be set up; then it
  serves, from that configuration, and no tunnel has been touched before.\<close>

lemma daemon_main_starts:
  "(\<exists>ls r d. daemon_main lops js io fs env cli cs w = (ls, Ran r d)) \<longleftrightarrow>
   (\<exists>c. load_app_file io fs (dc_config cli) w = Inr c) \<and> is_ok (fst (listen_on lops (dc_socket cli) w))"
  by (cases "load_app_file io fs (dc_config cli) w"; cases "listen_on lops (dc_socket cli) w")
    (auto simp: daemon_main_def serve_on_def is_ok_def split: sum.splits prod.splits)

lemma daemon_main_runs:
  assumes "daemon_main lops js io fs env cli cs w = (ls, Ran r d)"
  shows "\<exists>c w1. load_app_file io fs (dc_config cli) w = Inr c \<and> app_ok c \<and> (r, d) = run_daemon js io env c cs w1"
proof (cases "load_app_file io fs (dc_config cli) w")
  case (Inr c)
  then have "app_ok c" by (simp add: load_app_file_def load_app_config_ok)
  moreover obtain q w1 where q: "listen_on lops (dc_socket cli) w = (q, w1)" by fastforce
  moreover have "(r, d) = run_daemon js io env c cs w1"
    using assms Inr q by (cases q) (auto simp: daemon_main_def serve_on_def split: prod.splits)
  ultimately show ?thesis using Inr by blast
qed (use assms in \<open>simp add: daemon_main_def\<close>)

section \<open>A socket that is already served\<close>

text \<open>A file system of sockets: who serves a path. The path is removed whoever serves it, so a second
  daemon takes the path over and the first is not reachable any more.\<close>

definition socket_ops :: "nat \<Rightarrow> (string \<rightharpoonup> nat) listen_ops" where
  "socket_ops me =
     \<lparr>lo_exists = (\<lambda>p m. m p \<noteq> None), lo_remove = (\<lambda>p m. (Inr (), m(p := None))),
      lo_bind = (\<lambda>p m. case m p of None \<Rightarrow> (Inr (), m(p \<mapsto> me)) | Some _ \<Rightarrow> (Inl ''address in use'', m)),
      lo_chmod = (\<lambda>_ _ m. (Inr (), m))\<rparr>"

lemma second_daemon_takes_over:
  "listen_on (socket_ops me) p m = (Inr (), m(p \<mapsto> me))"
  by (cases "m p") (simp_all add: listen_on_def setup_listener_def set_socket_permissions_def
      socket_ops_def io_bind_def)

end
