(* ===== verification/TuiTasks.thy ===== *)
theory TuiTasks
  imports Client Files AppState
begin

text \<open>
  The background tasks of the terminal client (\<open>ferro-wg-tui/src/lib.rs\<close>, \<open>history.rs\<close>): what the
  event loop spawns, as data, and what each task does with sockets and files and sends back. A
  socket is the one of the daemon client; files are those of \<open>fsops\<close>; \<open>None\<close> is a task that panics.
\<close>

section \<open>Errors and messages\<close>

datatype tui_error =
    TeClient client_error
  | TeUnknownBackend string
  | TeStreamClosed
  | TeDaemonResponse string
  | TeExeNotFound string
  | TeStartFailed string
  | TeImportFailed string
  | TeGeneric string

fun show_tui_error :: "tui_error \<Rightarrow> string" where
  "show_tui_error (TeClient e) = show_client_error e"
| "show_tui_error (TeUnknownBackend b) = ''unknown benchmark backend: '' @ b"
| "show_tui_error TeStreamClosed = ''stream closed unexpectedly''"
| "show_tui_error (TeDaemonResponse e) = ''daemon error: '' @ e"
| "show_tui_error (TeExeNotFound e) = ''could not find ferro-wg executable: '' @ e"
| "show_tui_error (TeStartFailed e) =
     ''could not start daemon: run '' @ [CHR 0x27] @ ''sudo ferro-wg daemon --daemonize'' @ [CHR 0x27] @
     '' ('' @ e @ '')''"
| "show_tui_error (TeImportFailed e) = ''config import failed: '' @ e"
| "show_tui_error (TeGeneric e) = e"

datatype daemon_message =
    DmStatus "peer_status list"
  | DmOk string
  | DmError tui_error
  | DmUnreachable
  | DmReload app_config string
  | DmProgress benchmark_progress
  | DmComplete benchmark_result

definition error_to_message :: "client_error \<Rightarrow> daemon_message" where
  "error_to_message e = (if is_not_running e then DmUnreachable else DmError (TeClient e))"

text \<open>What is spawned. A message task only sends; the commands carry the text of their success.\<close>

datatype task =
    TCommand daemon_command string
  | TMessage daemon_message
  | TBenchmark string u32
  | TPoll
  | TStartDaemon
  | TImport string
  | TExport string "benchmark_run list"
  | TSaveConfig string wg_config bool
  | TSaveHistory "benchmark_run list"
  | TLogStream

section \<open>Commands\<close>

definition command_message :: "client_json \<Rightarrow> socket \<Rightarrow> daemon_command \<Rightarrow> string \<Rightarrow> daemon_message option" where
  "command_message cj sk cmd description =
     (case send_command_to cj cmd sk of
        Inr ROk \<Rightarrow> Some (DmOk description)
      | Inr (RError e) \<Rightarrow> Some (DmError (TeDaemonResponse e))
      | Inr _ \<Rightarrow> None
      | Inl e \<Rightarrow> Some (error_to_message e))"

definition poll_message :: "client_json \<Rightarrow> socket \<Rightarrow> daemon_message option" where
  "poll_message cj sk =
     (case send_command_to cj Status sk of
        Inr (RStatus peers) \<Rightarrow> Some (DmStatus peers)
      | Inr _ \<Rightarrow> None
      | Inl e \<Rightarrow> Some (error_to_message e))"

fun relay_benchmark :: "daemon_response list \<Rightarrow> daemon_message list" where
  "relay_benchmark [] = [DmError TeStreamClosed]"
| "relay_benchmark (RBenchmarkProgress p # rs) = DmProgress p # relay_benchmark rs"
| "relay_benchmark (RBenchmarkResult r # rs) = [DmComplete r]"
| "relay_benchmark (RError e # rs) = [DmError (TeDaemonResponse e)]"
| "relay_benchmark (_ # rs) = relay_benchmark rs"

definition benchmark_messages :: "client_json \<Rightarrow> socket \<Rightarrow> string \<Rightarrow> u32 \<Rightarrow> daemon_message list" where
  "benchmark_messages cj sk name secs =
     (case send_streaming_command_to cj (Benchmark name secs) sk (length (sk_lines sk)) of
        Inl e \<Rightarrow> [error_to_message e]
      | Inr responses \<Rightarrow> relay_benchmark responses)"

text \<open>Six polls after a successful spawn; \<open>socks\<close> are the connections in the order they are tried.\<close>

definition start_command :: "string \<Rightarrow> string \<Rightarrow> string list" where
  "start_command exe config_path = [''sudo'', exe, ''daemon'', ''--daemonize'', ''-c'', config_path]"

definition reachable :: "client_json \<Rightarrow> socket \<Rightarrow> bool" where
  "reachable cj sk = is_ok (send_command_to cj Status sk)"

definition start_daemon ::
  "client_json \<Rightarrow> (nat \<Rightarrow> socket) \<Rightarrow> (string, string) result \<Rightarrow> (string list \<Rightarrow> (string, unit) result) \<Rightarrow>
   string \<Rightarrow> daemon_message" where
  "start_daemon cj socks exe spawn config_path =
     (if reachable cj (socks 0) then DmError (TeGeneric ''Daemon is already running'')
      else
        (case exe of
           Inl e \<Rightarrow> DmError (TeExeNotFound e)
         | Inr x \<Rightarrow>
             (case spawn (start_command x config_path) of
                Inl e \<Rightarrow> DmError (TeStartFailed e)
              | Inr _ \<Rightarrow>
                  if list_ex (\<lambda>i. reachable cj (socks i)) [1..<7] then DmOk ''Daemon started''
                  else DmError (TeGeneric (''Daemon started but not yet reachable '' @
                    [CHR 0xE2, CHR 0x80, CHR 0x94] @ '' try again in a moment'')))))"

section \<open>Import\<close>

definition connection_name_from_path :: "string \<Rightarrow> (string, string) result" where
  "connection_name_from_path p =
     ok_or (''cannot derive connection name from path: '' @ p) (Option.bind (path_file_stem p) to_str)"

definition try_import ::
  "codec \<Rightarrow> toml_io \<Rightarrow> 'w fsops \<Rightarrow> string \<Rightarrow> string \<Rightarrow> 'w \<Rightarrow>
   ((string, app_config \<times> string) result \<times> 'w) option" where
  "try_import cd io fs import_path config_path w =
     (case connection_name_from_path import_path of
        Inl e \<Rightarrow> Some (Inl e, w)
      | Inr name \<Rightarrow>
          (case wg_quick_load_file cd fs import_path w of
             Inl Unreachable \<Rightarrow> None
           | Inl (Fail e) \<Rightarrow> Some (Inl (''Import failed: '' @ show_config_error e), w)
           | Inr wg \<Rightarrow>
               (case load_app_file io fs config_path w of
                  Inl e \<Rightarrow> Some (Inl (''Could not load config: '' @ show_config_error e), w)
                | Inr c \<Rightarrow>
                    (let c' = app_insert name wg c in
                     case save_app_config io fs c' config_path w of
                       (Inl e, w') \<Rightarrow> Some (Inl (''Could not save config: '' @ show_config_error e), w')
                     | (Inr _, w') \<Rightarrow> Some (Inr (c', name), w')))))"

definition import_and_persist ::
  "codec \<Rightarrow> toml_io \<Rightarrow> 'w fsops \<Rightarrow> string \<Rightarrow> string \<Rightarrow> 'w \<Rightarrow> (daemon_message \<times> 'w) option" where
  "import_and_persist cd io fs import_path config_path w =
     map_option (\<lambda>(r, w'). (case r of
         Inr (c, name) \<Rightarrow> DmReload c (''Imported: '' @ name)
       | Inl e \<Rightarrow> DmError (TeImportFailed e), w'))
       (try_import cd io fs import_path config_path w)"

section \<open>Saving an edited connection\<close>

definition backup_path :: "string \<Rightarrow> string" where
  "backup_path config_path = with_extension ''toml.bak'' config_path"

definition save_steps ::
  "toml_io \<Rightarrow> 'w fsops \<Rightarrow> string \<Rightarrow> wg_config \<Rightarrow> string \<Rightarrow> 'w \<Rightarrow> (string, app_config) result \<times> 'w" where
  "save_steps io fs name draft config_path w =
     (case load_app_file io fs config_path w of
        Inl e \<Rightarrow> (Inl (''Could not load config: '' @ show_config_error e), w)
      | Inr c \<Rightarrow>
          (case save_app_config_string io c of
             Inl e \<Rightarrow> (Inl (''Could not serialise backup: '' @ show_config_error e), w)
           | Inr text \<Rightarrow>
               (case fo_write fs (backup_path config_path) text w of
                  (Inl e, w1) \<Rightarrow> (Inl (''Could not write backup: '' @ e), w1)
                | (Inr _, w1) \<Rightarrow>
                    (let c' = app_insert name draft c in
                     case save_app_config io fs c' config_path w1 of
                       (Inl e, w2) \<Rightarrow> (Inl (''Could not write config: '' @ show_config_error e), w2)
                     | (Inr _, w2) \<Rightarrow> (Inr c', w2)))))"

definition try_save_config ::
  "toml_io \<Rightarrow> 'w fsops \<Rightarrow> string \<Rightarrow> wg_config \<Rightarrow> string \<Rightarrow> 'w \<Rightarrow> daemon_message \<times> 'w" where
  "try_save_config io fs name draft config_path w =
     (case save_steps io fs name draft config_path w of
        (Inr c, w') \<Rightarrow> (DmReload c ''Config saved'', w')
      | (Inl e, w') \<Rightarrow> (DmError (TeGeneric e), w'))"

text \<open>The commands of a reconnect follow whatever the save did.\<close>

definition reconnect_commands :: "string \<Rightarrow> bool \<Rightarrow> daemon_command list" where
  "reconnect_commands name reconnect =
     (if reconnect then [Down (Some name), Up (Some name) Boringtun] else [])"

section \<open>Benchmark files\<close>

record bench_json =
  bj_read :: "string \<Rightarrow> (string, benchmark_run list) result"
  bj_write :: "benchmark_run list \<Rightarrow> (string, string) result"

definition export_content ::
  "(float \<Rightarrow> string) \<Rightarrow> bench_json \<Rightarrow> string \<Rightarrow> benchmark_run list \<Rightarrow> (benchmark_error, string) result" where
  "export_content show_f64 bj p hist =
     (if path_extension p = Some ''csv'' then Inr (benchmark_to_csv show_f64 hist)
      else benchmark_to_json (bj_write bj) hist)"

definition export_task ::
  "(float \<Rightarrow> string) \<Rightarrow> bench_json \<Rightarrow> 'w fsops \<Rightarrow> string \<Rightarrow> benchmark_run list \<Rightarrow> 'w \<Rightarrow>
   daemon_message \<times> 'w" where
  "export_task show_f64 bj fs p hist w =
     (case export_content show_f64 bj p hist of
        Inl e \<Rightarrow> (DmError (TeGeneric (show_benchmark_error e)), w)
      | Inr content \<Rightarrow>
          (case fo_write fs p content w of
             (Inl e, w') \<Rightarrow> (DmError (TeGeneric (show_benchmark_error (Benchmark.IoErr e))), w')
           | (Inr _, w') \<Rightarrow> (DmOk (''exported to '' @ p), w')))"

text \<open>Only a missing file is an empty history.\<close>

definition load_benchmark_history ::
  "bench_json \<Rightarrow> (io_kind \<times> string, string) result \<Rightarrow> (benchmark_error, benchmark_run list) result" where
  "load_benchmark_history bj contents =
     (case contents of
        Inl (IoNotFound, _) \<Rightarrow> Inr []
      | Inl (_, e) \<Rightarrow> Inl (Benchmark.IoErr e)
      | Inr s \<Rightarrow>
          if str_trim s = [] then Inl (SerializeErr ''file is empty'')
          else map_err SerializeErr (bj_read bj s))"

definition save_benchmark_history ::
  "bench_json \<Rightarrow> 'w fsops \<Rightarrow> string \<Rightarrow> benchmark_run list \<Rightarrow> ('w, benchmark_error, unit) io" where
  "save_benchmark_history bj fs p hist w =
     (case bj_write bj (cap_history hist benchmark_history_cap) of
        Inl e \<Rightarrow> (Inl (SerializeErr e), w)
      | Inr json \<Rightarrow> io_map_err Benchmark.IoErr (fo_write fs p json) w)"

definition save_history_message :: "(benchmark_error, unit) result \<Rightarrow> daemon_message option" where
  "save_history_message r =
     (case r of
        Inr _ \<Rightarrow> None
      | Inl e \<Rightarrow> Some (DmError (TeGeneric (''failed to save benchmark history: '' @ show_benchmark_error e))))"

end
