(* ===== verification/Screen.thy ===== *)
theory Screen
  imports AppState
begin

text \<open>
  What the components draw with: areas, styles, spans and widgets, the theme's styles
  (\<open>theme.rs\<close>), text formatting (\<open>util.rs\<close>, \<open>benchmark.rs\<close>), the key table (\<open>ux.rs\<close>), overlay
  placement (\<open>ferro-wg-tui-components/src/util.rs\<close>) and the tab bar with its mouse hit test
  (\<open>tab_bar.rs\<close>).

  Drawing is the list of widgets given to the frame with their areas. The crates that draw,
  print floats and name times are the parameter \<open>ui_env\<close>.
\<close>

section \<open>Areas, styles, widgets\<close>

record rect =
  rx :: u16
  ry :: u16
  rw :: u16
  rh :: u16

abbreviation at_origin :: "u16 \<Rightarrow> u16 \<Rightarrow> rect" where
  "at_origin w h \<equiv> \<lparr>rx = 0, ry = 0, rw = w, rh = h\<rparr>"

datatype constraint = CLength u16 | CPercentage u16 | CMin u16

record style =
  sy_fg :: "color option"
  sy_bg :: "color option"
  sy_bold :: bool

definition default_style :: style where
  "default_style = \<lparr>sy_fg = None, sy_bg = None, sy_bold = False\<rparr>"

definition fg_style :: "color \<Rightarrow> style" where
  "fg_style c = default_style\<lparr>sy_fg := Some c\<rparr>"

type_synonym span = "string \<times> style"

definition raw_span :: "string \<Rightarrow> span" where
  "raw_span s = (s, default_style)"

datatype panel = NoBlock | Bordered "string option"

record table_widget =
  tw_block :: panel
  tw_header :: "string list"
  tw_header_style :: style
  tw_rows :: "span list list"
  tw_widths :: "constraint list"
  tw_highlight :: style

datatype widget =
    WClear
  | WBlock panel
  | WParagraph panel style bool "span list list"
  | WTable table_widget "nat option"
  | WList panel style "string list" "nat option"
  | WTabs panel "string list" nat style style
  | WBars panel nat nat style style "(string \<times> nat) list"
  | WSparkline panel style "nat list"
  | WGauge panel style float
  | WScrollbar nat nat

type_synonym drawn = "(rect \<times> widget) list"

text \<open>From ratatui: the area inside a bordered block, a vertical layout, and the selection a table
  or list of so many rows leaves in its state. From the standard library, humantime and chrono:
  a float with a number of decimals, a duration in words, a local time of day.\<close>

record ui_env =
  ui_inner :: "rect \<Rightarrow> rect"
  ui_split :: "constraint list \<Rightarrow> rect \<Rightarrow> rect list"
  ui_select :: "rect \<Rightarrow> nat \<Rightarrow> nat option \<Rightarrow> nat option"
  ui_fixed :: "nat \<Rightarrow> float \<Rightarrow> string"
  ui_humantime :: "duration \<Rightarrow> string"
  ui_local_time :: "int \<Rightarrow> string option"

section \<open>Theme\<close>

definition header_style :: "theme \<Rightarrow> style" where
  "header_style th = (fg_style (th_accent th))\<lparr>sy_bold := True\<rparr>"

definition highlight_style :: "theme \<Rightarrow> style" where
  "highlight_style th = default_style\<lparr>sy_bg := Some (th_highlight_bg th), sy_bold := True\<rparr>"

definition active_tab_style :: "theme \<Rightarrow> style" where
  "active_tab_style th = (fg_style (th_accent th))\<lparr>sy_bold := True\<rparr>"

definition inactive_tab_style :: "theme \<Rightarrow> style" where
  "inactive_tab_style th = fg_style (th_muted th)"

definition hotkey_style :: "theme \<Rightarrow> style" where
  "hotkey_style th = (fg_style (th_accent th))\<lparr>sy_bold := True\<rparr>"

definition panel_block :: "string \<Rightarrow> panel" where
  "panel_block title = Bordered (Some ('' '' @ title @ '' ''))"

definition overlay_block :: "string \<Rightarrow> panel" where
  "overlay_block title = Bordered (Some ('' '' @ title @ '' ''))"

section \<open>Text\<close>

text \<open>UTF-8 of the signs the screens use.\<close>

definition em_dash :: string where
  "em_dash = [CHR 0xE2, CHR 0x80, CHR 0x94]"

definition ellipsis :: string where
  "ellipsis = [CHR 0xE2, CHR 0x80, CHR 0xA6]"

definition full_circle :: string where
  "full_circle = [CHR 0xE2, CHR 0x97, CHR 0x8F]"

definition open_circle :: string where
  "open_circle = [CHR 0xE2, CHR 0x97, CHR 0x8B]"

definition cursor_block :: string where
  "cursor_block = [CHR 0xE2, CHR 0x96, CHR 0x88]"

definition times_sign :: string where
  "times_sign = [CHR 0xC3, CHR 0x97]"

text \<open>\<open>split_whitespace().next()\<close>: a word ends where white space begins.\<close>

fun word_prefix :: "string \<Rightarrow> string" where
  "word_prefix [] = []"
| "word_prefix (c # s) = (if trim_start (c # s) \<noteq> c # s then [] else c # word_prefix s)"

definition first_word :: "string \<Rightarrow> string option" where
  "first_word s = (let t = trim_start s in if t = [] then None else Some (word_prefix t))"

definition format_handshake_age :: "ui_env \<Rightarrow> duration \<Rightarrow> string" where
  "format_handshake_age ui d =
     (case first_word (ui_humantime ui d) of None \<Rightarrow> ''?'' | Some w \<Rightarrow> w) @ '' ago''"

definition format_bytes :: "ui_env \<Rightarrow> u64 \<Rightarrow> string" where
  "format_bytes ui b =
     (let n = unat b in
      if 1073741824 \<le> n then ui_fixed ui 1 (of_nat n / 1073741824) @ '' GiB''
      else if 1048576 \<le> n then ui_fixed ui 1 (of_nat n / 1048576) @ '' MiB''
      else if 1024 \<le> n then ui_fixed ui 1 (of_nat n / 1024) @ '' KiB''
      else show_nat n @ '' B'')"

definition throughput_units :: "string list" where
  "throughput_units = [''B/s'', ''KB/s'', ''MB/s'', ''GB/s'', ''TB/s'']"

function scale_unit :: "float \<Rightarrow> nat \<Rightarrow> float \<times> nat" where
  "scale_unit v i =
     (if 1000 \<le> v \<and> i < length throughput_units - 1 then scale_unit (v / 1000) (i + 1) else (v, i))"
  by pat_completeness auto

termination scale_unit
  by (relation "measure (\<lambda>(v, i). length throughput_units - i)") (auto simp: throughput_units_def)

definition format_throughput :: "ui_env \<Rightarrow> float \<Rightarrow> string" where
  "format_throughput ui bps =
     (case scale_unit bps 0 of (v, i) \<Rightarrow>
        ui_fixed ui (if i = 0 then 0 else 2) v @ '' '' @ throughput_units ! i)"

definition format_latency :: "ui_env \<Rightarrow> duration \<Rightarrow> string" where
  "format_latency ui d = ui_fixed ui 2 (of_nat (as_micros d) / 1000) @ '' ms''"

definition time_label :: "ui_env \<Rightarrow> log_entry \<Rightarrow> string" where
  "time_label ui e =
     (case ui_local_time ui (timestamp_ms e) of None \<Rightarrow> ''??:??:??'' | Some t \<Rightarrow> t)"

definition keybindings :: "(string \<times> string) list" where
  "keybindings = [
     (''q / Esc'', ''Quit''),
     (''?'', ''Toggle help''),
     (''T'', ''Toggle theme (Mocha/Latte)''),
     (''/'', ''Search''),
     (''i'', ''Import wg-quick config''),
     (''Tab / '' @ [CHR 0xE2, CHR 0x86, CHR 0x92], ''Next tab''),
     (''BackTab / '' @ [CHR 0xE2, CHR 0x86, CHR 0x90], ''Previous tab''),
     (''1'' @ [CHR 0xE2, CHR 0x80, CHR 0x93] @ ''6'', ''Jump to tab''),
     (''j / '' @ [CHR 0xE2, CHR 0x86, CHR 0x93], ''Next row''),
     (''k / '' @ [CHR 0xE2, CHR 0x86, CHR 0x91], ''Previous row''),
     (''u'', ''Connect all''),
     (''d'', ''Disconnect all (confirm)''),
     (''s'', ''Start daemon''),
     (''S'', ''Stop daemon (confirm)''),
     (''u'', ''Connect selected''),
     (''d'', ''Disconnect selected''),
     (''b'', ''Cycle backend''),
     (''Enter'', ''Benchmark selected backend''),
     (''w'', ''Switch to selected backend''),
     (''h'', ''Toggle history view''),
     (''e'', ''Export results''),
     (''e'', ''Edit focused field''),
     (''p'', ''Preview diff''),
     (''s'', ''Save config''),
     (''r'', ''Save and reconnect''),
     (''+'', ''Add peer''),
     (''x'', ''Delete peer (confirm)''),
     (''click tab'', ''Navigate to tab''),
     (''scroll '' @ [CHR 0xE2, CHR 0x86, CHR 0x95], ''Navigate rows'')]"

section \<open>Overlay placement\<close>

definition sat_subw :: "u16 \<Rightarrow> u16 \<Rightarrow> u16" where
  "sat_subw a b = (if a < b then 0 else a - b)"

text \<open>\<open>u16::try_from\<close> on the \<open>u32\<close> product.\<close>

definition centered_width :: "u16 \<Rightarrow> u16 \<Rightarrow> u16" where
  "centered_width pct w =
     (let n = unat w * unat pct div 100 in if n < 65536 then of_nat n else w)"

definition centered_rect :: "u16 \<Rightarrow> u16 \<Rightarrow> rect \<Rightarrow> rect" where
  "centered_rect pct height area =
     (let width = centered_width pct (rw area) in
      \<lparr>rx = rx area + sat_subw (rw area) width div 2,
       ry = ry area + sat_subw (rh area) height div 2,
       rw = min width (rw area), rh = min height (rh area)\<rparr>)"

section \<open>The tab bar\<close>

datatype mouse_kind = MouseScrollDown | MouseScrollUp | MouseDownLeft | MouseOther

record mouse_event =
  me_kind :: mouse_kind
  me_column :: u16
  me_row :: u16

definition tab_widths :: "u16 list" where
  "tab_widths = map (\<lambda>t. 4 + of_nat (length (tab_title t))) tab_all"

primrec tab_label_start :: "nat \<Rightarrow> u16" where
  "tab_label_start 0 = 2"
| "tab_label_start (Suc i) = tab_label_start i + (tab_widths ! i + 1)"

definition tab_hit_test :: "u16 \<Rightarrow> u16 \<Rightarrow> action option" where
  "tab_hit_test column x =
     (let relative = sat_subw column x in
      map_option (\<lambda>(i, t). ASelectTab t)
        (find (\<lambda>(i, t). let start = tab_label_start i; end = start + tab_widths ! i
            in start \<le> relative \<and> relative < end) (enumerate 0 tab_all)))"

definition resolve_mouse_action :: "mouse_event \<Rightarrow> rect \<Rightarrow> action option" where
  "resolve_mouse_action m area =
     (case me_kind m of
        MouseScrollDown \<Rightarrow> Some ANextRow
      | MouseScrollUp \<Rightarrow> Some APrevRow
      | MouseDownLeft \<Rightarrow>
          (if ry area \<le> me_row m \<and> me_row m < ry area + rh area \<and> rx area \<le> me_column m
           then tab_hit_test (me_column m) (rx area) else None)
      | MouseOther \<Rightarrow> None)"

definition tab_label :: "nat \<times> tab \<Rightarrow> string" where
  "tab_label x = '' '' @ show_nat (fst x + 1) @ '':'' @ tab_title (snd x) @ '' ''"

definition tab_bar_render :: "rect \<Rightarrow> app_state \<Rightarrow> drawn" where
  "tab_bar_render area s =
     [(area, WTabs (Bordered (Some '' ferro-wg '')) (map tab_label (enumerate 0 tab_all))
        (tab_index (active_tab s)) (inactive_tab_style (app_theme s)) (active_tab_style (app_theme s)))]"

section \<open>Properties\<close>

lemma tab_starts:
  "tab_label_start 0 = 2" "tab_label_start 1 = 15" "tab_label_start 2 = 26"
  "tab_label_start 3 = 36" "tab_label_start 4 = 48" "tab_label_start 5 = 59"
  by (simp_all add: tab_widths_def tab_all_def eval_nat_numeral)

lemma unat_bound: "unat (w::u16) < 65536"
  using unsigned_less [of w, where 'a = nat] by simp

lemma centered_width_le: "pct \<le> 100 \<Longrightarrow> centered_width pct w \<le> w"
proof -
  assume "pct \<le> 100"
  then have "unat pct \<le> 100" by (simp add: word_le_nat_alt)
  then have le: "unat w * unat pct div 100 \<le> unat w"
    by (metis div_le_mono mult_le_mono2 nonzero_mult_div_cancel_right zero_neq_numeral)
  then have "unat (of_nat (unat w * unat pct div 100) :: u16) = unat w * unat pct div 100"
    using unat_bound [of w] by (simp add: unsigned_of_nat take_bit_nat_eq_self)
  then show ?thesis using le by (simp add: centered_width_def Let_def word_le_nat_alt)
qed

text \<open>One axis of a centred area: where it starts, and that it ends inside.\<close>

lemma centre_axis:
  assumes "unat (a::u16) + unat w \<le> 65535"
  shows "unat (a + sat_subw w h div 2) = unat a + (unat w - unat h) div 2"
    and "unat (a + sat_subw w h div 2) + unat (min h w) \<le> unat a + unat w"
proof -
  have d: "unat (sat_subw w h div 2) = (unat w - unat h) div 2"
    by (auto simp: sat_subw_def unat_div_distrib unat_sub word_less_nat_alt not_less word_le_nat_alt)
  have b: "(unat w - unat h) div 2 \<le> unat w - unat h" by (rule div_le_dividend)
  have "unat (a + sat_subw w h div 2) = unat a + unat (sat_subw w h div 2)"
    by (rule unat_add_lem [THEN iffD1]) (use assms b in \<open>simp add: d\<close>)
  then show s: "unat (a + sat_subw w h div 2) = unat a + (unat w - unat h) div 2" by (simp add: d)
  have "unat (min h w) = min (unat h) (unat w)" by (simp add: min_def word_le_nat_alt)
  then show "unat (a + sat_subw w h div 2) + unat (min h w) \<le> unat a + unat w"
    unfolding s using b by linarith
qed

lemma centered_rect_x:
  assumes "unat (rx area) + unat (rw area) \<le> 65535" "pct \<le> 100"
  shows "unat (rx (centered_rect pct h area)) + unat (rw (centered_rect pct h area))
    \<le> unat (rx area) + unat (rw area)"
  using centre_axis(2) [OF assms(1), of "centered_width pct (rw area)"]
  by (simp add: centered_rect_def Let_def)

text \<open>An overlay lies inside the area it is centred in, and its two margins differ by at most
  one row.\<close>

theorem centered_rect_fits:
  assumes "unat (rx area) + unat (rw area) \<le> 65535" "unat (ry area) + unat (rh area) \<le> 65535"
    and "pct \<le> 100" "centered_rect pct h area = r"
  shows "unat (rx area) \<le> unat (rx r) \<and> unat (rx r) + unat (rw r) \<le> unat (rx area) + unat (rw area) \<and>
    unat (ry area) \<le> unat (ry r) \<and> unat (ry r) + unat (rh r) \<le> unat (ry area) + unat (rh area) \<and>
    rh r = min h (rh area)"
  using centre_axis [OF assms(1), of "centered_width pct (rw area)"]
    centre_axis [OF assms(2), of h] assms(4)
  by (auto simp: centered_rect_def Let_def)

theorem centered_rect_fits_witness:
  "rh (centered_rect 60 5 \<lparr>rx = 2, ry = 3, rw = 80, rh = 20\<rparr>) = min 5 (20::u16)"
  using centered_rect_fits [of "\<lparr>rx = 2, ry = 3, rw = 80, rh = 20\<rparr>" 60 5, OF _ _ _ refl] by simp

text \<open>An area within another.\<close>

definition inside :: "rect \<Rightarrow> rect \<Rightarrow> bool" where
  "inside a b =
     (unat (rx b) \<le> unat (rx a) \<and> unat (rx a) + unat (rw a) \<le> unat (rx b) + unat (rw b) \<and>
      unat (ry b) \<le> unat (ry a) \<and> unat (ry a) + unat (rh a) \<le> unat (ry b) + unat (rh b))"

lemma inside_refl [simp]: "inside a a"
  by (simp add: inside_def)

lemma inside_trans: "inside a b \<Longrightarrow> inside b c \<Longrightarrow> inside a c"
  by (auto simp: inside_def)

lemma inside_origin: "w \<le> w' \<Longrightarrow> h \<le> h' \<Longrightarrow> inside (at_origin w h) (at_origin w' h')"
  by (simp add: inside_def word_le_nat_alt)

lemma centered_inside:
  assumes "inside area (at_origin w h)" "pct \<le> 100"
  shows "inside (centered_rect pct k area) area"
proof -
  have "unat (rx area) + unat (rw area) \<le> 65535" "unat (ry area) + unat (rh area) \<le> 65535"
    using assms(1) unat_bound [of w] unat_bound [of h] by (auto simp: inside_def)
  from centered_rect_fits [OF this assms(2) refl, of k] show ?thesis by (auto simp: inside_def)
qed

lemma tab_widths_eq: "tab_widths = [12, 10, 9, 11, 10, 8]"
  by (simp add: tab_widths_def tab_all_def)

lemma enum_tabs: "enumerate 0 tab_all =
  [(0, TabOverview), (1, TabStatus), (2, TabPeers), (3, TabCompare), (4, TabConfig), (5, TabLogs)]"
  by (simp add: tab_all_def eval_nat_numeral)

lemma tab_hit_eq:
  "tab_hit_test column x =
     (let r = unat (sat_subw column x) in
      if 2 \<le> r \<and> r < 14 then Some (ASelectTab TabOverview)
      else if 15 \<le> r \<and> r < 25 then Some (ASelectTab TabStatus)
      else if 26 \<le> r \<and> r < 35 then Some (ASelectTab TabPeers)
      else if 36 \<le> r \<and> r < 47 then Some (ASelectTab TabCompare)
      else if 48 \<le> r \<and> r < 58 then Some (ASelectTab TabConfig)
      else if 59 \<le> r \<and> r < 67 then Some (ASelectTab TabLogs)
      else None)"
  unfolding tab_hit_test_def enum_tabs Let_def find.simps prod.case tab_starts tab_widths_eq
  by (simp add: word_le_nat_alt word_less_nat_alt tab_starts [unfolded One_nat_def])

text \<open>Where ratatui's \<open>Tabs\<close> puts the labels, as its documentation describes the defaults: after the
  border, a column of padding on either side of each label and a divider of one column between two
  of them. \<open>place\<close> is the column of a label in the bar.\<close>

definition tabs_layout :: "string list \<Rightarrow> (nat \<Rightarrow> nat) \<Rightarrow> bool" where
  "tabs_layout labels place =
     (place 0 = 2 \<and> list_all (\<lambda>i. place (Suc i) = place i + length (labels ! i) + 3) [0..<length labels - 1])"

lemma tab_labels: "map tab_label (enumerate 0 tab_all) =
    ['' 1:Overview '', '' 2:Status '', '' 3:Peers '', '' 4:Compare '', '' 5:Config '', '' 6:Logs '']"
  by code_simp

lemma tab_places:
  assumes "tabs_layout (map tab_label (enumerate 0 tab_all)) place"
  shows "place 0 = 2" "place 1 = 17" "place 2 = 30" "place 3 = 42" "place 4 = 56" "place 5 = 69"
  using assms unfolding tabs_layout_def tab_labels
  by (simp_all add: upt_rec numeral_eq_Suc)

text \<open>C39. A click selects a tab when it hits where the tab's label would be two columns further left
  for each tab before it: the bar that is drawn has two columns of padding between labels which the
  hit test does not count. So a click on the drawn label is the tab's only in the part that overlaps.\<close>

theorem tab_hit_iff:
  assumes "tab_bar_render area s = [(area, WTabs block labels sel st1 st2)]" "tabs_layout labels place"
  shows "tab_hit_test column (rx area) = Some (ASelectTab t) \<longleftrightarrow>
    place (tab_index t) \<le> unat (sat_subw column (rx area)) + 2 * tab_index t \<and>
    unat (sat_subw column (rx area)) + 2 * tab_index t < place (tab_index t) + length (labels ! tab_index t)"
proof -
  have l: "labels = map tab_label (enumerate 0 tab_all)" using assms(1) by (simp add: tab_bar_render_def)
  then show ?thesis
    using tab_places [of place] assms(2) unfolding l tab_labels
    by (cases t) (auto simp: tab_hit_eq Let_def)
qed

text \<open>A click in the middle of the drawn label of the configuration tab opens the logs.\<close>

theorem tab_hit_iff_witness:
  "\<exists>place. tabs_layout (map tab_label (enumerate 0 tab_all)) place \<and> place (tab_index TabConfig) = 56 \<and>
    tab_hit_test 60 0 = Some (ASelectTab TabLogs)"
proof -
  define place :: "nat \<Rightarrow> nat" where "place i = [2, 17, 30, 42, 56, 69] ! i" for i
  have l: "tabs_layout (map tab_label (enumerate 0 tab_all)) place"
    unfolding tabs_layout_def tab_labels place_def by code_simp
  have r: "tab_bar_render (at_origin 80 3) s = [(at_origin 80 3,
      WTabs (Bordered (Some '' ferro-wg '')) (map tab_label (enumerate 0 tab_all)) (tab_index (active_tab s))
        (inactive_tab_style (app_theme s)) (active_tab_style (app_theme s)))]" for s
    by (simp add: tab_bar_render_def)
  have "tab_hit_test 60 0 = Some (ASelectTab TabLogs)"
    using tab_hit_iff [OF r l, of 60 TabLogs]
    unfolding tab_labels by (simp add: place_def sat_subw_def)
  then show ?thesis using l by (auto simp: place_def)
qed

end
