(* ===== verification/Components.thy ===== *)
theory Components
  imports Screen
begin

text \<open>
  The tab and overlay components of \<open>ferro-wg-tui-components\<close> other than the log viewer and the
  connection bar: what each keeps, the action a key gives, its reaction to an action
  (\<open>update\<close>) and what it draws. A selection is the \<open>selected\<close> of a table or list state. \<open>None\<close> is a
  panic where the code can have one.
\<close>

section \<open>Shared pieces\<close>

definition visible_views :: "app_state \<Rightarrow> connection_view list" where
  "visible_views s = filter (\<lambda>c. cv_name c \<in> visible_connections s) (connections s)"

definition sel_or0 :: "nat option \<Rightarrow> nat" where
  "sel_or0 sel = (case sel of None \<Rightarrow> 0 | Some i \<Rightarrow> i)"

text \<open>The reaction every table has: one row down up to the last, one up, back to the top on a tab
  change.\<close>

definition row_update :: "nat \<Rightarrow> action \<Rightarrow> nat option \<Rightarrow> nat option" where
  "row_update mx a sel =
     (case a of
        ANextRow \<Rightarrow> Some (min (min (sel_or0 sel + 1) usize_max) mx)
      | APrevRow \<Rightarrow> Some (sel_or0 sel - 1)
      | ASelectTab _ \<Rightarrow> Some 0
      | ANextTab \<Rightarrow> Some 0
      | APrevTab \<Rightarrow> Some 0
      | _ \<Rightarrow> sel)"

definition row_key :: "key_code \<Rightarrow> action option" where
  "row_key k =
     (if k = KDown \<or> k = KChar ''j'' then Some ANextRow
      else if k = KUp \<or> k = KChar ''k'' then Some APrevRow
      else None)"

definition or_key :: "action option \<Rightarrow> action option \<Rightarrow> action option" where
  "or_key a b = (case a of None \<Rightarrow> b | Some x \<Rightarrow> Some x)"

text \<open>The trait's own \<open>handle_mouse\<close> (\<open>component.rs\<close>), which no component overrides.\<close>

definition component_handle_mouse :: "mouse_event \<Rightarrow> app_state \<Rightarrow> action option" where
  "component_handle_mouse m s = None"

lemma or_key_mouse [simp]: "or_key a (component_handle_mouse m s) = a"
  by (simp add: or_key_def component_handle_mouse_def split: option.split)

definition too_small :: "rect \<Rightarrow> bool" where
  "too_small area = (rh area = 0 \<or> rw area < 20)"

definition opt_text :: "string \<Rightarrow> ('a \<Rightarrow> string) \<Rightarrow> 'a option \<Rightarrow> string" where
  "opt_text d f x = (case x of None \<Rightarrow> d | Some y \<Rightarrow> f y)"

section \<open>Overview\<close>

definition overview_key :: "key_event \<Rightarrow> app_state \<Rightarrow> action option" where
  "overview_key key s =
     (let k = ke_code key in
      or_key (row_key k)
        (if k = KEnter then Some (ASelectTab TabStatus)
         else if k = KChar ''u'' then Some AConnectAll
         else if k = KChar ''d'' then Some (ARequestConfirm ''Tear down all connections?'' CDisconnectAll)
         else if k = KChar ''s'' \<and> \<not> daemon_connected s then Some AStartDaemon
         else if k = KChar ''S'' \<and> daemon_connected s
         then Some (ARequestConfirm ''Stop the running daemon?'' CStopDaemon)
         else None))"

definition overview_update :: "action \<Rightarrow> app_state \<Rightarrow> nat option \<Rightarrow> nat option" where
  "overview_update a s sel = row_update (length (visible_views s) - 1) a sel"

definition overview_status :: "theme \<Rightarrow> connection_status option \<Rightarrow> span" where
  "overview_status th st =
     (case st of
        None \<Rightarrow> (em_dash, fg_style (th_muted th))
      | Some c \<Rightarrow>
          if cst_state c = CsConnected \<and> cst_health_warning c = None
          then (full_circle @ '' Connected'', fg_style (th_success th))
          else if cst_state c = CsConnected
          then (full_circle @ '' Connected [!]'', fg_style (th_warning th))
          else (open_circle @ '' Disconnected'', fg_style (th_muted th)))"

definition handshake_text :: "ui_env \<Rightarrow> connection_status \<Rightarrow> string" where
  "handshake_text ui c = opt_text em_dash (format_handshake_age ui) (last_handshake (cst_stats c))"

definition overview_row :: "ui_env \<Rightarrow> theme \<Rightarrow> nat \<times> connection_view \<Rightarrow> span list" where
  "overview_row ui th x =
     (let st = cv_status (snd x) in
      [raw_span (show_nat (fst x + 1)),
       raw_span (cv_name (snd x)),
       overview_status th st,
       raw_span (opt_text em_dash (\<lambda>c. show_backend (cst_backend c)) st),
       raw_span (opt_text em_dash (\<lambda>c. opt_text em_dash (\<lambda>i. i) (cst_interface c)) st),
       raw_span (opt_text em_dash (\<lambda>c. format_bytes ui (tx_bytes (cst_stats c))) st),
       raw_span (opt_text em_dash (\<lambda>c. format_bytes ui (rx_bytes (cst_stats c))) st),
       raw_span (opt_text em_dash (handshake_text ui) st)])"

text \<open>The cursor is put back on the first row before every draw.\<close>

definition overview_render :: "ui_env \<Rightarrow> rect \<Rightarrow> app_state \<Rightarrow> nat option \<Rightarrow> drawn \<times> nat option" where
  "overview_render ui area s sel =
     (if too_small area then ([], sel)
      else
        (let th = app_theme s;
             rows = map (overview_row ui th) (enumerate 0 (visible_views s));
             table = \<lparr>tw_block = panel_block ''Overview'',
               tw_header = [''#'', ''Name'', ''Status'', ''Backend'', ''Interface'', ''Tx'', ''Rx'',
                 ''Last Handshake''],
               tw_header_style = header_style th,
               tw_rows = rows,
               tw_widths = [CLength 3, CPercentage 18, CPercentage 17, CPercentage 12, CPercentage 12,
                 CPercentage 10, CPercentage 10, CPercentage 21],
               tw_highlight = highlight_style th\<rparr>
         in ([(area, WTable table (Some 0))], ui_select ui area (length rows) (Some 0))))"

section \<open>Status\<close>

definition selected_connection_name :: "app_state \<Rightarrow> nat \<Rightarrow> string option" where
  "selected_connection_name s row = map_option cv_name (vec_get (visible_views s) row)"

definition status_key :: "key_event \<Rightarrow> app_state \<Rightarrow> nat option \<Rightarrow> action option" where
  "status_key key s sel =
     (let k = ke_code key; name = selected_connection_name s (sel_or0 sel) in
      or_key (row_key k)
        (if k = KEnter \<or> k = KChar ''u'' then map_option AConnectPeer name
         else if k = KChar ''d'' then map_option ADisconnectPeer name
         else if k = KChar ''b'' then map_option ACyclePeerBackend name
         else if k = KChar ''f'' then Some AShowConnectionFilter
         else None))"

definition status_update :: "action \<Rightarrow> app_state \<Rightarrow> nat option \<Rightarrow> nat option" where
  "status_update a s sel = row_update (length (visible_views s) - 1) a sel"

definition status_cells :: "ui_env \<Rightarrow> connection_status option \<Rightarrow> string list" where
  "status_cells ui st =
     (case st of
        None \<Rightarrow> [''down'', em_dash, em_dash, em_dash, em_dash, em_dash, em_dash]
      | Some c \<Rightarrow>
          [if cst_state c = CsConnected then ''connected'' else ''down'',
           show_backend (cst_backend c),
           opt_text em_dash (\<lambda>e. e) (cst_endpoint c),
           opt_text em_dash (\<lambda>i. i) (cst_interface c),
           format_bytes ui (rx_bytes (cst_stats c)) @ '' / '' @ format_bytes ui (tx_bytes (cst_stats c)),
           handshake_text ui c,
           opt_text em_dash (\<lambda>w. w) (cst_health_warning c)])"

definition connection_row :: "ui_env \<Rightarrow> theme \<Rightarrow> connection_view \<Rightarrow> span list" where
  "connection_row ui th v =
     (let connected = (case cv_status v of None \<Rightarrow> False | Some c \<Rightarrow> cst_state c = CsConnected);
          cells = status_cells ui (cv_status v)
      in raw_span (cv_name v) #
         (hd cells, fg_style (if connected then th_success th else th_muted th)) #
         map raw_span (tl cells))"

definition status_render :: "ui_env \<Rightarrow> rect \<Rightarrow> app_state \<Rightarrow> nat option \<Rightarrow> drawn \<times> nat option" where
  "status_render ui area s sel =
     (let th = app_theme s in
      if too_small area then ([], sel)
      else if visible_views s = [] then
        ([(area, WParagraph (panel_block ''Status'') (fg_style (th_muted th)) False
           [[raw_span ''No visible connections.'']])], sel)
      else
        (let rows = map (connection_row ui th) (visible_views s);
             table = \<lparr>tw_block = NoBlock,
               tw_header = [''Name'', ''Status'', ''Backend'', ''Endpoint'', ''Interface'', ''Rx / Tx'',
                 ''Handshake'', ''Warnings''],
               tw_header_style = header_style th,
               tw_rows = rows,
               tw_widths = [CPercentage 15, CPercentage 10, CPercentage 10, CPercentage 15,
                 CPercentage 10, CPercentage 15, CPercentage 15, CPercentage 10],
               tw_highlight = highlight_style th\<rparr>
         in ([(area, WBlock (panel_block ''Status'')), (ui_inner ui area, WTable table sel)],
             ui_select ui (ui_inner ui area) (length rows) sel)))"

section \<open>Peers\<close>

definition peers_key :: "key_event \<Rightarrow> action option" where
  "peers_key key = row_key (ke_code key)"

definition peers_update ::
  "(string \<Rightarrow> string) \<Rightarrow> action \<Rightarrow> app_state \<Rightarrow> nat option \<Rightarrow> nat option" where
  "peers_update lower a s sel = row_update (length (filtered_peers lower s) - 1) a sel"

text \<open>\<open>&pk[..10]\<close> panics on a shorter text.\<close>

definition peer_row :: "codec \<Rightarrow> theme \<Rightarrow> peer_config \<Rightarrow> span list option" where
  "peer_row cd th p =
     (let pk = public_to_base64 cd (pc_public_key p) in
      if length pk < 10 then None
      else Some
        [raw_span (pc_name p),
         raw_span (take 10 pk @ ''...''),
         (case pc_endpoint p of None \<Rightarrow> (em_dash, fg_style (th_muted th)) | Some e \<Rightarrow> raw_span e),
         raw_span (str_join '', '' (pc_allowed_ips p)),
         raw_span (show_nat (unat (pc_keepalive p)) @ ''s'')])"

definition collect_options :: "'a option list \<Rightarrow> 'a list option" where
  "collect_options xs = (if None \<in> set xs then None else Some (map the xs))"

definition peers_render ::
  "ui_env \<Rightarrow> app_env \<Rightarrow> rect \<Rightarrow> app_state \<Rightarrow> nat option \<Rightarrow> (drawn \<times> nat option) option" where
  "peers_render ui env area s sel =
     (if too_small area then Some ([], sel)
      else
        (case collect_options (map (peer_row (env_codec env) (app_theme s))
            (filtered_peers (env_lower env) s)) of
           None \<Rightarrow> None
         | Some rows \<Rightarrow>
             Some ([(area, WTable \<lparr>tw_block = panel_block ''Peers'',
               tw_header = [''Peer'', ''Public Key'', ''Endpoint'', ''Allowed IPs'', ''Keepalive''],
               tw_header_style = header_style (app_theme s),
               tw_rows = rows,
               tw_widths = [CPercentage 18, CPercentage 17, CPercentage 25, CPercentage 25, CPercentage 15],
               tw_highlight = highlight_style (app_theme s)\<rparr> sel)],
               ui_select ui area (length rows) sel)))"

section \<open>Compare\<close>

record compare_state =
  cm_table :: "nat option"
  cm_list :: "nat option"

definition backend_count :: nat where
  "backend_count = 3"

definition backend_names :: "string list" where
  "backend_names = [''boringtun'', ''neptun'', ''gotatun'']"

definition selected_backend :: "compare_state \<Rightarrow> string" where
  "selected_backend c =
     (case vec_get backend_names (sel_or0 (cm_table c)) of None \<Rightarrow> ''boringtun'' | Some b \<Rightarrow> b)"

definition compare_key :: "key_event \<Rightarrow> compare_state \<Rightarrow> action option" where
  "compare_key key c =
     (let k = ke_code key in
      or_key (row_key k)
        (if k = KChar ''b'' then Some AStartBenchmark
         else if k = KEnter then Some (AStartBenchmarkForBackend (selected_backend c))
         else if k = KChar ''w'' then Some (ASwitchBenchmarkBackend (selected_backend c))
         else if k = KChar ''h'' then Some AToggleCompareView
         else if k = KChar ''e'' then Some AEnterExport
         else None))"

definition compare_update :: "action \<Rightarrow> app_state \<Rightarrow> compare_state \<Rightarrow> compare_state" where
  "compare_update a s c =
     (case compare_view s of
        CvLive \<Rightarrow> c\<lparr>cm_table := row_update (backend_count - 1) a (cm_table c)\<rparr>
      | CvHistorical \<Rightarrow>
          c\<lparr>cm_list := row_update (length (benchmark_history s) - 1) a (cm_list c)\<rparr>)"

text \<open>\<open>available\<close> are the backends compiled in.\<close>

definition compare_row :: "ui_env \<Rightarrow> string set \<Rightarrow> app_state \<Rightarrow> string \<Rightarrow> span list" where
  "compare_row ui available s name =
     (let th = app_theme s; r = amap_get (benchmark_results s) name in
      [raw_span name,
       if name \<in> available then (''yes'', fg_style (th_success th)) else (''no'', fg_style (th_error th)),
       (em_dash, fg_style (th_muted th)),
       raw_span (opt_text em_dash (\<lambda>x. format_throughput ui (throughput_bps x)) r),
       raw_span (opt_text em_dash (\<lambda>x. format_latency ui (avg_latency x)) r)])"

text \<open>\<open>elapsed / total\<close> in \<open>f64\<close>, cut at 1: with no total it is infinite or not a number, and
  \<open>min\<close> gives 1 for both.\<close>

definition gauge_ratio :: "benchmark_progress \<Rightarrow> float" where
  "gauge_ratio p =
     (if unat (total_secs p) = 0 then 1
      else min (of_nat (unat (elapsed_secs p)) / of_nat (unat (total_secs p))) 1)"

definition gauge_of :: "app_state \<Rightarrow> widget" where
  "gauge_of s =
     (let st = fg_style (th_success (app_theme s)) in
      if benchmark_progress_history s = [] then WGauge (panel_block ''Progress (0/10)'') st 0
      else (let p = last (benchmark_progress_history s) in
        WGauge (panel_block (''Progress ('' @ show_nat (unat (elapsed_secs p)) @ ''/'' @
          show_nat (unat (total_secs p)) @ '')'')) st (gauge_ratio p)))"

text \<open>The sparkline shows the first slice of the deque, or the second when the first is empty:
  \<open>wrap\<close> is where the deque wraps around in memory.\<close>

definition front_slice :: "nat \<Rightarrow> 'a list \<Rightarrow> 'a list" where
  "front_slice wrap xs = (let left = take wrap xs in if left = [] then drop wrap xs else left)"

definition render_live ::
  "ui_env \<Rightarrow> string set \<Rightarrow> nat \<Rightarrow> rect \<Rightarrow> app_state \<Rightarrow> compare_state \<Rightarrow> drawn \<times> compare_state" where
  "render_live ui available wrap area s c =
     (let th = app_theme s;
          chunks = ui_split ui [CLength 6, CLength 6, CLength 3, CLength 1] area;
          table = \<lparr>tw_block = panel_block ''Compare'',
            tw_header = [''Backend'', ''Available'', ''Encap/s'', ''Throughput'', ''Latency''],
            tw_header_style = header_style th,
            tw_rows = map (compare_row ui available s) backend_names,
            tw_widths = [CPercentage 20, CPercentage 15, CPercentage 20, CPercentage 25, CPercentage 20],
            tw_highlight = highlight_style th\<rparr>
      in ([(chunks ! 0, WTable table (cm_table c)),
           (chunks ! 1, WBars (panel_block ''Throughput'') 3 1 (fg_style (th_accent th))
              (fg_style (th_text th)) (throughput_bar_data (benchmark_results s))),
           (chunks ! 2, WSparkline (panel_block ''Live Throughput'') (fg_style (th_accent th))
              (throughput_sparkline_data (front_slice wrap (benchmark_progress_history s))))] @
          (if benchmark_running s then [(chunks ! 3, gauge_of s)] else []),
          c\<lparr>cm_table := ui_select ui (chunks ! 0) backend_count (cm_table c)\<rparr>))"

definition history_item :: "benchmark_run \<Rightarrow> string" where
  "history_item run =
     show_i64 (run_timestamp_ms run) @ '' - '' @ run_connection_name run @ '' - best: '' @
     opt_text ''none'' (\<lambda>b. b) (best_backend (run_results run))"

definition render_historical ::
  "ui_env \<Rightarrow> rect \<Rightarrow> app_state \<Rightarrow> compare_state \<Rightarrow> drawn \<times> compare_state" where
  "render_historical ui area s c =
     (let items = map history_item (rev (benchmark_history s)) in
      ([(area, WList (panel_block ''Compare (historical)'') (highlight_style (app_theme s)) items
          (cm_list c))],
       c\<lparr>cm_list := ui_select ui area (length items) (cm_list c)\<rparr>))"

definition compare_render ::
  "ui_env \<Rightarrow> string set \<Rightarrow> nat \<Rightarrow> rect \<Rightarrow> app_state \<Rightarrow> compare_state \<Rightarrow> drawn \<times> compare_state" where
  "compare_render ui available wrap area s c =
     (if too_small area then ([], c)
      else (case compare_view s of
              CvLive \<Rightarrow> render_live ui available wrap area s c
            | CvHistorical \<Rightarrow> render_historical ui area s c))"

end
