(* ===== verification/Overlays.thy ===== *)
theory Overlays
  imports Components
begin

text \<open>
  The configuration tab (\<open>config.rs\<close>), the status bar (\<open>status_bar.rs\<close>) and what is drawn over the
  tabs: confirmation dialog, diff preview, help, connection filter and toasts.
\<close>

section \<open>The configuration tab\<close>

record config_tab =
  ct_section :: config_section
  ct_field :: nat

definition config_tab_new :: config_tab where
  "config_tab_new = \<lparr>ct_section = CsInterface, ct_field = 0\<rparr>"

definition tab_focus_next :: "config_tab \<Rightarrow> config_tab" where
  "tab_focus_next t =
     (let n = length (fields_for_section (ct_section t) False) in
      if n = 0 then t else t\<lparr>ct_field := (ct_field t + 1) mod n\<rparr>)"

definition tab_focus_prev :: "config_tab \<Rightarrow> config_tab" where
  "tab_focus_prev t =
     (let n = length (fields_for_section (ct_section t) False) in
      if n = 0 then t else t\<lparr>ct_field := (if ct_field t = 0 then n - 1 else ct_field t - 1)\<rparr>)"

definition can_edit_current_field :: "wg_config \<Rightarrow> config_tab \<Rightarrow> bool" where
  "can_edit_current_field c t =
     (case vec_get (fields_for_section (ct_section t) False) (ct_field t) of
        None \<Rightarrow> False
      | Some f \<Rightarrow>
          if f = FPeerPublicKey then
            (case ct_section t of CsPeer i \<Rightarrow> length (wg_peers c) \<le> i | CsInterface \<Rightarrow> False)
          else True)"

text \<open>The connection the tab works on: of no visible one \<open>Some None\<close>; the two \<open>unwrap\<close>s panic.\<close>

definition config_connection :: "app_state \<Rightarrow> connection_view option option" where
  "config_connection s =
     (case set_min (visible_connections s) of
        None \<Rightarrow> Some None
      | Some name \<Rightarrow> (case find_connection name s of None \<Rightarrow> None | Some v \<Rightarrow> Some (Some v)))"

definition delete_request :: "wg_config \<Rightarrow> config_tab \<Rightarrow> action option" where
  "delete_request c t =
     (case ct_section t of
        CsPeer i \<Rightarrow>
          (if i < length (wg_peers c)
           then Some (ARequestConfirm (''Delete peer '' @ show_nat i @ ''?'') (CDeletePeer i))
           else None)
      | CsInterface \<Rightarrow> None)"

definition config_key ::
  "key_event \<Rightarrow> app_state \<Rightarrow> config_tab \<Rightarrow> (action option \<times> config_tab) option" where
  "config_key key s t =
     (case config_connection s of
        None \<Rightarrow> None
      | Some None \<Rightarrow> Some (None, t)
      | Some (Some v) \<Rightarrow>
          (let k = ke_code key in
           Some
            (if active_tab s \<noteq> TabConfig \<or> input_mode s \<noteq> MNormal then (None, t)
             else if k = KChar ''j'' \<or> k = KDown then (None, tab_focus_next t)
             else if k = KChar ''k'' \<or> k = KUp then (None, tab_focus_prev t)
             else if k = KChar ''e'' then
               (if can_edit_current_field (cv_config v) t
                then Some (AEnterConfigEdit (ct_section t) (ct_field t)) else None, t)
             else if k = KChar ''+'' then (Some AAddConfigPeer, t)
             else if k = KChar ''x'' then (delete_request (cv_config v) t, t)
             else if k = KChar ''p'' then (Some APreviewConfig, t)
             else if k = KEsc then (Some ADiscardConfigEdits, t)
             else (None, t))))"

text \<open>Moving the focus by an action looks the connection up first.\<close>

definition tab_focus_move ::
  "(config_tab \<Rightarrow> config_tab) \<Rightarrow> app_state \<Rightarrow> config_tab \<Rightarrow> config_tab option" where
  "tab_focus_move f s t =
     (case config_connection s of None \<Rightarrow> None | Some None \<Rightarrow> Some t | Some (Some _) \<Rightarrow> Some (f t))"

definition config_update :: "action \<Rightarrow> app_state \<Rightarrow> config_tab \<Rightarrow> config_tab option" where
  "config_update a s t =
     (case a of
        AConfigFocusInterface \<Rightarrow> Some (t\<lparr>ct_section := CsInterface, ct_field := 0\<rparr>)
      | AConfigFocusPeer i \<Rightarrow> Some (t\<lparr>ct_section := CsPeer i, ct_field := 0\<rparr>)
      | AConfigFocusNext \<Rightarrow> tab_focus_move tab_focus_next s t
      | AConfigFocusPrev \<Rightarrow> tab_focus_move tab_focus_prev s t
      | ADeleteConfigPeer i \<Rightarrow>
          (case ct_section t of
             CsInterface \<Rightarrow> Some t
           | CsPeer j \<Rightarrow>
               if j = i then
                 (case config_connection s of
                    None \<Rightarrow> None
                  | Some None \<Rightarrow> Some t
                  | Some (Some v) \<Rightarrow>
                      Some (if wg_peers (cv_config v) = []
                            then t\<lparr>ct_section := CsInterface, ct_field := 0\<rparr> else t))
               else if i < j then Some (t\<lparr>ct_section := CsPeer (j - 1)\<rparr>)
               else Some t)
      | _ \<Rightarrow> Some t)"

text \<open>Label, text and whether the field is read-only. Unlike the edit buffer, ports, MTU and mark
  show 0.\<close>

definition peer_display ::
  "config_section \<Rightarrow> wg_config \<Rightarrow> string \<Rightarrow> bool \<Rightarrow> (peer_config \<Rightarrow> string) \<Rightarrow> string \<times> string \<times> bool" where
  "peer_display sec c label ro f =
     (case peer_at sec c of None \<Rightarrow> (label, [], False) | Some p \<Rightarrow> (label, f p, ro))"

fun get_field_display ::
  "codec \<Rightarrow> editable_field \<Rightarrow> config_section \<Rightarrow> wg_config \<Rightarrow> string \<times> string \<times> bool" where
  "get_field_display cd FListenPort sec c =
     (''Listen Port'', show_nat (unat (if_listen_port (wg_interface c))), False)"
| "get_field_display cd FAddresses sec c =
     (''Addresses'', str_join '', '' (if_addresses (wg_interface c)), False)"
| "get_field_display cd FDns sec c =
     (''DNS'', str_join '', '' (map show_ip (if_dns (wg_interface c))), False)"
| "get_field_display cd FDnsSearch sec c =
     (''DNS Search'', str_join '', '' (if_dns_search (wg_interface c)), False)"
| "get_field_display cd FMtu sec c = (''MTU'', show_nat (unat (if_mtu (wg_interface c))), False)"
| "get_field_display cd FFwmark sec c =
     (''Fwmark'', show_nat (unat (if_fwmark (wg_interface c))), False)"
| "get_field_display cd FPreUp sec c = (''PreUp'', str_join '', '' (if_pre_up (wg_interface c)), False)"
| "get_field_display cd FPostUp sec c =
     (''PostUp'', str_join '', '' (if_post_up (wg_interface c)), False)"
| "get_field_display cd FPreDown sec c =
     (''PreDown'', str_join '', '' (if_pre_down (wg_interface c)), False)"
| "get_field_display cd FPostDown sec c =
     (''PostDown'', str_join '', '' (if_post_down (wg_interface c)), False)"
| "get_field_display cd FPeerName sec c = peer_display sec c ''Name'' False pc_name"
| "get_field_display cd FPeerPublicKey sec c =
     peer_display sec c ''Public Key'' True (\<lambda>p. public_to_base64 cd (pc_public_key p))"
| "get_field_display cd FPeerEndpoint sec c =
     peer_display sec c ''Endpoint'' False (\<lambda>p. case pc_endpoint p of None \<Rightarrow> [] | Some e \<Rightarrow> e)"
| "get_field_display cd FPeerAllowedIps sec c =
     peer_display sec c ''Allowed IPs'' False (\<lambda>p. str_join '', '' (pc_allowed_ips p))"
| "get_field_display cd FPeerKeepalive sec c =
     peer_display sec c ''Persistent Keepalive'' False (\<lambda>p. nonzero_text (unat (pc_keepalive p)))"

definition field_buffer :: "app_state \<Rightarrow> config_section \<Rightarrow> bool \<Rightarrow> string option" where
  "field_buffer s sec focused =
     (case config_edit s of
        None \<Rightarrow> None
      | Some e \<Rightarrow> if ce_focused_section e = sec \<and> focused then ce_edit_buffer e else None)"

definition field_lines ::
  "codec \<Rightarrow> app_state \<Rightarrow> config_tab \<Rightarrow> wg_config \<Rightarrow> config_section \<Rightarrow> nat \<times> editable_field \<Rightarrow>
   span list list" where
  "field_lines cd s t c sec x =
     (let th = app_theme s;
          focused = (sec = ct_section t \<and> fst x = ct_field t);
          buffer = field_buffer s sec focused;
          err = (if buffer = None then None
                 else (case config_edit s of None \<Rightarrow> None | Some e \<Rightarrow> ce_field_error e))
      in case get_field_display cd (snd x) sec c of (label, value, read_only) \<Rightarrow>
        [[if focused then
            (if buffer \<noteq> None then (''[editing] '', fg_style (th_accent th))
             else (''[focused] '', fg_style (th_warning th)))
          else raw_span ''          '',
          (label @ '': '', fg_style (th_accent th))] @
         (case buffer of
            Some b \<Rightarrow> [raw_span b, (cursor_block, fg_style (th_muted th))]
          | None \<Rightarrow>
              (value, if read_only then fg_style (th_muted th) else default_style) #
              (if read_only then [('' (read-only)'', fg_style (th_muted th))] else []))] @
        (case err of None \<Rightarrow> [] | Some m \<Rightarrow> [[(''  Error: '' @ m, fg_style (th_error th))]]))"

definition section_lines ::
  "codec \<Rightarrow> app_state \<Rightarrow> config_tab \<Rightarrow> wg_config \<Rightarrow> config_section \<Rightarrow> span list list" where
  "section_lines cd s t c sec =
     concat (map (field_lines cd s t c sec) (enumerate 0 (fields_for_section sec False)))"

definition config_lines :: "codec \<Rightarrow> app_state \<Rightarrow> config_tab \<Rightarrow> wg_config \<Rightarrow> span list list" where
  "config_lines cd s t c =
     (let accent = fg_style (th_accent (app_theme s)) in
      [(''[Interface]'', accent)] # section_lines cd s t c CsInterface @
      concat (map (\<lambda>i. [raw_span []] # [(''[Peer '' @ show_nat i @ '']'', accent)] #
          section_lines cd s t c (CsPeer i)) [0..<length (wg_peers c)]))"

definition config_render :: "app_env \<Rightarrow> rect \<Rightarrow> app_state \<Rightarrow> config_tab \<Rightarrow> drawn option" where
  "config_render env area s t =
     (if too_small area then Some []
      else
        (case config_connection s of
           None \<Rightarrow> None
         | Some None \<Rightarrow>
             Some [(area, WParagraph (panel_block ''Config'') (fg_style (th_muted (app_theme s))) False
               [[raw_span ''No connections configured.'']])]
         | Some (Some v) \<Rightarrow>
             Some [(area, WParagraph (panel_block ''Config'') default_style False
               (config_lines (env_codec env) s t (cv_config v)))]))"

section \<open>The status bar\<close>

definition status_bar_key :: "key_event \<Rightarrow> app_state \<Rightarrow> action option" where
  "status_bar_key key s =
     (let k = ke_code key in
      case input_mode s of
        MSearch \<Rightarrow>
          (case k of
             KEsc \<Rightarrow> Some AExitSearch
           | KEnter \<Rightarrow> Some AExitSearch
           | KBackspace \<Rightarrow> Some ASearchBackspace
           | KChar c \<Rightarrow> Some (ASearchInput c)
           | _ \<Rightarrow> None)
      | MImport _ \<Rightarrow>
          (case k of KEsc \<Rightarrow> Some AExitImport | KEnter \<Rightarrow> Some ASubmitImport | _ \<Rightarrow> Some (AImportKey key))
      | MExport _ \<Rightarrow>
          (case k of KEsc \<Rightarrow> Some AExitExport | KEnter \<Rightarrow> Some ASubmitExport | _ \<Rightarrow> Some (AExportKey key))
      | MNormal \<Rightarrow> None
      | MEditField \<Rightarrow> None)"

definition daemon_indicator :: "app_state \<Rightarrow> span" where
  "daemon_indicator s =
     (if daemon_connected s then ('' [*] '', fg_style (th_success (app_theme s)))
      else ('' [o] '', fg_style (th_muted (app_theme s))))"

text \<open>A hint is a key and what it does.\<close>

definition hint :: "theme \<Rightarrow> string \<times> string \<Rightarrow> span list" where
  "hint th h = [(fst h, hotkey_style th), raw_span (snd h)]"

definition hints :: "theme \<Rightarrow> (string \<times> string) list \<Rightarrow> span list" where
  "hints th hs = concat (map (hint th) hs)"

definition config_hints :: "app_state \<Rightarrow> span list" where
  "config_hints s =
     (let th = app_theme s;
          editing = (case config_edit s of None \<Rightarrow> False | Some e \<Rightarrow> ce_edit_buffer e \<noteq> None)
      in if editing
         then hints th [(''Enter'', '' confirm  ''), (''Esc'', '' cancel  '')] @
           [raw_span ''(type to edit)'']
         else hints th [(''e'', '' edit  ''), (''j/k'', '' nav  ''), (''p'', '' preview  ''),
           (''+'', '' add peer  ''), (''x'', '' delete peer'')])"

definition tab_hints :: "app_state \<Rightarrow> span list" where
  "tab_hints s =
     (let th = app_theme s in
      case active_tab s of
        TabOverview \<Rightarrow>
          hints th [(''u'', '' up-all  ''), (''d'', '' down-all  '')] @
          hints th [if daemon_connected s then (''S'', '' stop  '') else (''s'', '' start  '')]
      | TabStatus \<Rightarrow> hints th [(''u'', '' up  ''), (''d'', '' down  ''), (''b'', '' backend  '')]
      | TabCompare \<Rightarrow>
          (case compare_view s of
             CvLive \<Rightarrow> hints th [(''b'', '' benchmark  ''), (''Enter'', '' run selected  ''),
               (''w'', '' use backend  ''), (''h'', '' history  ''), (''e'', '' export  '')]
           | CvHistorical \<Rightarrow> hints th [(''h'', '' live view  ''), (''e'', '' export  '')])
      | TabConfig \<Rightarrow> config_hints s
      | _ \<Rightarrow> [])"

definition normal_hints :: "app_state \<Rightarrow> span list" where
  "normal_hints s =
     daemon_indicator s #
     hints (app_theme s) [(''q'', '' quit  ''), (''/'', '' search  ''), (''i'', '' import  '')] @
     tab_hints s @ hints (app_theme s) [(''j/k'', '' nav'')]"

definition prompt :: "theme \<Rightarrow> string \<Rightarrow> string \<Rightarrow> span list" where
  "prompt th label buf =
     [(label, fg_style (th_warning th)), raw_span buf, (''_'', fg_style (th_muted th))]"

definition status_line :: "app_state \<Rightarrow> span list" where
  "status_line s =
     (case input_mode s of
        MSearch \<Rightarrow> prompt (app_theme s) '' /'' (search_query s)
      | MImport buf \<Rightarrow> prompt (app_theme s) '' Import path: '' buf
      | MExport buf \<Rightarrow> prompt (app_theme s) '' Export path: '' buf
      | MNormal \<Rightarrow> normal_hints s
      | MEditField \<Rightarrow> normal_hints s)"

definition status_bar_render :: "rect \<Rightarrow> app_state \<Rightarrow> drawn" where
  "status_bar_render area s = [(area, WParagraph (Bordered None) default_style False [status_line s])]"

section \<open>Confirmation and help\<close>

definition confirm_key :: "key_event \<Rightarrow> app_state \<Rightarrow> action option" where
  "confirm_key key s =
     (case pending_confirm s of
        None \<Rightarrow> None
      | Some _ \<Rightarrow>
          if ke_code key = KChar ''y'' \<or> ke_code key = KChar ''Y'' then Some AConfirmYes
          else Some AConfirmNo)"

definition overlay :: "ui_env \<Rightarrow> rect \<Rightarrow> string \<Rightarrow> widget \<Rightarrow> drawn" where
  "overlay ui area title w =
     [(area, WClear), (area, WBlock (overlay_block title)), (ui_inner ui area, w)]"

definition confirm_render :: "ui_env \<Rightarrow> rect \<Rightarrow> app_state \<Rightarrow> drawn" where
  "confirm_render ui area s =
     (case pending_confirm s of
        None \<Rightarrow> []
      | Some p \<Rightarrow>
          overlay ui (centered_rect 60 5 area) ''Confirm''
            (WParagraph NoBlock default_style True
              (map (\<lambda>l. [raw_span l]) (str_lines (cp_message p @ [nl, nl] @ ''[y] confirm   [n] cancel'')))))"

definition help_key :: "key_event \<Rightarrow> app_state \<Rightarrow> action option" where
  "help_key key s =
     (if \<not> show_help s then None
      else if ke_code key = KChar ''?'' \<or> ke_code key = KChar ''q'' \<or> ke_code key = KEsc then Some AHideHelp
      else None)"

definition help_render :: "ui_env \<Rightarrow> rect \<Rightarrow> app_state \<Rightarrow> drawn" where
  "help_render ui area s =
     (if \<not> show_help s then []
      else overlay ui (centered_rect 90 (min (rh area div 2) 30) area) ''Help''
        (WTable \<lparr>tw_block = NoBlock, tw_header = [],
           tw_header_style = default_style,
           tw_rows = map (\<lambda>(k, d). [raw_span k, raw_span d]) keybindings,
           tw_widths = [CPercentage 50, CPercentage 50], tw_highlight = default_style\<rparr> None))"

section \<open>Diff preview\<close>

definition diff_key :: "key_event \<Rightarrow> app_state \<Rightarrow> action option" where
  "diff_key key s =
     (let k = ke_code key in
      case config_diff_pending s of
        None \<Rightarrow> None
      | Some _ \<Rightarrow>
          if k = KChar ''s'' then Some (ASaveConfig False)
          else if k = KChar ''r'' then Some (ASaveConfig True)
          else if k = KChar ''j'' \<or> k = KDown then Some AConfigDiffScrollDown
          else if k = KChar ''k'' \<or> k = KUp then Some AConfigDiffScrollUp
          else if k = KEsc \<or> k = KChar ''q'' then Some ADiscardConfigEdits
          else None)"

fun diff_spans :: "theme \<Rightarrow> diff_line \<Rightarrow> span list" where
  "diff_spans th (Added c) = [(''+'', fg_style (th_success th)), (c, fg_style (th_success th))]"
| "diff_spans th (Removed c) = [(''-'', fg_style (th_error th)), (c, fg_style (th_error th))]"
| "diff_spans th (Ctx c) = [(c, fg_style (th_muted th))]"

text \<open>\<open>&xs[a..b]\<close>.\<close>

definition slice :: "nat \<Rightarrow> nat \<Rightarrow> 'a list \<Rightarrow> 'a list option" where
  "slice a b xs = (if a \<le> b \<and> b \<le> length xs then Some (take (b - a) (drop a xs)) else None)"

definition diff_lines_drawn :: "rect \<Rightarrow> config_diff_pending \<Rightarrow> theme \<Rightarrow> span list list option" where
  "diff_lines_drawn area d th =
     (let visible = min 15 (sat_subw (rh area) 1);
          start = cd_scroll_offset d;
          end = min (start + unat visible) (length (cd_diff_lines d))
      in map_option (\<lambda>ls. map (diff_spans th) ls @
           [[(''[s] save   [r] save & reconnect   [j/k] scroll   [Esc] discard'',
              fg_style (th_muted th))]])
         (slice start end (cd_diff_lines d)))"

definition diff_height :: "config_diff_pending \<Rightarrow> u16" where
  "diff_height d = of_nat (min (length (cd_diff_lines d)) 15) + 4"

definition diff_render :: "ui_env \<Rightarrow> rect \<Rightarrow> app_state \<Rightarrow> drawn option" where
  "diff_render ui area s =
     (case config_diff_pending s of
        None \<Rightarrow> Some []
      | Some d \<Rightarrow>
          (let r = centered_rect 80 (diff_height d) area in
           map_option (\<lambda>ls. overlay ui r (''Config Diff '' @ em_dash @ '' preview'')
               (WParagraph NoBlock default_style False ls))
             (diff_lines_drawn (ui_inner ui r) d (app_theme s))))"

section \<open>Connection filter\<close>

definition filtered_connections :: "(string \<Rightarrow> string) \<Rightarrow> app_state \<Rightarrow> connection_view list" where
  "filtered_connections lower s =
     (let query = lower (connection_filter_search s) in
      filter (\<lambda>v. query = [] \<or> str_contains (lower (cv_name v)) query) (connections s))"

definition filter_key ::
  "(string \<Rightarrow> string) \<Rightarrow> key_event \<Rightarrow> app_state \<Rightarrow> nat option \<Rightarrow> action option" where
  "filter_key lower key s sel =
     (if \<not> show_connection_filter s then None
      else (case ke_code key of
              KEsc \<Rightarrow> Some AHideConnectionFilter
            | KChar c \<Rightarrow> Some (ASetConnectionFilterSearch (str_push (connection_filter_search s) c))
            | KBackspace \<Rightarrow> Some (ASetConnectionFilterSearch (str_pop (connection_filter_search s)))
            | KUp \<Rightarrow> Some APrevRow
            | KDown \<Rightarrow> Some ANextRow
            | KEnter \<Rightarrow>
                (case sel of
                   None \<Rightarrow> None
                 | Some i \<Rightarrow> map_option (\<lambda>v. AToggleConnectionVisibility (cv_name v))
                     (vec_get (filtered_connections lower s) i))
            | _ \<Rightarrow> None))"

definition filter_update ::
  "(string \<Rightarrow> string) \<Rightarrow> action \<Rightarrow> app_state \<Rightarrow> nat option \<Rightarrow> nat option" where
  "filter_update lower a s sel =
     (if \<not> show_connection_filter s then sel
      else (case a of
              ANextRow \<Rightarrow> Some (min (sel_or0 sel + 1) (length (filtered_connections lower s) - 1))
            | APrevRow \<Rightarrow> Some (sel_or0 sel - 1)
            | ASetConnectionFilterSearch _ \<Rightarrow> Some 0
            | AShowConnectionFilter \<Rightarrow> Some 0
            | _ \<Rightarrow> sel))"

definition filter_row :: "app_state \<Rightarrow> connection_view \<Rightarrow> span list" where
  "filter_row s v =
     [raw_span ((if cv_name v \<in> visible_connections s then ''[x]'' else ''[ ]'') @ '' '' @ cv_name v)]"

definition filter_render ::
  "ui_env \<Rightarrow> (string \<Rightarrow> string) \<Rightarrow> rect \<Rightarrow> app_state \<Rightarrow> nat option \<Rightarrow> drawn \<times> nat option" where
  "filter_render ui lower area s sel =
     (if \<not> show_connection_filter s then ([], sel)
      else
        (let r = centered_rect 80 20 area;
             chunks = ui_split ui [CLength 3, CMin 0] (ui_inner ui r);
             shown = filtered_connections lower s;
             head = [(r, WClear), (r, WBlock (overlay_block ''Connection Filter'')),
               (chunks ! 0, WParagraph (Bordered (Some ''Search'')) default_style False
                  [[raw_span (''Search: '' @ connection_filter_search s)]])]
         in if shown = [] then
              (head @ [(chunks ! 1, WParagraph (Bordered (Some ''Connections'')) default_style False
                 [[raw_span ''No visible connections.'']])], sel)
            else
              (head @ [(chunks ! 1, WTable \<lparr>tw_block = Bordered (Some ''Connections''), tw_header = [],
                 tw_header_style = default_style,
                 tw_rows = map (filter_row s) shown, tw_widths = [CPercentage 100],
                 tw_highlight = highlight_style (app_theme s)\<rparr> sel)],
               ui_select ui (chunks ! 1) (length shown) sel)))"

section \<open>Toasts\<close>

definition toast_span :: "theme \<Rightarrow> toast \<Rightarrow> span" where
  "toast_span th t =
     ((if to_is_error t then ''x '' else ''* '') @ to_message t,
      fg_style (if to_is_error t then th_error th else th_success th))"

text \<open>From the bottom row up, newest first, never on the top row.\<close>

fun toast_rows :: "rect \<Rightarrow> theme \<Rightarrow> toast list \<Rightarrow> u16 \<Rightarrow> drawn" where
  "toast_rows area th [] y = []"
| "toast_rows area th (t # ts) y =
     (if y = 0 then []
      else
        (let width = min 40 (rw area);
             r = \<lparr>rx = sat_subw (rw area) width, ry = y, rw = width, rh = 1\<rparr>
         in (r, WClear) # (r, WParagraph NoBlock default_style False [[toast_span th t]]) #
            toast_rows area th ts (sat_subw y 1)))"

definition toast_render :: "rect \<Rightarrow> app_state \<Rightarrow> drawn" where
  "toast_render area s = toast_rows area (app_theme s) (rev (toasts s)) (sat_subw (rh area) 1)"

end
