(* ===== verification/LogView.thy ===== *)
theory LogView
  imports Components "HOL-Library.Sublist" Host
begin

text \<open>
  The log viewer (\<open>ferro-wg-tui-components/src/logs.rs\<close>): highlighting, its scroll state, keys and
  drawing. A span's content is \<open>Cow\<close>: only borrowed body is highlighted. The highlighting loop ends
  because every match moves the cursor on by the length of the query.
\<close>

section \<open>Highlighting\<close>

text \<open>\<open>find\<close>: the position of the first match.\<close>

definition str_find :: "string \<Rightarrow> string \<Rightarrow> nat option" where
  "str_find pat s = map_option (\<lambda>(a, b). length a) (str_cut pat s)"

lemma str_cut_eq: "str_cut pat s = Some (a, b) \<Longrightarrow> s = a @ pat @ b"
proof (induction s arbitrary: a)
  case (Cons c s)
  show ?case
  proof (cases "prefix pat (c # s)")
    case True
    then show ?thesis using Cons.prems by (auto simp: prefix_def)
  next
    case False
    then show ?thesis using Cons by auto
  qed
qed (auto split: if_splits)

lemma str_cut_first:
  "str_cut pat s = Some (a, b) \<Longrightarrow> pat \<noteq> [] \<Longrightarrow> str_cut pat a = None"
proof (induction s arbitrary: a)
  case (Cons c s)
  show ?case
  proof (cases "prefix pat (c # s)")
    case True
    then show ?thesis using Cons.prems by auto
  next
    case False
    then obtain a' where a: "a = c # a'" "str_cut pat s = Some (a', b)" using Cons.prems by auto
    then have "\<not> prefix pat (c # a')"
      using False str_cut_eq [OF a(2)] prefix_prefix [of pat "c # a'" "pat @ b"] by auto
    then show ?thesis using Cons a by simp
  qed
qed simp

text \<open>Nothing is found before the first match.\<close>

lemma str_find_first: "str_find pat s = Some p \<Longrightarrow> pat \<noteq> [] \<Longrightarrow> str_find pat (take p s) = None"
proof -
  assume "str_find pat s = Some p" "pat \<noteq> []"
  then obtain a b where c: "str_cut pat s = Some (a, b)" "p = length a" by (auto simp: str_find_def)
  then have "take p s = a" using str_cut_eq [OF c(1)] by simp
  then show ?thesis using str_cut_first [OF c(1) \<open>pat \<noteq> []\<close>] by (simp add: str_find_def)
qed

lemma str_find_le: "str_find pat s = Some p \<Longrightarrow> p + length pat \<le> length s"
  by (auto simp: str_find_def dest!: str_cut_eq)

lemma str_find_at: "str_find pat s = Some p \<Longrightarrow> take (length pat) (drop p s) = pat"
  by (auto simp: str_find_def dest!: str_cut_eq)

text \<open>The loop runs on a query that is not empty.\<close>

function highlight_loop ::
  "string \<Rightarrow> string \<Rightarrow> string \<Rightarrow> style \<Rightarrow> style \<Rightarrow> nat \<Rightarrow> span list" where
  "highlight_loop body lower query base hl cursor =
     (case (if query = [] then None else str_find query (drop cursor lower)) of
        None \<Rightarrow> if cursor < length body then [(drop cursor body, base)] else []
      | Some pos \<Rightarrow>
          (let hit = cursor + pos in
           (if cursor < hit then [(take (hit - cursor) (drop cursor body), base)] else []) @
           [(take (length query) (drop hit body), hl)] @
           highlight_loop body lower query base hl (hit + length query)))"
  by pat_completeness auto

termination highlight_loop
  by (relation "measure (\<lambda>(body, lower, query, base, hl, cursor). length lower - cursor)")
    (auto split: if_splits dest!: str_find_le simp flip: length_greater_0_conv)

declare highlight_loop.simps [simp del]

definition highlight_matches :: "string \<Rightarrow> string \<Rightarrow> style \<Rightarrow> style \<Rightarrow> span list" where
  "highlight_matches body query base hl =
     (if query = [] then [(body, base)]
      else highlight_loop body (to_ascii_lowercase body) query base hl 0)"

datatype cow = Borrowed string | Owned string

fun cow_text :: "cow \<Rightarrow> string" where
  "cow_text (Borrowed s) = s"
| "cow_text (Owned s) = s"

type_synonym log_span = "cow \<times> style"

definition borrow :: "span \<Rightarrow> log_span" where
  "borrow x = (Borrowed (fst x), snd x)"

definition apply_search_highlights :: "log_span list \<Rightarrow> string \<Rightarrow> style \<Rightarrow> log_span list" where
  "apply_search_highlights spans query hl =
     (if query = [] \<or> spans = [] then spans
      else (case last spans of
              (Borrowed msg, base) \<Rightarrow> butlast spans @ map borrow (highlight_matches msg query base hl)
            | (Owned s, base) \<Rightarrow> butlast spans @ [(Owned s, base)]))"

section \<open>State\<close>

record scroll_state =
  ss_offset :: nat
  ss_auto :: bool
  ss_height :: nat

definition default_scroll :: scroll_state where
  "default_scroll = \<lparr>ss_offset = 0, ss_auto = True, ss_height = 0\<rparr>"

record log_view =
  lw_scroll :: scroll_state
  lw_level :: log_level
  lw_filter :: connection_filter

definition log_view_new :: log_view where
  "log_view_new = \<lparr>lw_scroll = default_scroll, lw_level = LDebug, lw_filter = CfAll\<rparr>"

definition visible_entry :: "string set \<Rightarrow> log_entry \<Rightarrow> bool" where
  "visible_entry vis e = (case connection_name e of None \<Rightarrow> True | Some n \<Rightarrow> n \<in> vis)"

definition get_filtered_entries :: "log_view \<Rightarrow> log_entry list \<Rightarrow> string \<Rightarrow> string set \<Rightarrow> log_entry list" where
  "get_filtered_entries v buf search vis =
     (let found = filtered_lines buf search (lw_level v) CfAll None in
      if lw_filter v = CfActive then filter (visible_entry vis) found else found)"

definition filtered_total :: "log_view \<Rightarrow> app_state \<Rightarrow> nat option" where
  "filtered_total v s =
     (if lb_poisoned (log_entries s) then None
      else Some (length (get_filtered_entries v (lb_entries (log_entries s))
        (to_ascii_lowercase (search_query s)) (visible_connections s))))"

definition display_offset :: "nat \<Rightarrow> scroll_state \<Rightarrow> nat" where
  "display_offset len sc = (if ss_auto sc then len - ss_height sc else ss_offset sc)"

definition log_scroll_up :: "scroll_state \<Rightarrow> scroll_state" where
  "log_scroll_up sc =
     (if 0 < ss_offset sc then sc\<lparr>ss_offset := ss_offset sc - 1, ss_auto := False\<rparr> else sc)"

definition log_scroll_down :: "nat \<Rightarrow> scroll_state \<Rightarrow> scroll_state" where
  "log_scroll_down len sc =
     (if ss_offset sc < len - ss_height sc
      then sc\<lparr>ss_offset := ss_offset sc + 1, ss_auto := False\<rparr> else sc)"

definition jump_to_top :: "scroll_state \<Rightarrow> scroll_state" where
  "jump_to_top sc = sc\<lparr>ss_offset := 0, ss_auto := False\<rparr>"

definition jump_to_bottom :: "nat \<Rightarrow> scroll_state \<Rightarrow> scroll_state" where
  "jump_to_bottom len sc = sc\<lparr>ss_offset := len - ss_height sc, ss_auto := True\<rparr>"

definition snap_back :: "log_view \<Rightarrow> log_view" where
  "snap_back v = v\<lparr>lw_scroll := (lw_scroll v)\<lparr>ss_auto := True, ss_offset := 0\<rparr>\<rparr>"

definition cycle_level :: "log_view \<Rightarrow> log_view" where
  "cycle_level v = snap_back (v\<lparr>lw_level := level_cycle (lw_level v)\<rparr>)"

definition toggle_connection_filter :: "log_view \<Rightarrow> log_view" where
  "toggle_connection_filter v = snap_back (v\<lparr>lw_filter := toggle_filter (lw_filter v)\<rparr>)"

definition scroll_with :: "(scroll_state \<Rightarrow> scroll_state) \<Rightarrow> log_view \<Rightarrow> log_view" where
  "scroll_with f v = v\<lparr>lw_scroll := f (lw_scroll v)\<rparr>"

text \<open>No key gives an action.\<close>

definition logs_key :: "key_event \<Rightarrow> app_state \<Rightarrow> log_view \<Rightarrow> log_view" where
  "logs_key key s v =
     (let k = ke_code key in
      if k = KUp \<or> k = KChar ''k'' then scroll_with log_scroll_up v
      else if k = KChar ''g'' then scroll_with jump_to_top v
      else if k = KDown \<or> k = KChar ''j'' then
        (case filtered_total v s of None \<Rightarrow> v | Some n \<Rightarrow> scroll_with (log_scroll_down n) v)
      else if k = KChar ''G'' then
        (case filtered_total v s of None \<Rightarrow> v | Some n \<Rightarrow> scroll_with (jump_to_bottom n) v)
      else if k = KChar ''l'' then cycle_level v
      else if k = KChar ''c'' then toggle_connection_filter v
      else v)"

section \<open>Drawing\<close>

definition level_style :: "log_level \<Rightarrow> bool \<Rightarrow> theme \<Rightarrow> style" where
  "level_style l colored th =
     (if \<not> colored then default_style
      else fg_style (case l of
          LTrace \<Rightarrow> th_muted th
        | LDebug \<Rightarrow> th_accent th
        | LInfo \<Rightarrow> th_success th
        | LWarn \<Rightarrow> th_warning th
        | LError \<Rightarrow> th_error th))"

definition render_entry :: "ui_env \<Rightarrow> log_entry \<Rightarrow> log_display_config \<Rightarrow> theme \<Rightarrow> log_span list" where
  "render_entry ui e c th =
     (if show_timestamps c
      then [(Owned (''['' @ time_label ui e @ '']''), fg_style (th_accent th)), borrow (raw_span '' '')]
      else []) @
     [(Owned (''['' @ badge (level e) @ '']''), level_style (level e) (color_badges c) th),
      borrow (raw_span '' ''), borrow (raw_span (message e))]"

definition match_style :: "theme \<Rightarrow> style" where
  "match_style th = default_style\<lparr>sy_bg := Some (th_warning th), sy_bold := True\<rparr>"

definition log_lines ::
  "ui_env \<Rightarrow> app_state \<Rightarrow> string \<Rightarrow> nat \<Rightarrow> nat \<Rightarrow> log_entry list \<Rightarrow> span list list" where
  "log_lines ui s search offset height shown =
     (if shown = [] then [[(''(no log entries yet)'', fg_style (th_muted (app_theme s)))]]
      else map (\<lambda>e. map (\<lambda>(c, st). (cow_text c, st))
          (apply_search_highlights (render_entry ui e (log_display s) (app_theme s)) search
            (match_style (app_theme s))))
        (take height (drop offset shown)))"

definition logs_title :: "log_view \<Rightarrow> string \<Rightarrow> nat \<Rightarrow> string" where
  "logs_title v search len =
     ''Logs ['' @ title_label (lw_level v) @ ''] ['' @
     (case lw_filter v of CfAll \<Rightarrow> ''all'' | CfActive \<Rightarrow> ''visible'') @ '']'' @
     (if search = [] then [] else '' ['' @ show_nat len @ '' matches]'')"

definition logs_render :: "ui_env \<Rightarrow> rect \<Rightarrow> app_state \<Rightarrow> log_view \<Rightarrow> drawn \<times> log_view" where
  "logs_render ui area s v =
     (if too_small area \<or> lb_poisoned (log_entries s) then ([], v)
      else
        (let search = to_ascii_lowercase (search_query s);
             shown = get_filtered_entries v (lb_entries (log_entries s)) search (visible_connections s);
             len = length shown;
             v' = scroll_with (\<lambda>sc. sc\<lparr>ss_height := unat (sat_subw (rh area) 2)\<rparr>) v;
             offset = display_offset len (lw_scroll v')
         in ([(area, WParagraph (panel_block (logs_title v' search len)) default_style False
                 (log_lines ui s search offset (ss_height (lw_scroll v')) shown)),
              (area, WScrollbar len offset)], v')))"

section \<open>Highlighting keeps the body\<close>

lemma highlight_loop_text:
  "cursor \<le> length body \<Longrightarrow> length lower = length body \<Longrightarrow>
   concat (map fst (highlight_loop body lower query base hl cursor)) = drop cursor body"
proof (induction body lower query base hl cursor rule: highlight_loop.induct)
  case (1 body lower query base hl cursor)
  show ?case
  proof (cases "if query = [] then None else str_find query (drop cursor lower)")
    case None
    then show ?thesis using 1(2) by (subst highlight_loop.simps) simp
  next
    case (Some pos)
    then have "str_find query (drop cursor lower) = Some pos" by (auto split: if_splits)
    then have le: "cursor + pos + length query \<le> length body"
      using str_find_le [of query "drop cursor lower" pos] 1(2,3) by simp
    have ih: "concat (map fst (highlight_loop body lower query base hl (cursor + pos + length query))) =
        drop (cursor + pos + length query) body"
      by (rule 1(1) [OF Some refl]) (use le 1(3) in simp_all)
    have "take pos (drop cursor body) @ take (length query) (drop (cursor + pos) body) @
        drop (cursor + pos + length query) body = drop cursor body"
      by (metis add.commute append_take_drop_id drop_drop)
    then show ?thesis using ih
      by (subst highlight_loop.simps, cases "pos = 0") (simp_all add: Some Let_def)
  qed
qed

lemma highlight_loop_matches:
  "query \<noteq> [] \<Longrightarrow> lower = to_ascii_lowercase body \<Longrightarrow>
   (m, st) \<in> set (highlight_loop body lower query base hl cursor) \<Longrightarrow>
   st = hl \<and> to_ascii_lowercase m = query \<or> st = base \<and> str_find query (to_ascii_lowercase m) = None"
proof (induction body lower query base hl cursor rule: highlight_loop.induct)
  case (1 body lower query base hl cursor)
  have piece: "to_ascii_lowercase (take n (drop k body)) = take n (drop k lower)"
    "to_ascii_lowercase (drop k body) = drop k lower" for n k
    using 1(3) by (simp_all add: to_ascii_lowercase_def take_map drop_map)
  show ?case
  proof (cases "if query = [] then None else str_find query (drop cursor lower)")
    case None
    then show ?thesis
      using 1(2,4) by (subst (asm) highlight_loop.simps) (auto simp: piece split: if_splits)
  next
    case (Some pos)
    then have f: "str_find query (drop cursor lower) = Some pos" by (auto split: if_splits)
    then have "take (length query) (drop (cursor + pos) lower) = query"
      using str_find_at [of query "drop cursor lower" pos] by (simp add: add.commute)
    then show ?thesis
      using 1(1) [OF Some refl 1(2,3)] 1(4) str_find_first [OF f 1(2)]
      by (subst (asm) highlight_loop.simps) (auto simp: Some Let_def piece split: if_splits)
  qed
qed

text \<open>C38. Highlighting only cuts a message up: its pieces put together are the message, byte for
  byte and in its own case. It finds every match: each highlighted piece is the query when case is
  ignored, and no other piece has a match in it.\<close>

theorem highlight_keeps_text:
  "concat (map fst (highlight_matches body query base hl)) = body \<and>
   (\<forall>(m, st) \<in> set (highlight_matches body query base hl).
      st = hl \<and> to_ascii_lowercase m = query \<or>
      st = base \<and> (query = [] \<or> str_find query (to_ascii_lowercase m) = None))"
  using highlight_loop_text [of 0 body "to_ascii_lowercase body" query base hl]
    highlight_loop_matches [of query "to_ascii_lowercase body" body _ _ base hl 0]
  by (cases "query = []") (fastforce simp: highlight_matches_def to_ascii_lowercase_def)+

theorem highlight_keeps_text_witness:
  "concat (map fst (highlight_matches ''An Error'' ''error'' default_style (fg_style (Rgb 255 0 0)))) = ''An Error'' \<and>
   map fst (highlight_matches ''An Error'' ''error'' default_style (fg_style (Rgb 255 0 0))) = [''An '', ''Error'']"
proof
  show "map fst (highlight_matches ''An Error'' ''error'' default_style (fg_style (Rgb 255 0 0))) = [''An '', ''Error'']"
    by code_simp
qed (use highlight_keeps_text [of "''An Error''" "''error''" default_style "fg_style (Rgb 255 0 0)"] in simp)

section \<open>Scrolling\<close>

text \<open>The stored offset is what scrolling works on, and while the view follows the log it is not
  the offset shown. A view that follows more entries than fit and has not been scrolled before does
  not react to scrolling up, and scrolling down one row takes it to the second entry, almost the
  top; after a jump to the bottom both work.\<close>

theorem follow_scroll_jumps:
  assumes "ss_auto sc" "ss_offset sc = 0" "ss_height sc + 1 < n"
  shows "display_offset n sc = n - ss_height sc \<and> log_scroll_up sc = sc \<and>
    display_offset n (log_scroll_down n sc) = 1 \<and>
    display_offset n (log_scroll_up (jump_to_bottom n sc)) = n - ss_height sc - 1"
  using assms by (simp add: display_offset_def log_scroll_up_def log_scroll_down_def jump_to_bottom_def)

theorem follow_scroll_jumps_witness:
  "display_offset 100 (log_scroll_down 100 (default_scroll\<lparr>ss_height := 20\<rparr>)) = 1"
  using follow_scroll_jumps [of "default_scroll\<lparr>ss_height := 20\<rparr>" 100]
  by (simp add: default_scroll_def)

end
