(* ===== verification/ConnectionBar.thy ===== *)
theory ConnectionBar
  imports Components
begin

text \<open>
  The bar of connections under the tabs (\<open>connection_bar.rs\<close>): names cut to twenty characters,
  the width of every entry, the window of entries around the selected one that fits, and the line
  drawn. The loop that grows the window ends because each round moves one of its ends outwards.
\<close>

section \<open>Entries\<close>

definition max_display_name_len :: nat where
  "max_display_name_len = 20"

definition connection_bar_height :: u16 where
  "connection_bar_height = 1"

definition prefix_width :: nat where
  "prefix_width = 14"

definition right_indicator_width :: nat where
  "right_indicator_width = 2"

definition min_useful_width :: u16 where
  "min_useful_width = 40"

definition truncate_name :: "string \<Rightarrow> string" where
  "truncate_name name =
     (if max_display_name_len < length (chars name)
      then concat (take max_display_name_len (chars name)) @ ellipsis else name)"

fun count_digits :: "nat \<Rightarrow> nat" where
  "count_digits n = (if 0 < n then 1 + count_digits (n div 10) else 0)"

declare count_digits.simps [simp del]

definition digit_count :: "nat \<Rightarrow> nat" where
  "digit_count n = (if n = 0 then 1 else count_digits n)"

definition entry_width :: "nat \<Rightarrow> string \<Rightarrow> bool \<Rightarrow> nat" where
  "entry_width index display_name selected =
     (let label_width = 2 + digit_count (index + 1) in
      if selected then label_width + 1 + length (chars display_name) + 1 + 1 + 2
      else label_width + 1 + 2)"

section \<open>The window\<close>

definition grow_left :: "nat list \<Rightarrow> nat \<Rightarrow> nat \<times> nat \<times> bool \<Rightarrow> nat \<times> nat \<times> bool" where
  "grow_left ws budget x =
     (case x of (start, used, grew) \<Rightarrow>
        if 0 < start \<and> used + ws ! (start - 1) \<le> budget
        then (start - 1, used + ws ! (start - 1), True) else x)"

definition grow_right :: "nat list \<Rightarrow> nat \<Rightarrow> nat \<times> nat \<times> bool \<Rightarrow> nat \<times> nat \<times> bool" where
  "grow_right ws budget x =
     (case x of (stop, used, grew) \<Rightarrow>
        if stop + 1 < length ws \<and> used + ws ! (stop + 1) \<le> budget
        then (stop + 1, used + ws ! (stop + 1), True) else x)"

function grow :: "nat list \<Rightarrow> nat \<Rightarrow> nat \<Rightarrow> nat \<Rightarrow> nat \<Rightarrow> nat \<times> nat" where
  "grow ws budget start stop used =
     (case grow_left ws budget (start, used, False) of
        (start', used', left) \<Rightarrow>
          (case grow_right ws budget (stop, used', left) of
             (stop', used'', grew) \<Rightarrow>
               if grew then grow ws budget start' stop' used'' else (start', stop')))"
  by pat_completeness auto

termination grow
  by (relation "measure (\<lambda>(ws, budget, start, stop, used). start + (length ws - stop))")
    (auto simp: grow_left_def grow_right_def split: if_splits)

declare grow.simps [simp del]

text \<open>\<open>None\<close>: the assertions of a debug build, and the index and the subtraction that fail without
  them.\<close>

definition viewport :: "nat list \<Rightarrow> nat \<Rightarrow> nat \<Rightarrow> (nat \<times> nat) option" where
  "viewport ws selected area_width =
     (if ws = [] \<or> length ws \<le> selected then None
      else if sum_list ws + prefix_width \<le> area_width then Some (0, length ws - 1)
      else
        (let budget = area_width - (prefix_width + right_indicator_width); sel_w = ws ! selected in
         if budget < sel_w then Some (selected, selected)
         else Some (grow ws budget selected selected sel_w)))"

section \<open>Keys and drawing\<close>

definition connection_bar_key :: "key_event \<Rightarrow> action option" where
  "connection_bar_key key =
     (if ke_code key = KChar ''['' then Some ASelectPrevConnection
      else if ke_code key = KChar '']'' then Some ASelectNextConnection
      else None)"

definition bar_indicator :: "theme \<Rightarrow> connection_status option \<Rightarrow> span" where
  "bar_indicator th st =
     (case st of
        None \<Rightarrow> (''?'', fg_style (th_muted th))
      | Some c \<Rightarrow>
          if cst_state c = CsConnected \<and> cst_health_warning c = None
          then (full_circle, fg_style (th_success th))
          else if cst_state c = CsConnected then (''!'', fg_style (th_warning th))
          else (open_circle, fg_style (th_muted th)))"

definition bar_entry :: "theme \<Rightarrow> nat \<Rightarrow> nat \<Rightarrow> connection_view \<Rightarrow> span list" where
  "bar_entry th sel i v =
     (let label = ''['' @ show_nat (i + 1) @ '']'' in
      if i = sel then
        (let st = (fg_style (th_accent th))\<lparr>sy_bold := True\<rparr> in
         [(label @ '' '', st), (truncate_name (cv_name v), st), raw_span '' '',
          bar_indicator th (cv_status v), raw_span ''  ''])
      else [raw_span label, bar_indicator th (cv_status v), raw_span ''  ''])"

definition bar_spans :: "theme \<Rightarrow> nat \<Rightarrow> connection_view list \<Rightarrow> nat \<times> nat \<Rightarrow> span list" where
  "bar_spans th sel vs w =
     (case w of (first, final) \<Rightarrow>
        (if 0 < first then [(''< '', fg_style (th_muted th))] else [raw_span '' Connections: '']) @
        concat (map (\<lambda>i. bar_entry th sel i (vs ! i)) [first..<Suc final]) @
        (if final < length vs - 1 then [('' >'', fg_style (th_muted th))] else []))"

text \<open>The selected entry is always the first.\<close>

definition connection_bar_render :: "rect \<Rightarrow> app_state \<Rightarrow> drawn option" where
  "connection_bar_render area s =
     (let vs = connections s; sel = 0;
          widths = map (\<lambda>(i, v). entry_width i (truncate_name (cv_name v)) (i = sel)) (enumerate 0 vs)
      in if length vs \<le> 1 \<or> rw area = 0 then Some []
         else map_option (\<lambda>w. [(area, WParagraph NoBlock default_style False
             [bar_spans (app_theme s) sel vs w])])
           (viewport widths sel (unat (rw area))))"

section \<open>Lemmas\<close>

lemma length_chars_ascii: "is_ascii s \<Longrightarrow> length (chars s) = length s"
proof (induction s)
  case (Cons c s)
  then have "takeWhile is_cont s = []" "dropWhile is_cont s = s"
    by (cases s; auto simp: is_ascii_def is_cont_def)+
  then show ?case using Cons by (simp add: is_ascii_def)
qed simp

lemma is_ascii_show_nat: "is_ascii (show_nat n)"
  by (auto simp: is_ascii_def is_digit_def dest: show_nat_digits)

lemma count_digits_show: "0 < n \<Longrightarrow> count_digits n = length (show_nat n)"
proof (induction n rule: count_digits.induct)
  case (1 n)
  then show ?case
    by (cases "n < 10") (auto simp: count_digits.simps [of n] count_digits.simps [of 0] show_nat.simps [of n])
qed

lemma digit_count_show: "digit_count n = length (show_nat n)"
  by (simp add: digit_count_def count_digits_show show_nat.simps [of 0])

definition span_width :: "span list \<Rightarrow> nat" where
  "span_width sps = sum_list (map (\<lambda>x. length (chars (fst x))) sps)"

lemma span_width_append [simp]: "span_width (a @ b) = span_width a + span_width b"
  by (simp add: span_width_def)

lemma span_width_Cons [simp]: "span_width (x # b) = length (chars (fst x)) + span_width b"
  by (simp add: span_width_def)

lemma span_width_Nil [simp]: "span_width [] = 0"
  by (simp add: span_width_def)

lemma indicator_width: "length (chars (fst (bar_indicator th st))) = 1"
  by (auto simp: bar_indicator_def full_circle_def open_circle_def is_cont_def split: option.splits)

lemma label_ascii: "is_ascii (''['' @ show_nat n @ '']'')" "is_ascii (''['' @ show_nat n @ ''] '')"
  using is_ascii_show_nat [of n] by (simp_all add: is_ascii_def)

text \<open>The width computed for an entry is the number of characters drawn for it.\<close>

lemma bar_entry_width:
  "span_width (bar_entry th sel i v) = entry_width i (truncate_name (cv_name v)) (i = sel)"
proof -
  have "length (chars (''['' @ show_nat (i + 1) @ '']'')) = 2 + digit_count (i + 1)"
    using label_ascii(1) [of "i + 1"] by (subst length_chars_ascii) (simp_all add: digit_count_show)
  moreover have "length (chars (''['' @ show_nat (i + 1) @ ''] '')) = 3 + digit_count (i + 1)"
    using label_ascii(2) [of "i + 1"] by (subst length_chars_ascii) (simp_all add: digit_count_show)
  ultimately show ?thesis
    by (cases "i = sel") (simp_all add: bar_entry_def entry_width_def Let_def raw_span_def
      indicator_width is_cont_def)
qed

subsection \<open>The window\<close>

lemma grow_left_spec:
  assumes "grow_left ws budget (start, used, False) = (start', used', left)"
    and "start \<le> stop" "used = (\<Sum>i = start..stop. ws ! i)" "used \<le> budget"
  shows "start' \<le> start" "used' = (\<Sum>i = start'..stop. ws ! i)" "used' \<le> budget"
    and "\<not> left \<Longrightarrow> start' = start \<and> used' = used \<and> (0 < start \<longrightarrow> budget < used + ws ! (start - 1))"
proof -
  have "0 < start \<Longrightarrow> (\<Sum>i = start - 1..stop. ws ! i) = ws ! (start - 1) + (\<Sum>i = start..stop. ws ! i)"
    using assms(2) sum.atLeast_Suc_atMost [of "start - 1" stop "\<lambda>i. ws ! i"] by simp
  then show "start' \<le> start" "used' = (\<Sum>i = start'..stop. ws ! i)" "used' \<le> budget"
    and "\<not> left \<Longrightarrow> start' = start \<and> used' = used \<and> (0 < start \<longrightarrow> budget < used + ws ! (start - 1))"
    using assms by (auto simp: grow_left_def split: if_splits)
qed

lemma grow_right_spec:
  assumes "grow_right ws budget (stop, used, left) = (stop', used', grew)"
    and "start \<le> stop" "stop < length ws" "used = (\<Sum>i = start..stop. ws ! i)" "used \<le> budget"
  shows "stop \<le> stop'" "stop' < length ws" "used' = (\<Sum>i = start..stop'. ws ! i)" "used' \<le> budget"
    and "\<not> grew \<Longrightarrow> \<not> left \<and> stop' = stop \<and> used' = used \<and>
      (stop + 1 < length ws \<longrightarrow> budget < used + ws ! (stop + 1))"
  using assms by (auto simp: grow_right_def split: if_splits)

text \<open>A window that leaves no room for its neighbours.\<close>

definition window_full :: "nat list \<Rightarrow> nat \<Rightarrow> nat \<Rightarrow> nat \<Rightarrow> bool" where
  "window_full ws budget a b =
     (let used = (\<Sum>i = a..b. ws ! i) in
      used \<le> budget \<and> (0 < a \<longrightarrow> budget < used + ws ! (a - 1)) \<and>
      (b + 1 < length ws \<longrightarrow> budget < used + ws ! (b + 1)))"

lemma grow_spec:
  assumes "grow ws budget start stop used = (a, b)" "start \<le> sel" "sel \<le> stop" "stop < length ws"
    and "used = (\<Sum>i = start..stop. ws ! i)" "used \<le> budget"
  shows "a \<le> sel \<and> sel \<le> b \<and> b < length ws \<and> window_full ws budget a b"
  using assms
proof (induction ws budget start stop used rule: grow.induct)
  case (1 ws budget start stop used)
  obtain start' used' left where l: "grow_left ws budget (start, used, False) = (start', used', left)"
    by (cases "grow_left ws budget (start, used, False)") auto
  obtain stop' used'' grew where r: "grow_right ws budget (stop, used', left) = (stop', used'', grew)"
    by (cases "grow_right ws budget (stop, used', left)") auto
  have le: "start \<le> stop" using 1 by simp
  note L = grow_left_spec [OF l le 1(6) 1(7)]
  have le': "start' \<le> stop" using L(1) le by simp
  note R = grow_right_spec [OF r le' 1(5) L(2) L(3)]
  have eq: "grow ws budget start stop used =
      (if grew then grow ws budget start' stop' used'' else (start', stop'))"
    by (subst grow.simps) (simp add: l r)
  show ?case
  proof (cases grew)
    case True
    then show ?thesis
      using 1(1) [OF l [symmetric] refl r [symmetric] refl True] 1(2-4) L(1) R eq by simp
  next
    case False
    then have "a = start" "b = stop" "\<not> left" "start' = start" "used' = used"
      using L(4) R(5) eq 1(2) by auto
    then show ?thesis using L(4) R(5) False 1(3-7) by (simp add: window_full_def)
  qed
qed

lemma window_sum: "(\<Sum>i = 0..length ws - 1. ws ! i) = sum_list ws" if "ws \<noteq> []" for ws :: "nat list"
  using that by (simp add: sum_list_sum_nth atLeast0LessThan [symmetric] atLeastLessThanSuc_atLeastAtMost
      [symmetric])

definition window_ok :: "nat list \<Rightarrow> nat \<Rightarrow> nat \<Rightarrow> nat \<Rightarrow> nat \<Rightarrow> bool" where
  "window_ok ws selected w a b =
     (a \<le> selected \<and> selected \<le> b \<and> b < length ws \<and>
      (if w < ws ! selected + 16 \<and> w < sum_list ws + 14 then a = selected \<and> b = selected
       else (if a = 0 then 14 else 2) + (\<Sum>i = a..b. ws ! i) + (if b = length ws - 1 then 0 else 2) \<le> w \<and>
         (a = 0 \<and> b = length ws - 1 \<or> window_full ws (w - 16) a b)))"

text \<open>The window exists for every selection, holds the selected entry, fits the terminal with its label
  or arrows, unless the selected entry alone is too wide, and cannot be larger.\<close>

lemma viewport_spec:
  assumes "selected < length ws" "16 \<le> w"
  shows "\<exists>a b. viewport ws selected w = Some (a, b) \<and> window_ok ws selected w a b"
proof (cases "sum_list ws + 14 \<le> w")
  case True
  moreover have "ws \<noteq> []" using assms by auto
  ultimately show ?thesis
    using assms window_sum [of ws] by (auto simp: viewport_def window_ok_def prefix_width_def)
next
  case False
  have v: "viewport ws selected w =
      (if w - 16 < ws ! selected then Some (selected, selected)
       else Some (grow ws (w - 16) selected selected (ws ! selected)))"
    using assms False by (auto simp: viewport_def prefix_width_def right_indicator_width_def)
  show ?thesis
  proof (cases "w - 16 < ws ! selected")
    case True
    then have "w < ws ! selected + 16" using assms(2) by linarith
    then show ?thesis using v True False assms(1) by (auto simp: window_ok_def)
  next
    case small: False
    obtain a b where g: "grow ws (w - 16) selected selected (ws ! selected) = (a, b)"
      by (cases "grow ws (w - 16) selected selected (ws ! selected)") auto
    have ab: "a \<le> selected \<and> selected \<le> b \<and> b < length ws \<and> window_full ws (w - 16) a b"
      by (rule grow_spec [OF g]) (use assms small in auto)
    then have "(\<Sum>i = a..b. ws ! i) \<le> w - 16" by (simp add: window_full_def Let_def)
    then have "(\<Sum>i = a..b. ws ! i) + 16 \<le> w" using assms(2) by linarith
    then show ?thesis using ab v small g assms(2) by (auto simp: window_ok_def)
  qed
qed

subsection \<open>The line\<close>

lemma span_width_concat: "span_width (concat (map f xs)) = sum_list (map (\<lambda>x. span_width (f x)) xs)"
  by (induction xs) auto

definition entry_widths :: "connection_view list \<Rightarrow> nat list" where
  "entry_widths vs = map (\<lambda>(i, v). entry_width i (truncate_name (cv_name v)) (i = 0)) (enumerate 0 vs)"

lemma bar_spans_width:
  assumes "b < length vs" "a \<le> b"
  shows "span_width (bar_spans th 0 vs (a, b)) =
    (if a = 0 then 14 else 2) + (\<Sum>i = a..b. entry_widths vs ! i) + (if b = length vs - 1 then 0 else 2)"
proof -
  have "sum_list (map (\<lambda>i. span_width (bar_entry th 0 i (vs ! i))) [a..<Suc b]) =
      (\<Sum>i = a..b. span_width (bar_entry th 0 i (vs ! i)))"
    by (simp add: interv_sum_list_conv_sum_set_nat atLeastLessThanSuc_atLeastAtMost del: upt_Suc)
  also have "\<dots> = (\<Sum>i = a..b. entry_widths vs ! i)"
    by (rule sum.cong) (use assms in \<open>auto simp: bar_entry_width entry_widths_def nth_enumerate_eq\<close>)
  finally show ?thesis using assms
    by (auto simp: bar_spans_def span_width_concat raw_span_def is_cont_def
        simp del: upt_Suc)
qed

text \<open>C34. With two connections or more the bar is one line, over a window of entries that holds the
  first and cannot be larger, and the line fits the terminal, counting characters, unless the first
  entry, the one always shown in full, is too wide by itself.\<close>

theorem connection_bar_fits:
  assumes "1 < length (connections s)" "16 \<le> unat (rw area)"
  shows "\<exists>a b line. connection_bar_render area s =
      Some [(area, WParagraph NoBlock default_style False [line])] \<and>
    line = bar_spans (app_theme s) 0 (connections s) (a, b) \<and>
    window_ok (entry_widths (connections s)) 0 (unat (rw area)) a b \<and>
    (span_width line \<le> unat (rw area) \<or> a = 0 \<and> b = 0)"
proof -
  let ?vs = "connections s" and ?w = "unat (rw area)"
  have n: "0 < length (entry_widths ?vs)" "length (entry_widths ?vs) = length ?vs"
    using assms(1) by (auto simp: entry_widths_def)
  obtain a b where v: "viewport (entry_widths ?vs) 0 ?w = Some (a, b)" "window_ok (entry_widths ?vs) 0 ?w a b"
    using viewport_spec [OF n(1) assms(2)] by blast
  have "rw area \<noteq> 0" using assms(2) by auto
  then have "connection_bar_render area s = Some [(area, WParagraph NoBlock default_style False
      [bar_spans (app_theme s) 0 ?vs (a, b)])]"
    using assms(1) v(1) by (simp add: connection_bar_render_def entry_widths_def Let_def)
  moreover have "span_width (bar_spans (app_theme s) 0 ?vs (a, b)) \<le> ?w \<or> a = 0 \<and> b = 0"
    using v(2) bar_spans_width [of b ?vs a] n by (auto simp: window_ok_def split: if_splits)
  ultimately show ?thesis using v(2) by blast
qed

end
