(* ===== verification/Tui.thy ===== *)
theory Tui
  imports TuiTasks Overlays LogView ConnectionBar
begin

text \<open>
  The terminal client put together (\<open>ferro-wg-tui/src/lib.rs\<close>): the bundle of components,
  \<open>dispatch_all\<close>, keys and mouse events with the tasks they spawn, the daemon's messages, the layout
  and the event loop. \<open>None\<close> is a panic: of a handler, of a draw, or of the debug build's assertions on
  the layout.
\<close>

section \<open>Components\<close>

record comp_bundle =
  bn_overview :: "nat option"
  bn_status :: "nat option"
  bn_peers :: "nat option"
  bn_compare :: compare_state
  bn_config :: config_tab
  bn_logs :: log_view
  bn_filter :: "nat option"

definition bundle_new :: comp_bundle where
  "bundle_new = \<lparr>bn_overview = Some 0, bn_status = Some 0, bn_peers = Some 0,
     bn_compare = \<lparr>cm_table = Some 0, cm_list = Some 0\<rparr>, bn_config = config_tab_new,
     bn_logs = log_view_new, bn_filter = Some 0\<rparr>"

text \<open>The client: shared state, components, the tasks spawned so far and whether a status poll is in
  flight.\<close>

record tui =
  tu_state :: app_state
  tu_bundle :: comp_bundle
  tu_tasks :: "task list"
  tu_polling :: bool

text \<open>Components whose \<open>update\<close> does nothing are left out.\<close>

definition update_bundle :: "app_env \<Rightarrow> action \<Rightarrow> app_state \<Rightarrow> comp_bundle \<Rightarrow> comp_bundle option" where
  "update_bundle env a s b =
     map_option (\<lambda>c. b\<lparr>bn_overview := overview_update a s (bn_overview b),
         bn_status := status_update a s (bn_status b),
         bn_peers := peers_update (env_lower env) a s (bn_peers b),
         bn_compare := compare_update a s (bn_compare b),
         bn_config := c,
         bn_filter := filter_update (env_lower env) a s (bn_filter b)\<rparr>)
       (config_update a s (bn_config b))"

definition dispatch_all :: "app_env \<Rightarrow> action \<Rightarrow> tui \<Rightarrow> tui option" where
  "dispatch_all env a t =
     (case dispatch env a (tu_state t) of
        None \<Rightarrow> None
      | Some s \<Rightarrow>
          (case update_bundle env a s (tu_bundle t) of
             None \<Rightarrow> None
           | Some b \<Rightarrow> Some (t\<lparr>tu_state := s, tu_bundle := b\<rparr>)))"

definition spawn :: "task list \<Rightarrow> tui \<Rightarrow> tui" where
  "spawn ts t = t\<lparr>tu_tasks := tu_tasks t @ ts\<rparr>"

section \<open>Commands\<close>

definition switch_backend_tasks :: "string \<Rightarrow> app_state \<Rightarrow> task list" where
  "switch_backend_tasks backend s =
     (let go = (\<lambda>bk. case set_min (visible_connections s) of
            None \<Rightarrow> [TMessage (DmError (TeDaemonResponse
              ''no visible connections to switch backend for''))]
          | Some name \<Rightarrow> [TCommand (SwitchBackend name bk) (''Switched backend: '' @ backend)])
      in if backend = ''boringtun'' then go Boringtun
         else if backend = ''neptun'' then go Neptun
         else if backend = ''gotatun'' then go Gotatun
         else [TMessage (DmError (TeUnknownBackend backend))])"

definition benchmark_tasks :: "app_state \<Rightarrow> task list" where
  "benchmark_tasks s =
     (case set_min (visible_connections s) of None \<Rightarrow> [] | Some name \<Rightarrow> [TBenchmark name 10])"

definition maybe_spawn_command :: "action \<Rightarrow> app_state \<Rightarrow> task list" where
  "maybe_spawn_command a s =
     (case a of
        AStartBenchmark \<Rightarrow> benchmark_tasks s
      | AStartBenchmarkForBackend _ \<Rightarrow> benchmark_tasks s
      | ASwitchBenchmarkBackend backend \<Rightarrow> switch_backend_tasks backend s
      | AStartDaemon \<Rightarrow> [TStartDaemon]
      | AConnectPeer name \<Rightarrow> [TCommand (Up (Some name) Boringtun) (''Brought up: '' @ name)]
      | ADisconnectPeer name \<Rightarrow> [TCommand (Down (Some name)) (''Tore down: '' @ name)]
      | ACyclePeerBackend name \<Rightarrow> [TCommand (SwitchBackend name Neptun) (''Switched backend: '' @ name)]
      | AConnectAll \<Rightarrow> [TCommand (Up None Boringtun) ''All connections up'']
      | ADisconnectAll \<Rightarrow> [TCommand (Down None) ''All connections down'']
      | AStopDaemon \<Rightarrow> [TCommand Shutdown ''Daemon stopped'']
      | _ \<Rightarrow> [])"

text \<open>An action with the command that follows it.\<close>

definition perform :: "app_env \<Rightarrow> action \<Rightarrow> tui \<Rightarrow> tui option" where
  "perform env a t =
     map_option (\<lambda>t'. spawn (maybe_spawn_command a (tu_state t')) t') (dispatch_all env a t)"

section \<open>Keys\<close>

fun confirmed_action :: "confirm_action \<Rightarrow> action" where
  "confirmed_action CDisconnectAll = ADisconnectAll"
| "confirmed_action CStopDaemon = AStopDaemon"
| "confirmed_action (CDeletePeer i) = ADeleteConfigPeer i"

definition handle_global_key :: "key_event \<Rightarrow> action option" where
  "handle_global_key key =
     (let k = ke_code key in
      if k = KChar ''q'' \<or> k = KEsc then Some AQuit
      else if k = KChar ''c'' \<and> ke_control key then Some AQuit
      else if k = KTab \<or> k = KRight then Some ANextTab
      else if k = KBackTab \<or> k = KLeft then Some APrevTab
      else if k = KChar ''1'' then Some (ASelectTab TabOverview)
      else if k = KChar ''2'' then Some (ASelectTab TabStatus)
      else if k = KChar ''3'' then Some (ASelectTab TabPeers)
      else if k = KChar ''4'' then Some (ASelectTab TabCompare)
      else if k = KChar ''5'' then Some (ASelectTab TabConfig)
      else if k = KChar ''6'' then Some (ASelectTab TabLogs)
      else if k = KChar ''/'' then Some AEnterSearch
      else if k = KChar ''T'' then Some AToggleTheme
      else if k = KChar ''?'' then Some AShowHelp
      else if k = KChar ''i'' then Some AEnterImport
      else None)"

text \<open>The active tab's component; two of them also change themselves.\<close>

definition tab_key :: "key_event \<Rightarrow> app_state \<Rightarrow> comp_bundle \<Rightarrow> (action option \<times> comp_bundle) option" where
  "tab_key key s b =
     (case active_tab s of
        TabOverview \<Rightarrow> Some (overview_key key s, b)
      | TabStatus \<Rightarrow> Some (status_key key s (bn_status b), b)
      | TabPeers \<Rightarrow> Some (peers_key key, b)
      | TabCompare \<Rightarrow> Some (compare_key key (bn_compare b), b)
      | TabConfig \<Rightarrow> map_option (\<lambda>(a, c). (a, b\<lparr>bn_config := c\<rparr>)) (config_key key s (bn_config b))
      | TabLogs \<Rightarrow> Some (None, b\<lparr>bn_logs := logs_key key s (bn_logs b)\<rparr>))"

definition is_text_mode :: "input_mode \<Rightarrow> bool" where
  "is_text_mode m =
     (case m of MSearch \<Rightarrow> True | MImport _ \<Rightarrow> True | MExport _ \<Rightarrow> True | MNormal \<Rightarrow> False | MEditField \<Rightarrow> False)"

definition resolve_key ::
  "app_env \<Rightarrow> key_event \<Rightarrow> app_state \<Rightarrow> comp_bundle \<Rightarrow> (action option \<times> comp_bundle) option" where
  "resolve_key env key s b =
     (if show_help s then Some (help_key key s, b)
      else if show_connection_filter s then Some (filter_key (env_lower env) key s (bn_filter b), b)
      else if config_diff_pending s \<noteq> None then Some (diff_key key s, b)
      else if pending_confirm s \<noteq> None then Some (confirm_key key s, b)
      else if is_text_mode (input_mode s) then Some (status_bar_key key s, b)
      else
        (case or_key (handle_global_key key) (connection_bar_key key) of
           Some a \<Rightarrow> Some (Some a, b)
         | None \<Rightarrow> tab_key key s b))"

text \<open>Read from the state before the action changes it.\<close>

definition follow_up :: "action \<Rightarrow> app_state \<Rightarrow> action option" where
  "follow_up a s =
     (if a = AConfirmYes then map_option (\<lambda>p. confirmed_action (cp_action p)) (pending_confirm s)
      else None)"

definition path_tasks :: "action \<Rightarrow> app_state \<Rightarrow> app_state \<Rightarrow> task list" where
  "path_tasks a s s' =
     (case (if a = ASubmitImport then import_buffer s else None) of None \<Rightarrow> [] | Some p \<Rightarrow> [TImport p]) @
     (case (if a = ASubmitExport then export_buffer s else None) of
        None \<Rightarrow> []
      | Some p \<Rightarrow> [TExport p (benchmark_history s')])"

definition save_tasks :: "action \<Rightarrow> app_state \<Rightarrow> task list" where
  "save_tasks a s =
     (case (a, config_diff_pending s) of
        (ASaveConfig reconnect, Some d) \<Rightarrow> [TSaveConfig (cd_connection_name d) (cd_draft d) reconnect]
      | _ \<Rightarrow> [])"

definition perform_key :: "app_env \<Rightarrow> action \<Rightarrow> tui \<Rightarrow> tui option" where
  "perform_key env a t =
     (case perform env a t of
        None \<Rightarrow> None
      | Some t1 \<Rightarrow>
          map_option (\<lambda>t2. spawn (path_tasks a (tu_state t) (tu_state t2) @ save_tasks a (tu_state t)) t2)
            (case follow_up a (tu_state t) of None \<Rightarrow> Some t1 | Some f \<Rightarrow> perform env f t1))"

definition handle_key_event :: "app_env \<Rightarrow> key_event \<Rightarrow> tui \<Rightarrow> tui option" where
  "handle_key_event env key t =
     (case resolve_key env key (tu_state t) (tu_bundle t) of
        None \<Rightarrow> None
      | Some (a, b) \<Rightarrow>
          (let t1 = t\<lparr>tu_bundle := b\<rparr> in
           case a of None \<Rightarrow> Some t1 | Some act \<Rightarrow> perform_key env act t1))"

section \<open>Mouse, ticks and messages\<close>

definition handle_mouse_event :: "app_env \<Rightarrow> mouse_event \<Rightarrow> rect list \<Rightarrow> tui \<Rightarrow> tui option" where
  "handle_mouse_event env m chunks t =
     (let s = tu_state t in
      if show_help s \<or> show_connection_filter s \<or> pending_confirm s \<noteq> None \<or> config_diff_pending s \<noteq> None
      then Some t
      else (case or_key (resolve_mouse_action m (hd chunks)) (component_handle_mouse m s) of
              None \<Rightarrow> Some t
            | Some a \<Rightarrow> perform env a t))"

definition spawn_status_poll :: "tui \<Rightarrow> tui" where
  "spawn_status_poll t = (if tu_polling t then t else spawn [TPoll] (t\<lparr>tu_polling := True\<rparr>))"

fun message_actions :: "daemon_message \<Rightarrow> action list" where
  "message_actions (DmReload c ok) = [ADaemonOk ok]"
| "message_actions (DmStatus peers) = [AUpdatePeers peers]"
| "message_actions (DmOk m) = [ADaemonOk m]"
| "message_actions (DmError e) = [ADaemonError (show_tui_error e)]"
| "message_actions DmUnreachable =
     [ADaemonConnectivityChanged False, ADaemonError ''daemon is not running'']"
| "message_actions (DmProgress p) = [ABenchmarkProgressUpdate p]"
| "message_actions (DmComplete r) = [ABenchmarkComplete r]"

fun dispatch_list :: "app_env \<Rightarrow> action list \<Rightarrow> tui \<Rightarrow> tui option" where
  "dispatch_list env [] t = Some t"
| "dispatch_list env (a # as) t =
     (case dispatch_all env a t of None \<Rightarrow> None | Some t' \<Rightarrow> dispatch_list env as t')"

definition reload_for :: "daemon_message \<Rightarrow> tui \<Rightarrow> tui" where
  "reload_for m t =
     (case m of DmReload c _ \<Rightarrow> t\<lparr>tu_state := reload_from_config c (tu_state t)\<rparr> | _ \<Rightarrow> t)"

definition handle_message :: "app_env \<Rightarrow> daemon_message \<Rightarrow> tui \<Rightarrow> tui option" where
  "handle_message env m t =
     map_option (\<lambda>t'. case m of
         DmComplete _ \<Rightarrow> spawn [TSaveHistory (benchmark_history (tu_state t'))] t'
       | _ \<Rightarrow> t')
       (dispatch_list env (message_actions m) (reload_for m t))"

fun handle_daemon_messages :: "app_env \<Rightarrow> daemon_message list \<Rightarrow> tui \<Rightarrow> tui option" where
  "handle_daemon_messages env [] t = Some t"
| "handle_daemon_messages env (m # ms) t =
     (case handle_message env m t of None \<Rightarrow> None | Some t' \<Rightarrow> handle_daemon_messages env ms t')"

section \<open>Layout and drawing\<close>

definition show_connection_bar :: "rect \<Rightarrow> nat \<Rightarrow> bool" where
  "show_connection_bar area n =
     (1 < n \<and> 3 + connection_bar_height + 1 + 3 \<le> rh area \<and> min_useful_width \<le> rw area)"

definition layout_constraints :: "bool \<Rightarrow> constraint list" where
  "layout_constraints bar = [CLength 3, CLength (if bar then 1 else 0), CMin 0, CLength 3]"

text \<open>The assertions of a debug build.\<close>

definition layout_ok :: "rect list \<Rightarrow> rect \<Rightarrow> bool \<Rightarrow> bool" where
  "layout_ok chunks area bar =
     (length chunks = 4 \<and>
      (6 \<le> rh area \<longrightarrow> rh (chunks ! 0) = 3 \<and> rh (chunks ! 3) = 3) \<and>
      (bar \<longrightarrow> rh (chunks ! 1) = connection_bar_height))"

definition compute_layout :: "ui_env \<Rightarrow> rect \<Rightarrow> nat \<Rightarrow> (rect list \<times> bool) option" where
  "compute_layout ui area n =
     (let bar = show_connection_bar area n; chunks = ui_split ui (layout_constraints bar) area
      in if layout_ok chunks area bar then Some (chunks, bar) else None)"

text \<open>What a draw also depends on: the backends compiled in, where the progress deque wraps, and which
  widgets ratatui can draw where on a frame of a given area without indexing outside of it.\<close>

record draw_env =
  dr_ui :: ui_env
  dr_backends :: "string set"
  dr_wrap :: nat
  dr_fits :: "rect \<Rightarrow> rect \<times> widget \<Rightarrow> bool"

definition render_tab ::
  "draw_env \<Rightarrow> app_env \<Rightarrow> rect \<Rightarrow> app_state \<Rightarrow> comp_bundle \<Rightarrow> (drawn \<times> comp_bundle) option" where
  "render_tab dr env area s b =
     (let ui = dr_ui dr in
      case active_tab s of
        TabOverview \<Rightarrow> Some (apsnd (\<lambda>x. b\<lparr>bn_overview := x\<rparr>) (overview_render ui area s (bn_overview b)))
      | TabStatus \<Rightarrow> Some (apsnd (\<lambda>x. b\<lparr>bn_status := x\<rparr>) (status_render ui area s (bn_status b)))
      | TabPeers \<Rightarrow>
          map_option (apsnd (\<lambda>x. b\<lparr>bn_peers := x\<rparr>)) (peers_render ui env area s (bn_peers b))
      | TabCompare \<Rightarrow> Some (apsnd (\<lambda>x. b\<lparr>bn_compare := x\<rparr>)
          (compare_render ui (dr_backends dr) (dr_wrap dr) area s (bn_compare b)))
      | TabConfig \<Rightarrow> map_option (\<lambda>d. (d, b)) (config_render env area s (bn_config b))
      | TabLogs \<Rightarrow> Some (apsnd (\<lambda>x. b\<lparr>bn_logs := x\<rparr>) (logs_render ui area s (bn_logs b))))"

definition render_too_small :: "rect \<Rightarrow> app_state \<Rightarrow> drawn" where
  "render_too_small area s =
     [(area, WParagraph NoBlock default_style True
        [[(''Terminal too small (min 80'' @ times_sign @ ''24)'', fg_style (th_error (app_theme s)))]])]"

text \<open>The widgets a draw asks for, in the areas of the size that was read before the event.\<close>

definition render_widgets ::
  "draw_env \<Rightarrow> app_env \<Rightarrow> rect list \<Rightarrow> bool \<Rightarrow> rect \<Rightarrow> app_state \<Rightarrow> comp_bundle \<Rightarrow> (drawn \<times> comp_bundle) option" where
  "render_widgets dr env chunks bar area s b =
     (if rw area < 80 \<or> rh area < 24 then Some (render_too_small area s, b)
      else
        (case (if bar then connection_bar_render (chunks ! 1) s else Some []) of
           None \<Rightarrow> None
         | Some strip \<Rightarrow>
             (case render_tab dr env (chunks ! 2) s b of
                None \<Rightarrow> None
              | Some (body, b1) \<Rightarrow>
                  (case diff_render (dr_ui dr) (chunks ! 2) s of
                     None \<Rightarrow> None
                   | Some diff \<Rightarrow>
                       (case filter_render (dr_ui dr) (env_lower env) (chunks ! 2) s (bn_filter b1) of
                          (filt, sel) \<Rightarrow>
                            Some (tab_bar_render (chunks ! 0) s @ strip @ body @
                              status_bar_render (chunks ! 3) s @
                              confirm_render (dr_ui dr) (chunks ! 2) s @ diff @
                              help_render (dr_ui dr) (chunks ! 2) s @ filt @ toast_render area s,
                              b1\<lparr>bn_filter := sel\<rparr>))))))"

text \<open>They are drawn on the frame, which has the size the terminal has by then.\<close>

definition render_ui ::
  "draw_env \<Rightarrow> app_env \<Rightarrow> rect list \<Rightarrow> bool \<Rightarrow> rect \<Rightarrow> rect \<Rightarrow> app_state \<Rightarrow> comp_bundle \<Rightarrow>
   (drawn \<times> comp_bundle) option" where
  "render_ui dr env chunks bar area frame s b =
     (case render_widgets dr env chunks bar area s b of
        None \<Rightarrow> None
      | Some (ds, b') \<Rightarrow> if list_all (dr_fits dr frame) ds then Some (ds, b') else None)"

section \<open>The event loop\<close>

datatype app_event = EvKey key_event | EvMouse mouse_event | EvTick

text \<open>One round: the environment and the messages and log entries that have come, whether a poll has
  ended, the terminal's size, the next event if there is one, the size \<open>terminal.draw\<close> finds and makes
  its frame of, and how the output goes. The terminal may be resized while the loop waits for the
  event.\<close>

record round =
  rd_env :: app_env
  rd_draw :: draw_env
  rd_messages :: "daemon_message list"
  rd_logs :: "log_entry list"
  rd_poll_done :: bool
  rd_size :: "(string, u16 \<times> u16) result"
  rd_event :: "app_event option"
  rd_frame :: "(string, u16 \<times> u16) result"
  rd_output :: "(string, unit) result"

definition handle_event :: "app_env \<Rightarrow> rect list \<Rightarrow> app_event \<Rightarrow> tui \<Rightarrow> tui option" where
  "handle_event env chunks ev t =
     (case ev of
        EvKey key \<Rightarrow> handle_key_event env key t
      | EvMouse m \<Rightarrow> handle_mouse_event env m chunks t
      | EvTick \<Rightarrow> Some (spawn_status_poll t))"

definition arrive :: "round \<Rightarrow> tui \<Rightarrow> tui" where
  "arrive rd t =
     t\<lparr>tu_state := fold (append_log (env_alloc (rd_env rd))) (rd_logs rd) (tu_state t),
       tu_polling := (tu_polling t \<and> \<not> rd_poll_done rd)\<rparr>"

definition prepare :: "round \<Rightarrow> tui \<Rightarrow> tui option" where
  "prepare rd t =
     map_option (\<lambda>t'. t'\<lparr>tu_state := clear_expired_toasts (env_now (rd_env rd)) (tu_state t')\<rparr>)
       (handle_daemon_messages (rd_env rd) (rd_messages rd) (arrive rd t))"

datatype loop_end = LoopOpen | LoopDone | LoopFailed string

text \<open>A round goes on, or ends the loop.\<close>

definition loop_round :: "round \<Rightarrow> tui \<Rightarrow> (loop_end \<times> tui) option" where
  "loop_round rd t =
     (case prepare rd t of
        None \<Rightarrow> None
      | Some t1 \<Rightarrow>
          (case rd_size rd of
             Inl e \<Rightarrow> Some (LoopFailed e, t1)
           | Inr (w, h) \<Rightarrow>
               (let area = at_origin w h in
                case compute_layout (dr_ui (rd_draw rd)) area (length (connections (tu_state t1))) of
                  None \<Rightarrow> None
                | Some (chunks, bar) \<Rightarrow>
                    (case rd_event rd of
                       None \<Rightarrow> Some (LoopDone, t1)
                     | Some ev \<Rightarrow>
                         (case handle_event (rd_env rd) chunks ev t1 of
                            None \<Rightarrow> None
                          | Some t2 \<Rightarrow>
                              (case rd_frame rd of
                                 Inl e \<Rightarrow> Some (LoopFailed e, t2)
                               | Inr (fw, fh) \<Rightarrow>
                                   (case render_ui (rd_draw rd) (rd_env rd) chunks bar area (at_origin fw fh)
                                       (tu_state t2) (tu_bundle t2) of
                                      None \<Rightarrow> None
                                    | Some (_, b) \<Rightarrow>
                                        (let t3 = t2\<lparr>tu_bundle := b\<rparr> in
                                         case rd_output rd of
                                           Inl e \<Rightarrow> Some (LoopFailed e, t3)
                                         | Inr _ \<Rightarrow> Some (LoopOpen, t3)))))))))"

fun event_loop :: "round list \<Rightarrow> tui \<Rightarrow> (loop_end \<times> tui) option" where
  "event_loop rds t =
     (if \<not> running (tu_state t) then Some (LoopDone, t)
      else
        (case rds of
           [] \<Rightarrow> Some (LoopOpen, t)
         | rd # rest \<Rightarrow>
             (case loop_round rd t of
                None \<Rightarrow> None
              | Some (LoopOpen, t') \<Rightarrow> event_loop rest t'
              | Some (r, t') \<Rightarrow> Some (r, t'))))"

declare event_loop.simps [simp del]

definition tui_start :: "alloc \<Rightarrow> app_config \<Rightarrow> (benchmark_error, benchmark_run list) result \<Rightarrow> tui" where
  "tui_start al c hist =
     \<lparr>tu_state = start_state al c hist, tu_bundle = bundle_new, tu_tasks = [TLogStream],
      tu_polling = False\<rparr>"

definition run_tui ::
  "alloc \<Rightarrow> app_config \<Rightarrow> (benchmark_error, benchmark_run list) result \<Rightarrow> round list \<Rightarrow>
   (loop_end \<times> tui) option" where
  "run_tui al c hist rds = event_loop rds (tui_start al c hist)"

end
