(* ===== verification/DrawProps.thy ===== *)
theory DrawProps
  imports Tui
begin

text \<open>
  Where the client draws: every widget of a draw lies in the area the draw was laid out for, so only
  a frame smaller than that can leave one of them outside.
\<close>

section \<open>What ratatui keeps to\<close>

text \<open>The area inside a block and the parts of a split are parts of the area given.\<close>

definition ui_sound :: "ui_env \<Rightarrow> bool" where
  "ui_sound ui =
     ((\<forall>a. inside (ui_inner ui a) a) \<and>
      (\<forall>cs a. length (ui_split ui cs a) = length cs \<and> (\<forall>r \<in> set (ui_split ui cs a). inside r a)))"

text \<open>A widget whose area lies in the frame can be drawn on it.\<close>

definition draw_sound :: "draw_env \<Rightarrow> bool" where
  "draw_sound dr =
     (ui_sound (dr_ui dr) \<and> (\<forall>frame d. inside (fst d) frame \<longrightarrow> dr_fits dr frame d))"

definition drawn_in :: "rect \<Rightarrow> drawn \<Rightarrow> bool" where
  "drawn_in area ds = (\<forall>d \<in> set ds. inside (fst d) area)"

lemma drawn_in_simps [simp]:
  "drawn_in area []" "drawn_in area (d # ds) \<longleftrightarrow> inside (fst d) area \<and> drawn_in area ds"
  "drawn_in area (xs @ ys) \<longleftrightarrow> drawn_in area xs \<and> drawn_in area ys"
  by (auto simp: drawn_in_def)

lemma drawn_in_trans: "drawn_in r ds \<Longrightarrow> inside r area \<Longrightarrow> drawn_in area ds"
  by (auto simp: drawn_in_def intro: inside_trans)

section \<open>The components\<close>

lemma inner_in: "ui_sound ui \<Longrightarrow> inside (ui_inner ui a) a"
  by (simp add: ui_sound_def)

lemma split_in: "ui_sound ui \<Longrightarrow> i < length cs \<Longrightarrow> inside (ui_split ui cs a ! i) a"
  by (metis nth_mem ui_sound_def)

lemma overview_in: "drawn_in area (fst (overview_render ui area s (sel :: nat option)))"
  by (simp add: overview_render_def Let_def)

lemma status_in: "ui_sound ui \<Longrightarrow> drawn_in area (fst (status_render ui area s sel))"
  by (simp add: status_render_def Let_def inner_in)

lemma peers_in: "peers_render ui env area s sel = Some (ds, sel') \<Longrightarrow> drawn_in area ds"
  by (auto simp: peers_render_def split: if_splits option.splits)

lemma compare_in:
  "ui_sound ui \<Longrightarrow> drawn_in area (fst (compare_render ui available wrap area s c))"
  by (simp add: compare_render_def render_live_def render_historical_def Let_def split_in
      split: compare_view.split)

lemma config_in: "config_render env area s t = Some ds \<Longrightarrow> drawn_in area ds"
  by (auto simp: config_render_def split: if_splits option.splits)

lemma logs_in: "drawn_in area (fst (logs_render ui area s v))"
  by (simp add: logs_render_def Let_def)

lemma bar_in: "connection_bar_render area s = Some ds \<Longrightarrow> drawn_in area ds"
  by (auto simp: connection_bar_render_def Let_def split: if_splits)

lemma chrome_in:
  "drawn_in area (tab_bar_render area s)" "drawn_in area (status_bar_render area s)"
  by (simp_all add: tab_bar_render_def status_bar_render_def)

lemma apsnd_fst: "apsnd f p = (x, y) \<Longrightarrow> x = fst p"
  by (cases p) simp

lemma tab_in:
  assumes "ui_sound (dr_ui dr)" "render_tab dr env area s b = Some (ds, b')"
  shows "drawn_in area ds"
proof (cases "active_tab s")
  case TabPeers
  then show ?thesis using assms(2) peers_in by (auto simp: render_tab_def)
next
  case TabConfig
  then show ?thesis using assms(2) config_in by (auto simp: render_tab_def)
next
  case TabOverview
  then have "ds = fst (overview_render (dr_ui dr) area s (bn_overview b))" using assms(2) by (auto simp: render_tab_def dest!: apsnd_fst)
  then show ?thesis using overview_in by simp
next
  case TabStatus
  then have "ds = fst (status_render (dr_ui dr) area s (bn_status b))" using assms(2) by (auto simp: render_tab_def dest!: apsnd_fst)
  then show ?thesis using status_in [OF assms(1)] by simp
next
  case TabCompare
  then have "ds = fst (compare_render (dr_ui dr) (dr_backends dr) (dr_wrap dr) area s (bn_compare b))"
    using assms(2) by (auto simp: render_tab_def dest!: apsnd_fst)
  then show ?thesis using compare_in [OF assms(1)] by simp
next
  case TabLogs
  then have "ds = fst (logs_render (dr_ui dr) area s (bn_logs b))" using assms(2) by (auto simp: render_tab_def dest!: apsnd_fst)
  then show ?thesis using logs_in by simp
qed

section \<open>Overlays and toasts\<close>

lemma overlay_in:
  assumes "ui_sound ui" "inside r area"
  shows "drawn_in area (overlay ui r title w)"
  using assms inside_trans [OF inner_in [OF assms(1)] assms(2)] by (auto simp: overlay_def)

lemma confirm_in:
  assumes "inside area (at_origin w h)" "ui_sound ui"
  shows "drawn_in area (confirm_render ui area s)"
  using overlay_in [OF assms(2) centered_inside [OF assms(1), of 60 5]]
  by (simp add: confirm_render_def split: option.split)

lemma help_in:
  assumes "inside area (at_origin w h)" "ui_sound ui"
  shows "drawn_in area (help_render ui area s)"
  using overlay_in [OF assms(2) centered_inside [OF assms(1), of 90 "min (rh area div 2) 30"]]
  by (simp add: help_render_def)

lemma diff_in:
  assumes "inside area (at_origin w h)" "ui_sound ui" "diff_render ui area s = Some ds"
  shows "drawn_in area ds"
  using overlay_in [OF assms(2) centered_inside [OF assms(1), of 80]] assms(3)
  by (auto simp: diff_render_def Let_def split: option.splits)

lemma filter_in:
  assumes "inside area (at_origin w h)" "ui_sound ui"
  shows "drawn_in area (fst (filter_render ui lower area s sel))"
proof -
  have r: "inside (centered_rect 80 20 area) area" by (rule centered_inside [OF assms(1)]) simp
  let ?parts = "ui_split ui [CLength 3, CMin 0] (ui_inner ui (centered_rect 80 20 area))"
  have "inside (?parts ! i) area" if "i < 2" for i
    using inside_trans [OF split_in [OF assms(2)] inside_trans [OF inner_in [OF assms(2)] r]] that by simp
  from this [of 0] this [of 1] r show ?thesis by (simp add: filter_render_def Let_def)
qed

text \<open>A toast is one row of the area at the origin, and never the top row.\<close>

lemma toast_rows_in:
  "y < h \<Longrightarrow> drawn_in (at_origin w h) (toast_rows (at_origin w h) th ts y)"
proof (induction ts arbitrary: y)
  case (Cons t ts)
  show ?case
  proof (cases "y = 0")
    case False
    then have "y - 1 < h" "sat_subw y 1 = y - 1"
      using Cons.prems unat_minus_one [of y] False
      by (auto simp: sat_subw_def word_less_nat_alt unat_eq_zero)
    moreover have "unat (sat_subw w (min 40 w)) + unat (min 40 w) \<le> unat w"
      by (auto simp: sat_subw_def min_def unat_sub word_le_nat_alt)
    moreover have "unat y + 1 \<le> unat h" using Cons.prems by (simp add: word_less_nat_alt)
    ultimately show ?thesis
      using Cons.IH [of "y - 1"] False by (auto simp: Let_def inside_def)
  qed simp
qed simp

lemma toast_in: "drawn_in (at_origin w h) (toast_render (at_origin w h) s)"
proof (cases "h = 0")
  case True
  then show ?thesis
    by (cases "rev (toasts s)") (simp_all add: toast_render_def sat_subw_def)
next
  case False
  then have "sat_subw h 1 < h" by (simp add: sat_subw_def) unat_arith
  then show ?thesis using toast_rows_in by (simp add: toast_render_def)
qed

section \<open>The whole draw\<close>

lemma layout_parts:
  assumes "compute_layout ui area n = Some (chunks, bar)"
  shows "length chunks = 4" "ui_sound ui \<Longrightarrow> i < 4 \<Longrightarrow> inside (chunks ! i) area"
proof -
  have c: "chunks = ui_split ui (layout_constraints bar) area" "length chunks = 4"
    using assms by (auto simp: compute_layout_def layout_ok_def Let_def split: if_splits)
  then show "length chunks = 4" by simp
  show "ui_sound ui \<Longrightarrow> i < 4 \<Longrightarrow> inside (chunks ! i) area"
    using c split_in [of ui i "layout_constraints bar" area] by (simp add: layout_constraints_def)
qed

lemma widgets_in:
  assumes "ui_sound (dr_ui dr)" "\<And>i. i < 4 \<Longrightarrow> inside (chunks ! i) (at_origin w h)"
    and "render_widgets dr env chunks bar (at_origin w h) s b = Some (ds, b')"
  shows "drawn_in (at_origin w h) ds"
proof (cases "w < 80 \<or> h < 24")
  case True
  then show ?thesis using assms(3) by (auto simp: render_widgets_def render_too_small_def)
next
  case False
  note ui = assms(1)
  have part: "drawn_in (at_origin w h) r" if "drawn_in (chunks ! i) r" "i < 4" for r i
    using drawn_in_trans [OF that(1) assms(2) [OF that(2)]] .
  have c2: "inside (chunks ! 2) (at_origin w h)" by (rule assms(2)) simp
  obtain strip body b1 diff where p: "(if bar then connection_bar_render (chunks ! 1) s else Some []) = Some strip"
    "render_tab dr env (chunks ! 2) s b = Some (body, b1)"
    "diff_render (dr_ui dr) (chunks ! 2) s = Some diff"
    "ds = tab_bar_render (chunks ! 0) s @ strip @ body @ status_bar_render (chunks ! 3) s @
      confirm_render (dr_ui dr) (chunks ! 2) s @ diff @ help_render (dr_ui dr) (chunks ! 2) s @
      fst (filter_render (dr_ui dr) (env_lower env) (chunks ! 2) s (bn_filter b1)) @
      toast_render (at_origin w h) s"
    using assms(3) False by (auto simp: render_widgets_def split: if_splits option.splits prod.splits)
  have "drawn_in (chunks ! 1) strip" using p(1) bar_in by (auto split: if_splits)
  moreover note tab_in [OF ui p(2)] diff_in [OF c2 ui p(3)] confirm_in [OF c2 ui, of s] help_in [OF c2 ui, of s]
    filter_in [OF c2 ui, of "env_lower env" s "bn_filter b1"] toast_in [of w h s]
    chrome_in(1) [of "chunks ! 0" s] chrome_in(2) [of "chunks ! 3" s]
  ultimately show ?thesis
    unfolding p(4) drawn_in_simps using part [of 0] part [of 1] part [of 2] part [of 3] by simp
qed

text \<open>So a frame that is not smaller takes everything.\<close>

lemma render_ui_fits:
  assumes "draw_sound dr" "compute_layout (dr_ui dr) (at_origin w h) n = Some (chunks, bar)"
    and "w \<le> fw" "h \<le> fh"
  shows "render_ui dr env chunks bar (at_origin w h) (at_origin fw fh) s b =
    render_widgets dr env chunks bar (at_origin w h) s b"
proof (cases "render_widgets dr env chunks bar (at_origin w h) s b")
  case (Some r)
  obtain ds b' where r: "r = (ds, b')" by (cases r)
  have ui: "ui_sound (dr_ui dr)" using assms(1) by (simp add: draw_sound_def)
  have "drawn_in (at_origin w h) ds"
    using widgets_in [OF ui layout_parts(2) [OF assms(2) ui]] Some r by blast
  then have "drawn_in (at_origin fw fh) ds"
    using drawn_in_trans inside_origin [OF assms(3,4)] by blast
  then have "list_all (dr_fits dr (at_origin fw fh)) ds"
    using assms(1) unfolding draw_sound_def list_all_iff drawn_in_def by blast
  then show ?thesis using Some r by (simp add: render_ui_def)
qed (simp add: render_ui_def)

text \<open>A toast lies outside a frame with fewer rows.\<close>

lemma toast_refused:
  assumes "toasts s \<noteq> []" "80 \<le> w" "24 \<le> h" "fh < h"
    and "\<And>frame a. dr_fits dr frame (a, WClear) \<Longrightarrow> inside a frame"
    and "render_widgets dr env chunks bar (at_origin w h) s b = Some (ds, b')"
  shows "\<not> list_all (dr_fits dr (at_origin fw fh)) ds"
proof -
  have y: "sat_subw h 1 \<noteq> 0" "unat (sat_subw h 1) + 1 = unat h"
    using assms(3) by (auto simp: sat_subw_def word_le_nat_alt word_less_nat_alt unat_sub unat_eq_0)
  let ?r = "\<lparr>rx = sat_subw w (min 40 w), ry = sat_subw h 1, rw = min 40 w, rh = 1\<rparr> :: rect"
  obtain t ts where "rev (toasts s) = t # ts" using assms(1) by (cases "rev (toasts s)") auto
  then have "(?r, WClear) \<in> set (toast_render (at_origin w h) s)"
    using y(1) by (simp add: toast_render_def Let_def)
  moreover have "set (toast_render (at_origin w h) s) \<subseteq> set ds"
    using assms(2,3,6) by (auto simp: render_widgets_def not_less split: if_splits option.splits prod.splits)
  ultimately have "(?r, WClear) \<in> set ds" by blast
  moreover have "\<not> inside ?r (at_origin fw fh)"
    using y(2) assms(4) by (simp add: inside_def word_less_nat_alt)
  ultimately show ?thesis using assms(5) by (auto simp: list_all_iff)
qed

end
