(* ===== verification/TuiProps.thy ===== *)
theory TuiProps
  imports DrawProps DispatchProps
begin

text \<open>
  Properties of the whole terminal client: when a round of the event loop panics, what keys can and
  cannot do, which commands they send, and what the background tasks leave behind.
\<close>

section \<open>What the state keeps\<close>

text \<open>Every peer's key has its 32 bytes.\<close>

definition config_keys_ok :: "wg_config \<Rightarrow> bool" where
  "config_keys_ok c = (\<forall>p \<in> set (wg_peers c). key_wf (public_bytes (pc_public_key p)))"

definition keys_ok :: "app_state \<Rightarrow> bool" where
  "keys_ok s = (\<forall>v \<in> set (connections s). config_keys_ok (cv_config v))"

definition good :: "app_state \<Rightarrow> bool" where
  "good s = (visible_ok s \<and> keys_ok s)"

text \<open>The names and configurations of the connections: no action changes them.\<close>

definition named_configs :: "app_state \<Rightarrow> (string \<times> wg_config) list" where
  "named_configs s = map (\<lambda>v. (cv_name v, cv_config v)) (connections s)"

lemma named_update_statuses:
  "map (\<lambda>v. (cv_name v, cv_config v)) (update_statuses f ps cs) = map (\<lambda>v. (cv_name v, cv_config v)) cs"
  by (induction ps arbitrary: cs) (simp_all add: map_update_first)

lemma config_actions_connections:
  "handle_config_actions env a s = Some s' \<Longrightarrow> connections s' = connections s"
  by (cases a)
    (auto simp: handle_config_actions_def enter_config_edit_def config_edit_key_def config_enter_def
      map_edit_def map_diff_def add_config_peer_def preview_config_def Let_def
      split: option.splits sum.splits key_code.splits if_splits)

lemma dispatch_named: "dispatch env a s = Some s' \<Longrightarrow> named_configs s' = named_configs s"
  by (cases a)
    (auto simp: named_configs_def dispatch_def group_of_def handle_tab_actions_def handle_search_actions_def
      handle_peer_actions_def apply_peer_updates_def handle_daemon_actions_def
      handle_feedback_actions_def push_toast_def handle_import_actions_def apply_import_key_def
      handle_export_actions_def apply_export_key_def handle_benchmark_actions_def
      start_benchmark_def benchmark_progress_update_def benchmark_complete_def
      handle_compare_actions_def handle_theme_action_def handle_help_action_def
      handle_confirm_actions_def Let_def named_update_statuses
      split: option.splits confirm_action.splits input_mode.splits if_splits
      dest!: config_actions_connections)

lemma keys_ok_named: "keys_ok s \<longleftrightarrow> (\<forall>(n, c) \<in> set (named_configs s). config_keys_ok c)"
  by (simp add: keys_ok_def named_configs_def)

lemma good_dispatch:
  assumes "good s" "env_unix_millis env \<le> 9223372036854775807" "known_toggle s a"
  shows "\<exists>s'. dispatch env a s = Some s' \<and> good s'"
proof -
  obtain s' where s': "dispatch env a s = Some s'" "visible_ok s'"
    using dispatch_total [of s env a] assms by (auto simp: good_def)
  then have "keys_ok s'"
    using assms(1) dispatch_named [OF s'(1)] by (simp add: good_def keys_ok_named)
  then show ?thesis using s' by (simp add: good_def)
qed

lemma named_connection_views: "map (\<lambda>v. (cv_name v, cv_config v)) (connection_views cs) = cs"
  by (simp add: connection_views_def o_def split_def)

lemma named_reload: "named_configs (reload_from_config c s) = ac_connections c"
  by (simp add: named_configs_def reload_from_config_def Let_def named_connection_views)

lemma good_reload:
  assumes "\<forall>(n, w) \<in> set (ac_connections c). config_keys_ok w"
  shows "good (reload_from_config c s)"
proof -
  have "keys_ok (reload_from_config c s)" using assms by (simp only: keys_ok_named named_reload)
  moreover have "visible_ok (reload_from_config c s)"
    by (simp add: visible_ok_def conn_names_def reload_from_config_def Let_def)
  ultimately show ?thesis by (simp add: good_def)
qed

lemma good_cong:
  "connections s' = connections s \<Longrightarrow> visible_connections s' = visible_connections s \<Longrightarrow> good s' = good s"
  by (simp add: good_def keys_ok_def visible_ok_def conn_names_def)

lemma good_tick [simp]: "good (clear_expired_toasts now s) = good s"
  by (rule good_cong) (simp_all add: clear_expired_toasts_def)

lemma good_logs [simp]: "good (fold (append_log al) es s) = good s"
proof (induction es arbitrary: s)
  case (Cons e es)
  have "good (append_log al e s) = good s" by (rule good_cong) (simp_all add: append_log_def)
  then show ?case using Cons by simp
qed simp

section \<open>No panic in handlers\<close>

lemma config_connection_ok: "good s \<Longrightarrow> config_connection s \<noteq> None"
  by (auto simp: config_connection_def good_def split: option.splits dest: find_visible)

lemma config_update_total: "good s \<Longrightarrow> \<exists>t'. config_update a s t = Some t'"
  using config_connection_ok [of s]
  by (cases a) (auto simp: config_update_def tab_focus_move_def split: option.splits config_section.splits)

lemma dispatch_all_total:
  assumes "good (tu_state t)" "env_unix_millis env \<le> 9223372036854775807" "known_toggle (tu_state t) a"
  shows "\<exists>t'. dispatch_all env a t = Some t' \<and> good (tu_state t')"
proof -
  obtain s' where s': "dispatch env a (tu_state t) = Some s'" "good s'"
    using good_dispatch [OF assms] by blast
  obtain c where "config_update a s' (bn_config (tu_bundle t)) = Some c"
    using config_update_total [OF s'(2)] by blast
  then show ?thesis using s' by (simp add: dispatch_all_def update_bundle_def)
qed

lemma tu_state_spawn [simp]: "tu_state (spawn ts t) = tu_state t" "tu_bundle (spawn ts t) = tu_bundle t"
  by (simp_all add: spawn_def)

lemma perform_total:
  assumes "good (tu_state t)" "env_unix_millis env \<le> 9223372036854775807" "known_toggle (tu_state t) a"
  shows "\<exists>t'. perform env a t = Some t' \<and> good (tu_state t')"
  using dispatch_all_total [OF assms] by (auto simp: perform_def)

definition no_toggle :: "action \<Rightarrow> bool" where
  "no_toggle a = (case a of AToggleConnectionVisibility _ \<Rightarrow> False | _ \<Rightarrow> True)"

lemma no_toggle_known: "no_toggle a \<Longrightarrow> known_toggle s a"
  by (cases a) (simp_all add: no_toggle_def known_toggle_def)

lemma row_key_no_toggle: "row_key k = Some a \<Longrightarrow> no_toggle a"
  by (auto simp: row_key_def no_toggle_def split: if_splits)

lemma or_key_Some: "or_key x y = Some a \<longleftrightarrow> x = Some a \<or> x = None \<and> y = Some a"
  by (auto simp: or_key_def split: option.splits)

lemma keys_no_toggle:
  "help_key key s = Some a \<Longrightarrow> no_toggle a"
  "diff_key key s = Some a \<Longrightarrow> no_toggle a"
  "confirm_key key s = Some a \<Longrightarrow> no_toggle a"
  "status_bar_key key s = Some a \<Longrightarrow> no_toggle a"
  "handle_global_key key = Some a \<Longrightarrow> no_toggle a"
  "connection_bar_key key = Some a \<Longrightarrow> no_toggle a"
  "overview_key key s = Some a \<Longrightarrow> no_toggle a"
  "status_key key s sel = Some a \<Longrightarrow> no_toggle a"
  "peers_key key = Some a \<Longrightarrow> no_toggle a"
  "compare_key key cm = Some a \<Longrightarrow> no_toggle a"
  "config_key key s ct = Some (Some a, ct') \<Longrightarrow> no_toggle a"
  by (auto simp: help_key_def diff_key_def confirm_key_def status_bar_key_def handle_global_key_def
      connection_bar_key_def overview_key_def status_key_def peers_key_def compare_key_def
      config_key_def delete_request_def or_key_Some no_toggle_def Let_def
      split: if_splits option.splits input_mode.splits key_code.splits config_section.splits
      dest: row_key_no_toggle [unfolded no_toggle_def])

lemma filter_key_known: "filter_key lower key s sel = Some a \<Longrightarrow> known_toggle s a"
  by (auto simp: filter_key_def known_toggle_def filtered_connections_def conn_names_def Let_def
      split: if_splits key_code.splits option.splits dest!: nth_mem)

lemma config_key_total: "good s \<Longrightarrow> \<exists>r. config_key key s t = Some r"
  using config_connection_ok [of s] by (auto simp: config_key_def Let_def simp del: if_split split: option.splits)

lemma tab_key_total:
  "good s \<Longrightarrow> \<exists>a b'. tab_key key s b = Some (a, b') \<and> (\<forall>x. a = Some x \<longrightarrow> no_toggle x)"
  using config_key_total [of s key "bn_config b"]
  by (cases "active_tab s") (auto simp: tab_key_def intro: keys_no_toggle)

lemma resolve_key_total:
  "good s \<Longrightarrow> \<exists>a b'. resolve_key env key s b = Some (a, b') \<and> (\<forall>x. a = Some x \<longrightarrow> known_toggle s x)"
  using tab_key_total [of s key b]
  by (auto simp: resolve_key_def or_key_Some intro: filter_key_known no_toggle_known keys_no_toggle
      split: option.splits)

lemma confirmed_no_toggle: "no_toggle (confirmed_action c)"
  by (cases c) (simp_all add: no_toggle_def)

lemma follow_up_known: "follow_up a s = Some f \<Longrightarrow> known_toggle s' f"
  by (auto simp: follow_up_def confirmed_no_toggle intro: no_toggle_known split: if_splits)

lemma perform_key_total:
  assumes "good (tu_state t)" "env_unix_millis env \<le> 9223372036854775807" "known_toggle (tu_state t) a"
  shows "\<exists>t'. perform_key env a t = Some t' \<and> good (tu_state t')"
proof -
  obtain t1 where t1: "perform env a t = Some t1" "good (tu_state t1)"
    using perform_total [OF assms] by blast
  show ?thesis
  proof (cases "follow_up a (tu_state t)")
    case None
    then show ?thesis using t1 by (simp add: perform_key_def)
  next
    case (Some f)
    obtain t2 where "perform env f t1 = Some t2" "good (tu_state t2)"
      using perform_total [OF t1(2) assms(2) follow_up_known [OF Some]] by blast
    then show ?thesis using t1 Some by (simp add: perform_key_def)
  qed
qed

lemma handle_key_total:
  assumes "good (tu_state t)" "env_unix_millis env \<le> 9223372036854775807"
  shows "\<exists>t'. handle_key_event env key t = Some t' \<and> good (tu_state t')"
proof -
  obtain a b where r: "resolve_key env key (tu_state t) (tu_bundle t) = Some (a, b)"
    "\<forall>x. a = Some x \<longrightarrow> known_toggle (tu_state t) x"
    using resolve_key_total [OF assms(1)] by blast
  show ?thesis
  proof (cases a)
    case None
    then show ?thesis using r assms by (simp add: handle_key_event_def)
  next
    case (Some x)
    then obtain t' where "perform_key env x (t\<lparr>tu_bundle := b\<rparr>) = Some t'" "good (tu_state t')"
      using perform_key_total [of "t\<lparr>tu_bundle := b\<rparr>" env x] r assms by auto
    then show ?thesis using r Some by (simp add: handle_key_event_def)
  qed
qed

lemma mouse_no_toggle: "resolve_mouse_action m area = Some a \<Longrightarrow> no_toggle a"
  by (auto simp: resolve_mouse_action_def tab_hit_eq Let_def no_toggle_def
      split: mouse_kind.splits if_splits)

lemma handle_event_total:
  assumes "good (tu_state t)" "env_unix_millis env \<le> 9223372036854775807"
  shows "\<exists>t'. handle_event env chunks ev t = Some t' \<and> good (tu_state t')"
proof (cases ev)
  case (EvKey key)
  then show ?thesis using handle_key_total [OF assms] by (simp add: handle_event_def)
next
  case (EvMouse m)
  show ?thesis
  proof (cases "resolve_mouse_action m (hd chunks)")
    case None
    then show ?thesis using assms EvMouse by (simp add: handle_event_def handle_mouse_event_def Let_def)
  next
    case (Some a)
    then show ?thesis
      using assms EvMouse perform_total [OF assms no_toggle_known [OF mouse_no_toggle [OF Some]]]
      by (simp add: handle_event_def handle_mouse_event_def Let_def)
  qed
next
  case EvTick
  then show ?thesis using assms by (simp add: handle_event_def spawn_status_poll_def)
qed

definition message_ok :: "daemon_message \<Rightarrow> bool" where
  "message_ok m =
     (case m of DmReload c _ \<Rightarrow> \<forall>(n, w) \<in> set (ac_connections c). config_keys_ok w | _ \<Rightarrow> True)"

lemma dispatch_list_total:
  "good (tu_state t) \<Longrightarrow> env_unix_millis env \<le> 9223372036854775807 \<Longrightarrow> \<forall>a \<in> set as. no_toggle a \<Longrightarrow>
   \<exists>t'. dispatch_list env as t = Some t' \<and> good (tu_state t')"
proof (induction as arbitrary: t)
  case (Cons a as)
  then obtain t1 where t1: "dispatch_all env a t = Some t1" "good (tu_state t1)"
    using dispatch_all_total [of t env a] no_toggle_known by auto
  then show ?case using Cons.IH [OF t1(2)] Cons.prems by simp
qed simp

lemma message_actions_no_toggle: "\<forall>a \<in> set (message_actions m). no_toggle a"
  by (cases m) (simp_all add: no_toggle_def)

lemma handle_message_total:
  assumes "good (tu_state t)" "env_unix_millis env \<le> 9223372036854775807" "message_ok m"
  shows "\<exists>t'. handle_message env m t = Some t' \<and> good (tu_state t')"
proof -
  have "good (tu_state (reload_for m t))"
    using assms good_reload by (cases m) (auto simp: reload_for_def message_ok_def)
  then obtain t' where "dispatch_list env (message_actions m) (reload_for m t) = Some t'"
    "good (tu_state t')"
    using dispatch_list_total [OF _ assms(2) message_actions_no_toggle] by blast
  then show ?thesis by (cases m) (simp_all add: handle_message_def)
qed

lemma handle_messages_total:
  "good (tu_state t) \<Longrightarrow> env_unix_millis env \<le> 9223372036854775807 \<Longrightarrow> \<forall>m \<in> set ms. message_ok m \<Longrightarrow>
   \<exists>t'. handle_daemon_messages env ms t = Some t' \<and> good (tu_state t')"
proof (induction ms arbitrary: t)
  case (Cons m ms)
  then obtain t1 where t1: "handle_message env m t = Some t1" "good (tu_state t1)"
    using handle_message_total [of t env m] by auto
  then show ?case using Cons.IH [OF t1(2)] Cons.prems by simp
qed simp

lemma prepare_total:
  assumes "good (tu_state t)" "env_unix_millis (rd_env rd) \<le> 9223372036854775807"
    and "\<forall>m \<in> set (rd_messages rd). message_ok m"
  shows "\<exists>t'. prepare rd t = Some t' \<and> good (tu_state t')"
proof -
  have "good (tu_state (arrive rd t))" using assms by (simp add: arrive_def)
  then obtain t' where "handle_daemon_messages (rd_env rd) (rd_messages rd) (arrive rd t) = Some t'"
    "good (tu_state t')"
    using handle_messages_total assms by blast
  then show ?thesis by (simp add: prepare_def)
qed

section \<open>Draws\<close>

definition over_scrolled :: "app_state \<Rightarrow> bool" where
  "over_scrolled s =
     (case config_diff_pending s of
        None \<Rightarrow> False
      | Some d \<Rightarrow> length (cd_diff_lines d) < cd_scroll_offset d)"

lemma diff_render_None: "diff_render ui area s = None \<longleftrightarrow> over_scrolled s"
  by (auto simp: diff_render_def diff_lines_drawn_def slice_def over_scrolled_def Let_def
      split: option.splits)

lemma bar_render_total: "connection_bar_render area s \<noteq> None"
  by (auto simp: connection_bar_render_def Let_def viewport_def enumerate_eq_zip simp flip: length_0_conv)

lemma peers_render_total:
  assumes "good s" "\<And>bs. key_wf bs \<Longrightarrow> 10 \<le> length (b64_encode (env_codec env) bs)"
  shows "peers_render ui env area s sel \<noteq> None"
proof -
  have "peer_row (env_codec env) th p \<noteq> None" if "p \<in> set (filtered_peers (env_lower env) s)" for th p
  proof -
    have "key_wf (public_bytes (pc_public_key p))"
      using that assms(1) by (auto simp: filtered_peers_def good_def keys_ok_def config_keys_ok_def Let_def)
    then show ?thesis
      using assms(2) [of "public_bytes (pc_public_key p)"]
      by (simp add: peer_row_def public_to_base64_def Let_def)
  qed
  then have "None \<notin> set (map (peer_row (env_codec env) th) (filtered_peers (env_lower env) s))" for th
    by (metis (no_types, lifting) imageE list.set_map)
  then show ?thesis by (simp add: peers_render_def collect_options_def del: set_map)
qed

lemma render_tab_total:
  assumes "good s" "\<And>bs. key_wf bs \<Longrightarrow> 10 \<le> length (b64_encode (env_codec env) bs)"
  shows "render_tab dr env area s b \<noteq> None"
  using peers_render_total [of s env, OF assms] config_connection_ok [OF assms(1)]
  by (cases "active_tab s") (auto simp: render_tab_def config_render_def Let_def split: option.splits)

lemma render_widgets_None:
  assumes "good s" "\<And>bs. key_wf bs \<Longrightarrow> 10 \<le> length (b64_encode (env_codec env) bs)"
  shows "render_widgets dr env chunks bar area s b = None \<longleftrightarrow>
    80 \<le> rw area \<and> 24 \<le> rh area \<and> over_scrolled s"
proof (cases "rw area < 80 \<or> rh area < 24")
  case False
  obtain strip where strip: "(if bar then connection_bar_render (chunks ! 1) s else Some []) = Some strip"
    using bar_render_total [of "chunks ! 1" s] by (cases bar) auto
  obtain body b1 where body: "render_tab dr env (chunks ! 2) s b = Some (body, b1)"
    using render_tab_total [of s env dr "chunks ! 2" b, OF assms] by auto
  show ?thesis
    using False strip body diff_render_None [of "dr_ui dr" "chunks ! 2" s]
    by (cases "diff_render (dr_ui dr) (chunks ! 2) s") (auto simp: render_widgets_def split: prod.splits)
qed (auto simp: render_widgets_def)

lemma render_ui_config:
  "render_ui dr env chunks bar area frame s b = Some (d, b') \<Longrightarrow> bn_config b' = bn_config b"
  by (auto simp: render_ui_def render_widgets_def render_tab_def Let_def apsnd_def map_prod_def
      split: if_splits option.splits prod.splits tab.splits)

section \<open>Rounds\<close>

text \<open>What a round may assume: the clock fits 64 bits, the layout is the one the debug assertions
  state, ratatui draws what lies in the frame, base64 texts of keys are long enough to cut, and
  configurations have whole keys.\<close>

definition round_sound :: "round \<Rightarrow> bool" where
  "round_sound rd =
     (env_unix_millis (rd_env rd) \<le> 9223372036854775807 \<and>
      (\<forall>area n. compute_layout (dr_ui (rd_draw rd)) area n \<noteq> None) \<and>
      draw_sound (rd_draw rd) \<and>
      (\<forall>bs. key_wf bs \<longrightarrow> 10 \<le> length (b64_encode (env_codec (rd_env rd)) bs)) \<and>
      (\<forall>m \<in> set (rd_messages rd). message_ok m))"

text \<open>The draw of a round: the client to draw, the areas laid out for the size read before the event,
  and the frame there is by then.\<close>

record draw_call =
  dc_tui :: tui
  dc_chunks :: "rect list"
  dc_bar :: bool
  dc_area :: rect
  dc_frame :: rect

definition round_draw :: "round \<Rightarrow> tui \<Rightarrow> draw_call option" where
  "round_draw rd t =
     (case (prepare rd t, rd_size rd, rd_event rd, rd_frame rd) of
        (Some t1, Inr (w, h), Some ev, Inr (fw, fh)) \<Rightarrow>
          (case compute_layout (dr_ui (rd_draw rd)) (at_origin w h) (length (connections (tu_state t1))) of
             None \<Rightarrow> None
           | Some (chunks, bar) \<Rightarrow>
               map_option (\<lambda>t2. \<lparr>dc_tui = t2, dc_chunks = chunks, dc_bar = bar, dc_area = at_origin w h,
                   dc_frame = at_origin fw fh\<rparr>)
                 (handle_event (rd_env rd) chunks ev t1))
      | _ \<Rightarrow> None)"

definition call_widgets :: "round \<Rightarrow> draw_call \<Rightarrow> (drawn \<times> comp_bundle) option" where
  "call_widgets rd d = render_widgets (rd_draw rd) (rd_env rd) (dc_chunks d) (dc_bar d) (dc_area d)
     (tu_state (dc_tui d)) (tu_bundle (dc_tui d))"

text \<open>Two draws fail: one of a preview scrolled beyond its end, and one for a size that the frame does
  not have any more, when ratatui cannot draw all of its widgets there.\<close>

definition scrolled_draw :: "draw_call \<Rightarrow> bool" where
  "scrolled_draw d =
     (80 \<le> rw (dc_area d) \<and> 24 \<le> rh (dc_area d) \<and> over_scrolled (tu_state (dc_tui d)))"

definition stale_draw :: "round \<Rightarrow> draw_call \<Rightarrow> bool" where
  "stale_draw rd d =
     (\<not> inside (dc_area d) (dc_frame d) \<and>
      (case call_widgets rd d of None \<Rightarrow> False | Some (ds, _) \<Rightarrow> \<not> list_all (dr_fits (rd_draw rd) (dc_frame d)) ds))"

lemma stale_draw_iff:
  "stale_draw rd d \<longleftrightarrow> \<not> inside (dc_area d) (dc_frame d) \<and>
     (\<exists>ds b. call_widgets rd d = Some (ds, b) \<and> \<not> list_all (dr_fits (rd_draw rd) (dc_frame d)) ds)"
  by (auto simp: stale_draw_def split: option.splits prod.splits)

lemma loop_round_draw:
  "round_draw rd t = Some d \<Longrightarrow> loop_round rd t =
     (case call_widgets rd d of
        None \<Rightarrow> None
      | Some (ds, b) \<Rightarrow>
          if list_all (dr_fits (rd_draw rd) (dc_frame d)) ds
          then Some (case rd_output rd of Inl e \<Rightarrow> LoopFailed e | Inr _ \<Rightarrow> LoopOpen, (dc_tui d)\<lparr>tu_bundle := b\<rparr>)
          else None)"
  by (auto simp: round_draw_def loop_round_def call_widgets_def render_ui_def Let_def
      split: option.splits sum.splits prod.splits)

lemma round_draw_parts:
  assumes "round_draw rd t = Some d" "good (tu_state t)" "round_sound rd"
  shows "good (tu_state (dc_tui d))"
    and "\<exists>w h fw fh. dc_area d = at_origin w h \<and> dc_frame d = at_origin fw fh \<and> rd_size rd = Inr (w, h) \<and>
      rd_frame rd = Inr (fw, fh)"
    and "\<exists>n. compute_layout (dr_ui (rd_draw rd)) (dc_area d) n = Some (dc_chunks d, dc_bar d)"
proof -
  have env: "env_unix_millis (rd_env rd) \<le> 9223372036854775807" using assms(3) by (simp add: round_sound_def)
  obtain t1 where t1: "prepare rd t = Some t1" "good (tu_state t1)"
    using prepare_total [OF assms(2) env] assms(3) by (auto simp: round_sound_def)
  obtain w h ev fw fh chunks bar where r: "rd_size rd = Inr (w, h)" "rd_event rd = Some ev"
    "rd_frame rd = Inr (fw, fh)"
    "compute_layout (dr_ui (rd_draw rd)) (at_origin w h) (length (connections (tu_state t1))) = Some (chunks, bar)"
    using assms(1) t1(1) by (auto simp: round_draw_def split: sum.splits option.splits prod.splits)
  obtain t2 where t2: "handle_event (rd_env rd) chunks ev t1 = Some t2" "good (tu_state t2)"
    using handle_event_total [OF t1(2) env] by blast
  have d: "d = \<lparr>dc_tui = t2, dc_chunks = chunks, dc_bar = bar, dc_area = at_origin w h, dc_frame = at_origin fw fh\<rparr>"
    using assms(1) t1(1) r t2(1) by (simp add: round_draw_def)
  show "good (tu_state (dc_tui d))"
    "\<exists>w h fw fh. dc_area d = at_origin w h \<and> dc_frame d = at_origin fw fh \<and> rd_size rd = Inr (w, h) \<and>
      rd_frame rd = Inr (fw, fh)"
    "\<exists>n. compute_layout (dr_ui (rd_draw rd)) (dc_area d) n = Some (dc_chunks d, dc_bar d)"
    using r t2 by (auto simp: d)
qed

text \<open>In a frame that is not smaller, everything is drawn.\<close>

lemma draw_fits:
  assumes "round_draw rd t = Some d" "good (tu_state t)" "round_sound rd"
    and "inside (dc_area d) (dc_frame d)" "call_widgets rd d = Some (ds, b)"
  shows "list_all (dr_fits (rd_draw rd) (dc_frame d)) ds"
proof -
  obtain w h fw fh where wh: "dc_area d = at_origin w h" "dc_frame d = at_origin fw fh"
    using round_draw_parts(2) [OF assms(1-3)] by blast
  obtain n where lay: "compute_layout (dr_ui (rd_draw rd)) (at_origin w h) n = Some (dc_chunks d, dc_bar d)"
    using round_draw_parts(3) [OF assms(1-3)] wh(1) by auto
  have "render_ui (rd_draw rd) (rd_env rd) (dc_chunks d) (dc_bar d) (at_origin w h) (at_origin fw fh)
      (tu_state (dc_tui d)) (tu_bundle (dc_tui d)) = Some (ds, b)"
    using render_ui_fits [OF _ lay, of fw fh] assms(3-5) wh
    by (simp add: round_sound_def call_widgets_def inside_def word_le_nat_alt)
  then show ?thesis by (auto simp: render_ui_def wh split: option.splits prod.splits if_splits)
qed

lemma call_widgets_None:
  assumes "round_draw rd t = Some d" "good (tu_state t)" "round_sound rd"
  shows "call_widgets rd d = None \<longleftrightarrow> scrolled_draw d"
proof -
  have "\<And>bs. key_wf bs \<Longrightarrow> 10 \<le> length (b64_encode (env_codec (rd_env rd)) bs)"
    using assms(3) by (simp add: round_sound_def)
  from render_widgets_None [OF round_draw_parts(1) [OF assms] this]
  show ?thesis by (simp add: call_widgets_def scrolled_draw_def)
qed

text \<open>A round without a draw ends the loop or fails, and does not panic.\<close>

lemma undrawn_round:
  assumes "good (tu_state t)" "round_sound rd" "round_draw rd t = None"
  shows "\<exists>r t'. loop_round rd t = Some (r, t') \<and> r \<noteq> LoopOpen \<and> good (tu_state t')"
proof -
  have env: "env_unix_millis (rd_env rd) \<le> 9223372036854775807" using assms(2) by (simp add: round_sound_def)
  obtain t1 where t1: "prepare rd t = Some t1" "good (tu_state t1)"
    using prepare_total [OF assms(1) env] assms(2) by (auto simp: round_sound_def)
  show ?thesis
  proof (cases "rd_size rd")
    case (Inl e)
    then show ?thesis using t1 by (simp add: loop_round_def)
  next
    case (Inr wh)
    obtain chunks bar where lay: "compute_layout (dr_ui (rd_draw rd)) (at_origin (fst wh) (snd wh))
        (length (connections (tu_state t1))) = Some (chunks, bar)"
      using assms(2) by (fastforce simp: round_sound_def)
    show ?thesis
    proof (cases "rd_event rd")
      case None
      then show ?thesis using t1 Inr lay by (simp add: loop_round_def split_beta)
    next
      case (Some ev)
      obtain t2 where t2: "handle_event (rd_env rd) chunks ev t1 = Some t2" "good (tu_state t2)"
        using handle_event_total [OF t1(2) env] by blast
      then show ?thesis
        using t1 Inr lay Some assms(3)
        by (cases "rd_frame rd") (simp_all add: loop_round_def round_draw_def split_beta)
    qed
  qed
qed

lemma loop_round_cases:
  assumes "good (tu_state t)" "round_sound rd"
  shows "case loop_round rd t of
      None \<Rightarrow> (\<exists>d. round_draw rd t = Some d \<and> (scrolled_draw d \<or> stale_draw rd d))
    | Some (_, t') \<Rightarrow> good (tu_state t') \<and>
        (\<forall>d. round_draw rd t = Some d \<longrightarrow> \<not> (scrolled_draw d \<or> stale_draw rd d))"
proof (cases "round_draw rd t")
  case None
  then show ?thesis using undrawn_round [OF assms None] by auto
next
  case (Some d)
  note parts = round_draw_parts [OF Some assms] and none = call_widgets_None [OF Some assms]
    and fits = draw_fits [OF Some assms]
  show ?thesis
  proof (cases "call_widgets rd d")
    case None
    then show ?thesis using none Some loop_round_draw [OF Some] by simp
  next
    case drawn: (Some r)
    obtain ds b where r: "r = (ds, b)" by (cases r)
    show ?thesis
      using parts(1) none fits drawn r Some loop_round_draw [OF Some]
      by (auto simp: stale_draw_def)
  qed
qed

lemma good_start: "(\<forall>(n, w) \<in> set (ac_connections c). config_keys_ok w) \<Longrightarrow> good (tu_state (tui_start al c hist))"
  using good_reload [of c "new_state al c"]
    good_cong [of "tu_state (tui_start al c hist)" "reload_from_config c (new_state al c)"]
  by (cases hist) (simp_all add: tui_start_def start_state_def reload_from_config_def new_state_def Let_def)

lemma event_loop_panic:
  "good (tu_state t) \<Longrightarrow> \<forall>rd \<in> set rds. round_sound rd \<Longrightarrow> event_loop rds t = None \<Longrightarrow>
   \<exists>pre rd rest t0 d. rds = pre @ rd # rest \<and> event_loop pre t = Some (LoopOpen, t0) \<and>
     round_draw rd t0 = Some d \<and> (scrolled_draw d \<or> stale_draw rd d)"
proof (induction rds arbitrary: t)
  case Nil
  then show ?case by (simp add: event_loop.simps split: if_splits)
next
  case (Cons rd rds)
  then have run: "running (tu_state t)" by (auto simp: event_loop.simps split: if_splits)
  have cases: "case loop_round rd t of
      None \<Rightarrow> (\<exists>d. round_draw rd t = Some d \<and> (scrolled_draw d \<or> stale_draw rd d))
    | Some (_, t') \<Rightarrow> good (tu_state t') \<and>
        (\<forall>d. round_draw rd t = Some d \<longrightarrow> \<not> (scrolled_draw d \<or> stale_draw rd d))"
    by (rule loop_round_cases) (use Cons.prems in simp_all)
  show ?case
  proof (cases "loop_round rd t")
    case None
    then have "\<exists>d. round_draw rd t = Some d \<and> (scrolled_draw d \<or> stale_draw rd d)" using cases by simp
    moreover have "event_loop [] t = Some (LoopOpen, t)" using run by (simp add: event_loop.simps)
    ultimately show ?thesis by blast
  next
    case (Some r)
    obtain e t' where r: "r = (e, t')" by (cases r)
    have "e = LoopOpen" "event_loop rds t' = None"
      using Cons.prems(3) run Some r by (auto simp: event_loop.simps [of "rd # rds"] split: loop_end.splits)
    moreover have "good (tu_state t')" using cases Some r by simp
    ultimately obtain pre rd' rest t0 d where *: "rds = pre @ rd' # rest"
      "event_loop pre t' = Some (LoopOpen, t0)" "round_draw rd' t0 = Some d"
      "scrolled_draw d \<or> stale_draw rd' d"
      using Cons.IH [of t'] Cons.prems(2) by auto
    have "event_loop (rd # pre) t = Some (LoopOpen, t0)"
      using run Some r \<open>e = LoopOpen\<close> *(2) by (simp add: event_loop.simps [of "rd # pre"])
    then show ?thesis using * by (metis append_Cons)
  qed
qed

lemma event_loop_open_running: "event_loop pre t = Some (LoopOpen, t') \<Longrightarrow> running (tu_state t')"
proof (induction pre arbitrary: t)
  case (Cons rd pre)
  then show ?case
    by (auto simp: event_loop.simps [of "rd # pre"] split: if_splits option.splits loop_end.splits)
qed (simp add: event_loop.simps split: if_splits)

lemma event_loop_append:
  "event_loop pre t = Some (LoopOpen, t') \<Longrightarrow> event_loop (pre @ rest) t = event_loop rest t'"
proof (induction pre arbitrary: t)
  case Nil
  then have "t' = t" by (simp add: event_loop.simps [of "[]"] split: if_splits)
  then show ?case by simp
next
  case (Cons rd pre)
  then show ?case
    by (auto simp: event_loop.simps [of "rd # pre"] event_loop.simps [of "rd # pre @ rest"]
        split: if_splits option.splits loop_end.splits)
qed

lemma event_loop_good:
  "good (tu_state t) \<Longrightarrow> \<forall>rd \<in> set rds. round_sound rd \<Longrightarrow> event_loop rds t = Some (e, t') \<Longrightarrow>
   good (tu_state t')"
proof (induction rds arbitrary: t)
  case Nil
  then show ?case by (simp add: event_loop.simps split: if_splits)
next
  case (Cons rd rds)
  show ?case
  proof (cases "running (tu_state t)")
    case True
    then obtain e1 t1 where r: "loop_round rd t = Some (e1, t1)"
      using Cons.prems(3) by (auto simp: event_loop.simps [of "rd # rds"] split: option.splits)
    then have "good (tu_state t1)"
      using loop_round_cases [of t rd] Cons.prems by simp
    then show ?thesis
      using Cons True r by (auto simp: event_loop.simps [of "rd # rds"] split: loop_end.splits)
  qed (use Cons.prems in \<open>simp add: event_loop.simps\<close>)
qed

text \<open>C1. The client panics in exactly two ways, both of them draws: of a diff preview scrolled beyond its
  last line, on a terminal of at least 80 by 24; and of widgets laid out for the size that was read
  before the loop waited for its event, when the terminal has been made smaller since and ratatui
  cannot draw one of them there. No key, mouse event, message or tick makes anything else in it fail,
  in any order.\<close>

theorem tui_panics_iff:
  assumes "\<forall>(n, w) \<in> set (ac_connections c). config_keys_ok w" "\<forall>rd \<in> set rds. round_sound rd"
  shows "run_tui al c hist rds = None \<longleftrightarrow>
    (\<exists>pre rd rest t0 d. rds = pre @ rd # rest \<and> run_tui al c hist pre = Some (LoopOpen, t0) \<and>
      round_draw rd t0 = Some d \<and>
      (80 \<le> rw (dc_area d) \<and> 24 \<le> rh (dc_area d) \<and> over_scrolled (tu_state (dc_tui d)) \<or>
       \<not> inside (dc_area d) (dc_frame d) \<and>
       (\<exists>ds b. call_widgets rd d = Some (ds, b) \<and> \<not> list_all (dr_fits (rd_draw rd) (dc_frame d)) ds)))"
    (is "_ \<longleftrightarrow> ?bad")
proof -
  have bad: "?bad \<longleftrightarrow> (\<exists>pre rd rest t0 d. rds = pre @ rd # rest \<and> run_tui al c hist pre = Some (LoopOpen, t0) \<and>
      round_draw rd t0 = Some d \<and> (scrolled_draw d \<or> stale_draw rd d))"
    unfolding scrolled_draw_def stale_draw_iff ..
  show ?thesis unfolding bad
  proof
    assume "run_tui al c hist rds = None"
    then show "\<exists>pre rd rest t0 d. rds = pre @ rd # rest \<and> run_tui al c hist pre = Some (LoopOpen, t0) \<and>
        round_draw rd t0 = Some d \<and> (scrolled_draw d \<or> stale_draw rd d)"
      using event_loop_panic [OF good_start [OF assms(1)] assms(2)] unfolding run_tui_def by blast
  next
    assume "\<exists>pre rd rest t0 d. rds = pre @ rd # rest \<and> run_tui al c hist pre = Some (LoopOpen, t0) \<and>
        round_draw rd t0 = Some d \<and> (scrolled_draw d \<or> stale_draw rd d)"
    then obtain pre rd rest t0 d where *: "rds = pre @ rd # rest"
      "run_tui al c hist pre = Some (LoopOpen, t0)" "round_draw rd t0 = Some d"
      "scrolled_draw d \<or> stale_draw rd d" by blast
    have sound: "\<forall>rd \<in> set pre. round_sound rd" "round_sound rd" using assms(2) *(1) by auto
    have "good (tu_state t0)"
      using event_loop_good [OF good_start [OF assms(1)] sound(1)] *(2) by (simp add: run_tui_def)
    then have "loop_round rd t0 = None"
      using loop_round_cases [OF _ sound(2)] *(3,4) by (fastforce split: option.splits)
    moreover have "running (tu_state t0)"
      using *(2) event_loop_open_running by (simp add: run_tui_def)
    ultimately have "event_loop (rd # rest) t0 = None" by (simp add: event_loop.simps)
    then show "run_tui al c hist rds = None"
      using *(1,2) event_loop_append by (simp add: run_tui_def)
  qed
qed

section \<open>Keys alone reach the panic\<close>

definition plain_key :: "key_code \<Rightarrow> key_event" where
  "plain_key k = \<lparr>ke_code = k, ke_control = False\<rparr>"

definition key_round :: "app_env \<Rightarrow> draw_env \<Rightarrow> u16 \<Rightarrow> key_code \<Rightarrow> round" where
  "key_round env dr w k = \<lparr>rd_env = env, rd_draw = dr, rd_messages = [], rd_logs = [],
     rd_poll_done = False, rd_size = Inr (w, 24), rd_event = Some (EvKey (plain_key k)),
     rd_frame = Inr (w, 24), rd_output = Inr ()\<rparr>"

lemma prepare_quiet: "toasts (tu_state t) = [] \<Longrightarrow> prepare (key_round env dr w k) t = Some t"
  by (cases t, cases "tu_state t") (simp add: prepare_def arrive_def key_round_def clear_expired_toasts_def)

lemma perform_state:
  assumes "dispatch env a (tu_state t) = Some s'" "config_update a s' (bn_config (tu_bundle t)) = Some ct"
    and "a \<noteq> AConfirmYes"
  shows "\<exists>t'. perform_key env a t = Some t' \<and> tu_state t' = s' \<and> bn_config (tu_bundle t') = ct"
  using assms by (simp add: perform_key_def perform_def dispatch_all_def update_bundle_def follow_up_def)

text \<open>What a key's round draws, in a frame of the size that was read.\<close>

lemma key_round_draw:
  assumes "round_sound (key_round env dr w k)" "toasts (tu_state t) = []"
    and "handle_key_event env (plain_key k) t = Some t'"
  shows "\<exists>d. round_draw (key_round env dr w k) t = Some d \<and> dc_tui d = t' \<and>
    dc_area d = at_origin w 24 \<and> dc_frame d = at_origin w 24"
proof -
  obtain chunks bar where
    "compute_layout (dr_ui dr) (at_origin w 24) (length (connections (tu_state t))) = Some (chunks, bar)"
    using assms(1) by (fastforce simp: round_sound_def key_round_def)
  then show ?thesis
    using assms(3) prepare_quiet [OF assms(2), of env dr w k]
    by (simp add: round_draw_def key_round_def handle_event_def)
qed

text \<open>A key that leaves no preview scrolled too far.\<close>

lemma run_key:
  assumes "round_sound (key_round env dr w k)" "good (tu_state t)"
    and "toasts (tu_state t) = []" "running (tu_state t)"
    and "resolve_key env (plain_key k) (tu_state t) (tu_bundle t) = Some (Some a, b)" "a \<noteq> AConfirmYes"
    and "dispatch env a (tu_state t) = Some s'" "config_update a s' (bn_config b) = Some ct"
    and "\<not> over_scrolled s'"
  shows "\<exists>t'. event_loop (key_round env dr w k # rest) t = event_loop rest t' \<and> good (tu_state t') \<and>
    tu_state t' = s' \<and> bn_config (tu_bundle t') = ct"
proof -
  let ?rd = "key_round env dr w k"
  obtain t1 where t1: "perform_key env a (t\<lparr>tu_bundle := b\<rparr>) = Some t1" "tu_state t1 = s'"
    "bn_config (tu_bundle t1) = ct"
    using perform_state [of env a "t\<lparr>tu_bundle := b\<rparr>" s' ct] assms by auto
  have "handle_key_event env (plain_key k) t = Some t1"
    using assms(5) t1(1) by (simp add: handle_key_event_def)
  then obtain d where d: "round_draw ?rd t = Some d" "dc_tui d = t1" "dc_area d = dc_frame d"
    using key_round_draw [OF assms(1,3)] by metis
  have "\<not> scrolled_draw d" "\<not> stale_draw ?rd d"
    using d assms(9) t1(2) by (simp_all add: scrolled_draw_def stale_draw_def)
  then obtain r t' where r: "loop_round ?rd t = Some (r, t')" "good (tu_state t')"
    using loop_round_cases [OF assms(2,1)] d(1) by (auto split: option.splits)
  obtain ds b' where "call_widgets ?rd d = Some (ds, b')" "t' = t1\<lparr>tu_bundle := b'\<rparr>" "r = LoopOpen"
    using r(1) loop_round_draw [OF d(1)] d(2)
    by (auto simp: key_round_def split: option.splits if_splits)
  then have "bn_config b' = ct" "tu_state t' = s'" "r = LoopOpen" "tu_bundle t' = b'"
    using render_ui_config [of "rd_draw ?rd" "rd_env ?rd" "dc_chunks d" "dc_bar d" "dc_area d" "dc_frame d"
        "tu_state t1" "tu_bundle t1" ds b'] r(1) loop_round_draw [OF d(1)] d(2) t1
    by (auto simp: call_widgets_def render_ui_def split: if_splits)
  then show ?thesis using assms(4) r by (auto simp: event_loop.simps [of "?rd # rest"])
qed

text \<open>What the keys below need of a state: no overlay, no toast.\<close>

definition calm :: "app_state \<Rightarrow> bool" where
  "calm s = (running s \<and> toasts s = [] \<and> \<not> show_help s \<and> \<not> show_connection_filter s \<and>
     pending_confirm s = None \<and> config_diff_pending s = None)"

lemma calm_scrolled: "calm s \<Longrightarrow> \<not> over_scrolled s"
  by (simp add: calm_def over_scrolled_def)

lemma to_config_tab:
  assumes "round_sound (key_round env dr w (KChar ''5''))" "good (tu_state t)" "calm (tu_state t)"
    "input_mode (tu_state t) = MNormal \<or> input_mode (tu_state t) = MEditField"
  shows "\<exists>t'. event_loop (key_round env dr w (KChar ''5'') # rest) t = event_loop rest t' \<and>
    good (tu_state t') \<and> tu_state t' = handle_tab_actions (ASelectTab TabConfig) (tu_state t) \<and>
    bn_config (tu_bundle t') = bn_config (tu_bundle t)"
proof (rule run_key [OF assms(1,2)])
  show "resolve_key env (plain_key (KChar ''5'')) (tu_state t) (tu_bundle t) =
      Some (Some (ASelectTab TabConfig), tu_bundle t)"
    using assms(3,4) by (auto simp: resolve_key_def calm_def is_text_mode_def handle_global_key_def
        plain_key_def or_key_def)
  show "dispatch env (ASelectTab TabConfig) (tu_state t) =
      Some (handle_tab_actions (ASelectTab TabConfig) (tu_state t))"
    by (simp add: dispatch_def group_of_def)
  show "config_update (ASelectTab TabConfig) (handle_tab_actions (ASelectTab TabConfig) (tu_state t))
      (bn_config (tu_bundle t)) = Some (bn_config (tu_bundle t))"
    by (simp add: config_update_def)
  show "\<not> over_scrolled (handle_tab_actions (ASelectTab TabConfig) (tu_state t))"
    using assms(3) by (auto simp: over_scrolled_def calm_def handle_tab_actions_def Let_def split: option.split)
qed (use assms(3) in \<open>simp_all add: calm_def\<close>)

lemma config_tab_key:
  assumes "calm s" "input_mode s = MNormal" "active_tab s = TabConfig" "config_connection s = Some (Some v)"
    and "k = KChar ''e'' \<and> can_edit_current_field (cv_config v) (bn_config b) \<and>
        a = AEnterConfigEdit (ct_section (bn_config b)) (ct_field (bn_config b)) \<or>
      k = KChar ''p'' \<and> a = APreviewConfig"
  shows "resolve_key env (plain_key k) s b = Some (Some a, b)"
  using assms
  by (auto simp: resolve_key_def calm_def is_text_mode_def handle_global_key_def connection_bar_key_def
      plain_key_def or_key_def tab_key_def config_key_def)

text \<open>What scrolling needs: the preview in front, and no toast.\<close>

definition previewing :: "config_diff_pending \<Rightarrow> app_state \<Rightarrow> bool" where
  "previewing d s = (running s \<and> toasts s = [] \<and> \<not> show_help s \<and> \<not> show_connection_filter s \<and>
     config_diff_pending s = Some d)"

lemma scroll_key:
  assumes "previewing d s" "cd_scroll_offset d < usize_max"
  shows "resolve_key env (plain_key KDown) s b = Some (Some AConfigDiffScrollDown, b)"
    and "dispatch env AConfigDiffScrollDown s =
      Some (s\<lparr>config_diff_pending := Some (d\<lparr>cd_scroll_offset := cd_scroll_offset d + 1\<rparr>)\<rparr>)"
  using assms by (auto simp: previewing_def resolve_key_def diff_key_def plain_key_def dispatch_def
      group_of_def handle_config_actions_def map_diff_def scroll_down_def)

lemma scroll_down_keys:
  assumes "round_sound (key_round env dr w KDown)"
    and "good (tu_state t)" "previewing d (tu_state t)"
    and "cd_scroll_offset d + n \<le> length (cd_diff_lines d)" "length (cd_diff_lines d) \<le> usize_max"
  shows "\<exists>t'. event_loop (replicate n (key_round env dr w KDown) @ rest) t = event_loop rest t' \<and>
    good (tu_state t') \<and>
    tu_state t' = (tu_state t)\<lparr>config_diff_pending := Some (d\<lparr>cd_scroll_offset := cd_scroll_offset d + n\<rparr>)\<rparr>"
  using assms(2-)
proof (induction n arbitrary: t d)
  case 0
  have "(tu_state t)\<lparr>config_diff_pending := Some d\<rparr> = tu_state t"
    using 0 by (cases "tu_state t") (simp add: previewing_def)
  then show ?case using 0 by auto
next
  case (Suc n)
  let ?d = "d\<lparr>cd_scroll_offset := cd_scroll_offset d + 1\<rparr>"
  let ?s = "(tu_state t)\<lparr>config_diff_pending := Some ?d\<rparr>"
  note key = scroll_key [OF Suc.prems(2), where env = env]
  have "\<exists>t'. event_loop (key_round env dr w KDown # replicate n (key_round env dr w KDown) @ rest) t =
      event_loop (replicate n (key_round env dr w KDown) @ rest) t' \<and> good (tu_state t') \<and>
      tu_state t' = ?s \<and> bn_config (tu_bundle t') = bn_config (tu_bundle t)"
  proof (rule run_key [OF assms(1) Suc.prems(1)])
    show "resolve_key env (plain_key KDown) (tu_state t) (tu_bundle t) =
        Some (Some AConfigDiffScrollDown, tu_bundle t)" "dispatch env AConfigDiffScrollDown (tu_state t) = Some ?s"
      using key(1) [of "tu_bundle t"] key(2) Suc.prems by simp_all
    show "config_update AConfigDiffScrollDown ?s (bn_config (tu_bundle t)) = Some (bn_config (tu_bundle t))"
      by (simp add: config_update_def)
  qed (use Suc.prems in \<open>simp_all add: previewing_def over_scrolled_def\<close>)
  then obtain t1 where t1: "event_loop (key_round env dr w KDown # replicate n (key_round env dr w KDown) @ rest) t =
      event_loop (replicate n (key_round env dr w KDown) @ rest) t1" "good (tu_state t1)" "tu_state t1 = ?s" by blast
  have "\<exists>t'. event_loop (replicate n (key_round env dr w KDown) @ rest) t1 = event_loop rest t' \<and>
      good (tu_state t') \<and>
      tu_state t' = (tu_state t1)\<lparr>config_diff_pending := Some (?d\<lparr>cd_scroll_offset := cd_scroll_offset ?d + n\<rparr>)\<rparr>"
    by (rule Suc.IH [OF t1(2)]) (use Suc.prems t1(3) in \<open>simp_all add: previewing_def\<close>)
  then show ?case using t1 by auto
qed

lemma last_scroll_panics:
  assumes "round_sound (key_round env dr w KDown)" "good (tu_state t)" "previewing d (tu_state t)" "80 \<le> w"
    and "length (cd_diff_lines d) \<le> cd_scroll_offset d" "cd_scroll_offset d < usize_max"
  shows "event_loop [key_round env dr w KDown] t = None"
proof -
  let ?rd = "key_round env dr w KDown"
  let ?d = "d\<lparr>cd_scroll_offset := cd_scroll_offset d + 1\<rparr>"
  note key = scroll_key [OF assms(3,6), where env = env]
  obtain t' where "perform_key env AConfigDiffScrollDown t = Some t'"
    "tu_state t' = (tu_state t)\<lparr>config_diff_pending := Some ?d\<rparr>"
    using perform_state [of env AConfigDiffScrollDown t] key(2) by (auto simp: config_update_def)
  then have h: "handle_key_event env (plain_key KDown) t = Some t'" "over_scrolled (tu_state t')"
    using assms(5) key(1) by (simp_all add: handle_key_event_def over_scrolled_def)
  have quiet: "toasts (tu_state t) = []" "running (tu_state t)" using assms(3) by (simp_all add: previewing_def)
  obtain e where e: "round_draw ?rd t = Some e" "dc_tui e = t'" "dc_area e = at_origin w 24"
    using key_round_draw [OF assms(1) quiet(1) h(1)] by blast
  then have "scrolled_draw e" using h(2) assms(4) by (simp add: scrolled_draw_def)
  then have "loop_round ?rd t = None"
    using loop_round_cases [OF assms(2,1)] e(1) by (fastforce split: option.splits)
  then show ?thesis using quiet(2) by (simp add: event_loop.simps)
qed

definition diff_text :: "app_env \<Rightarrow> wg_config \<Rightarrow> string" where
  "diff_text env w = unwrap_or [] (toml_save_string (env_toml env) w)"

definition first_field :: "app_env \<Rightarrow> connection_view \<Rightarrow> config_edit_state" where
  "first_field env v = \<lparr>ce_connection_name = cv_name v, ce_draft = cv_config v,
     ce_focused_section = CsInterface, ce_focused_field_idx = 0,
     ce_edit_buffer = Some (field_current_value (env_codec env) FListenPort CsInterface (cv_config v)),
     ce_field_error = None, ce_new_peer_indices = {}, ce_session_error = None\<rparr>"

definition own_diff :: "app_env \<Rightarrow> connection_view \<Rightarrow> config_diff_pending" where
  "own_diff env v = \<lparr>cd_connection_name = cv_name v, cd_draft = cv_config v,
     cd_diff_lines = config_diff (diff_text env (cv_config v)) (diff_text env (cv_config v)),
     cd_scroll_offset = 0\<rparr>"

lemma config_connection_Some:
  "config_connection s = Some (Some v) \<longleftrightarrow>
   (\<exists>name. set_min (visible_connections s) = Some name \<and> find_connection name s = Some v)"
  by (auto simp: config_connection_def split: option.splits)

lemma find_connection_name: "find_connection name s = Some v \<Longrightarrow> cv_name v = name"
  by (auto simp: find_connection_def find_Some_iff)

lemma config_connection_cong:
  "connections s' = connections s \<Longrightarrow> visible_connections s' = visible_connections s \<Longrightarrow>
   config_connection s' = config_connection s"
  by (simp add: config_connection_def find_connection_def split: option.splits)

lemma open_first_field:
  assumes "round_sound (key_round env dr w (KChar ''e''))" "good (tu_state t)" "calm (tu_state t)"
    and "input_mode (tu_state t) = MNormal" "active_tab (tu_state t) = TabConfig"
    and "config_connection (tu_state t) = Some (Some v)" "bn_config (tu_bundle t) = config_tab_new"
  shows "\<exists>t'. event_loop (key_round env dr w (KChar ''e'') # rest) t = event_loop rest t' \<and>
    good (tu_state t') \<and>
    tu_state t' = (tu_state t)\<lparr>config_edit := Some (first_field env v), input_mode := MEditField\<rparr> \<and>
    bn_config (tu_bundle t') = config_tab_new"
proof (rule run_key [OF assms(1,2), where a = "AEnterConfigEdit CsInterface 0" and b = "tu_bundle t"])
  show "resolve_key env (plain_key (KChar ''e'')) (tu_state t) (tu_bundle t) =
      Some (Some (AEnterConfigEdit CsInterface 0), tu_bundle t)"
    by (rule config_tab_key [OF assms(3-6)])
      (use assms(7) in \<open>simp add: config_tab_new_def can_edit_current_field_def fields_for_section_def
        vec_get_def\<close>)
  show "dispatch env (AEnterConfigEdit CsInterface 0) (tu_state t) =
      Some ((tu_state t)\<lparr>config_edit := Some (first_field env v), input_mode := MEditField\<rparr>)"
    using assms(6) by (auto simp: config_connection_Some dispatch_def group_of_def handle_config_actions_def
        enter_config_edit_def Let_def first_field_def field_or_default_def fields_for_section_def vec_get_def)
qed (use assms in \<open>simp_all add: calm_def config_update_def over_scrolled_def\<close>)

lemma preview_own_diff:
  assumes "round_sound (key_round env dr w (KChar ''p''))" "good (tu_state t)" "calm (tu_state t)"
    and "input_mode (tu_state t) = MNormal" "active_tab (tu_state t) = TabConfig"
    and "config_connection (tu_state t) = Some (Some v)"
    and "config_edit (tu_state t) = Some (close_buffer (first_field env v))"
  shows "\<exists>t'. event_loop (key_round env dr w (KChar ''p'') # rest) t = event_loop rest t' \<and>
    good (tu_state t') \<and> tu_state t' = (tu_state t)\<lparr>config_diff_pending := Some (own_diff env v)\<rparr> \<and>
    bn_config (tu_bundle t') = bn_config (tu_bundle t)"
proof (rule run_key [OF assms(1,2), where a = APreviewConfig and b = "tu_bundle t"])
  show "resolve_key env (plain_key (KChar ''p'')) (tu_state t) (tu_bundle t) =
      Some (Some APreviewConfig, tu_bundle t)"
    by (rule config_tab_key [OF assms(3-6)]) simp
  show "dispatch env APreviewConfig (tu_state t) =
      Some ((tu_state t)\<lparr>config_diff_pending := Some (own_diff env v)\<rparr>)"
    using assms(6,7) find_connection_name [of _ "tu_state t" v]
    by (auto simp: config_connection_Some dispatch_def group_of_def handle_config_actions_def
        preview_config_def own_diff_def first_field_def close_buffer_def original_toml_def diff_text_def)
qed (use assms in \<open>simp_all add: calm_def config_update_def over_scrolled_def own_diff_def\<close>)

text \<open>From the start to the preview of a configuration nobody edited.\<close>

lemma keys_to_preview:
  assumes "\<forall>k. round_sound (key_round env dr w k)" "good (tu_state t)" "calm (tu_state t)"
    and "input_mode (tu_state t) = MNormal" "config_connection (tu_state t) = Some (Some v)"
    and "bn_config (tu_bundle t) = config_tab_new"
  shows "\<exists>t'. event_loop (map (key_round env dr w) [KChar ''5'', KChar ''e'', KChar ''5'', KChar ''p'']
      @ rest) t = event_loop rest t' \<and> good (tu_state t') \<and>
    tu_state t' = (tu_state t)\<lparr>active_tab := TabConfig,
      config_edit := Some (close_buffer (first_field env v)), config_diff_pending := Some (own_diff env v)\<rparr>"
proof -
  let ?k = "\<lambda>k. key_round env dr w (KChar k)"
  have sound: "round_sound (key_round env dr w k)" for k using assms(1) by blast
  define s where "s = tu_state t"
  let ?s1 = "s\<lparr>active_tab := TabConfig\<rparr>"
  let ?s2 = "?s1\<lparr>config_edit := Some (first_field env v), input_mode := MEditField\<rparr>"
  let ?s3 = "?s1\<lparr>config_edit := Some (close_buffer (first_field env v)), input_mode := MNormal\<rparr>"
  have cs: "calm s" "input_mode s = MNormal" "config_connection s = Some (Some v)"
    using assms by (simp_all add: s_def)
  have conn: "config_connection ?s1 = Some (Some v)" "config_connection ?s3 = Some (Some v)"
    using cs(3) config_connection_cong [of ?s1 s] config_connection_cong [of ?s3 s] by simp_all
  have tabs: "handle_tab_actions (ASelectTab TabConfig) s = ?s1"
    "handle_tab_actions (ASelectTab TabConfig) ?s2 = ?s3"
    using cs(2) by (simp_all add: handle_tab_actions_def)
  obtain t1 where t1: "event_loop (?k ''5'' # ?k ''e'' # ?k ''5'' # ?k ''p'' # rest) t =
      event_loop (?k ''e'' # ?k ''5'' # ?k ''p'' # rest) t1" "good (tu_state t1)" "tu_state t1 = ?s1"
    "bn_config (tu_bundle t1) = config_tab_new"
    using to_config_tab [OF sound assms(2), where rest = "?k ''e'' # ?k ''5'' # ?k ''p'' # rest"] assms cs tabs(1)
    by (auto simp: s_def)
  obtain t2 where t2: "event_loop (?k ''e'' # ?k ''5'' # ?k ''p'' # rest) t1 =
      event_loop (?k ''5'' # ?k ''p'' # rest) t2" "good (tu_state t2)" "tu_state t2 = ?s2"
    "bn_config (tu_bundle t2) = config_tab_new"
    using open_first_field [OF sound t1(2), where v = v and rest = "?k ''5'' # ?k ''p'' # rest"] t1(3,4) cs conn(1)
    by (auto simp: calm_def)
  obtain t3 where t3: "event_loop (?k ''5'' # ?k ''p'' # rest) t2 = event_loop (?k ''p'' # rest) t3"
    "good (tu_state t3)" "tu_state t3 = ?s3"
    using to_config_tab [OF sound t2(2), where rest = "?k ''p'' # rest"] t2(3) cs tabs(2) by (auto simp: calm_def)
  obtain t4 where "event_loop (?k ''p'' # rest) t3 = event_loop rest t4" "good (tu_state t4)"
    "tu_state t4 = ?s3\<lparr>config_diff_pending := Some (own_diff env v)\<rparr>"
    using preview_own_diff [OF sound t3(2), where v = v and rest = rest] t3(3) cs conn(2) by (auto simp: calm_def)
  moreover have "?s3\<lparr>config_diff_pending := Some (own_diff env v)\<rparr> = s\<lparr>active_tab := TabConfig,
      config_edit := Some (close_buffer (first_field env v)), config_diff_pending := Some (own_diff env v)\<rparr>"
    using cs(2) by (cases s) simp
  ultimately show ?thesis using t1(1) t2(1) t3(1) by (auto simp: s_def)
qed

text \<open>C6. Keys alone make the client panic, on a terminal of any width from 80 columns that nobody
  resizes: from the start, with a connection \<open>v\<close> shown on the configuration tab, open its first field,
  leave it by the tab's own key, preview, and scroll down. The preview has \<open>L\<close> lines: after \<open>L\<close> times
  the client still runs, and once more ends it.\<close>

theorem keys_crash_client:
  assumes "\<forall>(n, w) \<in> set (ac_connections c). config_keys_ok w"
    and "\<forall>k. round_sound (key_round env dr w k)" "80 \<le> w"
    and "config_connection (tu_state (tui_start al c hist)) = Some (Some v)"
    and "L = length (config_diff (diff_text env (cv_config v)) (diff_text env (cv_config v)))" "L < usize_max"
  shows "(\<exists>t. run_tui al c hist (map (key_round env dr w)
      ([KChar ''5'', KChar ''e'', KChar ''5'', KChar ''p''] @ replicate L KDown)) = Some (LoopOpen, t)) \<and>
    run_tui al c hist (map (key_round env dr w)
      ([KChar ''5'', KChar ''e'', KChar ''5'', KChar ''p''] @ replicate (L + 1) KDown)) = None"
proof -
  define t0 where "t0 = tui_start al c hist"
  have t0: "calm (tu_state t0)" "input_mode (tu_state t0) = MNormal" "good (tu_state t0)"
    "bn_config (tu_bundle t0) = config_tab_new"
    using good_start [OF assms(1), of al hist]
    by (auto simp: t0_def tui_start_def start_state_def new_state_def calm_def Let_def bundle_new_def
        split: sum.splits)
  let ?down = "key_round env dr w KDown" and ?d = "own_diff env v"
  have run: "\<exists>t'. event_loop (map (key_round env dr w) [KChar ''5'', KChar ''e'', KChar ''5'', KChar ''p''] @
      replicate L ?down @ rest) t0 = event_loop rest t' \<and> good (tu_state t') \<and>
      previewing (?d\<lparr>cd_scroll_offset := L\<rparr>) (tu_state t')" for rest
  proof -
    obtain t1 where t1: "event_loop (map (key_round env dr w) [KChar ''5'', KChar ''e'', KChar ''5'',
        KChar ''p''] @ replicate L ?down @ rest) t0 = event_loop (replicate L ?down @ rest) t1"
      "good (tu_state t1)"
      "tu_state t1 = (tu_state t0)\<lparr>active_tab := TabConfig,
        config_edit := Some (close_buffer (first_field env v)), config_diff_pending := Some ?d\<rparr>"
      using keys_to_preview [OF assms(2) t0(3,1,2) _ t0(4), where v = v and rest = "replicate L ?down @ rest"] assms(4)
      by (auto simp: t0_def)
    have p: "previewing ?d (tu_state t1)" using t0(1) t1(3) by (simp add: previewing_def calm_def)
    obtain t2 where t2: "event_loop (replicate L ?down @ rest) t1 = event_loop rest t2" "good (tu_state t2)"
      "tu_state t2 = (tu_state t1)\<lparr>config_diff_pending := Some (?d\<lparr>cd_scroll_offset := L\<rparr>)\<rparr>"
      using scroll_down_keys [OF _ t1(2) p, where env = env and dr = dr and w = w and n = L and rest = rest] assms(2,5,6) by (auto simp: own_diff_def)
    then have "previewing (?d\<lparr>cd_scroll_offset := L\<rparr>) (tu_state t2)" using p by (simp add: previewing_def)
    then show ?thesis using t1(1) t2(1,2) by auto
  qed
  obtain t1 where t1: "event_loop (map (key_round env dr w) [KChar ''5'', KChar ''e'', KChar ''5'', KChar ''p''] @
      replicate L ?down) t0 = event_loop [] t1" "previewing (?d\<lparr>cd_scroll_offset := L\<rparr>) (tu_state t1)"
    using run [of "[]"] by auto
  obtain t2 where t2: "event_loop (map (key_round env dr w) [KChar ''5'', KChar ''e'', KChar ''5'', KChar ''p''] @
      replicate L ?down @ [?down]) t0 = event_loop [?down] t2" "good (tu_state t2)"
    "previewing (?d\<lparr>cd_scroll_offset := L\<rparr>) (tu_state t2)"
    using run [of "[?down]"] by auto
  have "event_loop [?down] t2 = None"
    using last_scroll_panics [OF _ t2(2,3) assms(3)] assms(2,5,6) by (simp add: own_diff_def)
  moreover have "event_loop [] t1 = Some (LoopOpen, t1)"
    using t1(2) by (simp add: event_loop.simps previewing_def)
  ultimately show ?thesis
    using t1(1) t2(1) by (auto simp: run_tui_def t0_def replicate_append_same)
qed

section \<open>A sample environment\<close>

fun part_height :: "rect \<Rightarrow> constraint \<Rightarrow> u16" where
  "part_height a (CLength n) = min n (rh a)"
| "part_height a _ = rh a"

definition plain_ui :: ui_env where
  "plain_ui = \<lparr>ui_inner = (\<lambda>r. r), ui_split = (\<lambda>cs a. map (\<lambda>c. a\<lparr>rh := part_height a c\<rparr>) cs),
     ui_select = (\<lambda>a n sel. sel), ui_fixed = (\<lambda>d x. ''0''), ui_humantime = (\<lambda>d. ''0s''),
     ui_local_time = (\<lambda>t. None)\<rparr>"

definition plain_draw :: draw_env where
  "plain_draw = \<lparr>dr_ui = plain_ui, dr_backends = {''boringtun''}, dr_wrap = 60,
     dr_fits = (\<lambda>frame d. inside (fst d) frame)\<rparr>"

lemma part_height_le: "part_height a c \<le> rh a"
  by (cases c) simp_all

lemma plain_layout: "compute_layout plain_ui area n \<noteq> None"
proof -
  have "3 \<le> rh area" if "6 \<le> rh area" using that by (rule order.trans [rotated]) simp
  moreover have "1 \<le> rh area" if "8 \<le> rh area" using that by (rule order.trans [rotated]) simp
  ultimately show ?thesis
    by (auto simp: compute_layout_def layout_ok_def plain_ui_def connection_bar_height_def
        layout_constraints_def show_connection_bar_def min_absorb1 Let_def)
qed

lemma plain_draw_sound: "draw_sound plain_draw"
  using part_height_le
  by (auto simp: draw_sound_def ui_sound_def plain_draw_def plain_ui_def inside_def word_le_nat_alt)

lemma plain_sound: "round_sound (key_round sample_env plain_draw w k)"
  using plain_layout plain_draw_sound
  by (simp add: round_sound_def key_round_def sample_env_def rfc.encode_length key_wf_def)
    (simp add: plain_draw_def)

lemma sample_keys: "\<forall>(n, w) \<in> set (ac_connections sample_app). config_keys_ok w"
  by (simp add: sample_app_def app_insert_def default_app_config_def config_keys_ok_def
      sample_config_def key_wf_def)

lemma sample_diff:
  "length (config_diff (diff_text sample_env w) (diff_text sample_env w)) = 1"
proof -
  have "diff_text sample_env w = ''config''"
    by (simp add: diff_text_def sample_env_def sample_io_def toml_save_string_def)
  moreover have "length (config_diff ''config'' ''config'') = 1" by code_simp
  ultimately show ?thesis by simp
qed

theorem keys_crash_client_witness:
  "run_tui exact_alloc sample_app (Inr []) (map (key_round sample_env plain_draw 120)
    [KChar ''5'', KChar ''e'', KChar ''5'', KChar ''p'', KDown, KDown]) = None"
proof -
  have start: "tu_state (tui_start exact_alloc sample_app (Inr [])) = (new_state exact_alloc sample_app)\<lparr>benchmark_history := []\<rparr>"
    by (simp add: tui_start_def start_state_def Let_def)
  have "\<exists>v. config_connection (tu_state (tui_start exact_alloc sample_app (Inr []))) = Some (Some v)"
    unfolding start by (simp add: config_connection_def set_min_def find_connection_def new_state_def sample_app_def
        app_insert_def default_app_config_def connection_views_def Let_def)
  then obtain v where v: "config_connection (tu_state (tui_start exact_alloc sample_app (Inr []))) = Some (Some v)" ..
  have sound: "\<forall>k. round_sound (key_round sample_env plain_draw 120 k)" using plain_sound by blast
  have "1 = length (config_diff (diff_text sample_env (cv_config v)) (diff_text sample_env (cv_config v)))"
    by (simp add: sample_diff)
  note crash = keys_crash_client [OF sample_keys sound _ v this]
  have "run_tui exact_alloc sample_app (Inr []) (map (key_round sample_env plain_draw 120)
      ([KChar ''5'', KChar ''e'', KChar ''5'', KChar ''p''] @ replicate (1 + 1) KDown)) = None"
    by (rule conjunct2 [OF crash]) (simp_all add: usize_max_def)
  then show ?thesis by (simp add: numeral_2_eq_2)
qed

text \<open>A terminal that loses rows while the client waits: with a toast on the screen, it panics.\<close>

lemma shrink_with_toast:
  assumes "round_draw rd t = Some d" "good (tu_state t)" "round_sound rd"
    and "dc_area d = at_origin w h" "80 \<le> w" "24 \<le> h" "dc_frame d = at_origin fw fh" "fh < h"
    and "toasts (tu_state (dc_tui d)) \<noteq> []" "\<not> over_scrolled (tu_state (dc_tui d))"
    and "\<And>frame a. dr_fits (rd_draw rd) frame (a, WClear) \<Longrightarrow> inside a frame"
  shows "\<not> inside (dc_area d) (dc_frame d) \<and>
    (\<exists>ds b. call_widgets rd d = Some (ds, b) \<and> \<not> list_all (dr_fits (rd_draw rd) (dc_frame d)) ds)"
proof -
  obtain ds b where c: "call_widgets rd d = Some (ds, b)"
    using call_widgets_None [OF assms(1-3)] assms(10) by (auto simp: scrolled_draw_def)
  then have "\<not> list_all (dr_fits (rd_draw rd) (at_origin fw fh)) ds"
    using toast_refused [OF assms(9,5,6,8,11)] assms(4) by (simp add: call_widgets_def)
  moreover have "\<not> inside (dc_area d) (dc_frame d)"
    using assms(4,7,8) by (simp add: inside_def word_less_nat_alt)
  ultimately show ?thesis using c assms(7) by auto
qed

definition tick_round :: "u16 \<Rightarrow> round" where
  "tick_round fh = (key_round sample_env plain_draw 80 KEsc)\<lparr>rd_messages := [DmOk ''up''],
     rd_event := Some EvTick, rd_frame := Inr (80, fh)\<rparr>"

lemma tick_round_draw:
  "\<exists>d. round_draw (tick_round fh) (tui_start exact_alloc sample_app (Inr [])) = Some d \<and>
    dc_area d = at_origin 80 24 \<and> dc_frame d = at_origin 80 fh \<and>
    toasts (tu_state (dc_tui d)) \<noteq> [] \<and> \<not> over_scrolled (tu_state (dc_tui d))"
proof -
  let ?t = "tui_start exact_alloc sample_app (Inr [])"
  obtain t1 where t1: "prepare (tick_round fh) ?t = Some t1" "toasts (tu_state t1) \<noteq> []"
    "config_diff_pending (tu_state t1) = None"
    by (auto simp: prepare_def arrive_def tick_round_def key_round_def handle_message_def reload_for_def
        dispatch_all_def dispatch_def group_of_def handle_feedback_actions_def push_toast_def
        max_visible_toasts_def update_bundle_def config_update_def clear_expired_toasts_def
        toast_is_expired_def toast_success_def toast_duration_def tui_start_def start_state_def
        new_state_def Let_def)
  obtain chunks bar where "compute_layout plain_ui (at_origin 80 24) (length (connections (tu_state t1))) = Some (chunks, bar)"
    using plain_layout by fastforce
  then show ?thesis
    using t1 by (auto simp: round_draw_def tick_round_def key_round_def plain_draw_def handle_event_def
        spawn_status_poll_def over_scrolled_def)
qed

theorem tui_panics_iff_witness:
  "run_tui exact_alloc sample_app (Inr []) [tick_round 24] \<noteq> None \<and>
   run_tui exact_alloc sample_app (Inr []) [tick_round 20] = None"
proof -
  let ?t = "tui_start exact_alloc sample_app (Inr [])"
  have sound: "round_sound (tick_round fh)" for fh
    using plain_sound [of 80 KEsc] by (simp add: round_sound_def tick_round_def key_round_def message_ok_def)
  have open0: "run_tui exact_alloc sample_app (Inr []) [] = Some (LoopOpen, ?t)"
    by (simp add: run_tui_def event_loop.simps tui_start_def start_state_def new_state_def Let_def)
  have iff: "run_tui exact_alloc sample_app (Inr []) [rd] = None \<longleftrightarrow>
      (\<exists>t0 d. run_tui exact_alloc sample_app (Inr []) [] = Some (LoopOpen, t0) \<and> round_draw rd t0 = Some d \<and>
        (80 \<le> rw (dc_area d) \<and> 24 \<le> rh (dc_area d) \<and> over_scrolled (tu_state (dc_tui d)) \<or>
         \<not> inside (dc_area d) (dc_frame d) \<and>
         (\<exists>ds b. call_widgets rd d = Some (ds, b) \<and> \<not> list_all (dr_fits (rd_draw rd) (dc_frame d)) ds)))"
    if "round_sound rd" for rd
    using that by (subst tui_panics_iff [OF sample_keys]) (auto simp: Cons_eq_append_conv)
  obtain d20 where d20: "round_draw (tick_round 20) ?t = Some d20" "dc_area d20 = at_origin 80 24"
    "dc_frame d20 = at_origin 80 20" "toasts (tu_state (dc_tui d20)) \<noteq> []"
    "\<not> over_scrolled (tu_state (dc_tui d20))"
    using tick_round_draw [of 20] by blast
  have clear: "dr_fits (rd_draw (tick_round 20)) frame (a, WClear) \<Longrightarrow> inside a frame" for frame a
    by (simp add: tick_round_def key_round_def plain_draw_def)
  have "\<not> inside (dc_area d20) (dc_frame d20) \<and> (\<exists>ds b. call_widgets (tick_round 20) d20 = Some (ds, b) \<and>
      \<not> list_all (dr_fits (rd_draw (tick_round 20)) (dc_frame d20)) ds)"
    by (rule shrink_with_toast [OF d20(1) good_start [OF sample_keys] sound d20(2) _ _ d20(3) _ d20(4,5) clear])
      simp_all
  then have "run_tui exact_alloc sample_app (Inr []) [tick_round 20] = None"
    using iff [OF sound] open0 d20(1) by blast
  moreover have "run_tui exact_alloc sample_app (Inr []) [tick_round 24] \<noteq> None"
  proof
    assume "run_tui exact_alloc sample_app (Inr []) [tick_round 24] = None"
    then obtain t0 d where "run_tui exact_alloc sample_app (Inr []) [] = Some (LoopOpen, t0)"
      "round_draw (tick_round 24) t0 = Some d"
      "over_scrolled (tu_state (dc_tui d)) \<or> \<not> inside (dc_area d) (dc_frame d)"
      using iff [OF sound] by blast
    then show False using open0 tick_round_draw [of 24] by auto
  qed
  ultimately show ?thesis by blast
qed

definition two_connections :: app_state where
  "two_connections = new_state exact_alloc
     (app_insert ''ada'' sample_config (app_insert ''mia'' sample_config default_app_config))"

theorem connection_bar_fits_witness:
  "\<exists>a b line. connection_bar_render \<lparr>rx = 0, ry = 3, rw = 40, rh = 1\<rparr> two_connections =
      Some [(\<lparr>rx = 0, ry = 3, rw = 40, rh = 1\<rparr>, WParagraph NoBlock default_style False [line])] \<and>
    (span_width line \<le> 40 \<or> a = 0 \<and> b = 0)"
  using connection_bar_fits [of two_connections "\<lparr>rx = 0, ry = 3, rw = 40, rh = 1\<rparr>"]
  by (auto simp: two_connections_def new_state_def Let_def app_insert_def default_app_config_def
      connection_views_def)

end
