(* ===== verification/Cli.thy ===== *)
theory Cli
  imports TuiTasks ConnectionBar
begin

text \<open>
  The command line (\<open>ferro-wg/src/main.rs\<close>, \<open>cli.rs\<close>, \<open>cmd/logs.rs\<close>): every subcommand as the lines it
  prints and the result it ends with, and \<open>main\<close> as the lines and the exit code. The parsed arguments
  are data; the daemon's socket, the file system, \<open>netstat\<close>, the spawned process, the random key, the
  clock's local time and the two long-running parts (the terminal interface, the daemon itself) are
  the record \<open>cli_env\<close>.
\<close>

section \<open>Arguments\<close>

datatype cli_command =
    CliTui
  | CliUp "string option"
  | CliDown "string option"
  | CliStatus
  | CliDaemon (daemonize: bool) (stop: bool)
  | CliRoutes
  | CliImport string
  | CliGenkey
  | CliLogs log_level "string option" string "nat option" bool

record cli =
  cli_config :: "string option"
  cli_verbose :: u8
  cli_command :: "cli_command option"

datatype out = Stdout string | Stderr string

type_synonym printed = "out list \<times> (string, unit) result"

record cli_env =
  ci_json :: client_json
  ci_socket :: "daemon_command \<Rightarrow> socket"
  ci_arrived :: nat
  ci_toml :: toml_io
  ci_codec :: codec
  ci_public :: "private_key \<Rightarrow> public_key"
  ci_random :: private_key
  ci_netstat :: "(string, string) result"
  ci_exe :: "(string, string) result"
  ci_spawn :: "string list \<Rightarrow> (string, nat) result"
  ci_config_dir :: "string option"
  ci_local :: "int \<Rightarrow> string option"
  ci_epoch :: string
  ci_tui :: "app_config \<Rightarrow> string \<Rightarrow> string \<Rightarrow> (string, unit) result"
  ci_daemon :: "app_config \<Rightarrow> string \<Rightarrow> (string, unit) result"

section \<open>Talking to the daemon\<close>

definition not_running_help :: string where
  "not_running_help =
     ''daemon is not running.'' @ [nl, nl] @ ''Start it with:'' @ [nl] @ ''  sudo ferro-wg daemon'' @
     [nl, nl] @ ''Or in the background:'' @ [nl] @ ''  sudo ferro-wg daemon --daemonize''"

definition cli_call :: "cli_env \<Rightarrow> daemon_command \<Rightarrow> (string, daemon_response) result" where
  "cli_call env cmd =
     map_err (\<lambda>e. if is_not_running e then not_running_help else show_client_error e)
       (send_command_to (ci_json env) cmd (ci_socket env cmd))"

text \<open>Up, down and stop print one line on success.\<close>

fun plain_answer :: "string \<Rightarrow> (string, daemon_response) result \<Rightarrow> printed" where
  "plain_answer done_text (Inl e) = ([], Inl e)"
| "plain_answer done_text (Inr ROk) = ([Stdout done_text], Inr ())"
| "plain_answer done_text (Inr (RError e)) = ([], Inl e)"
| "plain_answer done_text (Inr _) = ([], Inl ''unexpected response from daemon'')"

definition or_all :: "string option \<Rightarrow> string" where
  "or_all peer = (case peer of None \<Rightarrow> ''all connections'' | Some n \<Rightarrow> n)"

definition cmd_up :: "cli_env \<Rightarrow> string option \<Rightarrow> printed" where
  "cmd_up env peer = plain_answer (''Brought up: '' @ or_all peer) (cli_call env (Up peer Boringtun))"

definition cmd_down :: "cli_env \<Rightarrow> string option \<Rightarrow> printed" where
  "cmd_down env peer = plain_answer (''Tore down: '' @ or_all peer) (cli_call env (Down peer))"

definition cmd_daemon_stop :: "cli_env \<Rightarrow> printed" where
  "cmd_daemon_stop env = plain_answer ''Daemon stopped.'' (cli_call env Shutdown)"

section \<open>Status\<close>

definition show_opt :: "string option \<Rightarrow> string" where
  "show_opt x = (case x of None \<Rightarrow> ''-'' | Some s \<Rightarrow> s)"

definition config_detail :: "cli_env \<Rightarrow> wg_config \<Rightarrow> string list" where
  "config_detail env wg =
     [''  public key: '' @ public_to_base64 (ci_codec env) (ci_public env (if_private_key (wg_interface wg)))] @
     (if if_addresses (wg_interface wg) = [] then []
      else [''  address: '' @ str_join '', '' (if_addresses (wg_interface wg))]) @
     map (\<lambda>p. ''  allowed ips: '' @ str_join '', '' (pc_allowed_ips p)) (wg_peers wg)"

definition no_reply_warning :: string where
  "no_reply_warning =
     ''  '' @ [CHR 0x1B] @ ''[33mwarning: sending but not receiving '' @ em_dash @
     '' server may not have this public key'' @ [CHR 0x1B] @ ''[0m''"

definition traffic_lines :: "tunnel_stats \<Rightarrow> string list" where
  "traffic_lines st =
     [''  tx: '' @ show_nat (unat (tx_bytes st)) @ '' bytes'',
      ''  rx: '' @ show_nat (unat (rx_bytes st)) @ '' bytes''] @
     (if rx_bytes st = 0 \<and> 0 < tx_bytes st then [no_reply_warning] else []) @
     (case last_handshake st of
        None \<Rightarrow> []
      | Some d \<Rightarrow> [''  last handshake: '' @ format_duration d @ '' ago''])"

definition peer_lines :: "cli_env \<Rightarrow> app_config option \<Rightarrow> peer_status \<Rightarrow> string list" where
  "peer_lines env c p =
     [''connection: '' @ ps_name p,
      ''  status: '' @ (if ps_connected p then ''connected'' else ''disconnected''),
      ''  backend: '' @ show_backend (ps_backend p),
      ''  endpoint: '' @ show_opt (ps_endpoint p),
      ''  interface: '' @ show_opt (ps_interface p)] @
     (case Option.bind c (\<lambda>c. app_get c (ps_name p)) of
        None \<Rightarrow> [] | Some wg \<Rightarrow> config_detail env wg) @
     (if ps_connected p then traffic_lines (ps_stats p) else []) @ [[]]"

definition known_config :: "cli_env \<Rightarrow> 'w fsops \<Rightarrow> string \<Rightarrow> 'w \<Rightarrow> app_config option" where
  "known_config env fs p w =
     (if fo_exists fs p w then
        (case load_app_file (ci_toml env) fs p w of Inl _ \<Rightarrow> None | Inr c \<Rightarrow> Some c)
      else None)"

definition cmd_status :: "cli_env \<Rightarrow> 'w fsops \<Rightarrow> string \<Rightarrow> 'w \<Rightarrow> printed" where
  "cmd_status env fs p w =
     (case cli_call env Status of
        Inl e \<Rightarrow> ([], Inl e)
      | Inr (RStatus ps) \<Rightarrow>
          (map Stdout
             (if ps = [] then [''No connections configured.'']
              else concat (map (peer_lines env (known_config env fs p w)) ps)), Inr ())
      | Inr (RError e) \<Rightarrow> ([], Inl e)
      | Inr (RLogEntry _) \<Rightarrow> ([], Inl ''unexpected log entry response'')
      | Inr _ \<Rightarrow> ([], Inl ''unexpected response from daemon''))"

section \<open>Routes\<close>

lemma length_trim_start: "length (trim_start s) \<le> length s"
  by (induction s rule: trim_start.induct) auto

lemma trim_start_idem: "trim_start (trim_start s) = trim_start s"
  by (induction s rule: trim_start.induct) auto

text \<open>\<open>split_whitespace\<close>.\<close>

function split_ws :: "string \<Rightarrow> string list" where
  "split_ws s =
     (let t = trim_start s
      in if t = [] then [] else word_prefix t # split_ws (drop (length (word_prefix t)) t))"
  by pat_completeness auto
termination
proof (relation "measure length")
  fix s t :: string
  assume t: "t = trim_start s" "t \<noteq> []"
  obtain a r where ar: "t = a # r" using t(2) by (metis neq_Nil_conv)
  have "trim_start (a # r) = a # r" using trim_start_idem [of s] unfolding t(1) [symmetric] ar .
  then have "word_prefix t = a # word_prefix r" unfolding ar word_prefix.simps by (metis (full_types))
  then show "(drop (length (word_prefix t)) t, s) \<in> measure length"
    using length_trim_start [of s] unfolding t(1) [symmetric] by (simp add: ar)
qed simp

declare split_ws.simps [simp del]

definition pad_right :: "nat \<Rightarrow> string \<Rightarrow> string" where
  "pad_right n s = s @ replicate (n - length (chars s)) CHR '' ''"

definition route_row :: "string \<Rightarrow> string \<Rightarrow> string \<Rightarrow> string \<Rightarrow> string" where
  "route_row a b c d = pad_right 24 a @ '' '' @ pad_right 24 b @ '' '' @ pad_right 8 c @ '' '' @ d"

definition tunnel_route :: "string \<Rightarrow> string option" where
  "tunnel_route l =
     (let ws = split_ws l
      in if str_contains l ''utun'' \<and> 4 \<le> length ws \<and> \<not> str_contains l ''fe80'' \<and> \<not> str_contains l ''ff0''
         then Some (route_row (ws ! 0) (ws ! 1) (ws ! 2) (last ws)) else None)"

definition cmd_routes :: "cli_env \<Rightarrow> printed" where
  "cmd_routes env =
     (case ci_netstat env of
        Inl e \<Rightarrow> ([], Inl e)
      | Inr text \<Rightarrow>
          (let rows = List.map_filter tunnel_route (str_lines text)
           in (map Stdout ([''Active tunnel routes:'' @ [nl],
                 route_row ''Destination'' ''Gateway'' ''Flags'' ''Interface'', replicate 72 CHR ''-''] @
               rows @ (if rows = [] then [''  (no tunnel routes found)''] else [])), Inr ())))"

section \<open>The daemon's command\<close>

definition socket_path :: string where
  "socket_path = ''/tmp/ferro-wg.sock''"

definition load_cli_config ::
  "cli_env \<Rightarrow> 'w fsops \<Rightarrow> string \<Rightarrow> 'w \<Rightarrow> (string, app_config) result" where
  "load_cli_config env fs p w =
     (if fo_exists fs p w then map_err show_config_error (load_app_file (ci_toml env) fs p w)
      else Inl (''config not found: '' @ p @ [nl, nl] @ ''Import a WireGuard config first:'' @ [nl] @
        ''  ferro-wg import <wg-quick.conf>''))"

definition background_command :: "string \<Rightarrow> u8 \<Rightarrow> string \<Rightarrow> string list" where
  "background_command exe verbose p =
     [''sudo'', exe, CHR ''-'' # replicate (max (unat verbose) 1) CHR ''v'', ''daemon'', ''-c'', p]"

definition cmd_daemon_background :: "cli_env \<Rightarrow> string \<Rightarrow> u8 \<Rightarrow> printed" where
  "cmd_daemon_background env p verbose =
     (case res_bind (ci_exe env) (\<lambda>exe. ci_spawn env (background_command exe verbose p)) of
        Inl e \<Rightarrow> ([], Inl e)
      | Inr pid \<Rightarrow>
          ([Stdout (''Daemon started in background (pid '' @ show_nat pid @ '').''),
            Stdout ''Stop it with: ferro-wg daemon --stop''], Inr ()))"

definition cmd_daemon ::
  "cli_env \<Rightarrow> 'w fsops \<Rightarrow> string \<Rightarrow> bool \<Rightarrow> bool \<Rightarrow> u8 \<Rightarrow> 'w \<Rightarrow> printed" where
  "cmd_daemon env fs p detach halt verbose w =
     (if halt then cmd_daemon_stop env
      else if detach then cmd_daemon_background env p verbose
      else
        (case load_cli_config env fs p w of
           Inl e \<Rightarrow> ([], Inl e)
         | Inr c \<Rightarrow>
             (map Stdout [''Starting ferro-wg daemon (foreground)...'', ''Config: '' @ p,
                ''Socket: '' @ socket_path, ''Connections: '' @ str_join '', '' (app_connection_names c),
                ''Press Ctrl+C to stop.'' @ [nl]], ci_daemon env c p)))"

section \<open>Import\<close>

definition name_peers :: "string \<Rightarrow> peer_config list \<Rightarrow> peer_config list" where
  "name_peers conn ps =
     map (\<lambda>(i, p). if pc_name p = [] then
            p\<lparr>pc_name := if length ps = 1 then conn else conn @ ''-'' @ show_nat i\<rparr> else p)
       (enumerate 0 ps)"

definition import_name :: "string \<Rightarrow> string" where
  "import_name p =
     (case Option.bind (path_file_stem p) to_str of None \<Rightarrow> ''default'' | Some n \<Rightarrow> n)"

definition import_base :: "cli_env \<Rightarrow> 'w fsops \<Rightarrow> string \<Rightarrow> 'w \<Rightarrow> (string, app_config) result" where
  "import_base env fs p w =
     (if fo_exists fs p w then map_err show_config_error (load_app_file (ci_toml env) fs p w)
      else Inr default_app_config)"

definition import_lines :: "app_config \<Rightarrow> string \<Rightarrow> wg_config \<Rightarrow> out list" where
  "import_lines c conn wg =
     (if app_get c conn \<noteq> None then [Stderr (''Replacing existing connection: '' @ conn)] else []) @
     [Stdout (''  '' @ conn @ '' -> '' @
        (case wg_peers wg of [] \<Rightarrow> ''-'' | p # _ \<Rightarrow> show_opt (pc_endpoint p)))]"

text \<open>\<open>None\<close> is the panic of the wg-quick reader.\<close>

definition cmd_import :: "cli_env \<Rightarrow> 'w fsops \<Rightarrow> string \<Rightarrow> string \<Rightarrow> 'w \<Rightarrow> (printed \<times> 'w) option" where
  "cmd_import env fs src dst w =
     (case wg_quick_load_file (ci_codec env) fs src w of
        Inl Unreachable \<Rightarrow> None
      | Inl (Fail e) \<Rightarrow> Some (([], Inl (show_config_error e)), w)
      | Inr wg0 \<Rightarrow>
          (let conn = import_name src; wg = wg0\<lparr>wg_peers := name_peers conn (wg_peers wg0)\<rparr> in
           case import_base env fs dst w of
             Inl e \<Rightarrow> Some (([], Inl e), w)
           | Inr c \<Rightarrow>
               (let c' = app_insert conn wg c; ls = import_lines c conn wg in
                case save_app_config (ci_toml env) fs c' dst w of
                  (Inl e, w') \<Rightarrow> Some ((ls, Inl (show_config_error e)), w')
                | (Inr _, w') \<Rightarrow>
                    Some ((ls @ [Stdout (''Saved to '' @ dst),
                      Stdout (''Total connections: '' @ show_nat (length (ac_connections c')))], Inr ()), w'))))"

section \<open>Logs\<close>

definition log_matches :: "log_level \<Rightarrow> string option \<Rightarrow> string \<Rightarrow> log_entry \<Rightarrow> bool" where
  "log_matches min_level conn search e =
     (entry_passes_filter e min_level (if conn = None then CfAll else CfActive) conn \<and>
      line_matches_search (message e) (to_ascii_lowercase search))"

definition collect_filtered_logs ::
  "log_level \<Rightarrow> string option \<Rightarrow> string \<Rightarrow> nat option \<Rightarrow> log_entry list \<Rightarrow> log_entry list" where
  "collect_filtered_logs min_level conn search n es =
     (let f = filter (log_matches min_level conn search) es
      in case n of None \<Rightarrow> f | Some k \<Rightarrow> rev (take k (rev f)))"

definition format_entry :: "cli_env \<Rightarrow> log_entry \<Rightarrow> string" where
  "format_entry env e =
     ''['' @ (case ci_local env (timestamp_ms e) of None \<Rightarrow> ci_epoch env | Some t \<Rightarrow> t) @ ''] ['' @
     badge (level e) @ ''] ('' @ (case connection_name e of None \<Rightarrow> ''(global)'' | Some n \<Rightarrow> n) @ '') '' @
     message e"

text \<open>The receiver takes \<open>ci_arrived\<close> entries: until the time-out, or Ctrl+C when watching.\<close>

definition cmd_logs ::
  "cli_env \<Rightarrow> log_level \<Rightarrow> string option \<Rightarrow> string \<Rightarrow> nat option \<Rightarrow> bool \<Rightarrow> printed" where
  "cmd_logs env min_level conn search n watch =
     (case stream_logs_from (ci_json env) (ci_socket env StreamLogs) (ci_arrived env) of
        Inl e \<Rightarrow> ([], Inl (show_client_error e))
      | Inr es \<Rightarrow>
          (map (\<lambda>e. Stdout (format_entry env e))
             (if watch then filter (log_matches min_level conn search) es
              else collect_filtered_logs min_level conn search n es), Inr ()))"

section \<open>The program\<close>

definition path_join :: "string \<Rightarrow> string \<Rightarrow> string" where
  "path_join base rel =
     (if base = [] \<or> last base = CHR ''/'' then base @ rel else base @ ''/'' @ rel)"

definition default_config_path :: "cli_env \<Rightarrow> string" where
  "default_config_path env =
     path_join (path_join (case ci_config_dir env of None \<Rightarrow> ''.'' | Some d \<Rightarrow> d) ''ferro-wg'') ''config.toml''"

definition benchmarks_path :: "string \<Rightarrow> string" where
  "benchmarks_path p =
     path_join (case path_parent p of None \<Rightarrow> ''.'' | Some d \<Rightarrow> d) ''benchmarks.json''"

definition cmd_tui :: "cli_env \<Rightarrow> 'w fsops \<Rightarrow> string \<Rightarrow> 'w \<Rightarrow> printed" where
  "cmd_tui env fs p w =
     ([], res_bind (load_cli_config env fs p w) (\<lambda>c. ci_tui env c p (benchmarks_path p)))"

definition cmd_genkey :: "cli_env \<Rightarrow> printed" where
  "cmd_genkey env =
     ([Stdout (''private key: '' @ private_to_base64 (ci_codec env) (ci_random env)),
       Stdout (''public key:  '' @ public_to_base64 (ci_codec env) (ci_public env (ci_random env)))], Inr ())"

fun run_command ::
  "cli_env \<Rightarrow> 'w fsops \<Rightarrow> string \<Rightarrow> u8 \<Rightarrow> cli_command \<Rightarrow> 'w \<Rightarrow> (printed \<times> 'w) option" where
  "run_command env fs p v CliTui w = Some (cmd_tui env fs p w, w)"
| "run_command env fs p v (CliUp peer) w = Some (cmd_up env peer, w)"
| "run_command env fs p v (CliDown peer) w = Some (cmd_down env peer, w)"
| "run_command env fs p v CliStatus w = Some (cmd_status env fs p w, w)"
| "run_command env fs p v CliRoutes w = Some (cmd_routes env, w)"
| "run_command env fs p v (CliDaemon d s) w = Some (cmd_daemon env fs p d s v w, w)"
| "run_command env fs p v (CliImport src) w = cmd_import env fs src p w"
| "run_command env fs p v CliGenkey w = Some (cmd_genkey env, w)"
| "run_command env fs p v (CliLogs lv conn search n watch) w =
     Some (cmd_logs env lv conn search n watch, w)"

text \<open>The lines of a run and its exit code.\<close>

definition main_run :: "cli_env \<Rightarrow> 'w fsops \<Rightarrow> cli \<Rightarrow> 'w \<Rightarrow> ((out list \<times> nat) \<times> 'w) option" where
  "main_run env fs c w =
     (let p = (case cli_config c of None \<Rightarrow> default_config_path env | Some p \<Rightarrow> p);
          cmd = (case cli_command c of None \<Rightarrow> CliTui | Some x \<Rightarrow> x)
      in map_option (\<lambda>((ls, r), w'). (case r of
             Inr _ \<Rightarrow> (ls, 0)
           | Inl e \<Rightarrow> (ls @ [Stderr (''Error: '' @ e)], 1), w'))
           (run_command env fs p (cli_verbose c) cmd w))"

end
