(* ===== verification/FileProps.thy ===== *)
theory FileProps
  imports Cli WgQuickProps
begin

text \<open>
  Importing and saving, on any file system that keeps the laws of \<open>files\<close>: what is on disk
  afterwards, and when it loads again. The TOML crate reads back what it wrote, for the
  configuration at hand.
\<close>

section \<open>Inserting a connection\<close>

lemma btree_insert_elems:
  "(k, v) \<in> set (btree_insert k v m)" "set (btree_insert k v m) \<subseteq> insert (k, v) (set m)"
  by (induction k v m rule: btree_insert.induct) auto

lemma btree_insert_covers: "set m \<subseteq> set (btree_insert k v m) \<union> {k} \<times> UNIV"
  by (induction k v m rule: btree_insert.induct) auto

lemma app_insert_ok:
  assumes "ac_connections c = [] \<or> app_ok c"
  shows "app_ok (app_insert n w c) \<longleftrightarrow> name_ok n \<and> wg_ok w"
  using assms btree_insert_elems [of n w "ac_connections c"]
  by (fastforce simp: app_ok_def app_insert_def)

context files
begin

lemma saved_loads_iff:
  assumes "save_app_config io fs c p w = (Inr (), w')"
    and "\<And>s. toml_write_app io c = Inr s \<Longrightarrow> toml_read_app io s = Inr c"
  shows "load_app_file io fs p w' = Inr c \<longleftrightarrow> app_ok c"
  using save_load [OF assms] by (auto simp: app_validate_iff [symmetric] res_simps)

lemma saved_insert_loads_iff:
  assumes "save_app_config io fs (app_insert n v c) p w = (Inr (), w')"
    and "ac_connections c = [] \<or> app_ok c"
    and "\<And>s. toml_write_app io (app_insert n v c) = Inr s \<Longrightarrow> toml_read_app io s = Inr (app_insert n v c)"
  shows "load_app_file io fs p w' = Inr (app_insert n v c) \<longleftrightarrow> name_ok n \<and> wg_ok v"
  using saved_loads_iff [OF assms(1,3)] app_insert_ok [OF assms(2)] by simp

end

lemma load_app_file_ok: "load_app_file io fs p w = Inr c \<Longrightarrow> app_ok c"
  by (simp add: load_app_file_def load_app_config_ok)

lemma wg_quick_file_ok: "wg_quick_load_file cd fs p w = Inr c \<Longrightarrow> wg_ok c \<and> keys_wf c"
  by (auto simp: wg_quick_load_file_def res_simps dest: load_from_str_wf)

section \<open>Import in the terminal client\<close>

lemma try_import_cases:
  assumes "try_import cd io fs src dst w = Some (Inr (c', name), w')"
  shows "\<exists>wg c. path_file_stem src = Some name \<and> wg_quick_load_file cd fs src w = Inr wg \<and>
    load_app_file io fs dst w = Inr c \<and> c' = app_insert name wg c \<and>
    save_app_config io fs c' dst w = (Inr (), w')"
  using assms
  by (auto simp: try_import_def connection_name_from_path_def Let_def ok_or_def bind_eq_Some_conv
      split: option.splits sum.splits load_fault.splits prod.splits)

text \<open>C26. An import that succeeds has written the configuration with the file as a connection, named
  by its stem, and that configuration loads again exactly when the stem is a valid connection name:
  the import itself does not ask.\<close>

theorem import_loads_iff:
  assumes "files fs separate" "try_import cd io fs src dst w = Some (Inr (c', name), w')"
    and "\<And>s. toml_write_app io c' = Inr s \<Longrightarrow> toml_read_app io s = Inr c'"
  shows "path_file_stem src = Some name \<and> name \<in> set (app_connection_names c') \<and>
    (load_app_file io fs dst w' = Inr c' \<longleftrightarrow> name_ok name)"
proof -
  obtain wg c where h: "path_file_stem src = Some name" "wg_quick_load_file cd fs src w = Inr wg"
    "load_app_file io fs dst w = Inr c" "c' = app_insert name wg c"
    "save_app_config io fs c' dst w = (Inr (), w')"
    using try_import_cases [OF assms(2)] by blast
  then show ?thesis
    using files.saved_insert_loads_iff [OF assms(1), of io name wg c dst w w'] assms(3)
      load_app_file_ok [OF h(3)] wg_quick_file_ok [OF h(2)] by (auto simp: app_insert_names)
qed

section \<open>Saving an edited connection\<close>

text \<open>C13. A save that succeeds has copied the configuration that was on disk to the backup and has
  written it with the draft; what it wrote loads again exactly when the draft is valid, which
  neither the editor nor the save asks.\<close>

theorem save_config_spec:
  assumes "files fs separate" "separate p (backup_path p)"
    and "try_save_config io fs name draft p w = (DmReload c' t, w')"
    and "\<And>s. toml_write_app io c' = Inr s \<Longrightarrow> toml_read_app io s = Inr c'"
  shows "\<exists>c text. load_app_file io fs p w = Inr c \<and> toml_write_app io c = Inr text \<and>
    fo_read fs (backup_path p) w' = Inr text \<and> c' = app_insert name draft c \<and>
    (load_app_file io fs p w' = Inr c' \<longleftrightarrow> name_ok name \<and> wg_ok draft)"
proof -
  obtain c bak w1 where h: "load_app_file io fs p w = Inr c" "save_app_config_string io c = Inr bak"
    "fo_write fs (backup_path p) bak w = (Inr (), w1)" "c' = app_insert name draft c"
    "save_app_config io fs c' p w1 = (Inr (), w')"
    using assms(3)
    by (auto simp: try_save_config_def save_steps_def Let_def split: sum.splits prod.splits)
  have "fo_read fs (backup_path p) w1 = Inr bak" using files.write_read [OF assms(1) h(3)] .
  then have "fo_read fs (backup_path p) w' = Inr bak"
    using files.save_app_other [OF assms(1) h(5) assms(2)] by blast
  moreover have "load_app_file io fs p w' = Inr c' \<longleftrightarrow> name_ok name \<and> wg_ok draft"
    using files.saved_insert_loads_iff [OF assms(1), of io name draft c p w1 w'] h(4,5) assms(4)
      load_app_file_ok [OF h(1)] by simp
  ultimately show ?thesis using h by (auto simp: save_app_config_string_def)
qed

section \<open>Import on the command line\<close>

lemma cmd_import_cases:
  assumes "cmd_import env fs src dst w = Some ((ls, Inr ()), w')"
  shows "\<exists>wg base. wg_quick_load_file (ci_codec env) fs src w = Inr wg \<and>
    import_base env fs dst w = Inr base \<and>
    save_app_config (ci_toml env) fs (app_insert (import_name src)
      (wg\<lparr>wg_peers := name_peers (import_name src) (wg_peers wg)\<rparr>) base) dst w = (Inr (), w')"
  using assms
  by (auto simp: cmd_import_def Let_def split: sum.splits load_fault.splits prod.splits)

lemma import_base_ok: "import_base env fs p w = Inr c \<Longrightarrow> ac_connections c = [] \<or> app_ok c"
  by (auto simp: import_base_def default_app_config_def dest: load_app_file_ok split: if_splits)

lemma name_peers_ok:
  assumes "wg_ok wg" "name_ok conn"
  shows "wg_ok (wg\<lparr>wg_peers := name_peers conn (wg_peers wg)\<rparr>) \<longleftrightarrow>
    (\<forall>p \<in> set (name_peers conn (wg_peers wg)). name_ok (pc_name p))"
proof -
  have "conn \<noteq> []" using assms(2) by (simp add: name_ok_def)
  then have "\<forall>p \<in> set (name_peers conn (wg_peers wg)). pc_name p \<noteq> [] \<and> pc_allowed_ips p \<noteq> []"
    using assms(1)
    by (auto simp: name_peers_def wg_ok_def list_all_iff peer_ok_def in_set_enumerate_eq split: if_split_asm)
  moreover have "name_peers conn (wg_peers wg) \<noteq> []"
    using assms(1) by (auto simp: name_peers_def wg_ok_def enumerate_eq_zip)
  ultimately show ?thesis by (auto simp: wg_ok_def list_all_iff peer_ok_def)
qed

text \<open>C27. An import on the command line that succeeds has written the configuration it found, or an
  empty one, with the file as a connection whose peers are named after it; what it wrote loads again
  exactly when the stem and the names made from it are valid.\<close>

theorem cli_import_loads_iff:
  assumes "files fs separate" "cmd_import env fs src dst w = Some ((ls, Inr ()), w')"
    and "wg_quick_load_file (ci_codec env) fs src w = Inr wg" "import_base env fs dst w = Inr base"
    and "c' = app_insert (import_name src)
      (wg\<lparr>wg_peers := name_peers (import_name src) (wg_peers wg)\<rparr>) base"
    and "\<And>s. toml_write_app (ci_toml env) c' = Inr s \<Longrightarrow> toml_read_app (ci_toml env) s = Inr c'"
  shows "load_app_file (ci_toml env) fs dst w' = Inr c' \<longleftrightarrow>
    name_ok (import_name src) \<and> (\<forall>p \<in> set (name_peers (import_name src) (wg_peers wg)). name_ok (pc_name p))"
proof -
  have "save_app_config (ci_toml env) fs c' dst w = (Inr (), w')"
    using cmd_import_cases [OF assms(2)] assms(3-5) by auto
  then have "load_app_file (ci_toml env) fs dst w' = Inr c' \<longleftrightarrow> name_ok (import_name src) \<and>
      wg_ok (wg\<lparr>wg_peers := name_peers (import_name src) (wg_peers wg)\<rparr>)"
    using files.saved_insert_loads_iff [OF assms(1) _ import_base_ok [OF assms(4)],
        of "ci_toml env" "import_name src"
        "wg\<lparr>wg_peers := name_peers (import_name src) (wg_peers wg)\<rparr>" dst w w'] assms(5,6)
    by simp
  moreover have "wg_ok wg" using wg_quick_file_ok [OF assms(3)] by simp
  ultimately show ?thesis using name_peers_ok [of wg "import_name src"] by blast
qed

section \<open>Examples\<close>

definition home_app :: app_config where
  "home_app = app_insert ''home'' sample_config default_app_config"

text \<open>A TOML crate that knows the configuration \<open>home_app\<close> and the one just written.\<close>

definition pair_io :: "app_config \<Rightarrow> toml_io" where
  "pair_io c = \<lparr>toml_read_wg = (\<lambda>_. Inl ''no reader''), toml_write_wg = (\<lambda>_. Inl ''no writer''),
     toml_read_app = (\<lambda>s. if s = ''new'' then Inr c else if s = ''old'' then Inr home_app else Inl ''bad''),
     toml_write_app = (\<lambda>x. Inr (if x = c then ''new'' else ''old''))\<rparr>"

lemma pair_io_simps:
  "toml_write_app (pair_io c) x = Inr (if x = c then ''new'' else ''old'')"
  "toml_read_app (pair_io c) ''new'' = Inr c" "toml_read_app (pair_io c) ''old'' = Inr home_app"
  by (simp_all add: pair_io_def)

definition two_files :: "(string, string) amap" where
  "two_files = [(''/etc/mia.conf'', export_to_string rfc4648 sample_config), (''/etc/app.toml'', ''old'')]"

lemma home_ok: "app_validate home_app = Inr ()"
  unfolding app_validate_iff by code_simp

lemma two_files_get:
  "amap_get two_files ''/etc/mia.conf'' = Some (export_to_string rfc4648 sample_config)"
  "amap_get two_files ''/etc/app.toml'' = Some ''old''"
  by (simp_all add: two_files_def amap_get_def)

lemma mia_loads: "wg_quick_load_file rfc4648 map_fs ''/etc/mia.conf'' two_files = Inr (imported sample_config)"
  using base64_codec.load_export [OF rfc.base64_codec_axioms sample_exportable]
  by (simp add: wg_quick_load_file_def two_files_get)

lemma old_loads: "c \<noteq> home_app \<Longrightarrow> load_app_file (pair_io c) map_fs ''/etc/app.toml'' two_files = Inr home_app"
  by (simp add: load_app_file_def load_app_config_def load_app_config_str_def pair_io_def two_files_get home_ok)

lemma map_fs_save:
  "save_app_config (pair_io c) map_fs c p w = (Inr (), hmap_insert p ''new'' w)"
  by (simp add: save_app_config_def save_app_config_string_def pair_io_def write_with_dirs_def io_bind_eq
      io_map_err_eq io_return_def split: option.splits)

lemma mia_names: "path_file_stem ''/etc/mia.conf'' = Some ''mia''" "name_ok ''mia''" "to_str ''mia'' = Some ''mia''"
  by code_simp+

theorem import_loads_iff_witness:
  "\<exists>c w. try_import rfc4648 (pair_io c) map_fs ''/etc/mia.conf'' ''/etc/app.toml'' two_files =
      Some (Inr (c, ''mia''), w) \<and> load_app_file (pair_io c) map_fs ''/etc/app.toml'' w = Inr c"
proof -
  let ?c = "app_insert ''mia'' (imported sample_config) home_app"
  have ne: "?c \<noteq> home_app"
    by (simp add: home_app_def app_insert_def default_app_config_def)
  have i: "try_import rfc4648 (pair_io ?c) map_fs ''/etc/mia.conf'' ''/etc/app.toml'' two_files =
      Some (Inr (?c, ''mia''), hmap_insert ''/etc/app.toml'' ''new'' two_files)"
    by (simp add: try_import_def connection_name_from_path_def mia_names mia_loads old_loads [OF ne] map_fs_save)
  then show ?thesis
    using import_loads_iff [OF map_files.files_axioms i] mia_names by (auto simp: pair_io_def)
qed

theorem save_config_spec_witness:
  "\<exists>c t w bak. try_save_config (pair_io c) map_fs ''mia'' (imported sample_config) ''/etc/app.toml'' two_files =
      (DmReload c t, w) \<and> fo_read map_fs (backup_path ''/etc/app.toml'') w = Inr bak"
proof -
  let ?c = "app_insert ''mia'' (imported sample_config) home_app"
  have ne: "?c \<noteq> home_app"
    by (simp add: home_app_def app_insert_def default_app_config_def)
  have b: "''/etc/app.toml'' \<noteq> backup_path ''/etc/app.toml''" by code_simp
  have s: "try_save_config (pair_io ?c) map_fs ''mia'' (imported sample_config) ''/etc/app.toml'' two_files =
      (DmReload ?c ''Config saved'', hmap_insert ''/etc/app.toml'' ''new''
        (hmap_insert (backup_path ''/etc/app.toml'') ''old'' two_files))"
    using ne [symmetric] by (simp add: try_save_config_def save_steps_def old_loads [OF ne] map_fs_save
        save_app_config_string_def pair_io_simps Let_def)
  have "toml_read_app (pair_io ?c) x = Inr ?c" if "toml_write_app (pair_io ?c) ?c = Inr x" for x
    using that by (auto simp: pair_io_def)
  then show ?thesis using save_config_spec [OF map_files.files_axioms b s] s by blast
qed

definition plain_cli :: "app_config \<Rightarrow> cli_env" where
  "plain_cli c = \<lparr>ci_json = tiny_client, ci_socket = (\<lambda>_. reply_socket []), ci_arrived = 0,
     ci_toml = pair_io c, ci_codec = rfc4648, ci_public = (\<lambda>k. PublicKey (private_bytes k)),
     ci_random = PrivateKey (replicate 32 1), ci_netstat = Inr [], ci_exe = Inr ''ferro-wg'',
     ci_spawn = (\<lambda>_. Inr 1), ci_config_dir = None, ci_local = (\<lambda>_. None), ci_epoch = ''00:00:00'',
     ci_tui = (\<lambda>_ _ _. Inr ()), ci_daemon = (\<lambda>_ _. Inr ())\<rparr>"

theorem cli_import_loads_iff_witness:
  "\<exists>c ls w. cmd_import (plain_cli c) map_fs ''/etc/mia.conf'' ''/etc/app.toml'' two_files =
      Some ((ls, Inr ()), w) \<and> load_app_file (pair_io c) map_fs ''/etc/app.toml'' w = Inr c"
proof -
  let ?wg = "(imported sample_config)\<lparr>wg_peers := name_peers ''mia'' (wg_peers (imported sample_config))\<rparr>"
  let ?c = "app_insert ''mia'' ?wg home_app"
  have n: "import_name ''/etc/mia.conf'' = ''mia''" by (simp add: import_name_def mia_names)
  have ne: "?c \<noteq> home_app"
    by (simp add: home_app_def app_insert_def default_app_config_def)
  have env: "ci_toml (plain_cli ?c) = pair_io ?c" "ci_codec (plain_cli ?c) = rfc4648"
    by (simp_all add: plain_cli_def)
  have base: "import_base (plain_cli ?c) map_fs ''/etc/app.toml'' two_files = Inr home_app"
    by (simp add: import_base_def env old_loads [OF ne] two_files_get)
  obtain ls where i: "cmd_import (plain_cli ?c) map_fs ''/etc/mia.conf'' ''/etc/app.toml'' two_files =
      Some ((ls, Inr ()), hmap_insert ''/etc/app.toml'' ''new'' two_files)"
    by (simp add: cmd_import_def env mia_loads base n map_fs_save Let_def)
  have names: "\<forall>p \<in> set (name_peers ''mia'' (wg_peers (imported sample_config))). name_ok (pc_name p)"
    using mia_names(2) by (simp add: name_peers_def imported_def sample_config_def)
  have again: "toml_read_app (ci_toml (plain_cli ?c)) x = Inr ?c"
    if "toml_write_app (ci_toml (plain_cli ?c)) ?c = Inr x" for x
  proof -
    have "x = ''new''" using that unfolding env(1) pair_io_simps by simp
    then show ?thesis unfolding env(1) by (simp only: pair_io_simps)
  qed
  have wg: "wg_quick_load_file (ci_codec (plain_cli ?c)) map_fs ''/etc/mia.conf'' two_files =
      Inr (imported sample_config)" unfolding env(2) by (rule mia_loads)
  have c: "?c = app_insert (import_name ''/etc/mia.conf'')
      ((imported sample_config)\<lparr>wg_peers := name_peers (import_name ''/etc/mia.conf'')
        (wg_peers (imported sample_config))\<rparr>) home_app" unfolding n ..
  have "load_app_file (ci_toml (plain_cli ?c)) map_fs ''/etc/app.toml''
      (hmap_insert ''/etc/app.toml'' ''new'' two_files) = Inr ?c"
    using cli_import_loads_iff [OF map_files.files_axioms i wg base c again] names mia_names(2)
    unfolding n by blast
  then show ?thesis unfolding env(1) using i by blast
qed

end
