(* ===== verification/System.thy ===== *)
theory System
  imports FileProps TuiProps
begin

text \<open>
  The programs together: the command line and the terminal client, each over a socket that the daemon
  serves. What they report is what the daemon's manager has done or has up.
\<close>

section \<open>A served socket\<close>

text \<open>What a client meets that connects, sends its command and waits: the daemon reads the line, and
  what it sends for it comes back.\<close>

definition served_socket ::
  "client_json \<Rightarrow> json \<Rightarrow> toml_io \<Rightarrow> ('w, 'b) daemon_env \<Rightarrow> (string, string) result \<Rightarrow> daemon_command \<Rightarrow>
   ('w, 'b) daemon \<Rightarrow> socket" where
  "served_socket cj js io env contents cmd d =
     (case open_and_send cj cmd (reply_socket []) of
        Inl e \<Rightarrow> reply_socket []
      | Inr l \<Rightarrow> reply_socket (drop (length (dm_sent d))
          (dm_sent (snd (serve js io env \<lparr>cl_line = Inr l, cl_config = contents\<rparr> d)))))"

lemma call_served:
  "fst (call_daemon cj js io env contents cmd d) =
   send_command_to cj cmd (served_socket cj js io env contents cmd d)"
  by (cases "open_and_send cj cmd (reply_socket [])")
    (simp_all add: call_daemon_def served_socket_def send_command_to_def res_simps split_def)

text \<open>What a command does to a daemon: its response and the manager and world it leaves.\<close>

definition effect_of ::
  "toml_io \<Rightarrow> ('w, 'b) daemon_env \<Rightarrow> (string, string) result \<Rightarrow> daemon_command \<Rightarrow> ('w, 'b) daemon \<Rightarrow>
   daemon_response \<times> 'b manager \<times> 'w" where
  "effect_of io env contents cmd d =
     handle_command env cmd (if needs_config_reload cmd
        then reload_from_file io contents (dm_manager d) else dm_manager d) (dm_world d)"

lemma served_response:
  assumes "carries (cj_write_command cj) (js_read_command js) cmd" "cmd \<noteq> StreamLogs"
    and "carries (js_write_response js) (cj_read_response cj) (fst (effect_of io env contents cmd d))"
  shows "send_command_to cj cmd (served_socket cj js io env contents cmd d) =
    Inr (fst (effect_of io env contents cmd d))"
proof -
  obtain r m' w' where e: "effect_of io env contents cmd d = (r, m', w')" by (metis prod_cases3)
  then obtain d' where "call_daemon cj js io env contents cmd d = (Inr r, d')"
    using call_handles [OF assms(1,2), of env io contents d r m' w'] assms(3)
    by (auto simp: effect_of_def)
  then show ?thesis using call_served [of cj js io env contents cmd d] e by simp
qed

lemma is_up_reload [simp]: "is_up (reload_from_file io contents m) n = is_up m n"
  by (simp add: reload_from_file_def reload_config_def is_up_def split: sum.split)

section \<open>The command line\<close>

text \<open>C15. Bringing a connection up on the command line succeeds, and says so, exactly when the daemon
  has brought it up: it was not up before and is after. Otherwise the command fails without a line
  of output, and the daemon's tunnels are what they were.\<close>

theorem cli_up_is_daemon_up:
  assumes "ci_socket cenv (Up (Some n) Boringtun) =
      served_socket (ci_json cenv) js io env contents (Up (Some n) Boringtun) d"
    and "carries (cj_write_command (ci_json cenv)) (js_read_command js) (Up (Some n) Boringtun)"
    and "effect_of io env contents (Up (Some n) Boringtun) d = (r, m', w')"
    and "carries (js_write_response js) (cj_read_response (ci_json cenv)) r"
  shows "if \<not> is_up (dm_manager d) n \<and> is_up m' n
    then cmd_up cenv (Some n) = ([Stdout (''Brought up: '' @ n)], Inr ())
    else (\<exists>e. cmd_up cenv (Some n) = ([], Inl e)) \<and> tm_connections m' = tm_connections (dm_manager d)"
proof -
  let ?m = "reload_from_file io contents (dm_manager d)"
  obtain q where q: "up env n Boringtun ?m (dm_world d) = (q, m', w')" "r = result_response q"
    using assms(3) by (auto simp: effect_of_def split: prod.splits)
  have call: "cli_call cenv (Up (Some n) Boringtun) = Inr r"
    using served_response [OF assms(2), of io env contents d] assms(3,4)
    by (simp add: cli_call_def assms(1))
  have eff: "case q of Inl _ \<Rightarrow> m' = ?m | Inr _ \<Rightarrow> \<not> is_up ?m n \<and> is_up m' n"
    using up_effect [where env = env and name = n and kind = Boringtun and m = ?m and w = "dm_world d"] q(1)
    by (auto simp: is_up_def split: sum.splits)
  show ?thesis
  proof (cases q)
    case (Inl e)
    then have "m' = ?m" using eff by simp
    moreover have "tm_connections ?m = tm_connections (dm_manager d)"
      by (simp add: reload_from_file_def reload_config_def split: sum.split)
    ultimately show ?thesis
      using Inl q(2) call by (simp add: cmd_up_def result_response_def or_all_def)
  next
    case (Inr u)
    then show ?thesis
      using eff q(2) call by (simp add: cmd_up_def result_response_def or_all_def)
  qed
qed

section \<open>The terminal client\<close>

lemma status_entry_name: "ps_name (status_entry cs x) = fst x"
  by (cases x) (simp add: status_entry_def Let_def)

lemma last_status_Some: "last_status ps n = Some p \<Longrightarrow> p \<in> set ps \<and> ps_name p = n"
  by (auto simp: last_status_def find_Some_iff dest: nth_mem)
    (metis length_rev nth_mem set_rev)

lemma last_status_None: "last_status ps n = None \<longleftrightarrow> n \<notin> ps_name ` set ps"
  by (auto simp: last_status_def find_None_iff)

lemma status_connected: "p \<in> set (status m) \<Longrightarrow> ps_connected p = is_up m (ps_name p)"
  by (auto simp: status_def status_entry_def is_up_def Let_def)

lemma status_names: "ps_name ` set (status m) = set (app_connection_names (tm_config m))"
  by (auto simp: status_def status_entry_name app_connection_names_def amap_keys_def image_image)

text \<open>C14. After a poll the client shows each connection of the configuration file as connected exactly
  when the daemon has it up, and knows the daemon to be there.\<close>

theorem poll_shows_daemon:
  assumes "carries (cj_write_command cj) (js_read_command js) Status"
    and "effect_of io env contents Status d = (r, m', w')"
    and "carries (js_write_response js) (cj_read_response cj) r"
    and "distinct (map cv_name (connections (tu_state t)))"
  shows "\<exists>msg. poll_message cj (served_socket cj js io env contents Status d) = Some msg \<and>
    (\<forall>t'. handle_message aenv msg t = Some t' \<longrightarrow> daemon_connected (tu_state t') \<and>
      (\<forall>v \<in> set (connections (tu_state t')). cv_name v \<in> set (app_connection_names (tm_config m')) \<longrightarrow>
        map_option cst_state (cv_status v) =
          Some (if is_up (dm_manager d) (cv_name v) then CsConnected else CsDisconnected)))"
proof -
  have m': "m' = reload_from_file io contents (dm_manager d)" "r = RStatus (status m')"
    using assms(2) by (auto simp: effect_of_def)
  have msg: "poll_message cj (served_socket cj js io env contents Status d) = Some (DmStatus (status m'))"
    using served_response [OF assms(1), of io env contents d] assms(2,3) m'(2) by (simp add: poll_message_def)
  have "map_option cst_state (cv_status v) =
      Some (if is_up (dm_manager d) (cv_name v) then CsConnected else CsDisconnected)"
    if h: "handle_message aenv (DmStatus (status m')) t = Some t'" "v \<in> set (connections (tu_state t'))"
      "cv_name v \<in> set (app_connection_names (tm_config m'))" for t' v
  proof -
    have "connections (tu_state t') =
        update_statuses (env_show_pct aenv) (status m') (connections (tu_state t))"
      using h(1) by (auto simp: handle_message_def reload_for_def dispatch_all_def dispatch_def group_of_def
          handle_peer_actions_def apply_peer_updates_def split: option.splits)
    then obtain v0 where v0: "v0 \<in> set (connections (tu_state t))"
      "v = (case last_status (status m') (cv_name v0) of None \<Rightarrow> v0
         | Some p \<Rightarrow> v0\<lparr>cv_status := Some (status_of (env_show_pct aenv) p)\<rparr>)"
      using h(2) update_statuses_last [OF assms(4)] by auto
    then have n: "cv_name v = cv_name v0" by (simp split: option.splits)
    then obtain p where p: "last_status (status m') (cv_name v0) = Some p"
      using h(3) last_status_None [of "status m'" "cv_name v0"] status_names [of m'] by fastforce
    then have "ps_connected p = is_up m' (cv_name v0)"
      using last_status_Some [OF p] status_connected [of p m'] by simp
    then show ?thesis using v0(2) p n m'(1) by (simp add: status_of_def)
  qed
  moreover have "daemon_connected (tu_state t')"
    if "handle_message aenv (DmStatus (status m')) t = Some t'" for t'
    using that by (auto simp: handle_message_def reload_for_def dispatch_all_def dispatch_def group_of_def
        handle_peer_actions_def apply_peer_updates_def split: option.splits)
  ultimately show ?thesis using msg by blast
qed

section \<open>Commands of the terminal client\<close>

text \<open>What a command about one connection is for, of the tunnels before it and after it.\<close>

definition up_on :: "'b manager \<Rightarrow> string \<Rightarrow> backend_kind \<Rightarrow> bool" where
  "up_on m n k = (case amap_get (tm_connections m) n of None \<Rightarrow> False | Some conn \<Rightarrow> cn_backend_kind conn = k)"

fun achieved :: "daemon_command \<Rightarrow> 'b manager \<Rightarrow> 'b manager \<Rightarrow> bool" where
  "achieved (Up (Some n) k) m m' = (\<not> is_up m n \<and> up_on m' n k)"
| "achieved (Down (Some n)) m m' = (is_up m n \<and> \<not> is_up m' n)"
| "achieved (SwitchBackend n k) m m' = up_on m' n k"
| "achieved _ m m' = False"

fun about_one :: "daemon_command \<Rightarrow> bool" where
  "about_one (Up (Some n) k) = True"
| "about_one (Down (Some n)) = True"
| "about_one (SwitchBackend n k) = True"
| "about_one _ = False"

lemma down_effect:
  "case down env n m w of (r, m', _) \<Rightarrow> is_ok r = (is_up m n \<and> \<not> is_up m' n)"
  by (auto simp: down_def is_up_def Let_def amap_get_remove split: option.split)

lemma response_ok: "result_response r = ROk \<longleftrightarrow> is_ok r"
  by (cases r) (simp_all add: result_response_def)

lemma response_two: "result_response r = ROk \<or> (\<exists>e. result_response r = RError e)"
  by (cases r) (simp_all add: result_response_def)

lemma about_one_effect:
  assumes "about_one cmd" "effect_of io env contents cmd d = (r, m', w')"
  shows "(r = ROk \<or> (\<exists>e. r = RError e)) \<and> (r = ROk) = achieved cmd (dm_manager d) m'"
proof (cases cmd rule: about_one.cases)
  case (1 n k)
  let ?m = "reload_from_file io contents (dm_manager d)"
  obtain q where q: "up env n k ?m (dm_world d) = (q, m', w')" "r = result_response q"
    using assms(2) 1 by (auto simp: effect_of_def split: prod.splits)
  have "is_ok q = (\<not> is_up ?m n \<and> up_on m' n k)"
    using up_effect [where env = env and name = n and kind = k and m = ?m and w = "dm_world d"] q(1)
    by (auto simp: is_up_def up_on_def split: sum.splits option.splits)
  then show ?thesis using 1 q(2) response_two [of q] by (simp add: response_ok)
next
  case (2 n)
  then obtain q where "down env n (dm_manager d) (dm_world d) = (q, m', w')" "r = result_response q"
    using assms(2) by (auto simp: effect_of_def split: prod.splits)
  then show ?thesis
    using 2 down_effect [where env = env and n = n and m = "dm_manager d" and w = "dm_world d"] response_two [of q]
    by (simp add: response_ok)
next
  case (3 n k)
  have "(r = ROk) = up_on m' n k"
    using assms(2) 3 switch_effect [where env = env and n = n and k = k and m = "dm_manager d" and w = "dm_world d"]
    by (auto simp: effect_of_def up_on_def is_up_def split: option.splits)
  moreover have "r = ROk \<or> (\<exists>e. r = RError e)"
    using assms(2) 3 response_two by (auto simp: effect_of_def split: prod.splits)
  ultimately show ?thesis using 3 by simp
qed (use assms(1) in auto)

lemma toast_pushed:
  assumes "handle_message aenv msg t = Some t'"
  shows "msg = DmOk txt \<Longrightarrow> last (toasts (tu_state t')) = toast_success (env_now aenv) txt"
    and "msg = DmError e \<Longrightarrow> last (toasts (tu_state t')) = toast_error (env_now aenv) (show_tui_error e)"
  using assms
  by (auto simp: handle_message_def reload_for_def dispatch_all_def dispatch_def group_of_def
      handle_feedback_actions_def push_toast_def max_visible_toasts_def Let_def split: option.splits if_splits)

text \<open>C16. When the client has sent a command about one connection and handled what came back, its
  newest toast is one of success, with the text of the command, exactly when the daemon has done
  what the command is for: the connection was not up and is now, on the backend asked for, or was up
  and is now down, or is up on the backend it was switched to. Otherwise the toast is an error.\<close>

theorem toast_tells_effect:
  assumes "about_one cmd" "carries (cj_write_command cj) (js_read_command js) cmd"
    and "effect_of io env contents cmd d = (r, m', w')"
    and "carries (js_write_response js) (cj_read_response cj) r"
  shows "\<exists>msg. command_message cj (served_socket cj js io env contents cmd d) cmd txt = Some msg \<and>
    (\<forall>t'. handle_message aenv msg t = Some t' \<longrightarrow>
      (let ts = last (toasts (tu_state t')) in
       if achieved cmd (dm_manager d) m' then ts = toast_success (env_now aenv) txt
       else to_is_error ts))"
proof -
  have r: "(r = ROk \<or> (\<exists>e. r = RError e)) \<and> (r = ROk) = achieved cmd (dm_manager d) m'"
    by (rule about_one_effect [OF assms(1,3)])
  have s: "send_command_to cj cmd (served_socket cj js io env contents cmd d) = Inr r"
    using served_response [OF assms(2), of io env contents d] assms(1,3,4) by (cases cmd) auto
  show ?thesis
  proof (cases "r = ROk")
    case True
    then show ?thesis
      using r s toast_pushed(1) [of aenv "DmOk txt" t _ "txt"] by (auto simp: command_message_def Let_def)
  next
    case False
    then obtain e where "r = RError e" using r by blast
    then show ?thesis
      using r s toast_pushed(2) [of aenv "DmError (TeDaemonResponse e)" t _ "TeDaemonResponse e"]
      by (auto simp: command_message_def Let_def toast_error_def)
  qed
qed

section \<open>One configuration\<close>

lemma try_save_cases:
  assumes "try_save_config io fs name draft p w = (DmReload c txt, w')"
  shows "\<exists>w1. save_app_config io fs c p w1 = (Inr (), w')"
  using assms by (auto simp: try_save_config_def save_steps_def Let_def split: sum.splits prod.splits)

lemma import_persist_cases:
  assumes "import_and_persist cd io fs src p w = Some (DmReload c txt, w')"
  shows "\<exists>w1. save_app_config io fs c p w1 = (Inr (), w')"
proof -
  obtain r where r: "try_import cd io fs src p w = Some (r, w')"
    "(case r of Inr (c, n) \<Rightarrow> DmReload c (''Imported: '' @ n) | Inl e \<Rightarrow> DmError (TeImportFailed e)) = DmReload c txt"
    using assms by (auto simp: import_and_persist_def)
  then obtain n where "r = Inr (c, n)" by (auto split: sum.splits)
  then show ?thesis using try_import_cases [of cd io fs src p w c n w'] r(1) by blast
qed

lemma reload_message:
  "handle_message aenv (DmReload c txt) t = Some t' \<Longrightarrow> named_configs (tu_state t') = ac_connections c"
  by (auto simp: handle_message_def reload_for_def dispatch_all_def named_reload split: option.splits
      dest!: dispatch_named)

lemma up_names_config: "tm_config (fst (snd (up_names env k ns m w))) = tm_config m"
proof (induction ns arbitrary: m w)
  case (Cons n ns)
  then show ?case
    using up_effect [where env = env and name = n and kind = k and m = m and w = w]
    by (auto split: prod.splits sum.splits)
qed simp

lemma up_config: "handle_command env (Up n k) m w = (r, m', w') \<Longrightarrow> tm_config m' = tm_config m"
  using up_effect [where env = env and name = "the n" and kind = k and m = m and w = w]
    up_names_config [of env k "app_connection_names (tm_config m)" m w]
  by (cases n) (auto simp: up_all_def split: prod.splits sum.splits)

text \<open>The configuration the daemon goes by after it has served a command that reloads it.\<close>

lemma served_reload:
  assumes "fst (read_command js cl) = Some cmd" "cmd = Status \<or> (\<exists>n k. cmd = Up n k)"
  shows "tm_config (dm_manager (snd (serve js io env cl d))) =
    tm_config (reload_from_file io (cl_config cl) (dm_manager d))"
proof -
  obtain out where rc: "read_command js cl = (Some cmd, out)" using assms(1) by (metis prod.collapse)
  then show ?thesis
    using assms(2) up_config
    by (auto simp: serve_def process_command_def Let_def split: prod.splits)
qed

text \<open>C17. When an import or a save of the client has written the configuration and its message has been
  handled, the client shows the connections of the file. The daemon, when it next serves a command to
  bring up one connection or all, or for its status, and that file is still there, goes by the same
  configuration if it is valid; otherwise it keeps the one it had.\<close>

theorem reload_reaches_daemon:
  assumes "files fs separate"
    and "import_and_persist cd io fs src p w = Some (DmReload c txt, w') \<or>
      try_save_config io fs name draft p w = (DmReload c txt, w')"
    and "\<And>s. toml_write_app io c = Inr s \<Longrightarrow> toml_read_app io s = Inr c"
    and "handle_message aenv (DmReload c txt) t = Some t'"
    and "fst (read_command js cl) = Some cmd" "cmd = Status \<or> (\<exists>n k. cmd = Up n k)"
    and "cl_config cl = fo_read fs p w'"
  shows "named_configs (tu_state t') = ac_connections c \<and>
    tm_config (dm_manager (snd (serve js io env cl d))) = (if app_ok c then c else tm_config (dm_manager d))"
proof -
  have "\<exists>w1. save_app_config io fs c p w1 = (Inr (), w')"
    using assms(2) by (elim disjE) (erule import_persist_cases, erule try_save_cases)
  then obtain w1 where "save_app_config io fs c p w1 = (Inr (), w')" ..
  then have "load_app_file io fs p w' = res_bind (app_validate c) (\<lambda>_. Inr c)"
    using files.save_load [OF assms(1)] assms(3) by blast
  then have "load_app_config io (cl_config cl) = res_bind (app_validate c) (\<lambda>_. Inr c)"
    by (simp add: load_app_file_def assms(7))
  then have "tm_config (reload_from_file io (cl_config cl) (dm_manager d)) =
      (if app_ok c then c else tm_config (dm_manager d))"
    by (cases "app_validate c") (auto simp: reload_from_file_def reload_config_def app_validate_iff [symmetric] res_simps)
  then show ?thesis using reload_message [OF assms(4)] served_reload [OF assms(5,6), of io env d] by simp
qed

section \<open>Benchmarks over a restart\<close>

context files
begin

lemma saved_history:
  assumes "save_benchmark_history bj fs p h w = (Inr (), w')"
  shows "\<exists>s. bj_write bj (cap_history h benchmark_history_cap) = Inr s \<and> fo_read fs p w' = Inr s"
proof -
  obtain s where s: "bj_write bj (cap_history h benchmark_history_cap) = Inr s"
    "io_map_err Benchmark.IoErr (fo_write fs p s) w = (Inr (), w')"
    using assms by (auto simp: save_benchmark_history_def split: sum.splits)
  then have "fo_write fs p s w = (Inr (), w')"
    by (cases "fo_write fs p s w"; cases "fst (fo_write fs p s w)") (simp_all add: io_map_err_def)
  then show ?thesis using s(1) write_read by blast
qed

end

text \<open>What the client does when a result has come.\<close>

lemma complete_message:
  assumes "handle_message aenv (DmComplete b) t = Some t'"
  shows "\<exists>run. benchmark_history (tu_state t') =
      cap_history (benchmark_history (tu_state t) @ [run]) benchmark_history_cap \<and>
    amap_get (run_results run) (br_backend b) = Some b \<and>
    tu_tasks t' = tu_tasks t @ [TSaveHistory (benchmark_history (tu_state t'))]"
proof -
  obtain t1 where t1: "dispatch_all aenv (ABenchmarkComplete b) t = Some t1"
    "t' = spawn [TSaveHistory (benchmark_history (tu_state t1))] t1"
    using assms by (auto simp: handle_message_def reload_for_def split: option.splits)
  then have s1: "benchmark_complete aenv b (tu_state t) = Some (tu_state t1)" "tu_tasks t1 = tu_tasks t"
    by (auto simp: dispatch_all_def dispatch_def group_of_def handle_benchmark_actions_def
        update_bundle_def split: option.splits)
  define results where "results = hmap_insert (br_backend b) b (benchmark_results (tu_state t))"
  define run where "run = \<lparr>run_timestamp_ms = int (env_unix_millis aenv), run_connection_name =
    (case set_min (visible_connections (tu_state t)) of None \<Rightarrow> [] | Some n \<Rightarrow> n), run_results = results\<rparr>"
  have "env_unix_millis aenv \<le> 9223372036854775807"
    using s1(1) by (simp add: benchmark_complete_def split: if_splits)
  moreover have "tu_state t1 = the (benchmark_complete aenv b (tu_state t))" using s1(1) by simp
  ultimately have "benchmark_history (tu_state t1) =
      cap_history (benchmark_history (tu_state t) @ [run]) benchmark_history_cap"
    by (simp add: benchmark_complete_def results_def run_def Let_def)
  moreover have "amap_get results (br_backend b) = Some b"
    by (simp add: results_def amap_get_hmap_insert)
  ultimately show ?thesis
    using t1(2) s1(2)
    by (intro exI [of _ run]) (simp add: spawn_def run_def)
qed

text \<open>C18. A result the client gets is in the last run of its history, and the task that saves the
  history writes all of it: nothing is lost between the cap of the state and the cap of the file. The
  next start has what the JSON crate reads back of that text, which is the same history if the crate
  loses nothing, and is empty if it cannot read it.\<close>

theorem benchmark_survives_restart:
  assumes "files fs separate" "handle_message aenv (DmComplete b) t = Some t'"
    and "save_benchmark_history bj fs p (benchmark_history (tu_state t')) w = (Inr (), w')"
  shows "TSaveHistory (benchmark_history (tu_state t')) \<in> set (tu_tasks t') \<and>
    amap_get (run_results (last (benchmark_history (tu_state t')))) (br_backend b) = Some b \<and>
    (\<exists>s. bj_write bj (benchmark_history (tu_state t')) = Inr s \<and> fo_read fs p w' = Inr s \<and>
      benchmark_history (tu_state (tui_start al c (load_benchmark_history bj (Inr s)))) =
        (if str_trim s = [] then [] else case bj_read bj s of Inr h \<Rightarrow> h | Inl _ \<Rightarrow> []))"
proof -
  obtain run where run: "benchmark_history (tu_state t') =
      cap_history (benchmark_history (tu_state t) @ [run]) benchmark_history_cap"
    "amap_get (run_results run) (br_backend b) = Some b"
    "tu_tasks t' = tu_tasks t @ [TSaveHistory (benchmark_history (tu_state t'))]"
    using complete_message [OF assms(2)] by blast
  have last: "last (cap_history (xs @ [run]) benchmark_history_cap) = run" for xs
    by (simp add: cap_history_drop benchmark_history_cap_def)
  have "cap_history (benchmark_history (tu_state t')) benchmark_history_cap = benchmark_history (tu_state t')"
    by (simp add: run(1) cap_history_drop)
  then obtain s where s: "bj_write bj (benchmark_history (tu_state t')) = Inr s" "fo_read fs p w' = Inr s"
    using files.saved_history [OF assms(1,3)] by auto
  have "benchmark_history (tu_state (tui_start al c (load_benchmark_history bj (Inr s)))) =
      (if str_trim s = [] then [] else case bj_read bj s of Inr h \<Rightarrow> h | Inl _ \<Rightarrow> [])"
    by (simp add: tui_start_def start_state_def new_state_def load_benchmark_history_def res_simps Let_def
        split: sum.split)
  then show ?thesis using run last s by auto
qed

section \<open>Examples\<close>

definition up_json :: json where
  "up_json = tiny_json\<lparr>js_read_command := (\<lambda>_. Inr (Up (Some ''home'') Boringtun))\<rparr>"

definition up_client :: client_json where
  "up_client = tiny_client\<lparr>cj_write_command := (\<lambda>_. Inr ''up'')\<rparr>"

definition up_cli :: cli_env where
  "up_cli = (plain_cli default_app_config)\<lparr>ci_json := up_client, ci_socket := (\<lambda>cmd.
     served_socket up_client up_json vpn_io box_env (Inl ''gone'') cmd (daemon_new two_vpns box_world))\<rparr>"

lemma up_carries:
  "carries (cj_write_command up_client) (js_read_command up_json) (Up (Some ''home'') Boringtun)"
  "carries (js_write_response up_json) (cj_read_response up_client) ROk"
  by code_simp+

lemma home_comes_up:
  obtains m' w' where
    "effect_of vpn_io box_env (Inl ''gone'') (Up (Some ''home'') Boringtun)
      (daemon_new two_vpns box_world :: (sim, backend_kind) daemon) = (ROk, m', w')"
    "\<not> is_up (dm_manager (daemon_new two_vpns box_world :: (sim, backend_kind) daemon)) ''home''"
    "up_on m' ''home'' Boringtun"
proof -
  let ?d = "daemon_new two_vpns box_world :: (sim, backend_kind) daemon"
  obtain m' w' where u: "up box_env ''home'' Boringtun (manager_new two_vpns) box_world = (Inr (), m', w')"
    by (rule box_up [OF home_target, of Boringtun box_world]) auto
  have m: "dm_manager ?d = manager_new two_vpns" "dm_world ?d = box_world" by (simp_all add: daemon_new_def)
  have "\<not> is_up (dm_manager ?d) ''home''" "up_on m' ''home'' Boringtun"
    using up_effect [where env = box_env and name = "''home''" and kind = Boringtun
        and m = "manager_new two_vpns" and w = box_world] u
    by (auto simp: m is_up_def up_on_def)
  moreover have "effect_of vpn_io box_env (Inl ''gone'') (Up (Some ''home'') Boringtun) ?d = (ROk, m', w')"
    using u by (simp add: effect_of_def m reload_from_file_def load_app_config_def res_simps result_response_def)
  ultimately show thesis using that by blast
qed

theorem cli_up_is_daemon_up_witness:
  "cmd_up up_cli (Some ''home'') = ([Stdout ''Brought up: home''], Inr ())"
proof -
  let ?d = "daemon_new two_vpns box_world :: (sim, backend_kind) daemon"
  obtain m' w' where e: "effect_of vpn_io box_env (Inl ''gone'') (Up (Some ''home'') Boringtun) ?d = (ROk, m', w')"
    and up: "\<not> is_up (dm_manager ?d) ''home''" "up_on m' ''home'' Boringtun"
    by (rule home_comes_up)
  have c: "ci_json up_cli = up_client" by (simp add: up_cli_def)
  have sk: "ci_socket up_cli (Up (Some ''home'') Boringtun) =
      served_socket (ci_json up_cli) up_json vpn_io box_env (Inl ''gone'') (Up (Some ''home'') Boringtun) ?d"
    by (simp add: up_cli_def)
  have cc: "carries (cj_write_command (ci_json up_cli)) (js_read_command up_json) (Up (Some ''home'') Boringtun)"
    "carries (js_write_response up_json) (cj_read_response (ci_json up_cli)) ROk"
    using up_carries by (simp_all only: c)
  have "is_up m' ''home''" using up(2) by (auto simp: up_on_def is_up_def split: option.splits)
  then show ?thesis using cli_up_is_daemon_up [OF sk cc(1) e cc(2)] up(1) by simp
qed

text \<open>The terminal client brings \<open>home\<close> up.\<close>

theorem toast_tells_effect_witness:
  "\<exists>msg. command_message up_client (served_socket up_client up_json vpn_io box_env (Inl ''gone'')
      (Up (Some ''home'') Boringtun) (daemon_new two_vpns box_world)) (Up (Some ''home'') Boringtun)
      ''Brought up: home'' = Some msg \<and>
    (\<forall>t'. handle_message sample_env msg (tui_start exact_alloc sample_app (Inr [])) = Some t' \<longrightarrow>
      last (toasts (tu_state t')) = toast_success (env_now sample_env) ''Brought up: home'')"
proof -
  let ?d = "daemon_new two_vpns box_world :: (sim, backend_kind) daemon"
  obtain m' w' where e: "effect_of vpn_io box_env (Inl ''gone'') (Up (Some ''home'') Boringtun) ?d = (ROk, m', w')"
    and up: "\<not> is_up (dm_manager ?d) ''home''" "up_on m' ''home'' Boringtun"
    by (rule home_comes_up)
  show ?thesis
    using toast_tells_effect [OF _ up_carries(1) e up_carries(2), of "''Brought up: home''" sample_env
        "tui_start exact_alloc sample_app (Inr [])"] up
    by (auto simp: Let_def)
qed

text \<open>A client that reads the one answer there is.\<close>

definition poll_client :: "daemon_response \<Rightarrow> client_json" where
  "poll_client r = tiny_client\<lparr>cj_read_response := (\<lambda>s. if s = ''data'' then Inr r else Inl ''bad'')\<rparr>"

theorem poll_shows_daemon_witness:
  "\<exists>cj msg. poll_message cj (served_socket cj tiny_json vpn_io box_env (Inl ''gone'') Status
      (daemon_new two_vpns box_world)) = Some msg \<and>
    (\<forall>t'. handle_message sample_env msg (tui_start exact_alloc sample_app (Inr [])) = Some t' \<longrightarrow>
      daemon_connected (tu_state t'))"
proof -
  let ?d = "daemon_new two_vpns box_world :: (sim, backend_kind) daemon"
  let ?t = "tui_start exact_alloc sample_app (Inr [])"
  obtain ps m' where e: "effect_of vpn_io box_env (Inl ''gone'') Status ?d = (RStatus ps, m', dm_world ?d)"
    by (simp add: effect_of_def)
  have c: "carries (cj_write_command (poll_client (RStatus ps))) (js_read_command tiny_json) Status"
    "carries (js_write_response tiny_json) (cj_read_response (poll_client (RStatus ps))) (RStatus ps)"
  proof -
    have "carries (cj_write_command tiny_client) (js_read_command tiny_json) Status" by code_simp
    then show "carries (cj_write_command (poll_client (RStatus ps))) (js_read_command tiny_json) Status"
      by (simp add: poll_client_def)
    have "str_trim (''data'' @ [nl]) = ''data''" by code_simp
    then show "carries (js_write_response tiny_json) (cj_read_response (poll_client (RStatus ps))) (RStatus ps)"
      by (simp add: poll_client_def carries_def tiny_json_def)
  qed
  have "distinct (map cv_name (connections (tu_state ?t)))"
    by (simp add: tui_start_def start_state_def new_state_def sample_app_def app_insert_def default_app_config_def
        connection_views_def Let_def)
  from poll_shows_daemon [OF c(1) e c(2) this, of sample_env] show ?thesis by blast
qed

theorem reload_reaches_daemon_witness:
  "\<exists>c w t'. import_and_persist rfc4648 (pair_io c) map_fs ''/etc/mia.conf'' ''/etc/app.toml'' two_files =
      Some (DmReload c ''Imported: mia'', w) \<and>
    handle_message sample_env (DmReload c ''Imported: mia'') (tui_start exact_alloc sample_app (Inr [])) = Some t' \<and>
    named_configs (tu_state t') = ac_connections c \<and>
    tm_config (dm_manager (snd (serve tiny_json (pair_io c) box_env
      \<lparr>cl_line = Inr (line ''status''), cl_config = fo_read map_fs ''/etc/app.toml'' w\<rparr>
      (daemon_new default_app_config box_world)))) = (if app_ok c then c else default_app_config)"
proof -
  let ?c = "app_insert ''mia'' (imported sample_config) home_app"
  have ne: "?c \<noteq> home_app"
    by (simp add: home_app_def app_insert_def default_app_config_def)
  let ?w = "hmap_insert ''/etc/app.toml'' ''new'' two_files"
  have i: "import_and_persist rfc4648 (pair_io ?c) map_fs ''/etc/mia.conf'' ''/etc/app.toml'' two_files =
      Some (DmReload ?c ''Imported: mia'', ?w)"
    by (simp add: import_and_persist_def try_import_def connection_name_from_path_def mia_names mia_loads
        old_loads [OF ne] map_fs_save)
  have again: "toml_read_app (pair_io ?c) x = Inr ?c" if "toml_write_app (pair_io ?c) ?c = Inr x" for x
  proof -
    have "x = ''new''" using that unfolding pair_io_simps by simp
    then show ?thesis by (simp only: pair_io_simps)
  qed
  obtain t' where t': "handle_message sample_env (DmReload ?c ''Imported: mia'')
      (tui_start exact_alloc sample_app (Inr [])) = Some t'"
    by (auto simp: handle_message_def reload_for_def dispatch_all_def dispatch_def group_of_def
        update_bundle_def config_update_def)
  let ?cl = "\<lparr>cl_line = Inr (line ''status''), cl_config = fo_read map_fs ''/etc/app.toml'' ?w\<rparr>"
  have r: "fst (read_command tiny_json ?cl) = Some Status"
    using status_decodes by (simp add: read_command_def status_client_def)
  have f: "cl_config ?cl = fo_read map_fs ''/etc/app.toml'' ?w" by simp
  have "named_configs (tu_state t') = ac_connections ?c \<and>
      tm_config (dm_manager (snd (serve tiny_json (pair_io ?c) box_env ?cl (daemon_new default_app_config box_world)))) =
        (if app_ok ?c then ?c else tm_config (dm_manager (daemon_new default_app_config box_world :: (sim, backend_kind) daemon)))"
    by (rule reload_reaches_daemon [OF map_files.files_axioms disjI1 [OF i] again t' r disjI1 [OF refl] f])
  moreover have "tm_config (dm_manager (daemon_new default_app_config box_world :: (sim, backend_kind) daemon)) =
      default_app_config"
    by (simp add: daemon_new_def manager_new_def)
  ultimately have "named_configs (tu_state t') = ac_connections ?c \<and>
      tm_config (dm_manager (snd (serve tiny_json (pair_io ?c) box_env ?cl (daemon_new default_app_config box_world)))) =
        (if app_ok ?c then ?c else default_app_config)"
    by simp
  then show ?thesis using i t' by blast
qed

definition one_result :: benchmark_result where
  "one_result = \<lparr>br_backend = ''neptun'', packets_processed = 10, bytes_encapsulated = 1000, elapsed = 1,
     throughput_bps = 1000, avg_latency = 1, p50_latency = 1, p95_latency = 1, p99_latency = 1\<rparr>"

definition one_history :: "benchmark_run list \<Rightarrow> bench_json" where
  "one_history h = \<lparr>bj_read = (\<lambda>_. Inr h), bj_write = (\<lambda>x. if x = h then Inr ''[...]'' else Inl ''no'')\<rparr>"

theorem benchmark_survives_restart_witness:
  "\<exists>t' s. handle_message sample_env (DmComplete one_result) (tui_start exact_alloc sample_app (Inr [])) = Some t' \<and>
    benchmark_history (tu_state (tui_start exact_alloc sample_app
      (load_benchmark_history (one_history (benchmark_history (tu_state t'))) (Inr s)))) =
    benchmark_history (tu_state t')"
proof -
  let ?t = "tui_start exact_alloc sample_app (Inr [])"
  have "\<exists>s'. benchmark_complete sample_env one_result (tu_state ?t) = Some s'"
    by (simp add: benchmark_complete_def sample_env_def Let_def)
  then obtain t' where t': "handle_message sample_env (DmComplete one_result) ?t = Some t'"
    by (auto simp: handle_message_def reload_for_def dispatch_all_def dispatch_def group_of_def
        handle_benchmark_actions_def update_bundle_def config_update_def split: option.splits)
  let ?h = "benchmark_history (tu_state t')"
  have "cap_history ?h benchmark_history_cap = ?h"
    using complete_message [OF t'] by (auto simp: cap_history_drop)
  then have "save_benchmark_history (one_history ?h) map_fs ''/runs'' ?h [] = (Inr (), hmap_insert ''/runs'' ''[...]'' [])"
    by (simp add: save_benchmark_history_def one_history_def io_map_err_def)
  note b = benchmark_survives_restart [OF map_files.files_axioms t' this, of exact_alloc sample_app]
  have "str_trim ''[...]'' \<noteq> []" by code_simp
  moreover obtain s where "bj_write (one_history ?h) ?h = Inr s"
    "benchmark_history (tu_state (tui_start exact_alloc sample_app (load_benchmark_history (one_history ?h) (Inr s)))) =
      (if str_trim s = [] then [] else case bj_read (one_history ?h) s of Inr h \<Rightarrow> h | Inl _ \<Rightarrow> [])"
    using b by blast
  ultimately have "benchmark_history (tu_state (tui_start exact_alloc sample_app
      (load_benchmark_history (one_history ?h) (Inr s)))) = ?h"
    by (simp add: one_history_def)
  then show ?thesis using t' by blast
qed

end
