(* ===== verification/Events.thy ===== *)
theory Events
  imports TuiProps
begin

text \<open>
  The terminal around the client: the task that reads events and ticks (\<open>event.rs\<close>), how the loop
  gets them, and the set-up and restoring of the terminal (\<open>run\<close> of \<open>ferro-wg-tui/src/lib.rs\<close>).
\<close>

section \<open>The reader of events\<close>

datatype event_error = Crossterm string | ChannelClosed

fun show_event_error :: "event_error \<Rightarrow> string" where
  "show_event_error (Crossterm e) = ''terminal event error: '' @ e"
| "show_event_error ChannelClosed = ''event channel closed''"

text \<open>A turn of \<open>select!\<close>: what the terminal's stream yields, or a tick, and whether the client still
  holds the receiver. Which of the two is ready first is the order of the turns.\<close>

datatype stream_item =
  StKey key_event | StMouse mouse_event | StOther | StInterrupted string | StFailed string | StEnd

datatype select_turn = FromStream stream_item | FromTicker

datatype reader_end = Reading | ReaderDone "(event_error, unit) result"

definition send_event :: "app_event \<Rightarrow> bool \<Rightarrow> (event_error, unit) result" where
  "send_event ev open_rx = (if open_rx then Inr () else Inl ChannelClosed)"

fun forwarded :: "select_turn \<Rightarrow> app_event option" where
  "forwarded (FromStream (StKey k)) = Some (EvKey k)"
| "forwarded (FromStream (StMouse m)) = Some (EvMouse m)"
| "forwarded (FromStream _) = None"
| "forwarded FromTicker = Some EvTick"

fun read_turn :: "select_turn \<Rightarrow> bool \<Rightarrow> app_event list \<times> reader_end" where
  "read_turn (FromStream StOther) _ = ([], Reading)"
| "read_turn (FromStream (StInterrupted _)) _ = ([], Reading)"
| "read_turn (FromStream (StFailed e)) _ = ([], ReaderDone (Inl (Crossterm e)))"
| "read_turn (FromStream StEnd) _ = ([], ReaderDone (Inr ()))"
| "read_turn (FromStream (StKey k)) held =
     (case send_event (EvKey k) held of
        Inl e \<Rightarrow> ([], ReaderDone (Inl e)) | Inr _ \<Rightarrow> ([EvKey k], Reading))"
| "read_turn (FromStream (StMouse m)) held =
     (case send_event (EvMouse m) held of
        Inl e \<Rightarrow> ([], ReaderDone (Inl e)) | Inr _ \<Rightarrow> ([EvMouse m], Reading))"
| "read_turn FromTicker held =
     (case send_event EvTick held of
        Inl e \<Rightarrow> ([], ReaderDone (Inl e)) | Inr _ \<Rightarrow> ([EvTick], Reading))"

fun reader_run :: "(select_turn \<times> bool) list \<Rightarrow> app_event list \<times> reader_end" where
  "reader_run [] = ([], Reading)"
| "reader_run ((t, held) # ts) =
     (case read_turn t held of
        (evs, Reading) \<Rightarrow> (case reader_run ts of (evs', r) \<Rightarrow> (evs @ evs', r))
      | (evs, ReaderDone r) \<Rightarrow> (evs, ReaderDone r))"

text \<open>What the task that \<open>new\<close> spawns warns of at its end.\<close>

definition reader_warning :: "reader_end \<Rightarrow> string option" where
  "reader_warning r =
     (case r of
        ReaderDone (Inl e) \<Rightarrow>
          (if e \<noteq> ChannelClosed then Some (''event loop exited with error: '' @ show_event_error e) else None)
      | _ \<Rightarrow> None)"

text \<open>\<open>next\<close>: an event that was sent, or none once the task has ended; otherwise it waits.\<close>

datatype next_event = Waiting | Next "app_event option" "app_event list"

definition next_of :: "app_event list \<Rightarrow> reader_end \<Rightarrow> next_event" where
  "next_of queue r =
     (case queue of
        ev # rest \<Rightarrow> Next (Some ev) rest
      | [] \<Rightarrow> (if r = Reading then Waiting else Next None []))"

text \<open>The rounds of the loop get the events in the order they were sent, until one has to wait.\<close>

fun feed :: "app_event list \<Rightarrow> reader_end \<Rightarrow> round list \<Rightarrow> round list" where
  "feed queue r [] = []"
| "feed queue r (rd # rds) =
     (case next_of queue r of
        Waiting \<Rightarrow> []
      | Next ev rest \<Rightarrow> rd\<lparr>rd_event := ev\<rparr> # feed rest r rds)"

definition stops_reader :: "select_turn \<times> bool \<Rightarrow> bool" where
  "stops_reader t = (snd (read_turn (fst t) (snd t)) \<noteq> Reading)"

lemma read_turn_cases:
  "read_turn t held = (evs, r) \<Longrightarrow>
   evs = (if stops_reader (t, held) then [] else case forwarded t of None \<Rightarrow> [] | Some ev \<Rightarrow> [ev]) \<and>
   (r = Reading \<longleftrightarrow> \<not> stops_reader (t, held))"
  by (cases held; cases "(t, held)" rule: read_turn.cases) (auto simp: stops_reader_def send_event_def)

lemma reader_run_events:
  "fst (reader_run ts) = List.map_filter (\<lambda>(t, _). forwarded t) (takeWhile (\<lambda>t. \<not> stops_reader t) ts)"
proof (induction ts)
  case (Cons tr ts)
  obtain t held evs r where tr: "tr = (t, held)" "read_turn t held = (evs, r)"
    by (metis surj_pair)
  show ?case using Cons read_turn_cases [OF tr(2)]
    by (auto simp: tr map_filter_simps split: option.splits prod.splits reader_end.splits)
qed (simp add: map_filter_simps)

section \<open>The terminal\<close>

text \<open>What \<open>crossterm\<close> and ratatui do to the terminal, on a state of it.\<close>

record 'w term_ops =
  to_raw_on :: "'w \<Rightarrow> (string, unit) result \<times> 'w"
  to_enter :: "'w \<Rightarrow> (string, unit) result \<times> 'w"
  to_terminal :: "'w \<Rightarrow> (string, unit) result \<times> 'w"
  to_clear :: "'w \<Rightarrow> (string, unit) result \<times> 'w"
  to_raw_off :: "'w \<Rightarrow> (string, unit) result \<times> 'w"
  to_leave :: "'w \<Rightarrow> (string, unit) result \<times> 'w"
  to_cursor :: "'w \<Rightarrow> (string, unit) result \<times> 'w"

definition set_up :: "'w term_ops \<Rightarrow> ('w, string, unit) io" where
  "set_up ops =
     io_bind (to_raw_on ops) (\<lambda>_. io_bind (to_enter ops) (\<lambda>_.
     io_bind (to_terminal ops) (\<lambda>_. to_clear ops)))"

definition restore :: "'w term_ops \<Rightarrow> 'w \<Rightarrow> 'w" where
  "restore ops w = snd (to_cursor ops (snd (to_leave ops (snd (to_raw_off ops w)))))"

datatype client_end = ClientRuns | ClientPanics | ClientReturns "(string, unit) result"

text \<open>The drawing of the rounds changes the terminal's state too: \<open>draws\<close>.\<close>

definition run_client ::
  "'w term_ops \<Rightarrow> alloc \<Rightarrow> app_config \<Rightarrow> (benchmark_error, benchmark_run list) result \<Rightarrow> round list \<Rightarrow>
   ('w \<Rightarrow> 'w) \<Rightarrow> 'w \<Rightarrow> client_end \<times> 'w" where
  "run_client ops al c hist rds draws w =
     (case set_up ops w of
        (Inl e, w1) \<Rightarrow> (ClientReturns (Inl e), w1)
      | (Inr _, w1) \<Rightarrow>
          (case run_tui al c hist rds of
             None \<Rightarrow> (ClientPanics, draws w1)
           | Some (LoopOpen, _) \<Rightarrow> (ClientRuns, draws w1)
           | Some (LoopDone, _) \<Rightarrow> (ClientReturns (Inr ()), restore ops (draws w1))
           | Some (LoopFailed e, _) \<Rightarrow> (ClientReturns (Inl e), restore ops (draws w1))))"

section \<open>The end of the reader\<close>

lemma quiet_round_ends:
  assumes "rd_event rd = None"
  shows "loop_round rd t \<noteq> Some (LoopOpen, t')"
  using assms by (auto simp: loop_round_def Let_def split: option.splits sum.splits prod.splits)

lemma feed_ends:
  "r \<noteq> Reading \<Longrightarrow> event_loop (feed evs r rds) t = Some (LoopOpen, t') \<Longrightarrow> length rds \<le> length evs"
proof (induction evs r rds arbitrary: t rule: feed.induct)
  case (2 queue r rd rds)
  obtain ev rest where n: "next_of queue r = Next ev rest"
    using 2(2) by (cases queue) (auto simp: next_of_def)
  have run: "running (tu_state t)"
    using 2(3) by (auto simp: event_loop.simps split: if_splits)
  then obtain e t1 where r1: "loop_round (rd\<lparr>rd_event := ev\<rparr>) t = Some (e, t1)" "e = LoopOpen"
    "event_loop (feed rest r rds) t1 = Some (LoopOpen, t')"
    using 2(3) n event_loop.simps [of "rd\<lparr>rd_event := ev\<rparr> # feed rest r rds" t]
    by (auto split: option.splits loop_end.splits)
  show ?case
  proof (cases queue)
    case Nil
    then have "ev = None" using n 2(2) by (simp add: next_of_def)
    then show ?thesis using r1 quiet_round_ends [of "rd\<lparr>rd_event := ev\<rparr>"] by auto
  next
    case (Cons x xs)
    then show ?thesis using n 2(1) [OF n 2(2) r1(3)] by (simp add: next_of_def)
  qed
qed simp

text \<open>C20. The client gets the keys, mouse events and ticks in the order the reader saw them, up to where
  the reader stops. Once it has stopped, for an error of the terminal too, the client comes to its
  end after the events that were sent: it does not wait for ever.\<close>

theorem reader_end_ends_client:
  assumes "reader_run ts = (evs, ReaderDone r)"
  shows "evs = List.map_filter (\<lambda>(t, _). forwarded t) (takeWhile (\<lambda>t. \<not> stops_reader t) ts) \<and>
    (length evs < length rds \<longrightarrow>
      \<not> (\<exists>t. run_tui al c hist (feed evs (ReaderDone r) rds) = Some (LoopOpen, t)))"
  using reader_run_events [of ts] feed_ends [of "ReaderDone r" evs rds] assms
  by (fastforce simp: run_tui_def)

theorem reader_end_ends_client_witness:
  "\<not> (\<exists>t. run_tui exact_alloc sample_app (Inr [])
     (feed [EvKey (plain_key KDown), EvTick] (ReaderDone (Inl (Crossterm ''lost'')))
       (replicate 3 (key_round sample_env plain_draw 80 KDown))) = Some (LoopOpen, t))"
proof -
  have ran: "reader_run [(FromStream (StKey (plain_key KDown)), True), (FromStream StOther, True), (FromTicker, True),
      (FromStream (StFailed ''lost''), True), (FromTicker, True)] =
    ([EvKey (plain_key KDown), EvTick], ReaderDone (Inl (Crossterm ''lost'')))"
    by (simp add: send_event_def)
  show ?thesis by (rule reader_end_ends_client [OF ran, THEN conjunct2, THEN mp]) simp
qed

section \<open>What is left on the terminal\<close>

text \<open>What the code relies on: a switch that succeeds has switched raw mode, and nothing else does.\<close>

locale terminal =
  fixes ops :: "'w term_ops" and raw :: "'w \<Rightarrow> bool"
  assumes raw_on: "raw (snd (to_raw_on ops w)) \<longleftrightarrow> raw w \<or> is_ok (fst (to_raw_on ops w))"
    and raw_off: "raw (snd (to_raw_off ops w)) \<longleftrightarrow> raw w \<and> \<not> is_ok (fst (to_raw_off ops w))"
    and raw_keep: "raw (snd (to_enter ops w)) = raw w" "raw (snd (to_terminal ops w)) = raw w"
      "raw (snd (to_clear ops w)) = raw w" "raw (snd (to_leave ops w)) = raw w"
      "raw (snd (to_cursor ops w)) = raw w"
begin

lemma set_up_raw: "raw (snd (set_up ops w)) \<longleftrightarrow> raw w \<or> is_ok (fst (to_raw_on ops w))"
proof -
  have keep: "raw (snd (io_bind m f v)) = raw v"
    if "\<And>v. raw (snd (m v)) = raw v" "\<And>x v. raw (snd (f x v)) = raw v" for m f v
    using that(1) [of v] that(2) by (auto simp: io_bind_def split: sum.splits prod.splits)
  define more where
    "more = (\<lambda>_::unit. io_bind (to_enter ops) (\<lambda>_. io_bind (to_terminal ops) (\<lambda>_. to_clear ops)))"
  have "raw (snd (more u v)) = raw v" for u v
    unfolding more_def by (intro keep raw_keep)
  moreover have "set_up ops w = io_bind (to_raw_on ops) more w" by (simp add: set_up_def more_def)
  moreover obtain r w1 where "to_raw_on ops w = (r, w1)" by fastforce
  ultimately show ?thesis using raw_on [of w] by (cases r) (simp_all add: io_bind_def)
qed

lemma restore_raw: "raw (restore ops w) \<longleftrightarrow> raw w \<and> \<not> is_ok (fst (to_raw_off ops w))"
  by (simp add: restore_def raw_off raw_keep)

end

text \<open>A terminal that is its mode: raw or not, the other screen or not.\<close>

definition mode_ops :: "(bool \<times> bool) term_ops" where
  "mode_ops = \<lparr>to_raw_on = (\<lambda>(_, alt). (Inr (), True, alt)), to_enter = (\<lambda>(raw, _). (Inr (), raw, True)),
     to_terminal = (\<lambda>w. (Inr (), w)), to_clear = (\<lambda>w. (Inr (), w)),
     to_raw_off = (\<lambda>(_, alt). (Inr (), False, alt)), to_leave = (\<lambda>(raw, _). (Inr (), raw, False)),
     to_cursor = (\<lambda>w. (Inr (), w))\<rparr>"

interpretation mode_terminal: terminal mode_ops fst
  by unfold_locales (auto simp: mode_ops_def is_ok_def split: prod.splits)

text \<open>C19. A client that could set raw mode, and can unset it, gives the terminal back in its own mode
  when its loop returns, with an error or without; it leaves it raw when the set-up fails after
  that, and when the client panics.\<close>

theorem terminal_left_raw_iff:
  assumes "terminal ops raw" "\<not> raw w" "is_ok (fst (to_raw_on ops w))"
    and "\<forall>w. is_ok (fst (to_raw_off ops w))" "\<forall>w. raw (draws w) = raw w"
    and "run_client ops al c hist rds draws w = (e, w')" "e \<noteq> ClientRuns"
  shows "raw w' \<longleftrightarrow> \<not> is_ok (fst (set_up ops w)) \<or> run_tui al c hist rds = None"
proof -
  obtain r w1 where s: "set_up ops w = (r, w1)" by fastforce
  then have "raw w1" using terminal.set_up_raw [OF assms(1), of w] assms(3) by simp
  then show ?thesis
    using assms(4-7) s terminal.restore_raw [OF assms(1)]
    by (auto simp: run_client_def is_ok_def split: sum.splits option.splits prod.splits loop_end.splits)
qed

theorem terminal_left_raw_iff_witness:
  "\<exists>rds. fst (snd (run_client mode_ops exact_alloc sample_app (Inr []) rds id (False, False))) = False"
proof -
  let ?rd = "(key_round sample_env plain_draw 80 KEsc)\<lparr>rd_event := None\<rparr>"
  let ?t = "tui_start exact_alloc sample_app (Inr [])"
  have "running (tu_state ?t)" by (simp add: tui_start_def start_state_def new_state_def Let_def)
  moreover obtain t where "loop_round ?rd ?t = Some (LoopDone, t)"
  proof -
    obtain t1 where "prepare ?rd ?t = Some t1"
      by (auto simp: prepare_def arrive_def key_round_def)
    moreover obtain chunks bar where "compute_layout plain_ui (at_origin 80 24)
        (length (connections (tu_state t1))) = Some (chunks, bar)"
      using plain_layout by fastforce
    ultimately show ?thesis
      by (intro that [of t1]) (simp add: loop_round_def key_round_def plain_draw_def)
  qed
  ultimately have run: "run_tui exact_alloc sample_app (Inr []) [?rd] = Some (LoopDone, t)"
    by (simp add: run_tui_def event_loop.simps)
  have su: "set_up mode_ops (False, False) = (Inr (), True, True)"
    by (simp add: set_up_def io_bind_def mode_ops_def)
  have "run_client mode_ops exact_alloc sample_app (Inr []) [?rd] id (False, False) =
      (ClientReturns (Inr ()), restore mode_ops (True, True))"
    by (simp add: run_client_def su run)
  from terminal_left_raw_iff [OF mode_terminal.terminal_axioms _ _ _ _ this]
  have "\<not> fst (restore mode_ops (True, True))"
    by (simp add: mode_ops_def su [unfolded mode_ops_def] run)
  then show ?thesis using run su by (intro exI [of _ "[?rd]"]) (simp add: run_client_def)
qed

end
