(* ===== verification/KeyProps.thy ===== *)
theory KeyProps
  imports TuiProps
begin

text \<open>
  What keys can make the client do: which commands reach the daemon, how Escape ends the client, and
  what the configuration editor can write.
\<close>

section \<open>Commands\<close>

lemma perform_tasks:
  "perform env a t = Some t' \<Longrightarrow> tu_tasks t' = tu_tasks t @ maybe_spawn_command a (tu_state t')"
  by (auto simp: perform_def dispatch_all_def spawn_def split: option.splits)

lemma perform_dispatch: "perform env a t = Some t' \<Longrightarrow> dispatch env a (tu_state t) = Some (tu_state t')"
  by (auto simp: perform_def dispatch_all_def split: option.splits)

text \<open>What is known of an action a key resolves to.\<close>

definition key_action :: "key_event \<Rightarrow> app_state \<Rightarrow> action \<Rightarrow> bool" where
  "key_action key s a =
     (case a of
        AConnectPeer n \<Rightarrow> n \<in> visible_connections s
      | ADisconnectPeer n \<Rightarrow> n \<in> visible_connections s
      | ACyclePeerBackend n \<Rightarrow> n \<in> visible_connections s
      | AConnectAll \<Rightarrow> active_tab s = TabOverview \<and> ke_code key = KChar ''u''
      | AStartDaemon \<Rightarrow> active_tab s = TabOverview \<and> ke_code key = KChar ''s'' \<and> \<not> daemon_connected s
      | AStartBenchmark \<Rightarrow> active_tab s = TabCompare
      | AStartBenchmarkForBackend _ \<Rightarrow> active_tab s = TabCompare
      | ASaveConfig reconnect \<Rightarrow> reconnect \<longrightarrow> ke_code key = KChar ''r''
      | ADisconnectAll \<Rightarrow> False
      | AStopDaemon \<Rightarrow> False
      | AConfirmYes \<Rightarrow> ke_code key = KChar ''y'' \<or> ke_code key = KChar ''Y''
      | _ \<Rightarrow> True)"

lemma row_key_action: "row_key k = Some a \<Longrightarrow> key_action key s a"
  by (auto simp: row_key_def key_action_def split: if_splits)

lemma selected_name_visible: "selected_connection_name s i = Some n \<Longrightarrow> n \<in> visible_connections s"
  by (auto simp: selected_connection_name_def visible_views_def dest!: nth_mem)

lemma keys_action:
  "help_key key s = Some a \<Longrightarrow> key_action key s a"
  "filter_key lower key s sel = Some a \<Longrightarrow> key_action key s a"
  "diff_key key s = Some a \<Longrightarrow> key_action key s a"
  "confirm_key key s = Some a \<Longrightarrow> key_action key s a"
  "status_bar_key key s = Some a \<Longrightarrow> key_action key s a"
  "handle_global_key key = Some a \<Longrightarrow> key_action key s a"
  "connection_bar_key key = Some a \<Longrightarrow> key_action key s a"
  "status_key key s sel = Some a \<Longrightarrow> key_action key s a"
  "peers_key key = Some a \<Longrightarrow> key_action key s a"
  "active_tab s = TabCompare \<Longrightarrow> compare_key key cm = Some a \<Longrightarrow> key_action key s a"
  "config_key key s ct = Some (Some a, ct') \<Longrightarrow> key_action key s a"
  "active_tab s = TabOverview \<Longrightarrow> overview_key key s = Some a \<Longrightarrow> key_action key s a"
  by (auto simp: help_key_def filter_key_def diff_key_def confirm_key_def status_bar_key_def
      handle_global_key_def connection_bar_key_def status_key_def peers_key_def compare_key_def
      config_key_def delete_request_def overview_key_def key_action_def Let_def or_key_Some
      dest: row_key_action [of _ _ key s, unfolded key_action_def] selected_name_visible
      split: if_splits option.splits key_code.splits input_mode.splits config_section.splits)

lemma resolve_key_action:
  assumes "resolve_key env key s b = Some (Some a, b')"
  shows "key_action key s a"
  using assms
  by (auto simp: resolve_key_def tab_key_def or_key_Some split: if_splits option.splits tab.splits
      intro: keys_action)

text \<open>The commands a task sends to the daemon while it runs. Starting the daemon polls it with the
  command for its status.\<close>

fun task_commands :: "task \<Rightarrow> daemon_command list" where
  "task_commands (TCommand cmd _) = [cmd]"
| "task_commands (TBenchmark name secs) = [Benchmark name secs]"
| "task_commands TPoll = [Status]"
| "task_commands TStartDaemon = [Status]"
| "task_commands (TSaveConfig name _ reconnect) = reconnect_commands name reconnect"
| "task_commands TLogStream = [StreamLogs]"
| "task_commands _ = []"

definition confirmed :: "key_event \<Rightarrow> app_state \<Rightarrow> confirm_action \<Rightarrow> bool" where
  "confirmed key s c =
     ((ke_code key = KChar ''y'' \<or> ke_code key = KChar ''Y'') \<and>
      (\<exists>p. pending_confirm s = Some p \<and> cp_action p = c))"

text \<open>The key \<open>r\<close> in a preview saves the connection previewed and brings it down and up again.\<close>

definition reconnects :: "key_event \<Rightarrow> app_state \<Rightarrow> string \<Rightarrow> bool" where
  "reconnects key s n =
     (ke_code key = KChar ''r'' \<and> (\<exists>d. config_diff_pending s = Some d \<and> cd_connection_name d = n))"

fun allowed_command :: "key_event \<Rightarrow> app_state \<Rightarrow> daemon_command \<Rightarrow> bool" where
  "allowed_command key s (Up None k) = (active_tab s = TabOverview \<and> ke_code key = KChar ''u'')"
| "allowed_command key s (Up (Some n) k) = (k = Boringtun \<and> (n \<in> visible_connections s \<or> reconnects key s n))"
| "allowed_command key s (Down None) = confirmed key s CDisconnectAll"
| "allowed_command key s (Down (Some n)) = (n \<in> visible_connections s \<or> reconnects key s n)"
| "allowed_command key s (SwitchBackend n k) = (n \<in> visible_connections s)"
| "allowed_command key s Shutdown = confirmed key s CStopDaemon"
| "allowed_command key s (Benchmark n secs) =
     (n \<in> visible_connections s \<and> secs = 10 \<and> active_tab s = TabCompare)"
| "allowed_command key s Status =
     (active_tab s = TabOverview \<and> ke_code key = KChar ''s'' \<and> \<not> daemon_connected s)"
| "allowed_command key s StreamLogs = False"

abbreviation allowed_task :: "key_event \<Rightarrow> app_state \<Rightarrow> task \<Rightarrow> bool" where
  "allowed_task key s tk \<equiv> \<forall>cmd \<in> set (task_commands tk). allowed_command key s cmd"

lemma set_min_visible: "finite (visible_connections s) \<Longrightarrow> set_min (visible_connections s) = Some n \<Longrightarrow>
  n \<in> visible_connections s"
  by (metis Min_in option.distinct(1) option.inject set_min_def)

lemma start_benchmark_visible [simp]: "visible_connections (start_benchmark env s) = visible_connections s"
  by (simp add: start_benchmark_def push_toast_def Let_def)

lemma direct_command:
  assumes "key_action key s a" "dispatch env a s = Some s'" "tk \<in> set (maybe_spawn_command a s')"
    and "finite (visible_connections s)"
  shows "allowed_task key s tk"
proof (cases a)
  case (ASwitchBenchmarkBackend backend)
  then have "s' = s" using assms(2) by (simp add: dispatch_def group_of_def)
  then show ?thesis using assms(3,4) set_min_visible [of s] ASwitchBenchmarkBackend
    by (auto simp: maybe_spawn_command_def switch_backend_tasks_def Let_def split: if_splits option.splits)
next
  case AStartBenchmark
  then have "s' = start_benchmark env s"
    using assms(2) by (simp add: dispatch_def group_of_def handle_benchmark_actions_def)
  then show ?thesis using assms(1,3,4) set_min_visible [of s] AStartBenchmark
    by (auto simp: maybe_spawn_command_def benchmark_tasks_def key_action_def split: option.splits)
next
  case (AStartBenchmarkForBackend x)
  then have "s' = start_benchmark env s"
    using assms(2) by (simp add: dispatch_def group_of_def handle_benchmark_actions_def)
  then show ?thesis using assms(1,3,4) set_min_visible [of s] AStartBenchmarkForBackend
    by (auto simp: maybe_spawn_command_def benchmark_tasks_def key_action_def split: option.splits)
qed (use assms in \<open>auto simp: maybe_spawn_command_def key_action_def\<close>)

lemma follow_up_command:
  assumes "key_action key s a" "follow_up a s = Some f" "tk \<in> set (maybe_spawn_command f s')"
  shows "allowed_task key s tk"
proof -
  obtain p where p: "a = AConfirmYes" "pending_confirm s = Some p" "f = confirmed_action (cp_action p)"
    using assms(2) by (auto simp: follow_up_def split: if_splits)
  then show ?thesis using assms(1,3)
    by (cases "cp_action p") (auto simp: maybe_spawn_command_def confirmed_def key_action_def)
qed

lemma path_save_command:
  assumes "key_action key s a" "tk \<in> set (path_tasks a s s' @ save_tasks a s)"
  shows "allowed_task key s tk"
  using assms
  by (cases "config_diff_pending s")
    (auto simp: path_tasks_def save_tasks_def reconnect_commands_def reconnects_def key_action_def
      split: option.splits action.splits if_splits)

text \<open>C3. Every command that the tasks started by a key send to the daemon is one the key may send:
  those on one connection name a visible one, or the one in the preview when \<open>r\<close> saves and reconnects
  it; benchmarks are of a visible one and start on their tab; everything comes up by \<open>u\<close> on the
  overview alone, and everything goes down or the daemon stops only on \<open>y\<close> to the dialog that asks
  for it.\<close>

theorem key_commands:
  assumes "handle_key_event env key t = Some t'" "finite (visible_connections (tu_state t))"
  shows "\<exists>new. tu_tasks t' = tu_tasks t @ new \<and>
    (\<forall>tk \<in> set new. \<forall>cmd \<in> set (task_commands tk). allowed_command key (tu_state t) cmd)"
proof -
  let ?s = "tu_state t"
  obtain a b where r: "resolve_key env key ?s (tu_bundle t) = Some (a, b)"
    using assms(1) by (auto simp: handle_key_event_def split: option.splits)
  show ?thesis
  proof (cases a)
    case None
    then show ?thesis using assms(1) r by (auto simp: handle_key_event_def)
  next
    case (Some x)
    then have act: "key_action key ?s x" using resolve_key_action r by blast
    obtain t1 where t1: "perform env x (t\<lparr>tu_bundle := b\<rparr>) = Some t1"
      using assms(1) r Some by (auto simp: handle_key_event_def perform_key_def Let_def split: option.splits)
    have d: "dispatch env x ?s = Some (tu_state t1)" using perform_dispatch [OF t1] by simp
    define more where "more t2 = path_tasks x ?s (tu_state t2) @ save_tasks x ?s" for t2 :: tui
    note ok = direct_command [OF act d _ assms(2)] path_save_command [OF act]
    show ?thesis
    proof (cases "follow_up x ?s")
      case None
      then have "tu_tasks t' = tu_tasks t @ maybe_spawn_command x (tu_state t1) @ more t1"
        using assms(1) r \<open>a = Some x\<close> t1 perform_tasks [OF t1]
        by (auto simp: handle_key_event_def perform_key_def more_def spawn_def Let_def)
      moreover have "\<forall>tk \<in> set (maybe_spawn_command x (tu_state t1) @ more t1). allowed_task key ?s tk"
        using ok unfolding more_def by auto
      ultimately show ?thesis by blast
    next
      case (Some f)
      obtain t2 where t2: "perform env f t1 = Some t2"
        using assms(1) r \<open>a = Some x\<close> t1 Some
        by (auto simp: handle_key_event_def perform_key_def Let_def split: option.splits)
      then have "tu_tasks t' = tu_tasks t @ maybe_spawn_command x (tu_state t1) @
          maybe_spawn_command f (tu_state t2) @ more t2"
        using assms(1) r \<open>a = Some x\<close> t1 Some perform_tasks [OF t1] perform_tasks [OF t2]
        by (auto simp: handle_key_event_def perform_key_def more_def spawn_def Let_def)
      moreover have "\<forall>tk \<in> set (maybe_spawn_command x (tu_state t1) @ maybe_spawn_command f (tu_state t2) @
          more t2). allowed_task key ?s tk"
        using ok follow_up_command [OF act Some] unfolding more_def by auto
      ultimately show ?thesis by blast
    qed
  qed
qed

text \<open>On the overview, \<open>u\<close> brings everything up.\<close>

theorem key_commands_witness:
  "\<exists>t' new. handle_key_event sample_env (plain_key (KChar ''u'')) (tui_start exact_alloc sample_app (Inr [])) =
      Some t' \<and> tu_tasks t' = [TLogStream] @ new \<and> TCommand (Up None Boringtun) ''All connections up'' \<in> set new \<and>
    (\<forall>tk \<in> set new. \<forall>cmd \<in> set (task_commands tk).
      allowed_command (plain_key (KChar ''u'')) (tu_state (tui_start exact_alloc sample_app (Inr []))) cmd)"
proof -
  let ?t = "tui_start exact_alloc sample_app (Inr [])"
  have g: "good (tu_state ?t)" by (rule good_start [OF sample_keys])
  obtain t' where t': "handle_key_event sample_env (plain_key (KChar ''u'')) ?t = Some t'"
    using handle_key_total [OF g, of sample_env "plain_key (KChar ''u'')"] by (auto simp: sample_env_def)
  have s: "\<not> show_help (tu_state ?t)" "\<not> show_connection_filter (tu_state ?t)"
    "config_diff_pending (tu_state ?t) = None" "pending_confirm (tu_state ?t) = None"
    "input_mode (tu_state ?t) = MNormal" "active_tab (tu_state ?t) = TabOverview"
    "finite (visible_connections (tu_state ?t))" "tu_tasks ?t = [TLogStream]"
    by (simp_all add: tui_start_def start_state_def new_state_def Let_def)
  have "resolve_key sample_env (plain_key (KChar ''u'')) (tu_state ?t) (tu_bundle ?t) = Some (Some AConnectAll, tu_bundle ?t)"
    using s by (simp add: resolve_key_def is_text_mode_def handle_global_key_def connection_bar_key_def
        plain_key_def or_key_def tab_key_def overview_key_def row_key_def Let_def)
  then have "TCommand (Up None Boringtun) ''All connections up'' \<in> set (tu_tasks t')"
    using t' by (cases "dispatch_all sample_env AConnectAll ?t")
      (auto simp: handle_key_event_def perform_key_def perform_def follow_up_def path_tasks_def
        save_tasks_def maybe_spawn_command_def spawn_def)
  then show ?thesis using key_commands [OF t' s(7)] t' s(8) by auto
qed

section \<open>Escape\<close>

text \<open>The layers Escape closes one by one: the overlays, the preview, the dialog and a text prompt.\<close>

definition layers :: "app_state \<Rightarrow> nat" where
  "layers s = of_bool (show_help s) + of_bool (show_connection_filter s) +
     of_bool (config_diff_pending s \<noteq> None) + of_bool (pending_confirm s \<noteq> None) +
     of_bool (is_text_mode (input_mode s))"

lemma layers_bound: "layers s \<le> 5"
  by (auto simp: layers_def of_bool_def)

definition esc_action :: "app_state \<Rightarrow> action" where
  "esc_action s =
     (if show_help s then AHideHelp
      else if show_connection_filter s then AHideConnectionFilter
      else if config_diff_pending s \<noteq> None then ADiscardConfigEdits
      else if pending_confirm s \<noteq> None then AConfirmNo
      else (case input_mode s of MSearch \<Rightarrow> AExitSearch | MImport _ \<Rightarrow> AExitImport | MExport _ \<Rightarrow> AExitExport
              | _ \<Rightarrow> AQuit))"

lemma resolve_esc: "resolve_key env (plain_key KEsc) s b = Some (Some (esc_action s), b)"
  by (cases "input_mode s")
    (auto simp: resolve_key_def esc_action_def help_key_def filter_key_def diff_key_def confirm_key_def
      status_bar_key_def handle_global_key_def is_text_mode_def plain_key_def or_key_def)

lemma esc_not_yes: "esc_action s \<noteq> AConfirmYes"
  by (auto simp: esc_action_def split: input_mode.splits)

text \<open>One Escape closes a layer, or stops the client when none is left.\<close>

lemma esc_effects:
  "dispatch env AHideHelp s = Some (s\<lparr>show_help := False\<rparr>)"
  "dispatch env AHideConnectionFilter s =
     Some (s\<lparr>show_connection_filter := False, connection_filter_search := []\<rparr>)"
  "dispatch env ADiscardConfigEdits s =
     Some (s\<lparr>config_edit := None, config_diff_pending := None, input_mode := MNormal\<rparr>)"
  "dispatch env AConfirmNo s = Some (s\<lparr>pending_confirm := None\<rparr>)"
  "dispatch env AExitSearch s = Some (s\<lparr>input_mode := MNormal\<rparr>)"
  "dispatch env AExitImport s = Some (s\<lparr>input_mode := MNormal\<rparr>)"
  "dispatch env AExitExport s = Some (s\<lparr>input_mode := MNormal\<rparr>)"
  "dispatch env AQuit s = Some (s\<lparr>running := False\<rparr>)"
  by (simp_all add: dispatch_def group_of_def handle_help_action_def handle_config_actions_def
      handle_confirm_actions_def handle_search_actions_def handle_export_actions_def)

definition esc_closed :: "app_state \<Rightarrow> app_state \<Rightarrow> bool" where
  "esc_closed s s' =
     ((if layers s = 0 then \<not> running s'
      else running s' = running s \<and> layers s' < layers s) \<and> (over_scrolled s' \<longrightarrow> over_scrolled s))"

lemma esc_dispatch: "\<exists>s'. dispatch env (esc_action s) s = Some s' \<and> esc_closed s s'"
proof (cases "show_help s \<or> show_connection_filter s")
  case True
  then show ?thesis
    by (cases "show_help s") (simp_all add: esc_action_def esc_effects esc_closed_def layers_def over_scrolled_def)
next
  case overlay: False
  show ?thesis
  proof (cases "config_diff_pending s = None \<and> pending_confirm s = None")
    case True
    then show ?thesis using overlay
      by (cases "input_mode s") (simp_all add: esc_action_def esc_effects esc_closed_def layers_def
          is_text_mode_def over_scrolled_def)
  next
    case False
    then show ?thesis using overlay
      by (cases "config_diff_pending s = None")
        (auto simp: esc_action_def esc_effects esc_closed_def layers_def is_text_mode_def over_scrolled_def)
  qed
qed

lemma esc_closed_tick: "esc_closed (clear_expired_toasts now s) s' = esc_closed s s'"
  by (simp add: esc_closed_def layers_def over_scrolled_def clear_expired_toasts_def)

lemma prepare_key:
  "prepare (key_round env dr w k) t = Some (t\<lparr>tu_state := clear_expired_toasts (env_now env) (tu_state t)\<rparr>)"
  by (cases t) (simp add: prepare_def arrive_def key_round_def)

text \<open>Whatever toasts there are, the round of a key draws what the key leads to.\<close>

lemma key_draw:
  assumes "good (tu_state t)" "round_sound (key_round env dr w k)"
  shows "\<exists>d. round_draw (key_round env dr w k) t = Some d \<and> dc_area d = dc_frame d \<and>
    handle_key_event env (plain_key k)
      (t\<lparr>tu_state := clear_expired_toasts (env_now env) (tu_state t)\<rparr>) = Some (dc_tui d)"
proof -
  let ?t = "t\<lparr>tu_state := clear_expired_toasts (env_now env) (tu_state t)\<rparr>"
  have "good (tu_state ?t)" using assms(1) by simp
  moreover have "env_unix_millis env \<le> 9223372036854775807"
    using assms(2) by (simp add: round_sound_def key_round_def)
  ultimately obtain t2 where t2: "handle_key_event env (plain_key k) ?t = Some t2"
    using handle_key_total by blast
  obtain chunks bar where
    "compute_layout (dr_ui dr) (at_origin w 24) (length (connections (tu_state ?t))) = Some (chunks, bar)"
    using assms(2) by (fastforce simp: round_sound_def key_round_def)
  then show ?thesis
    using t2 unfolding round_draw_def prepare_key by (simp add: key_round_def handle_event_def)
qed

lemma esc_key:
  assumes "handle_key_event env (plain_key KEsc) t = Some t'"
  shows "esc_closed (tu_state t) (tu_state t')"
proof -
  let ?a = "esc_action (tu_state t)" and ?s = "tu_state t"
  obtain s' where s': "dispatch env ?a ?s = Some s'" "esc_closed ?s s'" using esc_dispatch by blast
  have f: "follow_up ?a ?s = None" using esc_not_yes by (simp add: follow_up_def)
  have "perform_key env ?a t = Some t'"
    using assms resolve_esc [of env ?s "tu_bundle t"] by (simp add: handle_key_event_def)
  then obtain t1 where "perform env ?a t = Some t1" "tu_state t' = tu_state t1"
    using f by (cases "perform env ?a t") (auto simp: perform_key_def Let_def)
  then show ?thesis using perform_dispatch [of env ?a t t1] s' by simp
qed

text \<open>A round that brings an Escape.\<close>

lemma esc_round:
  assumes "good (tu_state t)" "round_sound (key_round env dr w KEsc)" "running (tu_state t)"
    and "\<not> over_scrolled (tu_state t)"
  shows "\<exists>t'. event_loop (key_round env dr w KEsc # rest) t = event_loop rest t' \<and> good (tu_state t') \<and>
    esc_closed (tu_state t) (tu_state t')"
proof -
  let ?rd = "key_round env dr w KEsc"
  obtain d where d: "round_draw ?rd t = Some d" "dc_area d = dc_frame d"
    "handle_key_event env (plain_key KEsc)
      (t\<lparr>tu_state := clear_expired_toasts (env_now env) (tu_state t)\<rparr>) = Some (dc_tui d)"
    using key_draw [OF assms(1,2)] by blast
  have closed: "esc_closed (tu_state t) (tu_state (dc_tui d))"
    using esc_key [OF d(3)] by (simp add: esc_closed_tick)
  then have "\<not> scrolled_draw d" "\<not> stale_draw ?rd d"
    using assms(4) d(2) by (auto simp: esc_closed_def scrolled_draw_def stale_draw_def)
  then obtain r t' where r: "loop_round ?rd t = Some (r, t')" "good (tu_state t')"
    using loop_round_cases [OF assms(1,2)] d(1) by (auto split: option.splits)
  then have "r = LoopOpen" "tu_state t' = tu_state (dc_tui d)"
    using loop_round_draw [OF d(1)] by (auto simp: key_round_def split: option.splits if_splits)
  then show ?thesis using r closed assms(3) by (auto simp: event_loop.simps [of "?rd # rest"])
qed

lemma escs_quit:
  assumes "round_sound (key_round env dr w KEsc)"
  shows "good (tu_state t) \<Longrightarrow> \<not> over_scrolled (tu_state t) \<Longrightarrow> layers (tu_state t) < n \<Longrightarrow>
    \<exists>t'. event_loop (replicate n (key_round env dr w KEsc) @ rest) t = Some (LoopDone, t')"
proof (induction n arbitrary: t)
  case (Suc n)
  show ?case
  proof (cases "running (tu_state t)")
    case True
    obtain t' where t': "event_loop (replicate (Suc n) (key_round env dr w KEsc) @ rest) t =
        event_loop (replicate n (key_round env dr w KEsc) @ rest) t'"
      "good (tu_state t')" "esc_closed (tu_state t) (tu_state t')"
      using esc_round [OF Suc.prems(1) assms True Suc.prems(2)] by auto
    show ?thesis
    proof (cases "layers (tu_state t) = 0")
      case True
      then show ?thesis using t' by (simp add: esc_closed_def event_loop.simps)
    next
      case False
      then have "\<not> over_scrolled (tu_state t')" "layers (tu_state t') < n"
        using t'(3) Suc.prems by (auto simp: esc_closed_def)
      then show ?thesis using Suc.IH [OF t'(2)] t'(1) by simp
    qed
  qed (simp add: event_loop.simps)
qed simp

text \<open>C10. Whatever has happened, six times Escape ends the client: each closes what is in front, and
  the last one quits. A preview scrolled beyond its end is the one thing that can be in the way.\<close>

theorem esc_quits:
  assumes "\<forall>(n, w) \<in> set (ac_connections c). config_keys_ok w" "\<forall>rd \<in> set rds. round_sound rd"
    and "round_sound (key_round env dr w KEsc)"
    and "run_tui al c hist rds = Some (LoopOpen, t)" "\<not> over_scrolled (tu_state t)"
  shows "\<exists>t'. run_tui al c hist (rds @ replicate 6 (key_round env dr w KEsc) @ rest) = Some (LoopDone, t')"
proof -
  have "good (tu_state t)"
    using event_loop_good [OF good_start [OF assms(1)] assms(2)] assms(4) by (simp add: run_tui_def)
  moreover have "layers (tu_state t) < 6" using layers_bound [of "tu_state t"] by simp
  ultimately have "\<exists>t'. event_loop (replicate 6 (key_round env dr w KEsc) @ rest) t = Some (LoopDone, t')"
    by (rule escs_quit [OF assms(3) _ assms(5)])
  then show ?thesis using assms(4) event_loop_append by (simp add: run_tui_def)
qed

theorem esc_quits_witness:
  "\<exists>t'. run_tui exact_alloc sample_app (Inr [])
     ([] @ replicate 6 (key_round sample_env plain_draw 80 KEsc) @ []) = Some (LoopDone, t')"
proof (rule esc_quits [OF sample_keys])
  show "run_tui exact_alloc sample_app (Inr []) [] = Some (LoopOpen, tui_start exact_alloc sample_app (Inr []))"
    by (simp add: run_tui_def event_loop.simps tui_start_def start_state_def new_state_def Let_def)
  show "\<not> over_scrolled (tu_state (tui_start exact_alloc sample_app (Inr [])))"
    by (simp add: over_scrolled_def tui_start_def start_state_def new_state_def Let_def)
qed (use plain_sound in simp_all)

end
