(* ===== verification/EditProps.thy ===== *)
theory EditProps
  imports KeyProps
begin

text \<open>What the configuration editor can write.\<close>

section \<open>Drafts that no key has changed\<close>

definition saved_config :: "app_state \<Rightarrow> string \<Rightarrow> wg_config option" where
  "saved_config s n = map_option cv_config (find_connection n s)"

definition unedited :: "app_state \<Rightarrow> bool" where
  "unedited s =
     ((\<forall>e. config_edit s = Some e \<longrightarrow> ce_new_peer_indices e = {} \<longrightarrow>
         saved_config s (ce_connection_name e) = Some (ce_draft e)) \<and>
      (\<forall>d. config_diff_pending s = Some d \<longrightarrow>
         saved_config s (cd_connection_name d) = Some (cd_draft d)) \<and>
      (\<forall>p i. pending_confirm s = Some p \<longrightarrow> cp_action p \<noteq> CDeletePeer i))"

text \<open>The actions that would change a draft, move the tab's focus to a peer, or ask to delete one.\<close>

definition editing :: "action \<Rightarrow> bool" where
  "editing a =
     (case a of
        AConfigEditKey _ \<Rightarrow> True
      | ADeleteConfigPeer _ \<Rightarrow> True
      | AConfigFocusPeer _ \<Rightarrow> True
      | ARequestConfirm _ (CDeletePeer _) \<Rightarrow> True
      | _ \<Rightarrow> False)"

lemma find_config_map:
  "map_option cv_config (find (\<lambda>v. cv_name v = n) vs) =
   map_option snd (find (\<lambda>x. fst x = n) (map (\<lambda>v. (cv_name v, cv_config v)) vs))"
  by (induction vs) auto

lemma saved_config_named: "saved_config s n = map_option snd (find (\<lambda>x. fst x = n) (named_configs s))"
  by (simp add: saved_config_def find_connection_def find_config_map named_configs_def)

lemma saved_config_cong: "named_configs s' = named_configs s \<Longrightarrow> saved_config s' = saved_config s"
  by (rule ext) (simp add: saved_config_named)

lemma saved_config_updates [simp]:
  "saved_config (s\<lparr>config_edit := x\<rparr>) = saved_config s"
  "saved_config (s\<lparr>config_diff_pending := y\<rparr>) = saved_config s"
  "saved_config (s\<lparr>pending_confirm := z\<rparr>) = saved_config s"
  "saved_config (s\<lparr>input_mode := m\<rparr>) = saved_config s"
  by (simp_all add: saved_config_def [abs_def] find_connection_def)

lemma dispatch_saved: "dispatch env a s = Some s' \<Longrightarrow> saved_config s' = saved_config s"
  by (rule saved_config_cong) (rule dispatch_named)

text \<open>Outside the configuration actions a dispatch only closes the text buffer.\<close>

lemma other_edit:
  assumes "group_of a \<noteq> GConfig" "dispatch env a s = Some s'"
    and "\<And>p i. pending_confirm s = Some p \<Longrightarrow> cp_action p \<noteq> CDeletePeer i"
  shows "(config_edit s' = config_edit s \<or> config_edit s' = map_option close_buffer (config_edit s)) \<and>
    config_diff_pending s' = config_diff_pending s \<and>
    (pending_confirm s' = pending_confirm s \<or> pending_confirm s' = None \<or>
      (\<exists>m c. a = ARequestConfirm m c \<and> pending_confirm s' = Some \<lparr>cp_message = m, cp_action = c\<rparr>))"
  using assms
  by (cases a)
    (auto simp: dispatch_def group_of_def handle_tab_actions_def handle_search_actions_def
      handle_peer_actions_def apply_peer_updates_def handle_daemon_actions_def
      handle_feedback_actions_def push_toast_def handle_import_actions_def apply_import_key_def
      handle_export_actions_def apply_export_key_def handle_benchmark_actions_def
      start_benchmark_def benchmark_progress_update_def benchmark_complete_def
      handle_compare_actions_def handle_theme_action_def handle_help_action_def
      handle_confirm_actions_def Let_def
      split: option.splits confirm_action.splits input_mode.splits if_splits)

lemma unedited_update:
  assumes "unedited s" "saved_config s' = saved_config s" "pending_confirm s' = pending_confirm s"
    and "config_diff_pending s' = config_diff_pending s \<or> config_diff_pending s' = None"
    and "\<And>e'. config_edit s' = Some e' \<Longrightarrow> ce_new_peer_indices e' = {} \<Longrightarrow> \<exists>e. config_edit s = Some e \<and>
      ce_new_peer_indices e = {} \<and> ce_connection_name e' = ce_connection_name e \<and> ce_draft e' = ce_draft e"
  shows "unedited s'"
proof -
  have "saved_config s' (ce_connection_name e) = Some (ce_draft e)"
    if "config_edit s' = Some e" "ce_new_peer_indices e = {}" for e
    using assms(5) [OF that] assms(1,2) by (auto simp: unedited_def)
  then show ?thesis using assms(1-4) by (auto simp: unedited_def)
qed

lemma unedited_other:
  assumes "unedited s" "\<not> editing a" "group_of a \<noteq> GConfig" "dispatch env a s = Some s'"
  shows "unedited s'"
proof -
  have "cp_action p \<noteq> CDeletePeer i" if "pending_confirm s = Some p" for p i
    using assms(1) that by (simp add: unedited_def)
  note e = other_edit [OF assms(3,4) this]
  have same: "\<exists>e. config_edit s = Some e \<and> ce_new_peer_indices e = {} \<and>
      ce_connection_name e' = ce_connection_name e \<and> ce_draft e' = ce_draft e"
    if "config_edit s' = Some e'" "ce_new_peer_indices e' = {}" for e'
    using e that by (cases "config_edit s") (auto simp: close_buffer_def)
  have "unedited (s'\<lparr>pending_confirm := pending_confirm s\<rparr>)"
    by (rule unedited_update [OF assms(1)]) (use e same dispatch_saved [OF assms(4)] in auto)
  then show ?thesis using e assms(2)
    by (auto simp: unedited_def editing_def split: confirm_action.splits)
qed

lemma focus_same [simp]:
  "ce_draft (focus_next e) = ce_draft e" "ce_draft (focus_prev e) = ce_draft e"
  "ce_draft (focus_section sec e) = ce_draft e"
  "ce_connection_name (focus_next e) = ce_connection_name e"
  "ce_connection_name (focus_prev e) = ce_connection_name e"
  "ce_connection_name (focus_section sec e) = ce_connection_name e"
  "ce_new_peer_indices (focus_next e) = ce_new_peer_indices e"
  "ce_new_peer_indices (focus_prev e) = ce_new_peer_indices e"
  "ce_new_peer_indices (focus_section sec e) = ce_new_peer_indices e"
  by (simp_all add: focus_next_def focus_prev_def focus_section_def Let_def)

lemma unedited_enter:
  "unedited s \<Longrightarrow> enter_config_edit env sec idx s = Some s' \<Longrightarrow> unedited s'"
proof -
  have saved: "saved_config s (cv_name v) = Some (cv_config v)" if "find_connection name s = Some v" for name v
    using that find_connection_name [OF that] by (simp add: saved_config_def)
  show "unedited s \<Longrightarrow> enter_config_edit env sec idx s = Some s' \<Longrightarrow> unedited s'"
    by (auto simp: enter_config_edit_def unedited_def Let_def saved split: option.splits)
qed

lemma unedited_preview: "unedited s \<Longrightarrow> unedited (preview_config env s)"
  by (auto simp: preview_config_def unedited_def split: option.splits if_splits)

lemma unedited_map_edit:
  assumes "unedited s" "\<And>e. ce_draft (f e) = ce_draft e"
    "\<And>e. ce_connection_name (f e) = ce_connection_name e"
    "\<And>e. ce_new_peer_indices (f e) = ce_new_peer_indices e"
  shows "unedited (map_edit f s)"
  using assms by (auto simp: map_edit_def unedited_def)

lemma unedited_small:
  "unedited s \<Longrightarrow> unedited (add_config_peer s)"
  "unedited s \<Longrightarrow> unedited (map_diff scroll_down s)"
  "unedited s \<Longrightarrow> unedited (map_diff scroll_up s)"
  "unedited s \<Longrightarrow> unedited (s\<lparr>config_edit := None, config_diff_pending := None\<rparr>)"
  "unedited s \<Longrightarrow> unedited (s\<lparr>config_edit := None, config_diff_pending := None, input_mode := MNormal\<rparr>)"
  by (auto simp: add_config_peer_def add_peer_def map_diff_def scroll_down_def scroll_up_def unedited_def
      Let_def split: option.splits)

lemma unedited_config:
  assumes "unedited s" "\<not> editing a" "handle_config_actions env a s = Some s'"
  shows "unedited s'"
  using assms
  by (cases a)
    (auto simp: handle_config_actions_def editing_def intro!: unedited_small unedited_map_edit unedited_preview
      intro: unedited_enter)

lemma unedited_dispatch:
  "unedited s \<Longrightarrow> \<not> editing a \<Longrightarrow> dispatch env a s = Some s' \<Longrightarrow> unedited s'"
  using unedited_other [of s a env s'] unedited_config [of s a env s']
  by (cases "group_of a = GConfig") (simp_all add: dispatch_def)

section \<open>Over a whole run\<close>

definition shut :: "(string \<Rightarrow> wg_config option) \<Rightarrow> tui \<Rightarrow> bool" where
  "shut cfg t =
     (saved_config (tu_state t) = cfg \<and> unedited (tu_state t) \<and>
      ct_section (bn_config (tu_bundle t)) = CsInterface \<and>
      (\<forall>n w r. TSaveConfig n w r \<in> set (tu_tasks t) \<longrightarrow> cfg n = Some w))"

lemma focus_section_kept [simp]:
  "ct_section (tab_focus_next ct) = ct_section ct" "ct_section (tab_focus_prev ct) = ct_section ct"
  by (simp_all add: tab_focus_next_def tab_focus_prev_def Let_def)

lemma config_update_section:
  "config_update a s ct = Some ct' \<Longrightarrow> \<not> editing a \<Longrightarrow> ct_section ct = CsInterface \<Longrightarrow>
   ct_section ct' = CsInterface"
  by (cases a) (auto simp: config_update_def editing_def tab_focus_move_def split: option.splits)

lemma spawned_no_save: "TSaveConfig n w r \<notin> set (maybe_spawn_command a s)"
  by (cases a) (auto simp: maybe_spawn_command_def benchmark_tasks_def switch_backend_tasks_def Let_def
      split: option.splits)

lemma shut_dispatch_all:
  assumes "shut cfg t" "\<not> editing a" "dispatch_all env a t = Some t'"
  shows "shut cfg t'"
proof -
  obtain s b where s: "dispatch env a (tu_state t) = Some s" "update_bundle env a s (tu_bundle t) = Some b"
    "t' = t\<lparr>tu_state := s, tu_bundle := b\<rparr>"
    using assms(3) by (auto simp: dispatch_all_def split: option.splits)
  have "ct_section (bn_config b) = CsInterface"
    using s(2) assms(1,2) config_update_section by (auto simp: update_bundle_def shut_def)
  then show ?thesis
    using s assms(1) unedited_dispatch [OF _ assms(2) s(1)] dispatch_saved [OF s(1)] by (simp add: shut_def)
qed

lemma shut_spawn: "shut cfg t \<Longrightarrow> (\<And>n w r. TSaveConfig n w r \<in> set ts \<Longrightarrow> cfg n = Some w) \<Longrightarrow> shut cfg (spawn ts t)"
  by (auto simp: shut_def spawn_def)

lemma shut_perform:
  assumes "shut cfg t" "\<not> editing a" "perform env a t = Some t'"
  shows "shut cfg t'"
  using assms(3) shut_dispatch_all [OF assms(1,2)] spawned_no_save
  by (auto simp: perform_def intro!: shut_spawn)

lemma save_tasks_saved:
  "unedited s \<Longrightarrow> TSaveConfig n w r \<in> set (save_tasks a s) \<Longrightarrow> saved_config s n = Some w"
  by (cases a) (auto simp: save_tasks_def unedited_def split: option.splits)

lemma path_tasks_no_save: "TSaveConfig n w r \<notin> set (path_tasks a s s')"
  by (auto simp: path_tasks_def split: option.splits if_splits)

lemma shut_perform_key:
  assumes "shut cfg t" "\<not> editing a" "perform_key env a t = Some t'"
  shows "shut cfg t'"
proof -
  let ?s = "tu_state t"
  obtain t1 t2 where t12: "perform env a t = Some t1"
    "(case follow_up a ?s of None \<Rightarrow> Some t1 | Some f \<Rightarrow> perform env f t1) = Some t2"
    "t' = spawn (path_tasks a ?s (tu_state t2) @ save_tasks a ?s) t2"
    using assms(3) by (auto simp: perform_key_def split: option.splits)
  have t1: "shut cfg t1" using shut_perform [OF assms(1,2) t12(1)] .
  have "\<not> editing f" if f: "follow_up a ?s = Some f" for f
  proof -
    obtain p where "pending_confirm ?s = Some p" "f = confirmed_action (cp_action p)"
      using f by (auto simp: follow_up_def split: if_splits)
    then show ?thesis using assms(1)
      by (cases "cp_action p") (auto simp: shut_def unedited_def editing_def)
  qed
  then have "shut cfg t2" using t12(2) t1 shut_perform [of cfg t1] by (auto split: option.splits)
  moreover have "saved_config ?s = cfg" "unedited ?s" using assms(1) by (simp_all add: shut_def)
  ultimately show ?thesis
    unfolding t12(3) using save_tasks_saved path_tasks_no_save by (intro shut_spawn) fastforce+
qed

lemma keys_not_editing:
  "help_key key s = Some a \<Longrightarrow> \<not> editing a"
  "filter_key lower key s sel = Some a \<Longrightarrow> \<not> editing a"
  "diff_key key s = Some a \<Longrightarrow> \<not> editing a"
  "confirm_key key s = Some a \<Longrightarrow> \<not> editing a"
  "status_bar_key key s = Some a \<Longrightarrow> \<not> editing a"
  "handle_global_key key = Some a \<Longrightarrow> \<not> editing a"
  "connection_bar_key key = Some a \<Longrightarrow> \<not> editing a"
  "status_key key s sel = Some a \<Longrightarrow> \<not> editing a"
  "peers_key key = Some a \<Longrightarrow> \<not> editing a"
  "compare_key key cm = Some a \<Longrightarrow> \<not> editing a"
  "overview_key key s = Some a \<Longrightarrow> \<not> editing a"
  by (auto simp: help_key_def filter_key_def diff_key_def confirm_key_def status_bar_key_def
      handle_global_key_def connection_bar_key_def status_key_def peers_key_def compare_key_def
      overview_key_def row_key_def editing_def Let_def or_key_Some
      split: if_splits option.splits key_code.splits input_mode.splits)

lemma config_key_not_editing:
  "config_key key s ct = Some (a, ct') \<Longrightarrow> ct_section ct = CsInterface \<Longrightarrow>
   (\<forall>x. a = Some x \<longrightarrow> \<not> editing x) \<and> ct_section ct' = CsInterface"
  by (auto simp: config_key_def delete_request_def editing_def Let_def split: option.splits if_splits)

lemma tab_key_not_editing:
  "tab_key key s b = Some (a, b') \<Longrightarrow> ct_section (bn_config b) = CsInterface \<Longrightarrow>
   (\<forall>x. a = Some x \<longrightarrow> \<not> editing x) \<and> ct_section (bn_config b') = CsInterface"
  by (auto simp: tab_key_def split: tab.splits dest: keys_not_editing config_key_not_editing)

lemma resolve_not_editing:
  "resolve_key env key s b = Some (a, b') \<Longrightarrow> ct_section (bn_config b) = CsInterface \<Longrightarrow>
   (\<forall>x. a = Some x \<longrightarrow> \<not> editing x) \<and> ct_section (bn_config b') = CsInterface"
  by (auto simp: resolve_key_def or_key_Some split: if_splits option.splits
      dest: keys_not_editing tab_key_not_editing)

lemma shut_key:
  assumes "shut cfg t" "handle_key_event env key t = Some t'"
  shows "shut cfg t'"
proof -
  obtain a b where r: "resolve_key env key (tu_state t) (tu_bundle t) = Some (a, b)"
    using assms(2) by (auto simp: handle_key_event_def split: option.splits)
  have "shut cfg (t\<lparr>tu_bundle := b\<rparr>)" "\<forall>x. a = Some x \<longrightarrow> \<not> editing x"
    using assms(1) resolve_not_editing [OF r] by (simp_all add: shut_def)
  then show ?thesis using assms(2) r shut_perform_key
    by (auto simp: handle_key_event_def Let_def split: option.splits)
qed

lemma mouse_not_editing: "resolve_mouse_action m area = Some a \<Longrightarrow> \<not> editing a"
  by (auto simp: resolve_mouse_action_def tab_hit_eq Let_def editing_def split: mouse_kind.splits if_splits)

lemma shut_event:
  assumes "shut cfg t" "handle_event env chunks ev t = Some t'"
  shows "shut cfg t'"
proof (cases ev)
  case (EvMouse m)
  then have "t' = t \<or> (\<exists>a. resolve_mouse_action m (hd chunks) = Some a \<and> perform env a t = Some t')"
    using assms(2) by (auto simp: handle_event_def handle_mouse_event_def Let_def split: if_splits option.splits)
  then show ?thesis using assms(1) mouse_not_editing shut_perform [OF assms(1)] by blast
next
  case EvTick
  then have "t' = t \<or> t' = spawn [TPoll] (t\<lparr>tu_polling := True\<rparr>)"
    using assms(2) by (auto simp: handle_event_def spawn_status_poll_def split: if_splits)
  moreover have "shut cfg (t\<lparr>tu_polling := True\<rparr>)" using assms(1) by (simp add: shut_def)
  ultimately show ?thesis using assms(1) by (auto intro: shut_spawn)
qed (use assms shut_key in \<open>auto simp: handle_event_def\<close>)

lemma shut_dispatch_list:
  "shut cfg t \<Longrightarrow> \<forall>a \<in> set as. \<not> editing a \<Longrightarrow> dispatch_list env as t = Some t' \<Longrightarrow> shut cfg t'"
  by (induction as arbitrary: t) (auto split: option.splits dest: shut_dispatch_all)

definition is_reload :: "daemon_message \<Rightarrow> bool" where
  "is_reload m = (case m of DmReload _ _ \<Rightarrow> True | _ \<Rightarrow> False)"

lemma shut_message:
  assumes "shut cfg t" "handle_message env m t = Some t'" "\<not> is_reload m"
  shows "shut cfg t'"
proof -
  have "reload_for m t = t" "\<forall>a \<in> set (message_actions m). \<not> editing a"
    using assms(3) by (cases m; simp add: is_reload_def reload_for_def editing_def)+
  moreover obtain t1 where t1: "dispatch_list env (message_actions m) (reload_for m t) = Some t1"
    "t' = t1 \<or> (\<exists>h. t' = spawn [TSaveHistory h] t1)"
    using assms(2) by (cases m) (auto simp: handle_message_def)
  ultimately have "shut cfg t1" using assms(1) shut_dispatch_list by simp
  then show ?thesis using t1(2) by (auto intro: shut_spawn)
qed

lemma shut_messages:
  "shut cfg t \<Longrightarrow> \<forall>m \<in> set ms. \<not> is_reload m \<Longrightarrow> handle_daemon_messages env ms t = Some t' \<Longrightarrow> shut cfg t'"
  by (induction ms arbitrary: t) (auto split: option.splits dest: shut_message)

lemma shut_cong:
  assumes "shut cfg t" "saved_config (tu_state t') = saved_config (tu_state t)"
    and "config_edit (tu_state t') = config_edit (tu_state t)"
    and "config_diff_pending (tu_state t') = config_diff_pending (tu_state t)"
    and "pending_confirm (tu_state t') = pending_confirm (tu_state t)"
    and "bn_config (tu_bundle t') = bn_config (tu_bundle t)" "tu_tasks t' = tu_tasks t"
  shows "shut cfg t'"
  using assms unfolding shut_def unedited_def by auto

lemma fold_append_log:
  "connections (fold (append_log al) es s) = connections s"
  "config_edit (fold (append_log al) es s) = config_edit s"
  "config_diff_pending (fold (append_log al) es s) = config_diff_pending s"
  "pending_confirm (fold (append_log al) es s) = pending_confirm s"
  by (induction es arbitrary: s) (simp_all add: append_log_def)

lemma shut_prepare:
  assumes "shut cfg t" "\<forall>m \<in> set (rd_messages rd). \<not> is_reload m" "prepare rd t = Some t'"
  shows "shut cfg t'"
proof -
  have "shut cfg (arrive rd t)"
    by (rule shut_cong [OF assms(1)])
      (simp_all add: arrive_def fold_append_log saved_config_def [abs_def] find_connection_def)
  moreover obtain t1 where t1: "handle_daemon_messages (rd_env rd) (rd_messages rd) (arrive rd t) = Some t1"
    "t' = t1\<lparr>tu_state := clear_expired_toasts (env_now (rd_env rd)) (tu_state t1)\<rparr>"
    using assms(3) by (auto simp: prepare_def)
  ultimately have "shut cfg t1" using shut_messages assms(2) by blast
  then show ?thesis
    by (rule shut_cong)
      (simp_all add: t1(2) clear_expired_toasts_def saved_config_def [abs_def] find_connection_def)
qed

lemma shut_round:
  assumes "shut cfg t" "\<forall>m \<in> set (rd_messages rd). \<not> is_reload m" "loop_round rd t = Some (r, t')"
  shows "shut cfg t'"
proof -
  obtain t1 where t1: "prepare rd t = Some t1" "shut cfg t1"
    using assms shut_prepare by (auto simp: loop_round_def split: option.splits)
  have "t' = t1 \<or> (\<exists>chunks ev t2. handle_event (rd_env rd) chunks ev t1 = Some t2 \<and>
      tu_state t' = tu_state t2 \<and> tu_tasks t' = tu_tasks t2 \<and>
      bn_config (tu_bundle t') = bn_config (tu_bundle t2))"
    using assms(3) t1(1)
    by (force simp: loop_round_def Let_def split: option.splits sum.splits prod.splits dest!: render_ui_config)
  then show ?thesis
  proof
    assume "\<exists>chunks ev t2. handle_event (rd_env rd) chunks ev t1 = Some t2 \<and>
      tu_state t' = tu_state t2 \<and> tu_tasks t' = tu_tasks t2 \<and>
      bn_config (tu_bundle t') = bn_config (tu_bundle t2)"
    then obtain chunks ev t2 where t2: "handle_event (rd_env rd) chunks ev t1 = Some t2"
      "tu_state t' = tu_state t2" "tu_tasks t' = tu_tasks t2"
      "bn_config (tu_bundle t') = bn_config (tu_bundle t2)" by blast
    have "shut cfg t2" using shut_event [OF t1(2) t2(1)] .
    then show ?thesis by (rule shut_cong) (simp_all add: t2)
  qed (use t1(2) in simp)
qed

lemma shut_loop:
  "shut cfg t \<Longrightarrow> \<forall>rd \<in> set rds. \<forall>m \<in> set (rd_messages rd). \<not> is_reload m \<Longrightarrow>
   event_loop rds t = Some (r, t') \<Longrightarrow> shut cfg t'"
proof (induction rds arbitrary: t)
  case Nil
  then show ?case by (auto simp: event_loop.simps split: if_splits)
next
  case (Cons rd rds)
  show ?case
  proof (cases "running (tu_state t)")
    case True
    then obtain r1 t1 where t1: "loop_round rd t = Some (r1, t1)"
      using Cons.prems(3) by (auto simp: event_loop.simps [of "rd # rds"] split: option.splits)
    have "shut cfg t1" using shut_round [OF Cons.prems(1) _ t1] Cons.prems(2) by simp
    then show ?thesis
      using True t1 Cons.prems Cons.IH [of t1]
      by (cases r1) (auto simp: event_loop.simps [of "rd # rds"])
  next
    case False
    then show ?thesis using Cons.prems by (auto simp: event_loop.simps [of "rd # rds"])
  qed
qed

lemma find_fst: "map_option snd (find (\<lambda>x. fst x = n) m) = amap_get m n"
  by (induction m) (auto simp: amap_get_def)

lemma shut_start: "shut (app_get c) (tui_start al c hist)"
proof -
  have "named_configs (tu_state (tui_start al c hist)) = ac_connections c"
    by (cases hist) (simp_all add: tui_start_def start_state_def new_state_def Let_def named_configs_def named_connection_views)
  then have "saved_config (tu_state (tui_start al c hist)) = app_get c"
    by (intro ext) (simp add: saved_config_named find_fst app_get_def)
  then show ?thesis
    by (cases hist) (simp_all add: shut_def unedited_def tui_start_def start_state_def new_state_def Let_def
        bundle_new_def config_tab_new_def)
qed

text \<open>C2. Nothing can be edited: whatever keys and mouse events come, until a configuration is
  reloaded every save that the client starts writes the connection back as it was.\<close>

theorem keys_save_unchanged:
  assumes "run_tui al c hist rds = Some (r, t)" "\<forall>rd \<in> set rds. \<forall>m \<in> set (rd_messages rd). \<not> is_reload m"
    and "TSaveConfig n w reconnect \<in> set (tu_tasks t)"
  shows "app_get c n = Some w"
proof -
  have "shut (app_get c) t"
    using shut_loop [OF shut_start assms(2)] assms(1) unfolding run_tui_def by blast
  then show ?thesis using assms(3) by (auto simp: shut_def)
qed

text \<open>A save from the preview.\<close>

lemma save_from_preview:
  assumes "round_sound (key_round env dr w (KChar ''s''))" "good (tu_state t)" "previewing d (tu_state t)"
    and "cd_scroll_offset d \<le> length (cd_diff_lines d)"
  shows "\<exists>t'. event_loop [key_round env dr w (KChar ''s'')] t = Some (LoopOpen, t') \<and>
    TSaveConfig (cd_connection_name d) (cd_draft d) False \<in> set (tu_tasks t')"
proof -
  let ?rd = "key_round env dr w (KChar ''s'')"
  note p = assms(3) [unfolded previewing_def]
  have r: "resolve_key env (plain_key (KChar ''s'')) (tu_state t) (tu_bundle t) =
      Some (Some (ASaveConfig False), tu_bundle t)"
    using p by (simp add: resolve_key_def diff_key_def plain_key_def)
  obtain t1 where t1: "handle_key_event env (plain_key (KChar ''s'')) t = Some t1" "running (tu_state t1)"
    "TSaveConfig (cd_connection_name d) (cd_draft d) False \<in> set (tu_tasks t1)" "\<not> over_scrolled (tu_state t1)"
    using p assms(4)
    by (simp add: handle_key_event_def r Let_def perform_key_def perform_def dispatch_all_def dispatch_def
        group_of_def handle_config_actions_def update_bundle_def config_update_def follow_up_def
        save_tasks_def spawn_def over_scrolled_def)
  obtain c where c: "round_draw ?rd t = Some c" "dc_tui c = t1" "dc_area c = dc_frame c"
    using key_round_draw [OF assms(1) _ t1(1)] p by metis
  have "\<not> scrolled_draw c" "\<not> stale_draw ?rd c"
    using c t1(4) by (simp_all add: scrolled_draw_def stale_draw_def)
  then obtain e t' where "loop_round ?rd t = Some (e, t')"
    using loop_round_cases [OF assms(2,1)] c(1) by (auto split: option.splits)
  moreover from this have "e = LoopOpen" "tu_state t' = tu_state t1" "tu_tasks t' = tu_tasks t1"
    using loop_round_draw [OF c(1)] c(2) by (auto simp: key_round_def split: option.splits if_splits)
  ultimately show ?thesis
    using p t1(2,3) by (auto simp: event_loop.simps [of "[?rd]"] event_loop.simps [of "[]"])
qed

theorem keys_save_unchanged_witness:
  "\<exists>t n w. run_tui exact_alloc sample_app (Inr [])
      (map (key_round sample_env plain_draw 80) [KChar ''5'', KChar ''e'', KChar ''5'', KChar ''p''] @
       [key_round sample_env plain_draw 80 (KChar ''s'')]) = Some (LoopOpen, t) \<and>
    TSaveConfig n w False \<in> set (tu_tasks t) \<and> app_get sample_app n = Some w"
proof -
  let ?keys = "map (key_round sample_env plain_draw 80) [KChar ''5'', KChar ''e'', KChar ''5'', KChar ''p'']"
  let ?s = "[key_round sample_env plain_draw 80 (KChar ''s'')]"
  define t0 where "t0 = tui_start exact_alloc sample_app (Inr [])"
  have t0: "calm (tu_state t0)" "input_mode (tu_state t0) = MNormal" "good (tu_state t0)"
    "visible_connections (tu_state t0) \<noteq> {}" "bn_config (tu_bundle t0) = config_tab_new"
    using good_start [OF sample_keys, of exact_alloc "Inr []"]
    by (auto simp: t0_def tui_start_def start_state_def new_state_def calm_def Let_def bundle_new_def sample_app_def
        app_insert_def default_app_config_def connection_views_def)
  obtain v where v: "config_connection (tu_state t0) = Some (Some v)"
    using config_connection_ok [OF t0(3)] t0(4)
    by (auto simp: config_connection_def set_min_def split: option.splits)
  obtain t1 where t1: "event_loop (?keys @ ?s) t0 = event_loop ?s t1" "good (tu_state t1)"
    "tu_state t1 = (tu_state t0)\<lparr>active_tab := TabConfig,
      config_edit := Some (close_buffer (first_field sample_env v)),
      config_diff_pending := Some (own_diff sample_env v)\<rparr>"
    using keys_to_preview [OF _ t0(3,1,2) v t0(5), where rest = ?s] plain_sound by blast
  obtain t where t: "event_loop ?s t1 = Some (LoopOpen, t)"
    "TSaveConfig (cv_name v) (cv_config v) False \<in> set (tu_tasks t)"
    using save_from_preview [OF plain_sound t1(2), of "own_diff sample_env v"] t1(3) t0(1)
    by (auto simp: calm_def own_diff_def previewing_def)
  have run: "run_tui exact_alloc sample_app (Inr []) (?keys @ ?s) = Some (LoopOpen, t)"
    using t1(1) t(1) by (simp add: run_tui_def t0_def)
  then have "app_get sample_app (cv_name v) = Some (cv_config v)"
    using keys_save_unchanged [OF run _ t(2)] by (simp add: key_round_def)
  then show ?thesis using run t(2) by blast
qed

end
