(* ===== verification/Spec2Isabelle.thy ===== *)
theory Spec2Isabelle
  imports PacketLoop DispatchProps ConfigEditProps Client DaemonMain TuiProps Cli FileProps System Events KeyProps EditProps
begin

text \<open>
  A verification library for \<open>ferro-wg\<close>, a WireGuard client in Rust: a privileged daemon that owns
  the tunnels (\<open>ferro-wg-core\<close>, \<open>ferro-wg-daemon\<close>), a command line (\<open>ferro-wg\<close>) and a terminal interface
  (\<open>ferro-wg-tui\<close>, \<open>-tui-core\<close>, \<open>-tui-components\<close>) that talk to it over a Unix socket, one JSON line
  each way, and the TOML and wg-quick files they share.

  \<^bold>\<open>Parts and theories.\<close> Each theory opens with a text that names its sources. In the order of imports:

  \<^item> \<open>Prelude\<close>, \<open>RustStr\<close>, \<open>Host\<close>: results, association maps, the string functions of Rust on the
    characters of UTF-8 text, the operating system as a record of operations on a world.
  \<^item> \<open>Keys\<close>, \<open>IpAddr\<close>, \<open>CoreTypes\<close>: the key types and their base64 (\<open>key.rs\<close>), addresses and CIDR
    blocks, errors and messages (\<open>error.rs\<close>, \<open>ipc.rs\<close>, \<open>stats.rs\<close>).
  \<^item> \<open>Config\<close>, \<open>WgQuick\<close>, \<open>Files\<close>: the configuration and its validation (\<open>config/mod.rs\<close>, \<open>toml.rs\<close>), the
    wg-quick parser and writer (\<open>wg_quick.rs\<close>), paths and the loaders and writers on files. The lemmas
    of \<open>WgQuickRoundtrip\<close>, \<open>WgQuickProps\<close> and \<open>FileProps\<close>: printing and reading back, what a file that
    loads satisfies, what an import or a save leaves on disk and when that loads again.
  \<^item> \<open>Dns\<close>, \<open>Tunnel\<close>, \<open>Backend\<close>, \<open>PacketLoop\<close>: resolv.conf and networksetup (\<open>tunnel/dns.rs\<close>), routes,
    sockets and devices, \<open>TunnelManager\<close> and \<open>packet_loop\<close> (\<open>tunnel/mod.rs\<close>), the \<open>WgBackend\<close> trait and its
    three crates (\<open>backend/*.rs\<close>). Lemmas in \<open>TunnelProps\<close> and \<open>DnsProps\<close>: atomic \<open>up\<close>, which
    connections and loops are live, what DNS is left behind.
  \<^item> \<open>Logs\<close>, \<open>Daemon\<close>, \<open>DaemonMain\<close>, \<open>Client\<close>: the log buffer and its layer, the server with its log
    streams (\<open>daemon.rs\<close>), its start and the daemon program, the client side (\<open>client.rs\<close>). Lemmas in
    \<open>DaemonProps\<close>: the daemon takes only the steps of the manager, how it ends, what each command does;
    \<open>Client.call_is_handle_command\<close>: a call over the socket is \<open>handle_command\<close>.
  \<^item> \<open>ConfigEdit\<close>, \<open>Benchmark\<close>, \<open>AppTypes\<close>, \<open>AppState\<close>: the fields and validators of the editor
    (\<open>config_edit.rs\<close>), results and charts (\<open>benchmark.rs\<close>), the client's data and actions and
    \<open>AppState::dispatch\<close> with every handler (\<open>state.rs\<close>). Lemmas in \<open>ConfigEditProps\<close>, \<open>AppProps\<close> and
    \<open>DispatchProps\<close>: validation and commit, bounds of every reachable state, each group of actions.
  \<^item> \<open>Screen\<close>, \<open>Components\<close>, \<open>Overlays\<close>, \<open>ConnectionBar\<close>, \<open>LogView\<close>: the screens, as key handlers and as
    the widgets they draw into areas. Lemmas: the tabs' hit test against the labels that are drawn,
    overlays inside their area, the window of connections, highlighting.
  \<^item> \<open>TuiTasks\<close>, \<open>Tui\<close>, \<open>Events\<close>: the background tasks and the loop of \<open>ferro-wg-tui/src/lib.rs\<close>, the event
    reader and the terminal's set-up (\<open>event.rs\<close>). Lemmas in \<open>DrawProps\<close>: every widget lies
    in the area a draw was laid out for. In \<open>TuiProps\<close>, \<open>KeyProps\<close>, \<open>EditProps\<close>: the two ways the client
    panics, which commands a key sends, that Escape ends it, what it can save.
  \<^item> \<open>Cli\<close>: every subcommand (\<open>main.rs\<close>, \<open>cli.rs\<close>, \<open>cmd/logs.rs\<close>) as the lines it prints, its result
    and its effect on files.

  \<^item> \<open>System\<close>: the command line and the terminal client each with the daemon over a served socket, and
    the client with the files it writes: what is reported is what the daemon has done, client and
    daemon go by one configuration, and all of the benchmark history is on disk for the next start.

  \<^bold>\<open>How the code is modelled.\<close> Structs are records, enums datatypes, both with the names of the
  source. A \<open>Result\<close> is a sum with the error on the left. A panic (an index or slice out of bounds, an
  \<open>unwrap\<close>, a failing assertion) is \<open>None\<close>, so that a theorem that something is \<open>Some\<close> says the code does
  not panic. Terminal columns, ports and bytes are words, with the saturating and wrapping
  operations of the code; \<open>usize\<close> values that only count are naturals, and where the code saturates
  them the bound \<open>usize_max\<close> is written out. Floats of throughputs and latencies are rationals: rounding is
  not modelled. Strings are lists of bytes, and \<open>char\<close> boundaries appear where the code relies on them.

  What is not under \<open>src/\<close> is a parameter: the operating system (\<open>sysops\<close>), the file system (\<open>fsops\<close>),
  the TOML and JSON crates (\<open>toml_io\<close>, \<open>json\<close>), base64 (\<open>codec\<close>), the WireGuard crates (the records of
  \<open>Backend\<close>), ratatui's layout and selection (\<open>ui_env\<close>) and what it can draw on a frame
  (\<open>dr_fits\<close>), crossterm (\<open>term_ops\<close>), clocks and lower-casing (\<open>app_env\<close>), clap's parsed arguments
  (\<open>cli\<close>). What the proofs use of them are the assumptions of
  locales, each interpreted: \<open>base64_codec\<close> on an RFC 4648 coder, \<open>files\<close> on a map of paths,
  \<open>host\<close> on a simulated one, \<open>terminal\<close> on a terminal that is its mode, \<open>finite_map\<close> on hash and tree
  maps. \<open>packet_backend\<close> holds of gotatun's wrapper as it is, and of those of boringtun and neptun when
  the slices their crates return lie in the buffer.

  \<^bold>\<open>Concurrency.\<close> The daemon serves one connection at a time; a run of it is a list of accepted
  connections, statistics and ends of packet loops in any order, and a packet loop is its list of
  events, one for each turn of \<open>select!\<close>. The client's loop is a list of rounds, each with the messages,
  log entries, event, the size read before it, the size of the frame that is drawn on after it, and the
  result of the output, in any order: the terminal may be resized while the loop waits. The daemon's
  log streams are a list of steps too, in any order: an entry logged, the drain of the ring buffer into
  the broadcast channel, a subscription, a replay, one \<open>recv\<close>; the channel holds a bounded number of
  entries and drops the oldest for a stream that lags, as the channel crate documents. Theorems over
  runs quantify over all such lists. Tasks are values that the loop spawns, and what a task sends for
  what it meets is a function of its own.

  \<^bold>\<open>Bounds and fuel.\<close> No definition has fuel. Recursion is structural or has a measure (the growth of
  the connection bar's window, the highlighting of a message, the diff). Loops that run for ever in the
  code end when their list of events does, which the results tell apart (\<open>Serving\<close>, \<open>LoopOpen\<close>,
  \<open>ClientRuns\<close>, \<open>Reading\<close>): that they do end is proved where the code promises it
  (\<open>daemon_stops_clean\<close>, \<open>esc_quits\<close>, \<open>reader_end_ends_client\<close>).

  \<^bold>\<open>Not modelled.\<close> The signatures of the \<open>Component\<close> trait and the files of module lists and re-exports,
  which have no behaviour; the \<open>Display\<close> of floats and durations and the calls into ratatui below the level of
  widgets and areas, with their arithmetic; the tokio runtime, the fair choice of \<open>select!\<close> and the abortion of tasks; tracing's
  formatting, apart from the layer that fills the log buffer; the drop of key material by
  \<open>zeroize\<close>; random numbers and X25519 are parameters.
\<close>

end
